(* ===== verification/Prelude.thy ===== *)
theory Prelude
  imports Main "HOL-Library.AList" "HOL-Library.Sublist"
begin

text \<open>
  What every component of the model shares: the outcome of a Go call (a value, an error
  value, or a panic), the operations of the packages \<^verbatim>\<open>strings\<close> and
  \<^verbatim>\<open>strconv\<close> the code uses, and lemmas on lists and association lists.

  A Go string is a sequence of bytes and so is a HOL \<open>string\<close> (a \<open>char\<close> has eight bits).
  Case mapping is the one of ASCII: bytes from 128 on are left alone (the header names,
  host names and methods the code maps are ASCII).
  A Go map is an association list with distinct keys whose order is the order in which a
  \<^verbatim>\<open>range\<close> loop happens to visit it; statements quantify over the list, so they
  hold for every iteration order.
\<close>

section \<open>Collections\<close>

named_theorems go_str \<open>unfolding of the string operations on concrete strings\<close>
named_theorems go_map \<open>lookup facts of the association lists that stand for Go maps\<close>

section \<open>Outcomes of calls\<close>

datatype ('e, 'a) go = Ok 'a | Err 'e | Panic string

fun is_ok :: "('e, 'a) go \<Rightarrow> bool" where
  "is_ok (Ok _) = True"
| "is_ok _ = False"

fun go_bind :: "('e, 'a) go \<Rightarrow> ('a \<Rightarrow> ('e, 'b) go) \<Rightarrow> ('e, 'b) go" where
  "go_bind (Ok a) f = f a"
| "go_bind (Err e) f = Err e"
| "go_bind (Panic m) f = Panic m"

lemma is_ok_iff: "is_ok r \<longleftrightarrow> (\<exists>a. r = Ok a)"
  by (cases r) auto

lemma go_bind_Ok_iff: "go_bind r f = Ok b \<longleftrightarrow> (\<exists>a. r = Ok a \<and> f a = Ok b)"
  by (cases r) auto

text \<open>A call whose error is handled at once: \<open>f\<close> gets the error, \<open>k\<close> the value, and a panic
  passes through.\<close>

fun go_try :: "('e, 'a) go \<Rightarrow> ('e \<Rightarrow> ('f, 'b) go) \<Rightarrow> ('a \<Rightarrow> ('f, 'b) go) \<Rightarrow> ('f, 'b) go" where
  "go_try (Ok a) f k = k a"
| "go_try (Err e) f k = f e"
| "go_try (Panic m) f k = Panic m"

lemma go_try_Ok_iff:
  "go_try r f k = Ok b \<longleftrightarrow> (\<exists>a. r = Ok a \<and> k a = Ok b) \<or> (\<exists>e. r = Err e \<and> f e = Ok b)"
  by (cases r) auto

lemma go_bind_cong [fundef_cong]:
  "r = r' \<Longrightarrow> (\<And>a. r' = Ok a \<Longrightarrow> f a = f' a) \<Longrightarrow> go_bind r f = go_bind r' f'"
  by (cases r') auto

section \<open>Package strings\<close>

definition has_prefix :: "string \<Rightarrow> string \<Rightarrow> bool" where
  "has_prefix s p = prefix p s"

text \<open>\<open>str_cut sep s\<close>: the text before and after the first \<open>sep\<close>, if there is one.\<close>

fun str_cut :: "string \<Rightarrow> string \<Rightarrow> (string \<times> string) option" where
  "str_cut sep [] = (if sep = [] then Some ([], []) else None)"
| "str_cut sep (c # s) =
     (if prefix sep (c # s) then Some ([], drop (length sep) (c # s))
      else map_option (\<lambda>(a, b). (c # a, b)) (str_cut sep s))"

lemma str_cut_Some: "str_cut sep s = Some (a, b) \<Longrightarrow> s = a @ sep @ b"
proof (induction s arbitrary: a)
  case Nil
  then show ?case by (auto split: if_splits)
next
  case (Cons c s)
  then show ?case
    by (auto split: if_splits simp: prefix_def)
qed

lemma str_cut_length: "str_cut sep s = Some (a, b) \<Longrightarrow> sep \<noteq> [] \<Longrightarrow> length b < length s"
  by (drule str_cut_Some) auto

text \<open>\<^verbatim>\<open>strings.Split\<close> for a non-empty separator.\<close>

function str_split :: "string \<Rightarrow> string \<Rightarrow> string list" where
  "str_split sep s =
     (if sep = [] then [s]
      else case str_cut sep s of None \<Rightarrow> [s] | Some (a, b) \<Rightarrow> a # str_split sep b)"
  by pat_completeness auto
termination
  by (relation "measure (\<lambda>(sep, s). length s)") (auto dest: str_cut_length)

declare str_split.simps [simp del]

lemma str_split_not_Nil [simp]: "str_split sep s \<noteq> []"
  by (subst str_split.simps) (auto split: option.splits)

lemma str_cut_char:
  "c \<notin> set a \<Longrightarrow> str_cut [c] (a @ c # b) = Some (a, b)"
  by (induction a) auto

lemma str_cut_char_None: "c \<notin> set a \<Longrightarrow> str_cut [c] a = None"
  by (induction a) auto

lemma str_split_char_Cons:
  "c \<notin> set a \<Longrightarrow> str_split [c] (a @ c # b) = a # str_split [c] b"
  by (subst str_split.simps) (simp add: str_cut_char)

lemma str_split_char_single: "c \<notin> set a \<Longrightarrow> str_split [c] a = [a]"
  by (subst str_split.simps) (simp add: str_cut_char_None)

text \<open>\<^verbatim>\<open>strings.Join\<close>.\<close>

fun str_join :: "string \<Rightarrow> string list \<Rightarrow> string" where
  "str_join sep [] = []"
| "str_join sep [x] = x"
| "str_join sep (x # y # ys) = x @ sep @ str_join sep (y # ys)"

lemma str_join_Cons: "xs \<noteq> [] \<Longrightarrow> str_join sep (x # xs) = x @ sep @ str_join sep xs"
  by (cases xs) auto

lemma str_join_split: "sep \<noteq> [] \<Longrightarrow> str_join sep (str_split sep s) = s"
proof (induction sep s rule: str_split.induct)
  case (1 sep s)
  show ?case
  proof (cases "str_cut sep s")
    case None
    then show ?thesis by (subst str_split.simps) simp
  next
    case (Some p)
    obtain a b where p: "p = (a, b)" by (cases p)
    have "str_join sep (str_split sep b) = b"
      using "1.IH" "1.prems" Some p by simp
    moreover have "str_split sep s = a # str_split sep b"
      using "1.prems" Some p by (subst str_split.simps) simp
    ultimately show ?thesis
      using str_cut_Some [of sep s a b] Some p by (simp add: str_join_Cons)
  qed
qed

lemma str_split_join:
  "xs \<noteq> [] \<Longrightarrow> (\<And>x. x \<in> set xs \<Longrightarrow> c \<notin> set x) \<Longrightarrow> str_split [c] (str_join [c] xs) = xs"
proof (induction xs rule: induct_list012)
  case (3 x y zs)
  then show ?case by (simp add: str_split_char_Cons)
qed (auto simp: str_split_char_single)

text \<open>\<^verbatim>\<open>strings.TrimLeft\<close>, \<^verbatim>\<open>strings.Trim\<close> with the cutset of one blank,
  \<^verbatim>\<open>strings.TrimSpace\<close> (ASCII white space), \<^verbatim>\<open>strings.ReplaceAll\<close> of one byte
  by nothing, \<^verbatim>\<open>strings.TrimSuffix\<close>.\<close>

definition trim_left_blank :: "string \<Rightarrow> string" where
  "trim_left_blank s = dropWhile (\<lambda>c. c = CHR '' '') s"

definition trim_blank :: "string \<Rightarrow> string" where
  "trim_blank s = rev (trim_left_blank (rev (trim_left_blank s)))"

definition is_space :: "char \<Rightarrow> bool" where
  "is_space c = (c \<in> {CHR '' '', CHR 0x09, CHR 0x0A, CHR 0x0B, CHR 0x0C, CHR 0x0D})"

definition trim_space :: "string \<Rightarrow> string" where
  "trim_space s = rev (dropWhile is_space (rev (dropWhile is_space s)))"

definition remove_char :: "char \<Rightarrow> string \<Rightarrow> string" where
  "remove_char c s = filter (\<lambda>d. d \<noteq> c) s"

definition trim_suffix :: "string \<Rightarrow> string \<Rightarrow> string" where
  "trim_suffix s suf = (if suffix suf s then take (length s - length suf) s else s)"

text \<open>Case mapping.\<close>

definition code_of :: "char \<Rightarrow> nat" where
  "code_of c = of_char c"

lemma code_of_lt: "code_of c < 256"
  by (simp add: code_of_def)

lemma code_of_inj: "code_of c = code_of d \<longleftrightarrow> c = d"
  by (simp add: code_of_def)

lemma code_of_char_of: "n < 256 \<Longrightarrow> code_of (char_of n) = n"
  by (simp add: code_of_def)

definition is_upper :: "char \<Rightarrow> bool" where
  "is_upper c = (65 \<le> code_of c \<and> code_of c \<le> 90)"

definition is_lower :: "char \<Rightarrow> bool" where
  "is_lower c = (97 \<le> code_of c \<and> code_of c \<le> 122)"

definition is_digit :: "char \<Rightarrow> bool" where
  "is_digit c = (48 \<le> code_of c \<and> code_of c \<le> 57)"

definition lower_char :: "char \<Rightarrow> char" where
  "lower_char c = (if is_upper c then char_of (code_of c + 32) else c)"

definition upper_char :: "char \<Rightarrow> char" where
  "upper_char c = (if is_lower c then char_of (code_of c - 32) else c)"

definition to_lower :: "string \<Rightarrow> string" where
  "to_lower s = map lower_char s"

definition to_upper :: "string \<Rightarrow> string" where
  "to_upper s = map upper_char s"

text \<open>\<^verbatim>\<open>strings.ToUpper\<close>: \<open>up\<close> is its mapping of texts with letters beyond ASCII.\<close>

definition is_ascii :: "string \<Rightarrow> bool" where
  "is_ascii s = list_all (\<lambda>c. code_of c < 128) s"

definition ToUpper :: "(string \<Rightarrow> string) \<Rightarrow> string \<Rightarrow> string" where
  "ToUpper up s = (if is_ascii s then to_upper s else up s)"

lemma lower_char_idem [simp]: "lower_char (lower_char c) = lower_char c"
  by (auto simp: lower_char_def is_upper_def code_of_char_of)

lemma upper_char_idem [simp]: "upper_char (upper_char c) = upper_char c"
  by (auto simp: upper_char_def is_lower_def code_of_char_of)

lemma lower_upper_char [simp]: "lower_char (upper_char c) = lower_char c"
  by (auto simp: lower_char_def upper_char_def is_lower_def is_upper_def code_of_char_of)
    (simp add: code_of_def)

lemma upper_lower_char [simp]: "upper_char (lower_char c) = upper_char c"
  by (auto simp: lower_char_def upper_char_def is_lower_def is_upper_def code_of_char_of)
    (simp add: code_of_def)

lemma length_to_upper [simp]: "length (to_upper s) = length s"
  by (simp add: to_upper_def)

lemma length_to_lower [simp]: "length (to_lower s) = length s"
  by (simp add: to_lower_def)

lemma to_upper_idem [simp]: "to_upper (to_upper s) = to_upper s"
  by (simp add: to_upper_def)

lemma to_lower_idem [simp]: "to_lower (to_lower s) = to_lower s"
  by (simp add: to_lower_def)

lemmas char_defs [go_str] =
  lower_char_def upper_char_def is_upper_def is_lower_def is_digit_def code_of_def

lemmas string_defs [go_str] =
  has_prefix_def trim_left_blank_def trim_blank_def is_space_def trim_space_def remove_char_def
  trim_suffix_def to_lower_def to_upper_def

section \<open>Association lists as Go maps\<close>

lemma map_of_update [go_map]: "map_of (AList.update k v m) k' = (if k' = k then Some v else map_of m k')"
  by (simp add: update_conv')

lemma map_of_delete_iff [go_map]: "map_of (AList.delete k m) k' = (if k' = k then None else map_of m k')"
  by (simp add: delete_conv')

lemma map_of_filter_key [go_map]:
  "map_of (filter (\<lambda>(k, v). P k) m) k' = (if P k' then map_of m k' else None)"
  by (induction m) auto

lemma map_of_eq_set_eq:
  assumes "distinct (map fst m)" and "distinct (map fst m')" and "map_of m = map_of m'"
  shows "set m = set m'"
  using assms by (metis map_of_inject_set)

lemma set_update_keys: "fst ` set (AList.update k v m) = insert k (fst ` set m)"
  using dom_update [of k v m] by (simp add: dom_map_of_conv_image_fst)

lemma set_update_subset: "set (AList.update k v m) \<subseteq> insert (k, v) (set m)"
  by (induction m) auto

section \<open>Splitting a list into blocks\<close>

function chunks :: "nat \<Rightarrow> 'a list \<Rightarrow> 'a list list" where
  "chunks n xs = (if n = 0 \<or> xs = [] then [] else take n xs # chunks n (drop n xs))"
  by pat_completeness auto
termination
  by (relation "measure (\<lambda>(n, xs). length xs)") auto

declare chunks.simps [simp del]

lemma chunks_Nil [simp]: "chunks n [] = []"
  by (simp add: chunks.simps)

lemma chunks_append:
  "length a = n \<Longrightarrow> 0 < n \<Longrightarrow> chunks n (a @ xs) = a # chunks n xs"
  by (subst chunks.simps) auto

lemma concat_chunks: "0 < n \<Longrightarrow> concat (chunks n xs) = xs"
  by (induction n xs rule: chunks.induct) (subst chunks.simps, auto)

lemma chunks_concat:
  "0 < n \<Longrightarrow> (\<And>x. x \<in> set xss \<Longrightarrow> length x = n) \<Longrightarrow> chunks n (concat xss) = xss"
  by (induction xss) (auto simp: chunks_append)

lemma chunks_exact:
  "0 < n \<Longrightarrow> n dvd length xs \<Longrightarrow> c \<in> set (chunks n xs) \<Longrightarrow> length c = n"
proof (induction n xs rule: chunks.induct)
  case (1 n xs)
  show ?case
  proof (cases "xs = []")
    case False
    then have le: "n \<le> length xs" using "1.prems" by (simp add: dvd_imp_le)
    then have "n dvd length (drop n xs)" using "1.prems" by (simp add: dvd_minus_self)
    moreover have "c = take n xs \<or> c \<in> set (chunks n (drop n xs))"
      using "1.prems" False by (subst (asm) (1) chunks.simps) auto
    ultimately show ?thesis using 1 False le by auto
  qed (use 1 in simp)
qed

lemma length_concat_const: "\<forall>x \<in> set xss. length x = n \<Longrightarrow> length (concat xss) = length xss * n"
  by (induction xss) auto

lemma length_chunks:
  assumes "0 < n" and "n dvd length xs"
  shows "length (chunks n xs) * n = length xs"
proof -
  have "\<forall>c \<in> set (chunks n xs). length c = n"
    using chunks_exact [OF assms] by blast
  then have "length (concat (chunks n xs)) = length (chunks n xs) * n"
    by (rule length_concat_const)
  then show ?thesis using assms by (simp add: concat_chunks)
qed

end
