(* ===== verification/User_Errors.thy ===== *)
theory User_Errors
  imports Prelude
begin

text \<open>
  Package \<^verbatim>\<open>usererror\<close>: errors with a part a client may see. The error values of the
  whole model are defined here, since every component returns them: errors made by
  \<^verbatim>\<open>errors.New\<close> or \<^verbatim>\<open>fmt.Errorf\<close> (\<open>Plain\<close>), package variables that
  the code compares by identity (\<open>Sentinel\<close>), \<^verbatim>\<open>fmt.Errorf\<close> with
  \<^verbatim>\<open>%w\<close> (\<open>Wrapped\<close>, with the whole text) and the struct
  \<^verbatim>\<open>userError\<close> (\<open>UserErr\<close>). Where a text formats a Go value with
  \<^verbatim>\<open>%v\<close> and is only logged, the model's text keeps the constant part.
\<close>

datatype gerr =
    Plain string
  | Sentinel string
  | Wrapped string gerr
  | UserErr (userMsg: string) (wrapped: "gerr option")

type_synonym 'a result = "(gerr, 'a) go"

text \<open>\<^verbatim>\<open>New\<close>; the warning it logs for a missing internal error has no effect.\<close>

definition usererror_New :: "gerr option \<Rightarrow> string \<Rightarrow> gerr" where
  "usererror_New w userfacingMsg = UserErr userfacingMsg w"

text \<open>Another error in place of the one a call returned.\<close>

fun relabel :: "(gerr \<Rightarrow> gerr) \<Rightarrow> 'a result \<Rightarrow> 'a result" where
  "relabel f (Err e) = Err (f e)"
| "relabel f (Ok a) = Ok a"
| "relabel f (Panic m) = Panic m"

lemma relabel_iff [simp]:
  "relabel f r = Ok a \<longleftrightarrow> r = Ok a" "relabel f r = Panic m \<longleftrightarrow> r = Panic m"
  by (cases r; simp)+

text \<open>The methods \<^verbatim>\<open>Error\<close>, \<^verbatim>\<open>Unwrap\<close> and \<^verbatim>\<open>IsUserFacing\<close>.\<close>

fun err_Error :: "gerr \<Rightarrow> string" where
  "err_Error (Plain m) = m"
| "err_Error (Sentinel m) = m"
| "err_Error (Wrapped m _) = m"
| "err_Error (UserErr m _) = m"

fun err_Unwrap :: "gerr \<Rightarrow> gerr option" where
  "err_Unwrap (Wrapped _ e) = Some e"
| "err_Unwrap (UserErr _ w) = w"
| "err_Unwrap _ = None"

fun IsUserFacing :: "gerr \<Rightarrow> bool" where
  "IsUserFacing (UserErr _ _) = True"
| "IsUserFacing _ = False"

lemma err_Unwrap_size: "err_Unwrap e = Some w \<Longrightarrow> size w < size e"
  by (cases e) auto

text \<open>\<^verbatim>\<open>errors.As\<close> for the interface \<^verbatim>\<open>UserError\<close>: the first error of the
  chain that implements it. \<open>usererror_Get\<close> takes \<open>None\<close> for a nil error.\<close>

function errors_As_user :: "gerr \<Rightarrow> gerr option" where
  "errors_As_user e =
     (if IsUserFacing e then Some e
      else case err_Unwrap e of None \<Rightarrow> None | Some w \<Rightarrow> errors_As_user w)"
  by pat_completeness auto
termination
  by (relation "measure size") (auto dest: err_Unwrap_size)

definition usererror_Get :: "gerr option \<Rightarrow> gerr option" where
  "usererror_Get e = (case e of None \<Rightarrow> None | Some e \<Rightarrow> errors_As_user e)"

text \<open>\<^verbatim>\<open>AsFlatSensitiveString\<close>: the loop over the wrapped errors, which tags the
  user-facing ones, except the innermost, whose text is taken as it is.\<close>

definition flat_part :: "gerr \<Rightarrow> string" where
  "flat_part e = (if IsUserFacing e then ''<userfacing> '' @ err_Error e @ '' </userfacing>''
                  else err_Error e)"

function flat_loop :: "gerr \<Rightarrow> string list \<Rightarrow> string list" where
  "flat_loop e flatErrorStrings =
     (case err_Unwrap e of
        None \<Rightarrow> flatErrorStrings @ [err_Error e]
      | Some w \<Rightarrow> flat_loop w (flatErrorStrings @ [flat_part e]))"
  by pat_completeness auto
termination
  by (relation "measure (\<lambda>(e, _). size e)") (auto dest: err_Unwrap_size)

definition AsFlatSensitiveString :: "gerr option \<Rightarrow> string" where
  "AsFlatSensitiveString e =
     (case e of
        None \<Rightarrow> []
      | Some e \<Rightarrow> (case err_Unwrap e of
           None \<Rightarrow> err_Error e
         | Some _ \<Rightarrow> str_join '' <- '' (flat_loop e [])))"

declare errors_As_user.simps [simp del] flat_loop.simps [simp del]

subsection \<open>The chain of an error\<close>

text \<open>The specification both loops are compared with: the list of errors that
  \<^verbatim>\<open>errors.Unwrap\<close> visits, from the outermost to the root cause.\<close>

function err_chain :: "gerr \<Rightarrow> gerr list" where
  "err_chain e = e # (case err_Unwrap e of None \<Rightarrow> [] | Some w \<Rightarrow> err_chain w)"
  by pat_completeness auto
termination
  by (relation "measure size") (auto dest: err_Unwrap_size)

declare err_chain.simps [simp del]

lemma err_chain_not_Nil [simp]: "err_chain e \<noteq> []"
  by (simp add: err_chain.simps)

lemma errors_As_user_find: "errors_As_user e = List.find IsUserFacing (err_chain e)"
proof (induction e rule: errors_As_user.induct)
  case (1 e)
  then show ?case
    by (subst errors_As_user.simps, subst err_chain.simps) (auto split: option.splits)
qed

lemma flat_loop_chain:
  "flat_loop e acc = acc @ map flat_part (butlast (err_chain e)) @ [err_Error (last (err_chain e))]"
proof (induction e acc rule: flat_loop.induct)
  case (1 e acc)
  then show ?case
    by (subst flat_loop.simps, subst (1 2) err_chain.simps) (auto split: option.splits)
qed

lemma find_user_facing: "List.find IsUserFacing es = Some u \<Longrightarrow> u \<in> set es \<and> IsUserFacing u"
  by (auto simp: find_Some_iff)

text \<open>\<^verbatim>\<open>usererror.Get\<close> returns the first user-facing error of the unwrap chain, so an
  error that is itself user-facing hides whatever it wraps, and an error with no user-facing
  part anywhere yields nothing.\<close>

theorem usererror_Get_first:
  "usererror_Get (Some e) = List.find IsUserFacing (err_chain e) \<and>
   (IsUserFacing e \<longrightarrow> usererror_Get (Some e) = Some e) \<and>
   (usererror_Get (Some e) = None \<longleftrightarrow> (\<forall>x \<in> set (err_chain e). \<not> IsUserFacing x))"
  by (auto simp: usererror_Get_def errors_As_user_find find_None_iff)
    (subst err_chain.simps, simp)

lemma usererror_Get_first_witness:
  "usererror_Get (Some (UserErr ''u'' None)) = Some (UserErr ''u'' None)"
proof -
  have "IsUserFacing (UserErr ''u'' None)" by simp
  then show ?thesis using usererror_Get_first [of "UserErr ''u'' None"] by blast
qed

text \<open>The flat text for the log is exactly the texts of the chain, outermost first, joined
  by an arrow; nothing of the chain is lost, and the loop that builds it returns for every
  error.\<close>

theorem AsFlatSensitiveString_chain:
  "AsFlatSensitiveString (Some e) =
     str_join '' <- '' (map flat_part (butlast (err_chain e)) @ [err_Error (last (err_chain e))])"
proof (cases "err_Unwrap e")
  case None
  then have "err_chain e = [e]" by (simp add: err_chain.simps)
  then show ?thesis using None by (simp add: AsFlatSensitiveString_def)
next
  case (Some w)
  then show ?thesis by (simp add: AsFlatSensitiveString_def flat_loop_chain)
qed

end
