(* ===== verification/Aws_Constants.thy ===== *)
theory Aws_Constants
  imports Main
begin

text \<open>
  Names of headers, parameters and actions: \<^verbatim>\<open>constants/\<close>, \<^verbatim>\<open>aws/service/sts/constants.go\<close> and
  \<^verbatim>\<open>aws/service/iam/actionnames/s3.go\<close>. They abbreviate their strings. \<^verbatim>\<open>EmptyStringSHA256\<close> and \<^verbatim>\<open>HeadAsGet\<close> are
  defined where they are used, and the time format is written out in theory Aws_Time.
\<close>

abbreviation (input) AmzSecurityTokenKey :: string where "AmzSecurityTokenKey \<equiv> ''X-Amz-Security-Token''"
abbreviation (input) AmzRequestPayerKey :: string where "AmzRequestPayerKey \<equiv> ''X-Amz-Request-Payer''"
abbreviation (input) AmzRequestPayerRequesterValue :: string where "AmzRequestPayerRequesterValue \<equiv> ''requester''"
abbreviation (input) AmzAlgorithmKey :: string where "AmzAlgorithmKey \<equiv> ''X-Amz-Algorithm''"
abbreviation (input) AmzDateKey :: string where "AmzDateKey \<equiv> ''X-Amz-Date''"
abbreviation (input) AmzExpiresKey :: string where "AmzExpiresKey \<equiv> ''X-Amz-Expires''"
abbreviation (input) AmzCredentialKey :: string where "AmzCredentialKey \<equiv> ''X-Amz-Credential''"
abbreviation (input) AmzSignedHeadersKey :: string where "AmzSignedHeadersKey \<equiv> ''X-Amz-SignedHeaders''"
abbreviation (input) AmzSignatureKey :: string where "AmzSignatureKey \<equiv> ''X-Amz-Signature''"
abbreviation (input) SignatureKey :: string where "SignatureKey \<equiv> ''Signature''"
abbreviation (input) AccessKeyId :: string where "AccessKeyId \<equiv> ''AWSAccessKeyId''"
abbreviation (input) ExpiresKey :: string where "ExpiresKey \<equiv> ''Expires''"
abbreviation (input) AmzContentSHAKey :: string where "AmzContentSHAKey \<equiv> ''X-Amz-Content-Sha256''"
abbreviation (input) AmzDecodedContentLength :: string where "AmzDecodedContentLength \<equiv> ''x-amz-decoded-content-length''"

abbreviation (input) AuthorizationHeader :: string where "AuthorizationHeader \<equiv> ''Authorization''"

abbreviation (input) stsAPIVersion :: string where "stsAPIVersion \<equiv> ''2011-06-15''"
abbreviation (input) stsVersion :: string where "stsVersion \<equiv> ''Version''"
abbreviation (input) stsAction :: string where "stsAction \<equiv> ''Action''"
abbreviation (input) stsPolicy :: string where "stsPolicy \<equiv> ''Policy''"
abbreviation (input) stsToken :: string where "stsToken \<equiv> ''Token''"
abbreviation (input) stsRoleArn :: string where "stsRoleArn \<equiv> ''RoleArn''"
abbreviation (input) stsWebIdentityToken :: string where "stsWebIdentityToken \<equiv> ''WebIdentityToken''"
abbreviation (input) stsDurationSeconds :: string where "stsDurationSeconds \<equiv> ''DurationSeconds''"
abbreviation (input) clientGrants :: string where "clientGrants \<equiv> ''AssumeRoleWithClientGrants''"
abbreviation (input) webIdentity :: string where "webIdentity \<equiv> ''AssumeRoleWithWebIdentity''"
abbreviation (input) ldapIdentity :: string where "ldapIdentity \<equiv> ''AssumeRoleWithLDAPIdentity''"
abbreviation (input) clientCertificate :: string where "clientCertificate \<equiv> ''AssumeRoleWithCertificate''"
abbreviation (input) customTokenIdentity :: string where "customTokenIdentity \<equiv> ''AssumeRoleWithCustomToken''"
abbreviation (input) assumeRole :: string where "assumeRole \<equiv> ''AssumeRole''"

abbreviation (input) IAMActionS3PutObject :: string where "IAMActionS3PutObject \<equiv> ''s3:PutObject''"
abbreviation (input) IAMActionS3GetObject :: string where "IAMActionS3GetObject \<equiv> ''s3:GetObject''"
abbreviation (input) IAMActionS3ListBucket :: string where "IAMActionS3ListBucket \<equiv> ''s3:ListBucket''"
abbreviation (input) IAMActionS3AbortMultipartUpload :: string where "IAMActionS3AbortMultipartUpload \<equiv> ''s3:AbortMultipartUpload''"
abbreviation (input) IAMActionS3ListAllMyBuckets :: string where "IAMActionS3ListAllMyBuckets \<equiv> ''s3:ListAllMyBuckets''"
abbreviation (input) IAMConditionS3Prefix :: string where "IAMConditionS3Prefix \<equiv> ''s3:prefix''"

end
