(* ===== verification/Http_Values.thy ===== *)
theory Http_Values
  imports User_Errors Aws_Constants
begin

text \<open>
  The two multi-valued maps of a request, \<^verbatim>\<open>http.Header\<close> and \<^verbatim>\<open>url.Values\<close>:
  both are \<^verbatim>\<open>map[string][]string\<close>, and a header's methods first bring the key to
  its canonical form. The locale \<open>multimap\<close> states what their methods promise, once for a
  key normalisation; it is interpreted for both.
\<close>

type_synonym mvals = "(string \<times> string list) list"

section \<open>The interface\<close>

locale multimap =
  fixes norm :: "string \<Rightarrow> string"
    and vals :: "mvals \<Rightarrow> string \<Rightarrow> string list"
    and get :: "mvals \<Rightarrow> string \<Rightarrow> string"
    and set_val :: "mvals \<Rightarrow> string \<Rightarrow> string \<Rightarrow> mvals"
    and add :: "mvals \<Rightarrow> string \<Rightarrow> string \<Rightarrow> mvals"
    and del :: "mvals \<Rightarrow> string \<Rightarrow> mvals"
  assumes get_vals: "get m k = (case vals m k of [] \<Rightarrow> [] | v # _ \<Rightarrow> v)"
    and vals_set: "vals (set_val m k v) k' = (if norm k' = norm k then [v] else vals m k')"
    and vals_add: "vals (add m k v) k' = (if norm k' = norm k then vals m k' @ [v] else vals m k')"
    and vals_del: "vals (del m k) k' = (if norm k' = norm k then [] else vals m k')"
    and distinct_set: "distinct (map fst m) \<Longrightarrow> distinct (map fst (set_val m k v))"
    and distinct_add: "distinct (map fst m) \<Longrightarrow> distinct (map fst (add m k v))"
    and distinct_del: "distinct (map fst m) \<Longrightarrow> distinct (map fst (del m k))"
begin

lemma get_set: "get (set_val m k v) k' = (if norm k' = norm k then v else get m k')"
  by (simp add: get_vals vals_set)

lemma get_del: "get (del m k) k' = (if norm k' = norm k then [] else get m k')"
  by (simp add: get_vals vals_del)

lemma get_add: "get (add m k v) k' =
  (if norm k' = norm k \<and> vals m k' = [] then v else get m k')"
  by (auto simp: get_vals vals_add split: list.splits)

lemma set_set: "vals (set_val (set_val m k v) k w) = vals (set_val m k w)"
  by (rule ext) (simp add: vals_set)

lemma vals_fold_del:
  "vals (fold (\<lambda>k m. del m k) ks m) k' = (if norm k' \<in> norm ` set ks then [] else vals m k')"
  by (induction ks arbitrary: m) (auto simp: vals_del)

lemma get_fold_del:
  "get (fold (\<lambda>k m. del m k) ks m) k' = (if norm k' \<in> norm ` set ks then [] else get m k')"
  by (simp add: get_vals vals_fold_del)

lemma distinct_fold_del:
  "distinct (map fst m) \<Longrightarrow> distinct (map fst (fold (\<lambda>k m. del m k) ks m))"
  by (induction ks arbitrary: m) (auto simp: distinct_del)

lemmas multimap_simps = get_set get_del get_add vals_set vals_add vals_del

end

section \<open>url.Values\<close>

definition values_vals :: "mvals \<Rightarrow> string \<Rightarrow> string list" where
  "values_vals m k = (case map_of m k of None \<Rightarrow> [] | Some vs \<Rightarrow> vs)"

definition values_Get :: "mvals \<Rightarrow> string \<Rightarrow> string" where
  "values_Get m k = (case values_vals m k of [] \<Rightarrow> [] | v # _ \<Rightarrow> v)"

definition values_Has :: "mvals \<Rightarrow> string \<Rightarrow> bool" where
  "values_Has m k = (map_of m k \<noteq> None)"

definition values_Set :: "mvals \<Rightarrow> string \<Rightarrow> string \<Rightarrow> mvals" where
  "values_Set m k v = AList.update k [v] m"

definition values_Add :: "mvals \<Rightarrow> string \<Rightarrow> string \<Rightarrow> mvals" where
  "values_Add m k v = AList.update k (values_vals m k @ [v]) m"

definition values_Del :: "mvals \<Rightarrow> string \<Rightarrow> mvals" where
  "values_Del m k = AList.delete k m"

lemmas values_defs = values_vals_def values_Get_def values_Has_def values_Set_def values_Add_def values_Del_def

interpretation qv: multimap "\<lambda>k. k" values_vals values_Get values_Set values_Add values_Del
  by unfold_locales (auto simp: values_defs go_map distinct_update distinct_delete)

lemma values_Has_Del [simp]: "values_Has (values_Del m k) k' = (k' \<noteq> k \<and> values_Has m k')"
  by (simp add: values_defs go_map)

lemma values_Has_Set [simp]: "values_Has (values_Set m k v) k' = (k' = k \<or> values_Has m k')"
  by (simp add: values_defs go_map)

lemma values_Get_Has: "values_Get m k \<noteq> [] \<Longrightarrow> values_Has m k"
  by (auto simp: values_defs split: option.splits)

section \<open>Canonical header keys\<close>

text \<open>\<^verbatim>\<open>textproto.CanonicalMIMEHeaderKey\<close>: a key with a byte that is no token
  character is left as it is; in any other, the first letter and every letter after a dash
  becomes upper case and the rest lower case.\<close>

definition header_byte :: "char \<Rightarrow> bool" where
  "header_byte c = (is_upper c \<or> is_lower c \<or> is_digit c \<or>
     c \<in> set [CHR ''!'', CHR ''#'', CHR ''$'', CHR ''%'', CHR ''&'', CHR 0x27, CHR ''*'', CHR ''+'',
              CHR ''-'', CHR ''.'', CHR ''^'', CHR ''_'', CHR 0x60, CHR ''|'', CHR ''~''])"

fun canon_from :: "bool \<Rightarrow> string \<Rightarrow> string" where
  "canon_from upper [] = []"
| "canon_from upper (c # cs) =
     (let d = (if upper then upper_char c else lower_char c)
      in d # canon_from (d = CHR ''-'') cs)"

definition canonical_key :: "string \<Rightarrow> string" where
  "canonical_key s = (if list_all header_byte s then canon_from True s else s)"

lemma upper_or_lower: "is_upper c \<or> is_lower c \<longleftrightarrow> is_upper (upper_char c)"
  by (auto simp: is_upper_def is_lower_def upper_char_def code_of_char_of)

lemma is_lower_lower_char: "is_upper c \<or> is_lower c \<longleftrightarrow> is_lower (lower_char c)"
  by (auto simp: is_upper_def is_lower_def lower_char_def code_of_char_of)

lemma header_byte_upper_char [simp]: "header_byte (upper_char c) = header_byte c"
proof (cases "is_lower c")
  case True
  then show ?thesis using upper_or_lower [of c] by (simp add: header_byte_def)
qed (simp add: upper_char_def)

lemma header_byte_lower_char [simp]: "header_byte (lower_char c) = header_byte c"
proof (cases "is_upper c")
  case True
  then show ?thesis using is_lower_lower_char [of c] by (simp add: header_byte_def)
qed (simp add: lower_char_def)

lemma header_byte_canon_from [simp]: "list_all header_byte (canon_from u s) = list_all header_byte s"
  by (induction u s rule: canon_from.induct) (auto simp: Let_def)

lemma canon_from_idem [simp]: "canon_from u (canon_from u s) = canon_from u s"
  by (induction u s rule: canon_from.induct) (auto simp: Let_def)

lemma canonical_key_idem [simp]: "canonical_key (canonical_key s) = canonical_key s"
  by (simp add: canonical_key_def)

lemma to_lower_canon_from: "to_lower (canon_from u s) = to_lower s"
  by (induction u s rule: canon_from.induct) (auto simp: Let_def to_lower_def)

lemma to_lower_canonical_key [simp]: "to_lower (canonical_key s) = to_lower s"
  by (simp add: canonical_key_def to_lower_canon_from)

lemmas canonical_eval [go_str] = canonical_key_def header_byte_def

section \<open>http.Header\<close>

definition header_Values :: "mvals \<Rightarrow> string \<Rightarrow> string list" where
  "header_Values h k = values_vals h (canonical_key k)"

definition header_Get :: "mvals \<Rightarrow> string \<Rightarrow> string" where
  "header_Get h k = values_Get h (canonical_key k)"

definition header_Set :: "mvals \<Rightarrow> string \<Rightarrow> string \<Rightarrow> mvals" where
  "header_Set h k v = values_Set h (canonical_key k) v"

definition header_Add :: "mvals \<Rightarrow> string \<Rightarrow> string \<Rightarrow> mvals" where
  "header_Add h k v = values_Add h (canonical_key k) v"

definition header_Del :: "mvals \<Rightarrow> string \<Rightarrow> mvals" where
  "header_Del h k = values_Del h (canonical_key k)"

lemmas header_defs = header_Values_def header_Get_def header_Set_def header_Add_def header_Del_def

interpretation hdr: multimap canonical_key header_Values header_Get header_Set header_Add header_Del
  by unfold_locales
    (auto simp: header_defs qv.multimap_simps qv.get_vals qv.distinct_set qv.distinct_add qv.distinct_del)

text \<open>A header as the server's parser builds it: each key once, in canonical form.\<close>

definition wf_header :: "mvals \<Rightarrow> bool" where
  "wf_header h = (distinct (map fst h) \<and> (\<forall>k \<in> fst ` set h. canonical_key k = k))"

lemma wf_header_Nil [simp]: "wf_header []"
  by (simp add: wf_header_def)

lemma wf_header_Set: "wf_header h \<Longrightarrow> wf_header (header_Set h k v)"
  by (auto simp: wf_header_def header_Set_def values_Set_def distinct_update set_update_keys)

lemma wf_header_Add: "wf_header h \<Longrightarrow> wf_header (header_Add h k v)"
  by (auto simp: wf_header_def header_Add_def values_Add_def distinct_update set_update_keys)

lemma set_delete_keys: "fst ` set (AList.delete k m) = fst ` set m - {k}"
  by (auto simp: AList.delete_eq)

lemma wf_header_Del: "wf_header h \<Longrightarrow> wf_header (header_Del h k)"
  unfolding wf_header_def header_Del_def values_Del_def
  by (auto simp: distinct_delete set_delete_keys simp del: delete_keys)

lemmas wf_header_intros [intro] = wf_header_Set wf_header_Add wf_header_Del

end
