(* ===== verification/Codecs.thy ===== *)
theory Codecs
  imports User_Errors
begin

text \<open>
  The text codecs the code uses: base32 with padding byte 8 for the names of policy files
  (\<^verbatim>\<open>utils.B32\<close>, \<^verbatim>\<open>utils.B32Decode\<close>) and base64 for secret keys and
  signatures. An encoder turns the bits of the input, most significant first, into blocks of
  five or six bits; the base32 decoder follows the loop of \<^verbatim>\<open>encoding/base32\<close>,
  whose quanta of eight digits it reads one after the other. The locale \<open>codec\<close> is the
  contract both base32 here and the query escaping of the URL theory fulfil.
\<close>

section \<open>The contract of an encoder and its decoder\<close>

locale codec =
  fixes enc :: "string \<Rightarrow> string"
    and dec :: "string \<Rightarrow> string result"
    and ok_char :: "char \<Rightarrow> bool"
  assumes dec_enc: "dec (enc s) = Ok s"
    and enc_chars: "c \<in> set (enc s) \<Longrightarrow> ok_char c"
begin

lemma enc_inject: "enc s = enc t \<longleftrightarrow> s = t"
  using dec_enc by (metis go.inject(1))

lemma enc_avoids: "\<not> ok_char c \<Longrightarrow> c \<notin> set (enc s)"
  using enc_chars by blast

lemma dec_of_file: "dec f = Ok s \<Longrightarrow> dec (enc s) = dec f"
  by (simp add: dec_enc)

end

section \<open>Bits\<close>

definition to_bits :: "nat \<Rightarrow> nat \<Rightarrow> bool list" where
  "to_bits n v = rev (map (bit v) [0..<n])"

definition of_bits :: "bool list \<Rightarrow> nat" where
  "of_bits bs = horner_sum of_bool 2 (rev bs)"

lemma length_to_bits [simp]: "length (to_bits n v) = n"
  by (simp add: to_bits_def)

lemma of_bits_lt: "of_bits bs < 2 ^ length bs"
  using horner_sum_of_bool_2_less [of "rev bs"] by (simp add: of_bits_def)

lemma of_bits_to_bits: "v < 2 ^ n \<Longrightarrow> of_bits (to_bits n v) = v"
  by (simp add: of_bits_def to_bits_def horner_sum_bit_eq_take_bit take_bit_nat_eq_self)

lemma to_bits_of_bits: "length bs = n \<Longrightarrow> to_bits n (of_bits bs) = bs"
proof -
  assume l: "length bs = n"
  have "map (bit (of_bits bs)) [0..<n] = rev bs"
    using l by (intro nth_equalityI) (simp_all add: of_bits_def bit_horner_sum_bit_iff)
  then show ?thesis by (simp add: to_bits_def)
qed

definition bits_of_bytes :: "string \<Rightarrow> bool list" where
  "bits_of_bytes s = concat (map (\<lambda>c. to_bits 8 (code_of c)) s)"

definition bytes_of_bits :: "bool list \<Rightarrow> string" where
  "bytes_of_bits bs = map (\<lambda>b. char_of (of_bits b)) (chunks 8 (take (8 * (length bs div 8)) bs))"

lemma bits_of_bytes_append [simp]: "bits_of_bytes (s @ t) = bits_of_bytes s @ bits_of_bytes t"
  by (simp add: bits_of_bytes_def)

lemma length_bits_of_bytes [simp]: "length (bits_of_bytes s) = 8 * length s"
  by (induction s) (auto simp: bits_of_bytes_def)

lemma char_of_byte_bits [simp]: "char_of (of_bits (to_bits 8 (code_of c))) = c"
proof -
  have "code_of c < 2 ^ 8" using code_of_lt [of c] by simp
  then show ?thesis by (simp only: of_bits_to_bits) (simp add: code_of_def)
qed

lemma bytes_of_bits_of_bytes:
  assumes "length p < 8"
  shows "bytes_of_bits (bits_of_bytes s @ p) = s"
proof -
  have "length (bits_of_bytes s @ p) div 8 = length s"
    using assms by simp
  then have t: "take (8 * (length (bits_of_bytes s @ p) div 8)) (bits_of_bytes s @ p) = bits_of_bytes s"
    by (simp only: append_eq_conv_conj) simp
  have "chunks 8 (bits_of_bytes s) = map (\<lambda>c. to_bits 8 (code_of c)) s"
    unfolding bits_of_bytes_def by (rule chunks_concat) auto
  then show ?thesis unfolding bytes_of_bits_def t by (simp add: o_def)
qed

section \<open>Digits of \<open>k\<close> bits\<close>

definition pad_bits :: "nat \<Rightarrow> bool list \<Rightarrow> bool list" where
  "pad_bits k bs = bs @ replicate ((k - length bs mod k) mod k) False"

definition digits :: "nat \<Rightarrow> string \<Rightarrow> nat list" where
  "digits k s = map of_bits (chunks k (pad_bits k (bits_of_bytes s)))"

lemma pad_bits_dvd: "0 < k \<Longrightarrow> k dvd length (pad_bits k bs)"
proof -
  assume k: "0 < k"
  have "(length bs + (k - length bs mod k) mod k) mod k = (length bs mod k + (k - length bs mod k)) mod k"
    by (simp add: mod_add_eq mod_add_left_eq mod_add_right_eq)
  also have "\<dots> = 0" using k by (simp add: le_add_diff_inverse mod_le_divisor)
  finally show ?thesis by (simp add: pad_bits_def mod_eq_0_iff_dvd)
qed

lemma chunks_append_dvd:
  assumes "0 < k" and "k dvd length a"
  shows "chunks k (a @ b) = chunks k a @ chunks k b"
  using assms
proof (induction k a rule: chunks.induct)
  case (1 k a)
  show ?case
  proof (cases "a = []")
    case False
    then have "k \<le> length a" using "1.prems" by (simp add: dvd_imp_le)
    moreover have "k dvd length (drop k a)"
      using "1.prems" \<open>k \<le> length a\<close> by (simp add: dvd_minus_self)
    ultimately show ?thesis
      using 1 False by (subst (1 2) chunks.simps) simp
  qed simp
qed

lemma digits_append:
  assumes "0 < k" and "k dvd 8 * length s"
  shows "digits k (s @ t) = digits k s @ digits k t"
proof -
  have p: "pad_bits k (bits_of_bytes s) = bits_of_bytes s"
    using assms by (simp add: pad_bits_def)
  have "(8 * length s + 8 * length t) mod k = 8 * length t mod k"
    using assms by (metis dvd_imp_mod_0 mod_add_left_eq add_0)
  then have "pad_bits k (bits_of_bytes (s @ t)) = bits_of_bytes s @ pad_bits k (bits_of_bytes t)"
    by (simp add: pad_bits_def)
  then show ?thesis
    using assms by (simp add: digits_def p chunks_append_dvd)
qed

lemma digits_lt: "0 < k \<Longrightarrow> d \<in> set (digits k s) \<Longrightarrow> d < 2 ^ k"
  unfolding digits_def
  using chunks_exact [OF _ pad_bits_dvd, of k] of_bits_lt by (metis imageE list.set_map)

lemma digits_bits:
  assumes "0 < k"
  shows "concat (map (to_bits k) (digits k s)) = pad_bits k (bits_of_bytes s)"
proof -
  have "map (to_bits k) (digits k s) = chunks k (pad_bits k (bits_of_bytes s))"
    unfolding digits_def
    using chunks_exact [OF assms pad_bits_dvd [OF assms]] by (auto simp: to_bits_of_bits intro!: map_idI)
  then show ?thesis using assms by (simp add: concat_chunks)
qed

lemma length_digits:
  assumes "0 < k"
  shows "length (digits k s) * k = length (pad_bits k (bits_of_bytes s))"
  using length_chunks [OF assms pad_bits_dvd [OF assms]] by (simp add: digits_def)

text \<open>The first digits depend on the first bytes only.\<close>

lemma take_chunks: "0 < k \<Longrightarrow> take m (chunks k xs) = chunks k (take (m * k) xs)"
proof (induction m arbitrary: xs)
  case (Suc m)
  show ?case
  proof (cases "xs = []")
    case False
    then have "chunks k (take (Suc m * k) xs) = take k xs # chunks k (take (m * k) (drop k xs))"
      using Suc.prems by (subst chunks.simps) (auto simp: take_drop min_def add.commute)
    moreover have "chunks k xs = take k xs # chunks k (drop k xs)"
      using Suc.prems False by (subst chunks.simps) simp
    ultimately show ?thesis using Suc by simp
  qed simp
qed simp

lemma take_digits:
  assumes "0 < k" and "m * k \<le> 8 * n" and "n \<le> length s"
  shows "take m (digits k s) = map of_bits (chunks k (take (m * k) (bits_of_bytes (take n s))))"
proof -
  have "bits_of_bytes s = bits_of_bytes (take n s) @ bits_of_bytes (drop n s)"
    by (metis append_take_drop_id bits_of_bytes_append)
  then have "take (m * k) (pad_bits k (bits_of_bytes s)) = take (m * k) (bits_of_bytes (take n s))"
    using assms by (simp add: pad_bits_def)
  then show ?thesis using assms by (simp add: digits_def take_map take_chunks)
qed

section \<open>Base32 with padding byte 8\<close>

definition b32_alphabet :: string where
  "b32_alphabet = ''ABCDEFGHIJKLMNOPQRSTUVWXYZ234567''"

definition b32_pad :: char where
  "b32_pad = CHR ''8''"

definition B32 :: "string \<Rightarrow> string" where
  "B32 s = (let ds = digits 5 s in
     map (\<lambda>d. b32_alphabet ! d) ds @ replicate ((8 - length ds mod 8) mod 8) b32_pad)"

fun index_of :: "'a \<Rightarrow> 'a list \<Rightarrow> nat option" where
  "index_of x [] = None"
| "index_of x (y # ys) = (if x = y then Some 0 else map_option Suc (index_of x ys))"

lemma index_of_nth: "distinct xs \<Longrightarrow> i < length xs \<Longrightarrow> index_of (xs ! i) xs = Some i"
  by (induction xs arbitrary: i) (auto simp: nth_Cons split: nat.splits)

definition b32_digit :: "char \<Rightarrow> nat option" where
  "b32_digit c = index_of c b32_alphabet"

definition corrupt :: gerr where
  "corrupt = Plain ''illegal base32 data''"

text \<open>One quantum: up to eight digits, or fewer of them and padding to the end. The result is
  the digits read, the rest of the input, and whether the padding ended the input.\<close>

function b32_quantum :: "nat list \<Rightarrow> string \<Rightarrow> (nat list \<times> string \<times> bool) result" where
  "b32_quantum dbuf src =
     (if 8 \<le> length dbuf then Ok (dbuf, src, False)
      else case src of
        [] \<Rightarrow> Err corrupt
      | c # src' \<Rightarrow>
          if c = b32_pad \<and> 2 \<le> length dbuf \<and> length src' < 8 then
            (if length src' + length dbuf < 7 then Err corrupt
             else if \<not> list_all (\<lambda>x. x = b32_pad) (take (7 - length dbuf) src') then Err corrupt
             else if length dbuf \<in> {1, 3, 6} then Err corrupt
             else Ok (dbuf, src', True))
          else (case b32_digit c of
              None \<Rightarrow> Err corrupt
            | Some d \<Rightarrow> b32_quantum (dbuf @ [d]) src'))"
  by pat_completeness auto
termination
  by (relation "measure (\<lambda>(_, src). length src)") auto

declare b32_quantum.simps [simp del]

lemma b32_quantum_rest:
  "b32_quantum dbuf src = Ok (ds, rest, e) \<Longrightarrow> length dbuf < 8 \<Longrightarrow> length rest < length src"
proof (induction dbuf src rule: b32_quantum.induct)
  case (1 dbuf src)
  show ?case
  proof (cases src)
    case Nil
    then show ?thesis using "1.prems" by (simp add: b32_quantum.simps)
  next
    case (Cons c src')
    show ?thesis
    proof (cases "c = b32_pad \<and> 2 \<le> length dbuf \<and> length src' < 8")
      case True
      then show ?thesis
        using "1.prems" Cons by (subst (asm) b32_quantum.simps) (auto split: if_splits)
    next
      case False
      then obtain d where d: "b32_digit c = Some d" and q: "b32_quantum (dbuf @ [d]) src' = Ok (ds, rest, e)"
        using "1.prems" Cons by (subst (asm) b32_quantum.simps) (auto split: option.splits)
      show ?thesis
      proof (cases "length (dbuf @ [d]) < 8")
        case True
        then show ?thesis using "1.IH" [OF _ Cons False d] q "1.prems" Cons by fastforce
      next
        case False
        then show ?thesis using q Cons by (simp add: b32_quantum.simps)
      qed
    qed
  qed
qed

function b32_loop :: "string \<Rightarrow> string \<Rightarrow> string result" where
  "b32_loop out src =
     (if src = [] then Ok out
      else case b32_quantum [] src of
        Ok (ds, rest, ended) \<Rightarrow>
          (let out' = out @ bytes_of_bits (concat (map (to_bits 5) ds))
           in if ended then Ok out' else b32_loop out' rest)
      | Err e \<Rightarrow> Err e
      | Panic m \<Rightarrow> Panic m)"
  by pat_completeness auto
termination
  by (relation "measure (\<lambda>(_, src). length src)") (auto dest: b32_quantum_rest)

declare b32_loop.simps [simp del]

text \<open>\<^verbatim>\<open>Decode\<close> strips line breaks first.\<close>

definition B32Decode :: "string \<Rightarrow> string result" where
  "B32Decode s = b32_loop [] (filter (\<lambda>c. c \<noteq> CHR 0x0A \<and> c \<noteq> CHR 0x0D) s)"


subsection \<open>The round trip\<close>

lemma b32_alphabet_facts:
  "length b32_alphabet = 32" "distinct b32_alphabet" "b32_pad \<notin> set b32_alphabet"
  by (simp_all add: b32_alphabet_def b32_pad_def)

lemma b32_digit_alphabet: "d < 32 \<Longrightarrow> b32_digit (b32_alphabet ! d) = Some d"
  by (simp add: b32_digit_def index_of_nth b32_alphabet_facts)

lemma b32_alphabet_not_pad: "d < 32 \<Longrightarrow> b32_alphabet ! d \<noteq> b32_pad"
  using b32_alphabet_facts nth_mem by metis

lemma b32_quantum_digits:
  "\<forall>d \<in> set ds. d < 32 \<Longrightarrow> length dbuf + length ds \<le> 8 \<Longrightarrow>
   b32_quantum dbuf (map (\<lambda>d. b32_alphabet ! d) ds @ rest) = b32_quantum (dbuf @ ds) rest"
proof (induction ds arbitrary: dbuf)
  case (Cons d ds)
  then have "b32_quantum dbuf (map (\<lambda>d. b32_alphabet ! d) (d # ds) @ rest) =
      b32_quantum (dbuf @ [d]) (map (\<lambda>d. b32_alphabet ! d) ds @ rest)"
    by (subst b32_quantum.simps) (simp add: b32_alphabet_not_pad b32_digit_alphabet)
  then show ?case using Cons by simp
qed simp

lemma b32_quantum_full: "length ds = 8 \<Longrightarrow> b32_quantum ds rest = Ok (ds, rest, False)"
  by (subst b32_quantum.simps) simp

lemma b32_quantum_padded:
  assumes "length ds \<in> {2, 4, 5, 7}"
  shows "b32_quantum ds (replicate (8 - length ds) b32_pad) = Ok (ds, replicate (7 - length ds) b32_pad, True)"
proof -
  have "8 - length ds = Suc (7 - length ds)" using assms by auto
  then show ?thesis
    using assms by (subst b32_quantum.simps) (auto simp: list_all_iff)
qed

lemma length_digits5_full: "length s = 5 \<Longrightarrow> length (digits 5 s) = 8"
  using length_digits [of 5 s] by (simp add: pad_bits_def)

lemma length_digits5_partial:
  assumes "0 < length s" and "length s < 5"
  shows "length (digits 5 s) \<in> {2, 4, 5, 7}"
proof -
  have "length s = 1 \<or> length s = 2 \<or> length s = 3 \<or> length s = 4" using assms by linarith
  then show ?thesis using length_digits [of 5 s] by (auto simp: pad_bits_def)
qed

lemma digits5_lt: "\<forall>d \<in> set (digits 5 s). d < 32"
  using digits_lt [of 5 _ s] by simp

lemma bytes_of_digits5: "bytes_of_bits (concat (map (to_bits 5) (digits 5 s))) = s"
proof -
  have "length (replicate ((5 - length (bits_of_bytes s) mod 5) mod 5) False) < 8"
    by (simp add: less_trans [OF mod_less_divisor])
  then show ?thesis
    by (simp only: digits_bits pad_bits_def bytes_of_bits_of_bytes zero_less_numeral)
qed

lemma B32_block:
  assumes "length a = 5"
  shows "B32 (a @ b) = map (\<lambda>d. b32_alphabet ! d) (digits 5 a) @ B32 b"
proof -
  have "digits 5 (a @ b) = digits 5 a @ digits 5 b"
    using assms by (intro digits_append) auto
  then show ?thesis
    using length_digits5_full [OF assms] by (simp add: B32_def Let_def)
qed

lemma B32_last:
  assumes "0 < length s" and "length s < 5"
  shows "B32 s = map (\<lambda>d. b32_alphabet ! d) (digits 5 s) @ replicate (8 - length (digits 5 s)) b32_pad"
  using length_digits5_partial [OF assms] by (auto simp: B32_def Let_def)

lemma b32_loop_B32: "b32_loop out (B32 s) = Ok (out @ s)"
proof (induction s arbitrary: out rule: measure_induct_rule [where f = length])
  case (less s)
  consider (empty) "s = []" | (part) "0 < length s" "length s < 5" | (full) "5 \<le> length s"
    by fastforce
  then show ?case
  proof cases
    case empty
    then show ?thesis by (simp add: B32_def digits_def pad_bits_def bits_of_bytes_def b32_loop.simps)
  next
    case part
    let ?ds = "digits 5 s"
    have l: "length ?ds \<in> {2, 4, 5, 7}" using part by (rule length_digits5_partial)
    have "b32_quantum [] (B32 s) = Ok (?ds, replicate (7 - length ?ds) b32_pad, True)"
      using b32_quantum_digits [OF digits5_lt, of "[]" s] b32_quantum_padded [OF l] l
      by (auto simp: B32_last [OF part])
    moreover have "B32 s \<noteq> []" using l by (auto simp: B32_last [OF part])
    ultimately show ?thesis by (subst b32_loop.simps) (simp add: bytes_of_digits5)
  next
    case full
    let ?a = "take 5 s" and ?b = "drop 5 s"
    have a: "length ?a = 5" using full by simp
    have B: "B32 s = map (\<lambda>d. b32_alphabet ! d) (digits 5 ?a) @ B32 ?b"
      using B32_block [OF a, of ?b] by simp
    have ds: "length (digits 5 ?a) = 8" using a by (rule length_digits5_full)
    have "b32_quantum [] (B32 s) = Ok (digits 5 ?a, B32 ?b, False)"
      using b32_quantum_digits [OF digits5_lt, of "[]" ?a "B32 ?b"] ds
      by (simp add: B b32_quantum_full)
    moreover have "B32 s \<noteq> []" using ds B by auto
    moreover have "b32_loop (out @ ?a) (B32 ?b) = Ok ((out @ ?a) @ ?b)"
      using full by (intro less.IH) simp
    ultimately show ?thesis
      by (subst b32_loop.simps) (simp add: bytes_of_digits5 Let_def)
  qed
qed

lemma B32_chars: "c \<in> set (B32 s) \<Longrightarrow> c \<in> set b32_alphabet \<union> {b32_pad}"
  using digits5_lt [of s] by (auto simp: B32_def Let_def b32_alphabet_facts(1) split: if_splits)

definition b32_char :: "char \<Rightarrow> bool" where
  "b32_char c = (c \<in> set b32_alphabet \<or> c = b32_pad)"

lemma B32Decode_B32: "B32Decode (B32 s) = Ok s"
proof -
  have "filter (\<lambda>c. c \<noteq> CHR 0x0A \<and> c \<noteq> CHR 0x0D) (B32 s) = B32 s"
    using B32_chars [of _ s] by (intro filter_True) (auto simp: b32_alphabet_def b32_pad_def)
  then show ?thesis by (simp add: B32Decode_def b32_loop_B32)
qed

interpretation b32: codec B32 B32Decode b32_char
  by unfold_locales (auto simp: B32Decode_B32 b32_char_def dest: B32_chars)

text \<open>C23. \<^verbatim>\<open>B32Decode\<close> undoes \<^verbatim>\<open>B32\<close> on every byte string, and the
  encoded text only has the letters A to Z, the digits 2 to 7 and the padding 8: no path separator
  and no dot, so a role name chosen by a client cannot leave the policy directory.\<close>

theorem B32_roundtrip:
  "B32Decode (B32 s) = Ok s \<and> set (B32 s) \<subseteq> set ''ABCDEFGHIJKLMNOPQRSTUVWXYZ2345678''"
proof
  show "B32Decode (B32 s) = Ok s" by (rule b32.dec_enc)
  show "set (B32 s) \<subseteq> set ''ABCDEFGHIJKLMNOPQRSTUVWXYZ2345678''"
  proof -
    have "''ABCDEFGHIJKLMNOPQRSTUVWXYZ2345678'' = b32_alphabet @ [b32_pad]"
      by (simp add: b32_alphabet_def b32_pad_def)
    then show ?thesis using b32.enc_chars [of _ s] by (auto simp only: b32_char_def set_append list.set)
  qed
qed

section \<open>Base64\<close>

text \<open>\<^verbatim>\<open>base64.URLEncoding\<close> and \<^verbatim>\<open>base64.StdEncoding\<close>, both with
  padding.\<close>

definition b64_url_alphabet :: string where
  "b64_url_alphabet = ''ABCDEFGHIJKLMNOPQRSTUVWXYZabcdefghijklmnopqrstuvwxyz0123456789-_''"

definition b64_std_alphabet :: string where
  "b64_std_alphabet = ''ABCDEFGHIJKLMNOPQRSTUVWXYZabcdefghijklmnopqrstuvwxyz0123456789+/''"

definition b64_encode :: "string \<Rightarrow> string \<Rightarrow> string" where
  "b64_encode alphabet s = (let ds = digits 6 s in
     map (\<lambda>d. alphabet ! d) ds @ replicate ((4 - length ds mod 4) mod 4) (CHR ''=''))"

lemma length_digits6: "8 * length s \<le> 6 * length (digits 6 s)"
  using length_digits [of 6 s] by (simp add: pad_bits_def)

lemma take_b64_encode:
  assumes "m * 6 \<le> 8 * n" and "n \<le> length s" and "n \<le> length t" and "take n s = take n t"
  shows "take m (b64_encode a s) = take m (b64_encode a t)"
proof -
  have l: "m \<le> length (digits 6 s)" "m \<le> length (digits 6 t)"
    using assms length_digits6 [of s] length_digits6 [of t] by linarith+
  have "take m (digits 6 s) = take m (digits 6 t)"
    using take_digits [of 6 m n s] take_digits [of 6 m n t] assms by simp
  then have "take m (map (\<lambda>d. a ! d) (digits 6 s)) = take m (map (\<lambda>d. a ! d) (digits 6 t))"
    by (simp add: take_map)
  then show ?thesis using l by (simp add: b64_encode_def Let_def)
qed

lemma length_b64_encode: "length (digits 6 s) \<le> length (b64_encode a s)"
  by (simp add: b64_encode_def Let_def)

end
