(* ===== verification/Url.thy ===== *)
theory Url
  imports Http_Values Codecs "HOL-Library.Char_ord" "HOL-Library.List_Lexorder"
begin

text \<open>
  The parts of \<^verbatim>\<open>net/url\<close> and \<^verbatim>\<open>net/http\<close> the code relies on: escaping and
  parsing of query strings, \<^verbatim>\<open>url.Parse\<close>, and the request record. The address inside
  the brackets of an IPv6 host is not validated, user information is kept unparsed, and the
  escaped form of a path is not kept. The helpers of \<^verbatim>\<open>requestutils\<close> that work on
  URLs are at the end.
\<close>

section \<open>Escaping\<close>

definition unreserved :: "char \<Rightarrow> bool" where
  "unreserved c = (is_upper c \<or> is_lower c \<or> is_digit c \<or> c \<in> {CHR ''-'', CHR ''_'', CHR ''.'', CHR ''~''})"

definition hex_digit :: "nat \<Rightarrow> char" where
  "hex_digit n = ''0123456789ABCDEF'' ! n"

definition unhex :: "char \<Rightarrow> nat option" where
  "unhex c = (if is_digit c then Some (code_of c - 48)
     else if 97 \<le> code_of c \<and> code_of c \<le> 102 then Some (code_of c - 87)
     else if 65 \<le> code_of c \<and> code_of c \<le> 70 then Some (code_of c - 55)
     else None)"

definition escape_char :: "char \<Rightarrow> string" where
  "escape_char c = (if unreserved c then [c] else if c = CHR '' '' then [CHR ''+'']
     else [CHR ''%'', hex_digit (code_of c div 16), hex_digit (code_of c mod 16)])"

definition query_escape :: "string \<Rightarrow> string" where
  "query_escape s = concat (map escape_char s)"

definition bad_escape :: gerr where
  "bad_escape = Plain ''invalid URL escape''"

text \<open>\<open>unescape True\<close> is the query mode, in which a plus sign stands for a blank.\<close>

fun unescape :: "bool \<Rightarrow> string \<Rightarrow> string result" where
  "unescape q [] = Ok []"
| "unescape q (c # s) =
     (if c = CHR ''%'' then
        (case s of
           a # b # s' \<Rightarrow>
             (case (unhex a, unhex b) of
                (Some x, Some y) \<Rightarrow> go_bind (unescape q s') (\<lambda>r. Ok (char_of (16 * x + y) # r))
              | _ \<Rightarrow> Err bad_escape)
         | _ \<Rightarrow> Err bad_escape)
      else go_bind (unescape q s) (\<lambda>r. Ok ((if q \<and> c = CHR ''+'' then CHR '' '' else c) # r)))"

abbreviation query_unescape :: "string \<Rightarrow> string result" where
  "query_unescape \<equiv> unescape True"

lemma unhex_hex_digit: "n < 16 \<Longrightarrow> unhex (hex_digit n) = Some n"
proof -
  assume n: "n < 16"
  have "list_all (\<lambda>n. unhex (hex_digit n) = Some n) [0..<16]" by code_simp
  then show ?thesis using n by (simp add: list_all_iff)
qed

lemma unreserved_hex_digit: "n < 16 \<Longrightarrow> unreserved (hex_digit n)"
proof -
  assume n: "n < 16"
  have "list_all (\<lambda>n. unreserved (hex_digit n)) [0..<16]" by code_simp
  then show ?thesis using n by (simp add: list_all_iff)
qed

lemma unreserved_not: "unreserved c \<Longrightarrow> c \<noteq> CHR ''%'' \<and> c \<noteq> CHR ''+''"
  by (auto simp: unreserved_def char_defs)

lemma unescape_escape_append: "unescape True (escape_char c @ t) = go_bind (unescape True t) (\<lambda>r. Ok (c # r))"
proof -
  have h: "code_of c div 16 < 16" "code_of c mod 16 < 16"
    using code_of_lt [of c] by auto
  have "char_of (16 * (code_of c div 16) + code_of c mod 16) = c"
    by (simp add: code_of_def)
  then show ?thesis
    using h unreserved_not [of c] by (auto simp: escape_char_def unhex_hex_digit)
qed

lemma unescape_query_escape: "unescape True (query_escape s) = Ok s"
  by (induction s) (auto simp: query_escape_def unescape_escape_append)

definition query_char :: "char \<Rightarrow> bool" where
  "query_char c = (unreserved c \<or> c = CHR ''+'' \<or> c = CHR ''%'')"

lemma query_escape_chars: "c \<in> set (query_escape s) \<Longrightarrow> query_char c"
proof -
  have "c \<in> set (escape_char d) \<Longrightarrow> query_char c" for d
  proof -
    have "code_of d div 16 < 16" using code_of_lt [of d] by linarith
    then have "unreserved (hex_digit (code_of d div 16))" "unreserved (hex_digit (code_of d mod 16))"
      by (simp_all add: unreserved_hex_digit)
    then show "c \<in> set (escape_char d) \<Longrightarrow> query_char c"
      by (auto simp: escape_char_def query_char_def split: if_splits)
  qed
  then show "c \<in> set (query_escape s) \<Longrightarrow> query_char c"
    by (auto simp: query_escape_def)
qed

interpretation qesc: codec query_escape query_unescape query_char
  by unfold_locales (auto simp: unescape_query_escape query_escape_chars)

lemma query_char_not: "query_char c \<Longrightarrow> c \<noteq> CHR ''&'' \<and> c \<noteq> CHR ''='' \<and> c \<noteq> CHR '';''"
  by (auto simp: query_char_def unreserved_def char_defs)

lemma query_escape_no_sep:
  "CHR ''&'' \<notin> set (query_escape s)" "CHR ''='' \<notin> set (query_escape s)" "CHR '';'' \<notin> set (query_escape s)"
  using qesc.enc_chars query_char_not by blast+

section \<open>Query strings\<close>

text \<open>One \<open>key=value\<close> piece of \<^verbatim>\<open>ParseQuery\<close>: \<open>None\<close> for an empty piece,
  which is skipped silently; an error is remembered and the piece skipped.\<close>

definition parse_piece :: "string \<Rightarrow> (string \<times> string) option result" where
  "parse_piece piece =
     (if CHR '';'' \<in> set piece then Err (Plain ''invalid semicolon separator in query'')
      else if piece = [] then Ok None
      else (let (key, val) = (case str_cut ''='' piece of None \<Rightarrow> (piece, []) | Some kv \<Rightarrow> kv) in
        go_bind (query_unescape key) (\<lambda>k. go_bind (query_unescape val) (\<lambda>v. Ok (Some (k, v))))))"

definition parse_step :: "string \<Rightarrow> mvals \<Rightarrow> mvals" where
  "parse_step piece m = (case parse_piece piece of Ok (Some (k, v)) \<Rightarrow> values_Add m k v | _ \<Rightarrow> m)"

definition parse_query :: "string \<Rightarrow> mvals" where
  "parse_query q = fold parse_step (str_split ''&'' q) []"

definition parse_query_strict :: "string \<Rightarrow> mvals result" where
  "parse_query_strict q =
     (if list_all (\<lambda>p. is_ok (parse_piece p)) (str_split ''&'' q) then Ok (parse_query q)
      else Err (Plain ''invalid query''))"

text \<open>\<^verbatim>\<open>Values.Encode\<close>.\<close>

definition query_pair :: "string \<Rightarrow> string \<Rightarrow> string" where
  "query_pair k v = query_escape k @ ''='' @ query_escape v"

definition values_Encode :: "mvals \<Rightarrow> string" where
  "values_Encode m =
     str_join ''&'' (concat (map (\<lambda>(k, vs). map (query_pair k) vs) (sort_key fst m)))"

definition vals_pairs :: "mvals \<Rightarrow> (string \<times> string) list" where
  "vals_pairs m = concat (map (\<lambda>(k, vs). map (Pair k) vs) m)"

lemma parse_piece_pair: "parse_piece (query_pair k v) = Ok (Some (k, v))"
proof -
  have "str_cut ''='' (query_pair k v) = Some (query_escape k, query_escape v)"
    unfolding query_pair_def using str_cut_char [OF query_escape_no_sep(2)] by simp
  moreover have "CHR '';'' \<notin> set (query_pair k v)" "query_pair k v \<noteq> []"
    using query_escape_no_sep(3) by (auto simp: query_pair_def)
  ultimately show ?thesis by (simp add: parse_piece_def qesc.dec_enc)
qed

lemma fold_parse_pairs:
  "values_vals (fold parse_step (map (\<lambda>(k, v). query_pair k v) ps) m) k =
     values_vals m k @ map snd (filter (\<lambda>p. fst p = k) ps)"
  by (induction ps arbitrary: m) (auto simp: parse_step_def parse_piece_pair qv.vals_add)

lemma values_Encode_pairs:
  "values_Encode m = str_join ''&'' (map (\<lambda>(k, v). query_pair k v) (vals_pairs (sort_key fst m)))"
  unfolding values_Encode_def vals_pairs_def
  by (rule arg_cong [where f = "str_join ''&''"]) (simp add: map_concat o_def split_def)

lemma filter_vals_pairs:
  "distinct (map fst m) \<Longrightarrow> map snd (filter (\<lambda>p. fst p = k) (vals_pairs m)) = values_vals m k"
proof (induction m)
  case (Cons a m)
  obtain k' vs where a: "a = (k', vs)" by (cases a)
  have "filter (\<lambda>p. fst p = k) (vals_pairs m) = []" if "k' = k"
    using Cons.prems a that by (auto simp: vals_pairs_def filter_empty_conv rev_image_eqI)
  then show ?case using Cons a by (auto simp: vals_pairs_def values_vals_def o_def)
qed (simp add: vals_pairs_def values_vals_def)

lemma parse_query_join:
  "values_vals (parse_query (str_join ''&'' (map (\<lambda>(k, v). query_pair k v) ps))) k =
     map snd (filter (\<lambda>p. fst p = k) ps)"
proof (cases "ps = []")
  case True
  have "parse_query [] = []"
    by (simp add: parse_query_def str_split.simps parse_step_def parse_piece_def)
  then show ?thesis using True by (simp add: values_vals_def)
next
  case False
  have "str_split ''&'' (str_join ''&'' (map (\<lambda>(k, v). query_pair k v) ps)) = map (\<lambda>(k, v). query_pair k v) ps"
    using False query_escape_no_sep(1) by (intro str_split_join) (auto simp: query_pair_def)
  then show ?thesis
    unfolding parse_query_def by (simp add: fold_parse_pairs) (simp add: values_vals_def)
qed

lemma values_vals_sort:
  assumes "distinct (map fst m)"
  shows "values_vals (sort_key fst m) = values_vals m"
proof -
  have "distinct (map fst (sort_key fst m))"
    using assms by (metis distinct_map distinct_sort inj_on_def set_sort)
  then have "map_of (sort_key fst m) = map_of m"
    using assms by (simp add: map_of_inject_set)
  then show ?thesis by (simp add: values_vals_def fun_eq_iff)
qed

lemma parse_query_Encode:
  assumes "distinct (map fst m)"
  shows "values_vals (parse_query (values_Encode m)) k = values_vals m k"
proof -
  have "distinct (map fst (sort_key fst m))"
    using assms by (metis distinct_map distinct_sort inj_on_def set_sort)
  then show ?thesis
    using assms by (simp add: values_Encode_pairs parse_query_join filter_vals_pairs values_vals_sort)
qed

lemma values_Get_Encode: "distinct (map fst m) \<Longrightarrow> values_Get (parse_query (values_Encode m)) k = values_Get m k"
  by (simp add: values_Get_def parse_query_Encode)

text \<open>What \<^verbatim>\<open>ParseQuery\<close> returns has each key once, with at least one value.\<close>

definition wf_query :: "mvals \<Rightarrow> bool" where
  "wf_query m = (distinct (map fst m) \<and> (\<forall>(k, vs) \<in> set m. vs \<noteq> []))"

lemma wf_query_Nil [simp]: "wf_query []"
  by (simp add: wf_query_def)

lemma wf_query_Add: "wf_query m \<Longrightarrow> wf_query (values_Add m k v)"
proof -
  assume wf: "wf_query m"
  have "set (values_Add m k v) \<subseteq> insert (k, values_vals m k @ [v]) (set m)"
    unfolding values_Add_def by (rule set_update_subset)
  then show ?thesis
    using wf qv.distinct_add [of m k v] by (fastforce simp: wf_query_def)
qed

lemma wf_query_Del: "wf_query m \<Longrightarrow> wf_query (values_Del m k)"
  using qv.distinct_del [of m k] by (auto simp: wf_query_def values_Del_def AList.delete_eq)

lemma wf_parse_query: "wf_query (parse_query q)"
proof -
  have "wf_query (fold parse_step ps m)" if "wf_query m" for ps m
    using that by (induction ps arbitrary: m)
      (auto simp: parse_step_def intro: wf_query_Add split: go.splits option.splits)
  then show ?thesis by (simp add: parse_query_def)
qed

lemma wf_query_Has: "wf_query m \<Longrightarrow> values_Has m k \<longleftrightarrow> values_vals m k \<noteq> []"
  by (auto simp: wf_query_def values_Has_def values_vals_def split: option.splits dest: map_of_SomeD)

lemma values_Has_Encode: "wf_query m \<Longrightarrow> values_Has (parse_query (values_Encode m)) k \<longleftrightarrow> values_Has m k"
  by (simp add: wf_query_Has wf_parse_query parse_query_Encode) (simp add: wf_query_def parse_query_Encode)


section \<open>url.Parse\<close>

record url =
  u_scheme :: string
  u_user :: "string option"
  u_host :: string
  u_path :: string
  u_rawquery :: string
  u_opaque :: string

definition empty_url :: url where
  "empty_url = \<lparr>u_scheme = [], u_user = None, u_host = [], u_path = [], u_rawquery = [], u_opaque = []\<rparr>"

abbreviation url_error :: "string \<Rightarrow> 'a result" where
  "url_error m \<equiv> Err (Plain m)"

definition scheme_char :: "char \<Rightarrow> bool" where
  "scheme_char c = (is_upper c \<or> is_lower c \<or> is_digit c \<or> c \<in> {CHR ''+'', CHR ''-'', CHR ''.''})"

definition get_scheme :: "string \<Rightarrow> (string \<times> string) result" where
  "get_scheme raw =
     (let p = takeWhile scheme_char raw; rest = dropWhile scheme_char raw in
      case raw of
        [] \<Rightarrow> Ok ([], raw)
      | c # _ \<Rightarrow>
          if c = CHR '':'' then url_error ''missing protocol scheme''
          else if is_upper c \<or> is_lower c then
            (case rest of d # rest' \<Rightarrow> if d = CHR '':'' then Ok (p, rest') else Ok ([], raw)
             | [] \<Rightarrow> Ok ([], raw))
          else Ok ([], raw))"

definition ctl_byte :: "char \<Rightarrow> bool" where
  "ctl_byte c = (code_of c < 32 \<or> code_of c = 127)"

text \<open>The text before and after the last occurrence of a byte.\<close>

definition cut_last :: "char \<Rightarrow> string \<Rightarrow> (string \<times> string) option" where
  "cut_last c s = map_option (\<lambda>(a, b). (rev b, rev a)) (str_cut [c] (rev s))"

definition valid_optional_port :: "string \<Rightarrow> bool" where
  "valid_optional_port p = (case p of [] \<Rightarrow> True | c # ds \<Rightarrow> c = CHR '':'' \<and> list_all is_digit ds)"

definition host_char :: "char \<Rightarrow> bool" where
  "host_char c = (128 \<le> code_of c \<or> unreserved c \<or> c \<in> set [CHR ''!'', CHR ''$'', CHR ''&'', CHR 0x27,
     CHR ''('', CHR '')'', CHR ''*'', CHR ''+'', CHR '','', CHR '';'', CHR ''='', CHR '':'', CHR ''['',
     CHR '']'', CHR ''<'', CHR ''>'', CHR 0x22])"

text \<open>The host mode of \<^verbatim>\<open>unescape\<close>: an escape may only stand for a byte from 128
  on, or for a percent sign, and other bytes must be host characters.\<close>

fun unescape_host :: "string \<Rightarrow> string result" where
  "unescape_host [] = Ok []"
| "unescape_host (c # s) =
     (if c = CHR ''%'' then
        (case s of
           a # b # s' \<Rightarrow>
             (case (unhex a, unhex b) of
                (Some x, Some y) \<Rightarrow>
                  if x < 8 \<and> \<not> (a = CHR ''2'' \<and> b = CHR ''5'') then Err bad_escape
                  else go_bind (unescape_host s') (\<lambda>r. Ok (char_of (16 * x + y) # r))
              | _ \<Rightarrow> Err bad_escape)
         | _ \<Rightarrow> Err bad_escape)
      else if \<not> host_char c then url_error ''invalid character in host name''
      else go_bind (unescape_host s) (\<lambda>r. Ok (c # r)))"

definition parse_host :: "string \<Rightarrow> string result" where
  "parse_host host =
     (if CHR ''['' \<in> set host then
        (case cut_last (CHR '']'') host of
           None \<Rightarrow> url_error ''missing ']' in host''
         | Some (_, port) \<Rightarrow>
             if valid_optional_port port then unescape_host host else url_error ''invalid port'')
      else case cut_last (CHR '':'') host of
        None \<Rightarrow> unescape_host host
      | Some (_, port) \<Rightarrow>
          if list_all is_digit port then unescape_host host else url_error ''invalid port'')"

definition valid_userinfo :: "string \<Rightarrow> bool" where
  "valid_userinfo s = list_all (\<lambda>c. unreserved c \<or> c \<in> set [CHR '':'', CHR ''!'', CHR ''$'', CHR ''&'',
     CHR 0x27, CHR ''('', CHR '')'', CHR ''*'', CHR ''+'', CHR '','', CHR '';'', CHR ''='', CHR ''%'', CHR ''@'']) s"

definition parse_authority :: "string \<Rightarrow> (string option \<times> string) result" where
  "parse_authority a =
     (case cut_last (CHR ''@'') a of
        None \<Rightarrow> go_bind (parse_host a) (\<lambda>h. Ok (None, h))
      | Some (userinfo, host) \<Rightarrow>
          go_bind (parse_host host) (\<lambda>h.
            if valid_userinfo userinfo \<and> is_ok (unescape False userinfo) then Ok (Some userinfo, h)
            else url_error ''net/url: invalid userinfo''))"

definition cut_query :: "string \<Rightarrow> string \<times> string" where
  "cut_query s = (case str_cut ''?'' s of None \<Rightarrow> (s, []) | Some (a, q) \<Rightarrow> (a, q))"

text \<open>\<^verbatim>\<open>parse\<close> without the request mode, and \<^verbatim>\<open>Parse\<close>, which cuts a
  fragment off first.\<close>

definition parse_nofrag :: "string \<Rightarrow> url result" where
  "parse_nofrag raw =
     (if list_ex ctl_byte raw then url_error ''net/url: invalid control character in URL''
      else if raw = ''*'' then Ok (empty_url\<lparr>u_path := ''*''\<rparr>)
      else go_bind (get_scheme raw) (\<lambda>(sch, rest0).
        let scheme = to_lower sch; (rest, q) = cut_query rest0;
            u = empty_url\<lparr>u_scheme := scheme, u_rawquery := q\<rparr> in
        if \<not> has_prefix rest ''/'' \<and> scheme \<noteq> [] then Ok (u\<lparr>u_opaque := rest\<rparr>)
        else if \<not> has_prefix rest ''/'' \<and> CHR '':'' \<in> set (takeWhile (\<lambda>c. c \<noteq> CHR ''/'') rest)
        then url_error ''first path segment in URL cannot contain colon''
        else if (scheme \<noteq> [] \<or> \<not> has_prefix rest ''///'') \<and> has_prefix rest ''//'' then
          (let a = drop 2 rest; auth = takeWhile (\<lambda>c. c \<noteq> CHR ''/'') a; p = dropWhile (\<lambda>c. c \<noteq> CHR ''/'') a in
           go_bind (parse_authority auth) (\<lambda>(user, host).
           go_bind (unescape False p) (\<lambda>path. Ok (u\<lparr>u_user := user, u_host := host, u_path := path\<rparr>))))
        else go_bind (unescape False rest) (\<lambda>path. Ok (u\<lparr>u_path := path\<rparr>))))"

definition parse_url :: "string \<Rightarrow> url result" where
  "parse_url raw =
     (let (u, frag) = (case str_cut ''#'' raw of None \<Rightarrow> (raw, []) | Some p \<Rightarrow> p) in
      go_bind (parse_nofrag u) (\<lambda>r. if is_ok (unescape False frag) then Ok r else Err bad_escape))"

section \<open>Requests\<close>

text \<open>The fields of \<^verbatim>\<open>http.Request\<close> the code reads or writes. The form is the one
  \<^verbatim>\<open>ParseForm\<close> leaves; \<open>r_length\<close> is \<^verbatim>\<open>ContentLength\<close>.\<close>

record request =
  r_method :: string
  r_url :: url
  r_host :: string
  r_header :: mvals
  r_uri :: string
  r_remote :: string
  r_length :: int
  r_body :: string

definition url_Query :: "url \<Rightarrow> mvals" where
  "url_Query u = parse_query (u_rawquery u)"

abbreviation r_query :: "request \<Rightarrow> mvals" where
  "r_query r \<equiv> url_Query (r_url r)"

definition set_rawquery :: "request \<Rightarrow> string \<Rightarrow> request" where
  "set_rawquery r q = r\<lparr>r_url := (r_url r)\<lparr>u_rawquery := q\<rparr>\<rparr>"

lemma r_query_set_Encode:
  "distinct (map fst m) \<Longrightarrow> values_vals (r_query (set_rawquery r (values_Encode m))) k = values_vals m k"
  by (simp add: set_rawquery_def url_Query_def parse_query_Encode)

lemma r_query_Get_Encode:
  "distinct (map fst m) \<Longrightarrow> values_Get (r_query (set_rawquery r (values_Encode m))) k = values_Get m k"
  by (simp add: set_rawquery_def url_Query_def values_Get_Encode)

lemma set_rawquery_frame [simp]:
  "r_method (set_rawquery r q) = r_method r" "r_header (set_rawquery r q) = r_header r"
  "r_host (set_rawquery r q) = r_host r" "r_uri (set_rawquery r q) = r_uri r"
  "u_path (r_url (set_rawquery r q)) = u_path (r_url r)"
  "u_host (r_url (set_rawquery r q)) = u_host (r_url r)"
  "r_length (set_rawquery r q) = r_length r" "r_body (set_rawquery r q) = r_body r"
  by (simp_all add: set_rawquery_def)

lemma wf_url_Query: "wf_query (url_Query u)"
  by (simp add: url_Query_def wf_parse_query)

lemma distinct_url_Query: "distinct (map fst (url_Query u))"
  using wf_url_Query [of u] by (simp add: wf_query_def)

subsection \<open>The authority of a parsed URL\<close>

lemma takeWhile_noslash:
  "CHR ''/'' \<notin> set h \<Longrightarrow> takeWhile (\<lambda>c. c \<noteq> CHR ''/'') (h @ CHR ''/'' # p) = h"
  "CHR ''/'' \<notin> set h \<Longrightarrow> dropWhile (\<lambda>c. c \<noteq> CHR ''/'') (h @ CHR ''/'' # p) = CHR ''/'' # p"
  by (induction h) auto

lemma str_cut_char_append:
  "c \<notin> set a \<Longrightarrow> str_cut [c] (a @ s) = map_option (\<lambda>(x, y). (a @ x, y)) (str_cut [c] s)"
  by (induction a) (auto simp: option.map_comp o_def split_def option.map_ident)

lemma get_scheme_colon:
  assumes "sch \<noteq> []" and "is_upper (hd sch) \<or> is_lower (hd sch)" and "list_all scheme_char sch"
  shows "get_scheme (sch @ CHR '':'' # rest) = Ok (sch, rest)"
proof -
  have "\<not> scheme_char (CHR '':'')" by (simp add: scheme_char_def char_defs)
  then have "takeWhile scheme_char (sch @ CHR '':'' # rest) = sch"
    "dropWhile scheme_char (sch @ CHR '':'' # rest) = CHR '':'' # rest"
    using assms(3) by (simp_all add: list_all_iff takeWhile_append dropWhile_append)
  moreover have "\<not> is_upper (CHR '':'')" "\<not> is_lower (CHR '':'')" by (simp_all add: char_defs)
  ultimately show ?thesis
    using assms by (cases sch) (auto simp: get_scheme_def Let_def)
qed

definition plain_authority :: "string \<Rightarrow> bool" where
  "plain_authority h = (list_all (\<lambda>c. c \<notin> {CHR ''/'', CHR ''?'', CHR ''#''}) h)"

lemma scheme_literals:
  "to_lower ''http'' = ''http''" "to_lower ''https'' = ''https''"
  "list_all scheme_char ''http''" "list_all scheme_char ''https''" "is_lower (CHR ''h'')"
  by code_simp+

lemma parse_nofrag_authority:
  assumes "sch = ''http'' \<or> sch = ''https''" and "plain_authority h"
    and "parse_nofrag (sch @ ''://'' @ h @ CHR ''/'' # p) = Ok u"
  shows "\<exists>user. parse_authority h = Ok (user, u_host u) \<and> u_user u = user \<and> u_scheme u = sch"
proof -
  have g: "get_scheme (sch @ CHR '':'' # ''//'' @ h @ CHR ''/'' # p) = Ok (sch, ''//'' @ h @ CHR ''/'' # p)"
    using assms(1) scheme_literals by (intro get_scheme_colon) auto
  have lower: "to_lower sch = sch" using assms(1) scheme_literals by auto
  have nq: "CHR ''?'' \<notin> set (''//'' @ h @ ''/'')" and ns: "CHR ''/'' \<notin> set h"
    using assms(2) by (auto simp: plain_authority_def list_all_iff)
  obtain p' q where cq: "cut_query (''//'' @ h @ CHR ''/'' # p) = (''//'' @ h @ CHR ''/'' # p', q)"
    using str_cut_char_append [OF nq, of p]
    by (cases "str_cut ''?'' p") (auto simp: cut_query_def)
  have ne: "sch @ ''://'' @ h @ CHR ''/'' # p \<noteq> ''*''" "sch \<noteq> []" using assms(1) by auto
  show ?thesis
    using assms(3) g cq ne lower ns
    by (auto simp: parse_nofrag_def has_prefix_def takeWhile_noslash go_bind_Ok_iff Let_def split: if_splits)
qed

lemma parse_url_fragment:
  assumes "CHR ''#'' \<notin> set pre" and "parse_url (pre @ p) = Ok u"
  shows "\<exists>p'. parse_nofrag (pre @ p') = Ok u"
proof (cases "str_cut ''#'' p")
  case None
  then have "str_cut ''#'' (pre @ p) = None"
    using str_cut_char_append [OF assms(1), of p] by simp
  then show ?thesis using assms(2) by (auto simp: parse_url_def go_bind_Ok_iff split: if_splits)
next
  case (Some xy)
  then have "str_cut ''#'' (pre @ p) = Some (pre @ fst xy, snd xy)"
    using str_cut_char_append [OF assms(1), of p] by (simp add: split_def)
  then show ?thesis using assms(2) by (auto simp: parse_url_def go_bind_Ok_iff split: if_splits)
qed

lemma parse_url_authority:
  assumes "sch = ''http'' \<or> sch = ''https''" and "plain_authority h"
    and "parse_url (sch @ ''://'' @ h @ CHR ''/'' # p) = Ok u"
  shows "\<exists>user. parse_authority h = Ok (user, u_host u) \<and> u_user u = user \<and> u_scheme u = sch"
proof -
  let ?pre = "sch @ ''://'' @ h @ ''/''"
  have shift: "?pre @ q = sch @ ''://'' @ h @ CHR ''/'' # q" for q by simp
  have "CHR ''#'' \<notin> set h" using assms(2) by (auto simp: plain_authority_def list_all_iff)
  moreover have "CHR ''#'' \<notin> set sch" using assms(1) by (elim disjE) simp_all
  ultimately have nf: "CHR ''#'' \<notin> set ?pre" by simp
  obtain p' where "parse_nofrag (?pre @ p') = Ok u"
    using parse_url_fragment [OF nf, of p u, unfolded shift, OF assms(3)] unfolding shift by (rule exE)
  then have "parse_nofrag (sch @ ''://'' @ h @ CHR ''/'' # p') = Ok u" unfolding shift .
  then show ?thesis by (rule parse_nofrag_authority [OF assms(1,2)])
qed

end
