(* ===== verification/Request_Utils.thy ===== *)
theory Request_Utils
  imports Url
begin

text \<open>
  Package \<^verbatim>\<open>requestutils\<close>: the credential scope of a request
  (\<^verbatim>\<open>amz-credential-value.go\<close>), the reconstruction and comparison of URLs
  (\<^verbatim>\<open>http-request.go\<close>) and query parameters of a URL (\<^verbatim>\<open>string-url.go\<close>).
\<close>

section \<open>Credential scope\<close>

datatype credential_part = CredentialPartAccessKeyId | CredentialPartDate | CredentialPartRegionName
  | CredentialPartServiceName | CredentialPartType

fun part_index :: "credential_part \<Rightarrow> nat" where
  "part_index CredentialPartAccessKeyId = 0"
| "part_index CredentialPartDate = 1"
| "part_index CredentialPartRegionName = 2"
| "part_index CredentialPartServiceName = 3"
| "part_index CredentialPartType = 4"

definition index_panic :: string where
  "index_panic = ''index out of range''"

text \<open>Indexing a slice, which panics out of range.\<close>

definition go_index :: "'a list \<Rightarrow> nat \<Rightarrow> 'a result" where
  "go_index xs i = (if i < length xs then Ok (xs ! i) else Panic index_panic)"

definition GetCredentialPart :: "string \<Rightarrow> credential_part \<Rightarrow> string result" where
  "GetCredentialPart credentialString credentialPart =
     (let parts = str_split ''/'' credentialString in
      go_bind (go_index parts (part_index CredentialPartServiceName)) (\<lambda>service.
        if service \<noteq> ''s3'' then Err (Plain ''authorization header was not for S3'')
        else go_bind (go_index parts (part_index CredentialPartType)) (\<lambda>type.
          if type \<noteq> ''aws4_request'' then
            Err (usererror_New (Some (Plain (''unsupported format credentialString '' @ credentialString)))
                   ''authorization header was not a supported sigv4'')
          else go_index parts (part_index credentialPart))))"

definition signAlgorithm :: string where
  "signAlgorithm = ''AWS4-HMAC-SHA256''"

definition expectedAuthorizationStartWithCredential :: string where
  "expectedAuthorizationStartWithCredential = ''AWS4-HMAC-SHA256 Credential=''"

definition getSignatureCredentialStringFromRequestAuthHeader :: "string \<Rightarrow> string result" where
  "getSignatureCredentialStringFromRequestAuthHeader authorizationHeader =
     (if authorizationHeader = [] then
        Err (Plain ''programming error should use empty authHeader to get credential part'')
      else if \<not> has_prefix authorizationHeader expectedAuthorizationStartWithCredential then
        Err (Plain ''invalid authorization header'')
      else Ok (hd (str_split '','' (drop (length expectedAuthorizationStartWithCredential) authorizationHeader))))"

definition getSignatureCredentialStringFromRequestQParams :: "mvals \<Rightarrow> string result" where
  "getSignatureCredentialStringFromRequestQParams qParams =
     (if values_Get qParams AmzAlgorithmKey \<noteq> signAlgorithm then
        Err (Plain ''no Authorization header nor x-amz-algorithm query parameter present'')
      else if values_Get qParams AmzCredentialKey = [] then
        Err (Plain ''empty X-Amz-Credential parameter'')
      else Ok (values_Get qParams AmzCredentialKey))"

definition GetSignatureCredentialPartFromRequest :: "request \<Rightarrow> credential_part \<Rightarrow> string result" where
  "GetSignatureCredentialPartFromRequest r credentialPart =
     (let authorizationHeader = header_Get (r_header r) AuthorizationHeader in
      go_bind
        (if authorizationHeader \<noteq> [] then getSignatureCredentialStringFromRequestAuthHeader authorizationHeader
         else getSignatureCredentialStringFromRequestQParams (r_query r))
        (\<lambda>credentialString. GetCredentialPart credentialString credentialPart))"

text \<open>The panic of a malformed credential is not an error value: it passes through.\<close>

definition GetRegionFromRequest :: "request \<Rightarrow> string \<Rightarrow> string result" where
  "GetRegionFromRequest req fallback =
     (case GetSignatureCredentialPartFromRequest req CredentialPartRegionName of
        Ok regionName \<Rightarrow> Ok regionName
      | Err _ \<Rightarrow> Ok fallback
      | Panic m \<Rightarrow> Panic m)"

section \<open>URLs\<close>

definition FullUrlFromRequest :: "request \<Rightarrow> string" where
  "FullUrlFromRequest req =
     (let scheme = (if u_scheme (r_url req) = [] then ''https'' else u_scheme (r_url req)) in
      scheme @ ''://'' @ r_host req @ u_path (r_url req) @ ''?'' @ u_rawquery (r_url req))"

text \<open>\<^verbatim>\<open>IsSameQuery\<close>: the values of a key are compared by number and by membership of the
  first map's values in the second's.\<close>

definition IsSameQuery :: "mvals \<Rightarrow> mvals \<Rightarrow> bool" where
  "IsSameQuery qVals1 qVals2 =
     (if length qVals1 \<noteq> length qVals2 then False
      else list_all (\<lambda>(valKey1, valVals1).
        case map_of qVals2 valKey1 of
          None \<Rightarrow> False
        | Some valVals2 \<Rightarrow>
            length valVals1 = length valVals2 \<and> list_all (\<lambda>v. v \<in> set valVals2) valVals1) qVals1)"

definition CompareRequestWithUrl :: "request \<Rightarrow> string \<Rightarrow> (bool \<times> bool \<times> bool \<times> bool) result" where
  "CompareRequestWithUrl req inputUrl =
     go_bind (parse_url inputUrl) (\<lambda>u.
       Ok (u_scheme u = u_scheme (r_url req), u_host u = u_host (r_url req), u_path u = u_path (r_url req),
           IsSameQuery (url_Query u) (r_query req)))"

definition GetQueryParamsFromUrl :: "string \<Rightarrow> mvals result" where
  "GetQueryParamsFromUrl inputUrl = go_bind (parse_url inputUrl) (\<lambda>u. parse_query_strict (u_rawquery u))"

section \<open>Properties\<close>

text \<open>The scope \<^verbatim>\<open><access key>/<date>/<region>/s3/aws4_request\<close>.\<close>

definition scope_string :: "string list \<Rightarrow> string" where
  "scope_string parts = str_join ''/'' parts"

definition scope_ok :: "string list \<Rightarrow> bool" where
  "scope_ok parts = (length parts = 5 \<and> list_all (\<lambda>p. CHR ''/'' \<notin> set p) parts
     \<and> parts ! 3 = ''s3'' \<and> parts ! 4 = ''aws4_request'')"

lemma scope_split: "scope_ok parts \<Longrightarrow> str_split ''/'' (scope_string parts) = parts"
  unfolding scope_ok_def scope_string_def
  by (rule str_split_join) (auto simp: list_all_iff)

lemma part_index_lt: "part_index p < 5"
  by (cases p) simp_all

lemma GetCredentialPart_scope:
  "scope_ok parts \<Longrightarrow> GetCredentialPart (scope_string parts) p = Ok (parts ! part_index p)"
  using part_index_lt [of p]
  by (simp add: GetCredentialPart_def scope_split go_index_def) (auto simp: scope_ok_def)

text \<open>Reading any part of the credential scope of a request whose authorization header
  carries a well-formed scope gives back exactly the part that was written, whatever follows it
  in the header.\<close>

lemma GetSignatureCredentialPart_roundtrip:
  assumes "scope_ok parts" and "list_all (\<lambda>p. CHR '','' \<notin> set p) parts"
    and "header_Get (r_header r) ''Authorization'' =
         expectedAuthorizationStartWithCredential @ scope_string parts @ '','' @ rest"
  shows "GetSignatureCredentialPartFromRequest r p = Ok (parts ! part_index p)"
proof -
  have nc: "CHR '','' \<notin> set (str_join ''/'' ps)" if "list_all (\<lambda>p. CHR '','' \<notin> set p) ps" for ps
    using that by (induction ps rule: induct_list012) auto
  have "str_split '','' (scope_string parts @ '','' @ rest) = scope_string parts # str_split '','' rest"
    using str_split_char_Cons [OF nc [OF assms(2)], of rest] by (simp add: scope_string_def)
  moreover have "expectedAuthorizationStartWithCredential \<noteq> []"
    by (simp add: expectedAuthorizationStartWithCredential_def)
  ultimately have "getSignatureCredentialStringFromRequestAuthHeader
      (expectedAuthorizationStartWithCredential @ scope_string parts @ '','' @ rest) = Ok (scope_string parts)"
    by (simp add: getSignatureCredentialStringFromRequestAuthHeader_def has_prefix_def)
  then show ?thesis using assms(1,3) \<open>expectedAuthorizationStartWithCredential \<noteq> []\<close>
    by (simp add: GetSignatureCredentialPartFromRequest_def GetCredentialPart_scope)
qed

lemma GetSignatureCredentialPart_roundtrip_witness:
  "\<exists>r. GetSignatureCredentialPartFromRequest r CredentialPartRegionName = Ok ''eu''"
proof -
  let ?parts = "[''AK'', ''20240101'', ''eu'', ''s3'', ''aws4_request'']"
  let ?r = "\<lparr>r_method = ''GET'', r_url = empty_url, r_host = [], r_header =
      [(''Authorization'', [expectedAuthorizationStartWithCredential @ scope_string ?parts @ '','' @ '' SignedHeaders=host''])],
      r_uri = [], r_remote = [], r_length = 0, r_body = []\<rparr>"
  have ok: "scope_ok ?parts" "list_all (\<lambda>p. CHR '','' \<notin> set p) ?parts" by code_simp+
  have "header_Get (r_header ?r) ''Authorization'' =
      expectedAuthorizationStartWithCredential @ scope_string ?parts @ '','' @ '' SignedHeaders=host''"
    by code_simp
  from GetSignatureCredentialPart_roundtrip [OF ok this, of CredentialPartRegionName]
  show ?thesis by (intro exI [of _ ?r]) simp
qed

text \<open>A credential with fewer than four slash-separated parts, which any client can send, is
  an index out of range: the request handler panics instead of answering that the header is
  malformed.\<close>

theorem GetCredentialPart_short_panics:
  assumes "length (str_split ''/'' s) < 4"
  shows "GetCredentialPart s p = Panic index_panic"
  using assms by (simp add: GetCredentialPart_def go_index_def)

lemma GetCredentialPart_short_panics_witness:
  "GetCredentialPart ''AKID'' CredentialPartAccessKeyId = Panic index_panic"
  by (rule GetCredentialPart_short_panics) code_simp

text \<open>What the comparison of queries means for keys with one value each.\<close>

definition single_valued :: "mvals \<Rightarrow> bool" where
  "single_valued m = (distinct (map fst m) \<and> list_all (\<lambda>(_, vs). length vs = 1) m)"

lemma map_of_single:
  "single_valued m \<Longrightarrow> map_of m k = Some vs \<Longrightarrow> \<exists>v. vs = [v]"
  by (drule map_of_SomeD) (fastforce simp: single_valued_def list_all_iff length_Suc_conv)

lemma same_keys_by_count:
  fixes m1 m2 :: mvals
  assumes "distinct (map fst m1)" and "distinct (map fst m2)" and "length m1 = length m2"
    and "dom (map_of m1) \<subseteq> dom (map_of m2)"
  shows "dom (map_of m1) = dom (map_of m2)"
proof -
  have card: "distinct (map fst m) \<Longrightarrow> card (dom (map_of m)) = length m" for m :: mvals
    using distinct_card [of "map fst m"] by (simp add: dom_map_of_conv_image_fst)
  show ?thesis
    by (rule card_subset_eq) (use assms card [of m1] card [of m2] in \<open>auto simp: finite_dom_map_of\<close>)
qed

text \<open>For queries without repeated keys \<^verbatim>\<open>IsSameQuery\<close> decides equality of the two
  maps, although it only looks from the first map into the second.\<close>

theorem IsSameQuery_single:
  assumes "single_valued m1" and "single_valued m2"
  shows "IsSameQuery m1 m2 \<longleftrightarrow> map_of m1 = map_of m2"
proof
  assume eq: "map_of m1 = map_of m2"
  then have "set m1 = set m2" using assms by (intro map_of_eq_set_eq) (simp_all add: single_valued_def)
  then have "length m1 = length m2"
    using assms distinct_card [of "map fst m1"] distinct_card [of "map fst m2"] by (simp add: single_valued_def)
  moreover have "map_of m2 a = Some b" if "(a, b) \<in> set m1" for a b
    using that assms(1) eq by (metis map_of_is_SomeI single_valued_def)
  ultimately show "IsSameQuery m1 m2"
    by (fastforce simp: IsSameQuery_def list_all_iff)
next
  assume same: "IsSameQuery m1 m2"
  have sub: "map_of m2 k = Some vs" if k: "map_of m1 k = Some vs" for k vs
  proof -
    obtain v where v: "vs = [v]" using map_of_single [OF assms(1) k] by blast
    obtain ws where ws: "map_of m2 k = Some ws" "set vs \<subseteq> set ws"
      using same map_of_SomeD [OF k] by (fastforce simp: IsSameQuery_def list_all_iff split: if_splits option.splits)
    then show ?thesis using v map_of_single [OF assms(2) ws(1)] by auto
  qed
  have "dom (map_of m1) \<subseteq> dom (map_of m2)" using sub by (metis domD domI subsetI)
  moreover have "length m1 = length m2" using same by (simp add: IsSameQuery_def split: if_splits)
  ultimately have "dom (map_of m1) = dom (map_of m2)"
    using assms by (intro same_keys_by_count) (simp_all add: single_valued_def)
  then show "map_of m1 = map_of m2"
    using sub by (intro ext) (metis domIff not_None_eq)
qed

lemma IsSameQuery_single_witness:
  "IsSameQuery [(''a'', [''1'']), (''b'', [''2''])] [(''b'', [''2'']), (''a'', [''1''])] \<longleftrightarrow>
   map_of [(''a'', [''1'']), (''b'', [''2''])] = map_of [(''b'', [''2'']), (''a'', [''1''])]"
  by (rule IsSameQuery_single) (simp_all add: single_valued_def)

text \<open>With repeated keys the comparison is not symmetric: it accepts two values that are
  equal against two different ones, and refuses the same pair the other way round.\<close>

theorem IsSameQuery_asymmetric:
  "x \<noteq> y \<Longrightarrow> IsSameQuery [(k, [x, x])] [(k, [x, y])] \<and> \<not> IsSameQuery [(k, [x, y])] [(k, [x, x])]"
  by (simp add: IsSameQuery_def)

lemma IsSameQuery_asymmetric_witness:
  "IsSameQuery [(''k'', [''1'', ''1''])] [(''k'', [''1'', ''2''])]
     \<and> \<not> IsSameQuery [(''k'', [''1'', ''2''])] [(''k'', [''1'', ''1''])]"
proof -
  have "''1'' \<noteq> ''2''" by simp
  then show ?thesis by (rule IsSameQuery_asymmetric)
qed

end
