(* ===== verification/Numbers.thy ===== *)
theory Numbers
  imports User_Errors "HOL-Library.Word"
begin

text \<open>
  Numbers as the code prints and reads them (\<^verbatim>\<open>strconv\<close>), and 64-bit signed arithmetic:
  a Go \<^verbatim>\<open>int\<close>, \<^verbatim>\<open>int64\<close> or \<^verbatim>\<open>time.Duration\<close> is the \<open>int\<close> in
  \<open>int64_range\<close> that the 64-bit word stands for, and \<open>wrap64\<close> is what an operation leaves in it.
  A \<^verbatim>\<open>time.Time\<close> is a number of nanoseconds since the epoch (an \<open>int\<close>: the type covers
  billions of years and the code never leaves its range).
\<close>

section \<open>Decimal numbers\<close>

definition digit_char :: "nat \<Rightarrow> char" where
  "digit_char d = char_of (48 + d)"

fun dec_string :: "nat \<Rightarrow> string" where
  "dec_string n = (if n < 10 then [digit_char n] else dec_string (n div 10) @ [digit_char (n mod 10)])"

declare dec_string.simps [simp del]

definition dec_value :: "string \<Rightarrow> nat" where
  "dec_value s = foldl (\<lambda>a c. a * 10 + (of_char c - 48)) 0 s"

lemma is_digit_range: "is_digit c \<longleftrightarrow> 48 \<le> (of_char c :: nat) \<and> (of_char c :: nat) \<le> 57"
  by (simp add: is_digit_def code_of_def)

lemma of_digit_char: "d < 10 \<Longrightarrow> (of_char (digit_char d) :: nat) = 48 + d"
  by (simp add: digit_char_def)

lemma dec_value_snoc: "dec_value (s @ [c]) = dec_value s * 10 + (of_char c - 48)"
  by (simp add: dec_value_def)

lemma dec_value_string [simp]: "dec_value (dec_string n) = n"
proof (induction n rule: dec_string.induct)
  case (1 n)
  show ?case
  proof (cases "n < 10")
    case True
    then show ?thesis by (subst dec_string.simps) (simp add: dec_value_def of_digit_char)
  next
    case False
    then show ?thesis using 1 by (subst dec_string.simps) (simp add: dec_value_snoc of_digit_char)
  qed
qed

lemma dec_string_digits: "list_all is_digit (dec_string n)"
proof (induction n rule: dec_string.induct)
  case (1 n)
  have "d < 10 \<Longrightarrow> is_digit (digit_char d)" for d
    by (simp add: is_digit_range of_digit_char)
  then show ?case using 1 by (subst dec_string.simps) simp
qed

lemma dec_string_not_Nil [simp]: "dec_string n \<noteq> []"
  by (subst dec_string.simps) simp

lemma dec_string_inj: "dec_string m = dec_string n \<longleftrightarrow> m = n"
  by (metis dec_value_string)

definition int_string :: "int \<Rightarrow> string" where
  "int_string i = (if i < 0 then CHR ''-'' # dec_string (nat (- i)) else dec_string (nat i))"

section \<open>Signed 64-bit integers\<close>

definition wrap64 :: "int \<Rightarrow> int" where
  "wrap64 i = sint (word_of_int i :: 64 word)"

definition int64_range :: "int \<Rightarrow> bool" where
  "int64_range i = (- (2 ^ 63) \<le> i \<and> i < 2 ^ 63)"

lemma wrap64_signed: "wrap64 i = signed_take_bit 63 i"
  unfolding wrap64_def sint_sbintrunc' by simp

lemma wrap64_id: "int64_range i \<Longrightarrow> wrap64 i = i"
  unfolding wrap64_signed int64_range_def using signed_take_bit_int_eq_self [of 63 i] by blast

lemma wrap64_range: "int64_range (wrap64 i)"
  unfolding wrap64_signed int64_range_def
  using signed_take_bit_int_greater_eq_minus_exp [of 63 i] signed_take_bit_int_less_exp [of 63 i] by (rule conjI)

lemma wrap64_eq: "wrap64 i = (i + 2 ^ 63) mod 2 ^ 64 - 2 ^ 63"
  unfolding wrap64_signed using signed_take_bit_eq_take_bit_shift [of 63 i]
  by (simp only: take_bit_eq_mod) simp

text \<open>\<^verbatim>\<open>strconv.Atoi\<close> and \<^verbatim>\<open>strconv.ParseInt(s, 10, 64)\<close>: an optional sign, digits
  only, and an error out of the range of 64 bits.\<close>

definition num_error :: "string \<Rightarrow> gerr" where
  "num_error s = Plain (''strconv.Atoi: parsing '' @ s)"

definition parse_digits :: "int \<Rightarrow> string \<Rightarrow> string \<Rightarrow> int result" where
  "parse_digits sg ds s =
     (if ds = [] \<or> \<not> list_all is_digit ds then Err (num_error s)
      else let v = sg * int (dec_value ds) in
        if int64_range v then Ok v else Err (num_error s))"

definition go_Atoi :: "string \<Rightarrow> int result" where
  "go_Atoi s =
     (case s of
        [] \<Rightarrow> Err (num_error s)
      | c # ds \<Rightarrow> if c = CHR ''-'' then parse_digits (-1) ds s
                  else if c = CHR ''+'' then parse_digits 1 ds s
                  else parse_digits 1 s s)"

lemma go_Atoi_range: "go_Atoi s = Ok v \<Longrightarrow> int64_range v"
  by (auto simp: go_Atoi_def parse_digits_def Let_def split: list.splits if_splits)

lemma go_Atoi_dec_string: "int64_range (int n) \<Longrightarrow> go_Atoi (dec_string n) = Ok (int n)"
proof -
  assume r: "int64_range (int n)"
  obtain c ds where s: "dec_string n = c # ds" by (cases "dec_string n") simp_all
  have d: "list_all is_digit (c # ds)" using dec_string_digits [of n] s by simp
  then have "c \<noteq> CHR ''-''" "c \<noteq> CHR ''+''"
    by (auto simp: is_digit_range)
  then show ?thesis using r d dec_value_string [of n]
    by (simp add: go_Atoi_def parse_digits_def s)
qed

section \<open>Durations\<close>

definition time_Second :: int where
  "time_Second = 1000000000"

definition time_Duration_seconds :: "int \<Rightarrow> int" where
  "time_Duration_seconds n = wrap64 (n * time_Second)"

lemma time_Duration_seconds_exact:
  "\<bar>n\<bar> \<le> 9223372036 \<Longrightarrow> time_Duration_seconds n = n * time_Second"
  unfolding time_Duration_seconds_def
  by (rule wrap64_id) (simp add: int64_range_def time_Second_def, linarith)

end
