(* ===== verification/Enums.thy ===== *)
theory Enums
  imports Numbers
begin

text \<open>
  The enumerations of the code with the tables generated for them: error codes
  (\<^verbatim>\<open>aws/service/shared-errors.go\<close>, \<^verbatim>\<open>s3/s3-errors.go\<close>, \<^verbatim>\<open>sts/sts-errors.go\<close>), API
  operations (\<^verbatim>\<open>s3/api\<close>, \<^verbatim>\<open>sts/api\<close>), authentication types and backend capabilities. A value
  is its integer in Go; \<open>iota\<close> gives the integer of a constructor. The generated
  \<^verbatim>\<open>String\<close> methods slice one string of names at an index table; they are modelled as such,
  and the names they print are lemmas.
\<close>

section \<open>The generated String method\<close>

definition stringer_String :: "string \<Rightarrow> string \<Rightarrow> nat list \<Rightarrow> int \<Rightarrow> string" where
  "stringer_String type_name names index i =
     (if i < 0 \<or> i \<ge> int (length index) - 1
      then type_name @ ''('' @ int_string i @ '')''
      else take (index ! Suc (nat i) - index ! nat i) (drop (index ! nat i) names))"

section \<open>Error codes shared by the services\<close>

datatype aws_error_code = ErrAWSNone | ErrAWSInternalError | ErrAWSInvalidSignature | ErrAWSAccessDenied | ErrInvalidAccessKeyId | ErrAuthorizationHeaderMalformed

fun aws_iota :: "aws_error_code \<Rightarrow> int" where
  "aws_iota ErrAWSNone = 0"
| "aws_iota ErrAWSInternalError = 1"
| "aws_iota ErrAWSInvalidSignature = 2"
| "aws_iota ErrAWSAccessDenied = 3"
| "aws_iota ErrInvalidAccessKeyId = 4"
| "aws_iota ErrAuthorizationHeaderMalformed = 5"

definition AWSErrorCode_name :: string where
  "AWSErrorCode_name = ''AWSNoneAWSInternalErrorAWSInvalidSignatureAWSAccessDeniedInvalidAccessKeyIdAuthorizationHeaderMalformed''"

definition AWSErrorCode_index :: "nat list" where
  "AWSErrorCode_index = [0, 7, 23, 42, 57, 75, 103]"

definition AWSErrorCode_String :: "int \<Rightarrow> string" where
  "AWSErrorCode_String i = stringer_String ''AWSErrorCode'' AWSErrorCode_name AWSErrorCode_index i"

lemma AWSErrorCode_names:
  "AWSErrorCode_String (aws_iota ErrAWSNone) = ''AWSNone''"
  "AWSErrorCode_String (aws_iota ErrAWSInternalError) = ''AWSInternalError''"
  "AWSErrorCode_String (aws_iota ErrAWSInvalidSignature) = ''AWSInvalidSignature''"
  "AWSErrorCode_String (aws_iota ErrAWSAccessDenied) = ''AWSAccessDenied''"
  "AWSErrorCode_String (aws_iota ErrInvalidAccessKeyId) = ''InvalidAccessKeyId''"
  "AWSErrorCode_String (aws_iota ErrAuthorizationHeaderMalformed) = ''AuthorizationHeaderMalformed''"
  by code_simp+

lemma aws_iota_inj: "aws_iota x = aws_iota y \<longleftrightarrow> x = y"
  by (cases x; cases y) simp_all

section \<open>S3 error codes\<close>

datatype s3_error_code = ErrS3None | ErrS3AccessDenied | ErrS3InternalError | ErrS3UpstreamError | ErrS3InvalidAccessKeyId | ErrS3InvalidSignature | ErrS3InvalidSecurity | ErrS3InvalidRegion | ErrS3AuthorizationHeaderMalformed

fun s3_iota :: "s3_error_code \<Rightarrow> int" where
  "s3_iota ErrS3None = 0"
| "s3_iota ErrS3AccessDenied = 1"
| "s3_iota ErrS3InternalError = 2"
| "s3_iota ErrS3UpstreamError = 3"
| "s3_iota ErrS3InvalidAccessKeyId = 4"
| "s3_iota ErrS3InvalidSignature = 5"
| "s3_iota ErrS3InvalidSecurity = 6"
| "s3_iota ErrS3InvalidRegion = 7"
| "s3_iota ErrS3AuthorizationHeaderMalformed = 8"

definition S3ErrorCode_name :: string where
  "S3ErrorCode_name = ''S3NoneS3AccessDeniedS3InternalErrorS3UpstreamErrorS3InvalidAccessKeyIdS3InvalidSignatureS3InvalidSecurityS3InvalidRegionS3AuthorizationHeaderMalformed''"

definition S3ErrorCode_index :: "nat list" where
  "S3ErrorCode_index = [0, 6, 20, 35, 50, 70, 88, 105, 120, 150]"

definition S3ErrorCode_String :: "int \<Rightarrow> string" where
  "S3ErrorCode_String i = stringer_String ''S3ErrorCode'' S3ErrorCode_name S3ErrorCode_index i"

lemma S3ErrorCode_names:
  "S3ErrorCode_String (s3_iota ErrS3None) = ''S3None''"
  "S3ErrorCode_String (s3_iota ErrS3AccessDenied) = ''S3AccessDenied''"
  "S3ErrorCode_String (s3_iota ErrS3InternalError) = ''S3InternalError''"
  "S3ErrorCode_String (s3_iota ErrS3UpstreamError) = ''S3UpstreamError''"
  "S3ErrorCode_String (s3_iota ErrS3InvalidAccessKeyId) = ''S3InvalidAccessKeyId''"
  "S3ErrorCode_String (s3_iota ErrS3InvalidSignature) = ''S3InvalidSignature''"
  "S3ErrorCode_String (s3_iota ErrS3InvalidSecurity) = ''S3InvalidSecurity''"
  "S3ErrorCode_String (s3_iota ErrS3InvalidRegion) = ''S3InvalidRegion''"
  "S3ErrorCode_String (s3_iota ErrS3AuthorizationHeaderMalformed) = ''S3AuthorizationHeaderMalformed''"
  by code_simp+

lemma s3_iota_inj: "s3_iota x = s3_iota y \<longleftrightarrow> x = y"
  by (cases x; cases y) simp_all

section \<open>STS error codes\<close>

datatype sts_error_code = ErrSTSNone | ErrSTSAccessDenied | ErrSTSMissingParameter | ErrSTSInvalidParameterValue | ErrSTSWebIdentityExpiredToken | ErrSTSClientGrantsExpiredToken | ErrSTSInvalidClientGrantsToken | ErrSTSMalformedPolicyDocument | ErrSTSInsecureConnection | ErrSTSInvalidClientCertificate | ErrSTSNotInitialized | ErrSTSIAMNotInitialized | ErrSTSUpstreamError | ErrSTSInternalError

fun sts_iota :: "sts_error_code \<Rightarrow> int" where
  "sts_iota ErrSTSNone = 0"
| "sts_iota ErrSTSAccessDenied = 1"
| "sts_iota ErrSTSMissingParameter = 2"
| "sts_iota ErrSTSInvalidParameterValue = 3"
| "sts_iota ErrSTSWebIdentityExpiredToken = 4"
| "sts_iota ErrSTSClientGrantsExpiredToken = 5"
| "sts_iota ErrSTSInvalidClientGrantsToken = 6"
| "sts_iota ErrSTSMalformedPolicyDocument = 7"
| "sts_iota ErrSTSInsecureConnection = 8"
| "sts_iota ErrSTSInvalidClientCertificate = 9"
| "sts_iota ErrSTSNotInitialized = 10"
| "sts_iota ErrSTSIAMNotInitialized = 11"
| "sts_iota ErrSTSUpstreamError = 12"
| "sts_iota ErrSTSInternalError = 13"

definition STSErrorCode_name :: string where
  "STSErrorCode_name = ''STSNoneSTSAccessDeniedSTSMissingParameterSTSInvalidParameterValueSTSWebIdentityExpiredTokenSTSClientGrantsExpiredTokenSTSInvalidClientGrantsTokenSTSMalformedPolicyDocumentSTSInsecureConnectionSTSInvalidClientCertificateSTSNotInitializedSTSIAMNotInitializedSTSUpstreamErrorSTSInternalError''"

definition STSErrorCode_index :: "nat list" where
  "STSErrorCode_index = [0, 7, 22, 41, 65, 91, 118, 145, 171, 192, 219, 236, 256, 272, 288]"

definition STSErrorCode_String :: "int \<Rightarrow> string" where
  "STSErrorCode_String i = stringer_String ''STSErrorCode'' STSErrorCode_name STSErrorCode_index i"

lemma STSErrorCode_names:
  "STSErrorCode_String (sts_iota ErrSTSNone) = ''STSNone''"
  "STSErrorCode_String (sts_iota ErrSTSAccessDenied) = ''STSAccessDenied''"
  "STSErrorCode_String (sts_iota ErrSTSMissingParameter) = ''STSMissingParameter''"
  "STSErrorCode_String (sts_iota ErrSTSInvalidParameterValue) = ''STSInvalidParameterValue''"
  "STSErrorCode_String (sts_iota ErrSTSWebIdentityExpiredToken) = ''STSWebIdentityExpiredToken''"
  "STSErrorCode_String (sts_iota ErrSTSClientGrantsExpiredToken) = ''STSClientGrantsExpiredToken''"
  "STSErrorCode_String (sts_iota ErrSTSInvalidClientGrantsToken) = ''STSInvalidClientGrantsToken''"
  "STSErrorCode_String (sts_iota ErrSTSMalformedPolicyDocument) = ''STSMalformedPolicyDocument''"
  "STSErrorCode_String (sts_iota ErrSTSInsecureConnection) = ''STSInsecureConnection''"
  "STSErrorCode_String (sts_iota ErrSTSInvalidClientCertificate) = ''STSInvalidClientCertificate''"
  "STSErrorCode_String (sts_iota ErrSTSNotInitialized) = ''STSNotInitialized''"
  "STSErrorCode_String (sts_iota ErrSTSIAMNotInitialized) = ''STSIAMNotInitialized''"
  "STSErrorCode_String (sts_iota ErrSTSUpstreamError) = ''STSUpstreamError''"
  "STSErrorCode_String (sts_iota ErrSTSInternalError) = ''STSInternalError''"
  by code_simp+

lemma sts_iota_inj: "sts_iota x = sts_iota y \<longleftrightarrow> x = y"
  by (cases x; cases y) simp_all

section \<open>S3 operations\<close>

datatype s3_operation = UnknownOperation | ListObjectsV2 | GetObject | ListBuckets | HeadBucket | HeadObject | PutObject | CreateMultipartUpload | CompleteMultipartUpload | AbortMultipartUpload | UploadPart

fun s3op_iota :: "s3_operation \<Rightarrow> int" where
  "s3op_iota UnknownOperation = 0"
| "s3op_iota ListObjectsV2 = 1"
| "s3op_iota GetObject = 2"
| "s3op_iota ListBuckets = 3"
| "s3op_iota HeadBucket = 4"
| "s3op_iota HeadObject = 5"
| "s3op_iota PutObject = 6"
| "s3op_iota CreateMultipartUpload = 7"
| "s3op_iota CompleteMultipartUpload = 8"
| "s3op_iota AbortMultipartUpload = 9"
| "s3op_iota UploadPart = 10"

definition S3Operation_name :: string where
  "S3Operation_name = ''UnknownOperationListObjectsV2GetObjectListBucketsHeadBucketHeadObjectPutObjectCreateMultipartUploadCompleteMultipartUploadAbortMultipartUploadUploadPart''"

definition S3Operation_index :: "nat list" where
  "S3Operation_index = [0, 16, 29, 38, 49, 59, 69, 78, 99, 122, 142, 152]"

definition S3Operation_String :: "int \<Rightarrow> string" where
  "S3Operation_String i = stringer_String ''S3Operation'' S3Operation_name S3Operation_index i"

lemma S3Operation_names:
  "S3Operation_String (s3op_iota UnknownOperation) = ''UnknownOperation''"
  "S3Operation_String (s3op_iota ListObjectsV2) = ''ListObjectsV2''"
  "S3Operation_String (s3op_iota GetObject) = ''GetObject''"
  "S3Operation_String (s3op_iota ListBuckets) = ''ListBuckets''"
  "S3Operation_String (s3op_iota HeadBucket) = ''HeadBucket''"
  "S3Operation_String (s3op_iota HeadObject) = ''HeadObject''"
  "S3Operation_String (s3op_iota PutObject) = ''PutObject''"
  "S3Operation_String (s3op_iota CreateMultipartUpload) = ''CreateMultipartUpload''"
  "S3Operation_String (s3op_iota CompleteMultipartUpload) = ''CompleteMultipartUpload''"
  "S3Operation_String (s3op_iota AbortMultipartUpload) = ''AbortMultipartUpload''"
  "S3Operation_String (s3op_iota UploadPart) = ''UploadPart''"
  by code_simp+

lemma s3op_iota_inj: "s3op_iota x = s3op_iota y \<longleftrightarrow> x = y"
  by (cases x; cases y) simp_all

section \<open>STS operations\<close>

datatype sts_operation = STSUnknownOperation | AssumeRoleWithWebIdentity

fun stsop_iota :: "sts_operation \<Rightarrow> int" where
  "stsop_iota STSUnknownOperation = 0"
| "stsop_iota AssumeRoleWithWebIdentity = 1"

definition STSOperation_name :: string where
  "STSOperation_name = ''UnknownOperationAssumeRoleWithWebIdentity''"

definition STSOperation_index :: "nat list" where
  "STSOperation_index = [0, 16, 41]"

definition STSOperation_String :: "int \<Rightarrow> string" where
  "STSOperation_String i = stringer_String ''STSOperation'' STSOperation_name STSOperation_index i"

lemma STSOperation_names:
  "STSOperation_String (stsop_iota STSUnknownOperation) = ''UnknownOperation''"
  "STSOperation_String (stsop_iota AssumeRoleWithWebIdentity) = ''AssumeRoleWithWebIdentity''"
  by code_simp+

lemma stsop_iota_inj: "stsop_iota x = stsop_iota y \<longleftrightarrow> x = y"
  by (cases x; cases y) simp_all

section \<open>Authentication types\<close>

datatype auth_type = AuthTypeUnknown | AuthTypeNone | AuthTypeQueryString | AuthTypeAuthHeader

fun auth_iota :: "auth_type \<Rightarrow> int" where
  "auth_iota AuthTypeUnknown = 0"
| "auth_iota AuthTypeNone = 1"
| "auth_iota AuthTypeQueryString = 2"
| "auth_iota AuthTypeAuthHeader = 3"

definition AuthType_name :: string where
  "AuthType_name = ''UnknownNoneQueryStringAuthHeader''"

definition AuthType_index :: "nat list" where
  "AuthType_index = [0, 7, 11, 22, 32]"

definition AuthType_String :: "int \<Rightarrow> string" where
  "AuthType_String i = stringer_String ''AuthType'' AuthType_name AuthType_index i"

lemma AuthType_names:
  "AuthType_String (auth_iota AuthTypeUnknown) = ''Unknown''"
  "AuthType_String (auth_iota AuthTypeNone) = ''None''"
  "AuthType_String (auth_iota AuthTypeQueryString) = ''QueryString''"
  "AuthType_String (auth_iota AuthTypeAuthHeader) = ''AuthHeader''"
  by code_simp+

lemma auth_iota_inj: "auth_iota x = auth_iota y \<longleftrightarrow> x = y"
  by (cases x; cases y) simp_all

section \<open>Backend capabilities\<close>

datatype s3_capability = S3CapabilityStreamingUnsignedPayloadTrailer

fun cap_iota :: "s3_capability \<Rightarrow> int" where
  "cap_iota S3CapabilityStreamingUnsignedPayloadTrailer = 0"

definition S3Capability_name :: string where
  "S3Capability_name = ''StreamingUnsignedPayloadTrailer''"

definition S3Capability_index :: "nat list" where
  "S3Capability_index = [0, 31]"

definition S3Capability_String :: "int \<Rightarrow> string" where
  "S3Capability_String i = stringer_String ''S3Capability'' S3Capability_name S3Capability_index i"

lemma S3Capability_names:
  "S3Capability_String (cap_iota S3CapabilityStreamingUnsignedPayloadTrailer) = ''StreamingUnsignedPayloadTrailer''"
  by code_simp+

lemma cap_iota_inj: "cap_iota x = cap_iota y \<longleftrightarrow> x = y"
  by (cases x; cases y) simp_all

definition S3CapabilityLookup :: "string \<rightharpoonup> s3_capability" where
  "S3CapabilityLookup = [S3Capability_String (cap_iota S3CapabilityStreamingUnsignedPayloadTrailer) \<mapsto>
     S3CapabilityStreamingUnsignedPayloadTrailer]"

section \<open>Error tables\<close>

record api_error =
  ae_Code :: string
  ae_Description :: string
  ae_HTTPStatusCode :: int

text \<open>\<^verbatim>\<open>s3ErrCodes\<close> and \<^verbatim>\<open>ToS3Err\<close>.\<close>

fun s3ErrCodes :: "s3_error_code \<Rightarrow> api_error option" where
  "s3ErrCodes ErrS3AccessDenied = Some \<lparr>ae_Code = ''AccessDenied'',
     ae_Description = ''Access Denied'',
     ae_HTTPStatusCode = 403\<rparr>"
| "s3ErrCodes ErrS3UpstreamError = Some \<lparr>ae_Code = ''InternalError'',
     ae_Description = ''An upstream service required for this operation failed - please try again or contact an administrator.'',
     ae_HTTPStatusCode = 500\<rparr>"
| "s3ErrCodes ErrS3InternalError = Some \<lparr>ae_Code = ''InternalError'',
     ae_Description = ''We encountered an internal error, please try again.'',
     ae_HTTPStatusCode = 500\<rparr>"
| "s3ErrCodes ErrS3InvalidAccessKeyId = Some \<lparr>ae_Code = ''InvalidAccessKeyId'',
     ae_Description = ''The AWS Access Key Id you provided does not exist in our records.'',
     ae_HTTPStatusCode = 403\<rparr>"
| "s3ErrCodes ErrS3InvalidSignature = Some \<lparr>ae_Code = ''InvalidSignature'',
     ae_Description = ''The request signature that the server calculated does not match the signature that you provided. Check your AWS secret access key and signing method. For more information, see Signing and authenticating REST requests.'',
     ae_HTTPStatusCode = 400\<rparr>"
| "s3ErrCodes ErrS3InvalidSecurity = Some \<lparr>ae_Code = ''InvalidSecurity'',
     ae_Description = ''The provided security credentials are not valid.'',
     ae_HTTPStatusCode = 403\<rparr>"
| "s3ErrCodes ErrS3InvalidRegion = Some \<lparr>ae_Code = ''InvalidRegion'',
     ae_Description = ''The provided region is not valid.'',
     ae_HTTPStatusCode = 400\<rparr>"
| "s3ErrCodes ErrS3AuthorizationHeaderMalformed = Some \<lparr>ae_Code = ''AuthorizationHeaderMalformed'',
     ae_Description = ''The authorization header that you provided is not valid.'',
     ae_HTTPStatusCode = 400\<rparr>"
| "s3ErrCodes _ = None"

definition ToS3Err :: "s3_error_code \<Rightarrow> api_error" where
  "ToS3Err errCode =
     (case s3ErrCodes errCode of
        None \<Rightarrow> the (s3ErrCodes ErrS3InternalError)
      | Some apiErr \<Rightarrow> apiErr)"

text \<open>\<^verbatim>\<open>stsErrCodes\<close> and \<^verbatim>\<open>ToSTSErr\<close>.\<close>

fun stsErrCodes :: "sts_error_code \<Rightarrow> api_error option" where
  "stsErrCodes ErrSTSAccessDenied = Some \<lparr>ae_Code = ''AccessDenied'',
     ae_Description = ''Generating temporary credentials not allowed for this request.'',
     ae_HTTPStatusCode = 403\<rparr>"
| "stsErrCodes ErrSTSMissingParameter = Some \<lparr>ae_Code = ''MissingParameter'',
     ae_Description = ''A required parameter for the specified action is not supplied.'',
     ae_HTTPStatusCode = 400\<rparr>"
| "stsErrCodes ErrSTSInvalidParameterValue = Some \<lparr>ae_Code = ''InvalidParameterValue'',
     ae_Description = ''An invalid or out-of-range value was supplied for the input parameter.'',
     ae_HTTPStatusCode = 400\<rparr>"
| "stsErrCodes ErrSTSWebIdentityExpiredToken = Some \<lparr>ae_Code = ''ExpiredToken'',
     ae_Description = ''The web identity token that was passed is expired or is not valid. Get a new identity token from the identity provider and then retry the request.'',
     ae_HTTPStatusCode = 400\<rparr>"
| "stsErrCodes ErrSTSClientGrantsExpiredToken = Some \<lparr>ae_Code = ''ExpiredToken'',
     ae_Description = ''The client grants that was passed is expired or is not valid. Get a new client grants token from the identity provider and then retry the request.'',
     ae_HTTPStatusCode = 400\<rparr>"
| "stsErrCodes ErrSTSInvalidClientGrantsToken = Some \<lparr>ae_Code = ''InvalidClientGrantsToken'',
     ae_Description = ''The client grants token that was passed could not be validated by MinIO.'',
     ae_HTTPStatusCode = 400\<rparr>"
| "stsErrCodes ErrSTSMalformedPolicyDocument = Some \<lparr>ae_Code = ''MalformedPolicyDocument'',
     ae_Description = ''The request was rejected because the policy document was malformed.'',
     ae_HTTPStatusCode = 400\<rparr>"
| "stsErrCodes ErrSTSInsecureConnection = Some \<lparr>ae_Code = ''InsecureConnection'',
     ae_Description = ''The request was made over a plain HTTP connection. A TLS connection is required.'',
     ae_HTTPStatusCode = 400\<rparr>"
| "stsErrCodes ErrSTSInvalidClientCertificate = Some \<lparr>ae_Code = ''InvalidClientCertificate'',
     ae_Description = ''The provided client certificate is invalid. Retry with a different certificate.'',
     ae_HTTPStatusCode = 400\<rparr>"
| "stsErrCodes ErrSTSNotInitialized = Some \<lparr>ae_Code = ''STSNotInitialized'',
     ae_Description = ''STS API not initialized, please try again.'',
     ae_HTTPStatusCode = 503\<rparr>"
| "stsErrCodes ErrSTSIAMNotInitialized = Some \<lparr>ae_Code = ''STSIAMNotInitialized'',
     ae_Description = ''STS IAM not initialized, please try again.'',
     ae_HTTPStatusCode = 503\<rparr>"
| "stsErrCodes ErrSTSUpstreamError = Some \<lparr>ae_Code = ''InternalError'',
     ae_Description = ''An upstream service required for this operation failed - please try again or contact an administrator.'',
     ae_HTTPStatusCode = 500\<rparr>"
| "stsErrCodes ErrSTSInternalError = Some \<lparr>ae_Code = ''InternalError'',
     ae_Description = ''We encountered an internal error generating credentials, please try again.'',
     ae_HTTPStatusCode = 500\<rparr>"
| "stsErrCodes _ = None"

definition ToSTSErr :: "sts_error_code \<Rightarrow> api_error" where
  "ToSTSErr errCode =
     (case stsErrCodes errCode of
        None \<Rightarrow> the (stsErrCodes ErrSTSInternalError)
      | Some apiErr \<Rightarrow> apiErr)"

text \<open>\<^verbatim>\<open>awsToS3ErrorCode\<close> and \<^verbatim>\<open>toS3ErrorCode\<close>.\<close>

fun awsToS3ErrorCode :: "aws_error_code \<Rightarrow> s3_error_code option" where
  "awsToS3ErrorCode ErrAWSAccessDenied = Some ErrS3AccessDenied"
| "awsToS3ErrorCode ErrAWSInternalError = Some ErrS3InternalError"
| "awsToS3ErrorCode ErrAWSInvalidSignature = Some ErrS3InvalidSignature"
| "awsToS3ErrorCode ErrInvalidAccessKeyId = Some ErrS3InvalidAccessKeyId"
| "awsToS3ErrorCode ErrAuthorizationHeaderMalformed = Some ErrS3AuthorizationHeaderMalformed"
| "awsToS3ErrorCode _ = None"

definition toS3ErrorCode :: "aws_error_code \<Rightarrow> s3_error_code" where
  "toS3ErrorCode awsE = (case awsToS3ErrorCode awsE of None \<Rightarrow> ErrS3InternalError | Some c \<Rightarrow> c)"

lemma ToS3Err_status: "ae_HTTPStatusCode (ToS3Err c) \<in> {400, 403, 500}"
  by (cases c) (simp_all add: ToS3Err_def)

lemma ToSTSErr_status: "ae_HTTPStatusCode (ToSTSErr c) \<in> {400, 403, 500, 503}"
  by (cases c) (simp_all add: ToSTSErr_def)

section \<open>Orders\<close>

text \<open>Error codes and operations are ordered by their integers.\<close>

instantiation s3_error_code :: linorder
begin

definition less_eq_s3_error_code :: "s3_error_code \<Rightarrow> s3_error_code \<Rightarrow> bool" where
  "less_eq_s3_error_code x y = (s3_iota x \<le> s3_iota y)"

definition less_s3_error_code :: "s3_error_code \<Rightarrow> s3_error_code \<Rightarrow> bool" where
  "less_s3_error_code x y = (s3_iota x < s3_iota y)"

instance
  by standard (auto simp: less_eq_s3_error_code_def less_s3_error_code_def s3_iota_inj)

end

instantiation s3_operation :: linorder
begin

definition less_eq_s3_operation :: "s3_operation \<Rightarrow> s3_operation \<Rightarrow> bool" where
  "less_eq_s3_operation x y = (s3op_iota x \<le> s3op_iota y)"

definition less_s3_operation :: "s3_operation \<Rightarrow> s3_operation \<Rightarrow> bool" where
  "less_s3_operation x y = (s3op_iota x < s3op_iota y)"

instance
  by standard (auto simp: less_eq_s3_operation_def less_s3_operation_def s3op_iota_inj)

end

end
