(* ===== verification/Request_Ctx.thy ===== *)
theory Request_Ctx
  imports Request_Utils Enums
begin

text \<open>
  The state of one request: \<^verbatim>\<open>requestctx/requestctx.go\<close> (the request context and its access
  log), \<^verbatim>\<open>httptracking\<close> (the writer and the body that count bytes) and
  \<^verbatim>\<open>aws/service/api-response.go\<close>. The context is a pointer shared by every handler of the
  request; the record \<open>hstate\<close> of the request, its context and the response written so far is
  threaded through all of them. Setters that find no context only log.
\<close>

section \<open>The request context\<close>

datatype attr_value = StrVal string | OtherVal

type_synonym log_attrs = "(string \<times> attr_value) list"

text \<open>The interface \<^verbatim>\<open>fmt.Stringer\<close> of operations and errors: the text and a tag for the
  dynamic type, None for the nil interface.\<close>

datatype stringer = OpS3 s3_operation | OpSTS sts_operation | ErrorS3 s3_error_code
  | ErrorSTS sts_error_code | NoError

fun stringer_text :: "stringer \<Rightarrow> string" where
  "stringer_text (OpS3 x) = S3Operation_String (s3op_iota x)"
| "stringer_text (OpSTS x) = STSOperation_String (stsop_iota x)"
| "stringer_text (ErrorS3 x) = S3ErrorCode_String (s3_iota x)"
| "stringer_text (ErrorSTS x) = STSErrorCode_String (sts_iota x)"
| "stringer_text NoError = ''-''"

datatype data_value = DataString string | DataOther

record RequestCtx =
  RequestID :: string
  Time :: int
  RemoteIP :: string
  RequestURI :: string
  Referer :: string
  UserAgent :: string
  Host :: string
  HTTPStatus :: int
  UpstreamHTTPStatus :: int
  BytesSent :: "64 word"
  BytesReceived :: "64 word"
  accessLogAttrs :: "(string \<times> log_attrs) list"
  data :: "(string \<times> data_value) list"
  Operation :: "stringer option"
  ctx_SessionToken :: string
  TargetRegion :: string
  Error :: stringer
  AuthType :: auth_type
  SignedHeaders :: "string list option"

text \<open>\<^verbatim>\<open>RequestCtx.AddAccessLogInfo\<close> and \<^verbatim>\<open>GetAccessLogStringInfo\<close>: the first attribute
  of that name decides, and one that is not a string gives nothing.\<close>

definition ctx_AddAccessLogInfo :: "string \<Rightarrow> log_attrs \<Rightarrow> RequestCtx \<Rightarrow> RequestCtx" where
  "ctx_AddAccessLogInfo groupName attrs c =
     (let existing_group = (case map_of (accessLogAttrs c) groupName of None \<Rightarrow> [] | Some g \<Rightarrow> g) in
      c\<lparr>accessLogAttrs := AList.update groupName (existing_group @ attrs) (accessLogAttrs c)\<rparr>)"

fun first_attr :: "log_attrs \<Rightarrow> string \<Rightarrow> string" where
  "first_attr [] entryName = []"
| "first_attr ((k, v) # attrs) entryName =
     (if k = entryName then (case v of StrVal s \<Rightarrow> s | OtherVal \<Rightarrow> []) else first_attr attrs entryName)"

definition ctx_GetAccessLogStringInfo :: "RequestCtx \<Rightarrow> string \<Rightarrow> string \<Rightarrow> string" where
  "ctx_GetAccessLogStringInfo c groupName entryName =
     (case map_of (accessLogAttrs c) groupName of
        None \<Rightarrow> []
      | Some existing_group \<Rightarrow> first_attr existing_group entryName)"

definition SetDataKey :: "string \<Rightarrow> data_value \<Rightarrow> RequestCtx \<Rightarrow> RequestCtx" where
  "SetDataKey key value c = c\<lparr>data := AList.update key value (data c)\<rparr>"

definition ErrNoSuchKey :: gerr where
  "ErrNoSuchKey = Sentinel ''no such key''"

definition ErrInvalidType :: gerr where
  "ErrInvalidType = Sentinel ''invalid type for key''"

definition GetStringData :: "RequestCtx \<Rightarrow> string \<Rightarrow> string result" where
  "GetStringData c key =
     (case map_of (data c) key of
        None \<Rightarrow> Err ErrNoSuchKey
      | Some (DataString s) \<Rightarrow> Ok s
      | Some DataOther \<Rightarrow> Err ErrInvalidType)"

section \<open>Creating it\<close>

definition hasUUID4Format :: "string \<Rightarrow> bool" where
  "hasUUID4Format s =
     (if length s \<noteq> 36 then False
      else if s ! 8 \<noteq> CHR ''-'' \<or> s ! 13 \<noteq> CHR ''-'' \<or> s ! 23 \<noteq> CHR ''-'' then False
      else True)"

definition XRequestID :: string where
  "XRequestID = ''X-Request-ID''"

definition getRequestIdFromHttpRequest :: "(string \<Rightarrow> string) \<Rightarrow> string \<Rightarrow> request \<Rightarrow> string" where
  "getRequestIdFromHttpRequest up uuid req =
     (let reqId = header_Get (r_header req) XRequestID in
      if reqId \<noteq> [] \<and> hasUUID4Format reqId then ToUpper up reqId
      else let qId = values_Get (r_query req) XRequestID in
        if qId \<noteq> [] \<and> hasUUID4Format qId then ToUpper up qId
        else uuid)"

definition NewContextFromHttpRequestWithStartTime :: "(string \<Rightarrow> string) \<Rightarrow> string \<Rightarrow> request \<Rightarrow> int \<Rightarrow> RequestCtx" where
  "NewContextFromHttpRequestWithStartTime up uuid req reqStartTime =
     \<lparr>RequestID = getRequestIdFromHttpRequest up uuid req, Time = reqStartTime, RemoteIP = r_remote req,
      RequestURI = r_uri req, Referer = header_Get (r_header req) ''Referer'',
      UserAgent = header_Get (r_header req) ''User-Agent'', Host = r_host req,
      HTTPStatus = 0, UpstreamHTTPStatus = 0, BytesSent = 0, BytesReceived = 0,
      accessLogAttrs = [], data = [], Operation = None, ctx_SessionToken = [], TargetRegion = [],
      Error = NoError, AuthType = AuthTypeUnknown, SignedHeaders = None\<rparr>"

section \<open>The state of a request\<close>

text \<open>\<^verbatim>\<open>http.ResponseWriter\<close>: the header map that can still change, the status and header
  sent by the first \<^verbatim>\<open>WriteHeader\<close>, the body. \<open>rs_tracked\<close> says whether the writer is the
  tracking one.\<close>

record response =
  rs_header :: mvals
  rs_sent :: "(int \<times> mvals) option"
  rs_body :: string
  rs_tracked :: bool

record hstate =
  h_req :: request
  h_ctx :: "RequestCtx option"
  h_resp :: response

definition new_response :: "bool \<Rightarrow> response" where
  "new_response tracked = \<lparr>rs_header = [], rs_sent = None, rs_body = [], rs_tracked = tracked\<rparr>"

definition upd_ctx :: "(RequestCtx \<Rightarrow> RequestCtx) \<Rightarrow> hstate \<Rightarrow> hstate" where
  "upd_ctx f h = h\<lparr>h_ctx := map_option f (h_ctx h)\<rparr>"

definition upd_req :: "(request \<Rightarrow> request) \<Rightarrow> hstate \<Rightarrow> hstate" where
  "upd_req f h = h\<lparr>h_req := f (h_req h)\<rparr>"

lemma upd_simps [simp]:
  "h_req (upd_ctx f h) = h_req h" "h_resp (upd_ctx f h) = h_resp h" "h_ctx (upd_ctx f h) = map_option f (h_ctx h)"
  "h_req (upd_req g h) = g (h_req h)" "h_resp (upd_req g h) = h_resp h" "h_ctx (upd_req g h) = h_ctx h"
  by (simp_all add: upd_ctx_def upd_req_def)

subsection \<open>Setters and getters\<close>

definition AddAccessLogInfo :: "string \<Rightarrow> log_attrs \<Rightarrow> hstate \<Rightarrow> hstate" where
  "AddAccessLogInfo groupName attrs = upd_ctx (ctx_AddAccessLogInfo groupName attrs)"

definition GetAccessLogStringInfo :: "hstate \<Rightarrow> string \<Rightarrow> string \<Rightarrow> string" where
  "GetAccessLogStringInfo h groupName entryName =
     (case h_ctx h of None \<Rightarrow> [] | Some c \<Rightarrow> ctx_GetAccessLogStringInfo c groupName entryName)"

definition SetAuthType :: "auth_type \<Rightarrow> hstate \<Rightarrow> hstate" where
  "SetAuthType authType = upd_ctx (\<lambda>c.
     if AuthType c \<noteq> AuthTypeUnknown \<and> AuthType c = authType then c else c\<lparr>AuthType := authType\<rparr>)"

definition GetAuthType :: "hstate \<Rightarrow> auth_type result" where
  "GetAuthType h = (case h_ctx h of Some c \<Rightarrow> Ok (AuthType c) | None \<Rightarrow> Err (Plain ''no authType stored in requestctx''))"

definition SetSignedHeaders :: "string list option \<Rightarrow> hstate \<Rightarrow> hstate" where
  "SetSignedHeaders signedHeaders = upd_ctx (\<lambda>c.
     if SignedHeaders c \<noteq> None \<and> SignedHeaders c = signedHeaders then c else c\<lparr>SignedHeaders := signedHeaders\<rparr>)"

definition GetSignedHeaders :: "hstate \<Rightarrow> string list option result" where
  "GetSignedHeaders h =
     (case h_ctx h of Some c \<Rightarrow> Ok (SignedHeaders c) | None \<Rightarrow> Err (Plain ''no signedHeaders stored in requestctx''))"

definition SetTargetRegion :: "string \<Rightarrow> hstate \<Rightarrow> hstate" where
  "SetTargetRegion region = upd_ctx (\<lambda>c.
     if TargetRegion c \<noteq> [] \<and> TargetRegion c = region then c else c\<lparr>TargetRegion := region\<rparr>)"

definition GetTargetRegion :: "hstate \<Rightarrow> string result" where
  "GetTargetRegion h =
     (case h_ctx h of Some c \<Rightarrow> Ok (TargetRegion c) | None \<Rightarrow> Err (Plain ''no target region stored in requestctx''))"

definition SetSessionToken :: "string \<Rightarrow> hstate \<Rightarrow> hstate" where
  "SetSessionToken token = upd_ctx (\<lambda>c.
     if ctx_SessionToken c \<noteq> [] \<and> ctx_SessionToken c = token then c else c\<lparr>ctx_SessionToken := token\<rparr>)"

definition GetSessionToken :: "hstate \<Rightarrow> string result" where
  "GetSessionToken h =
     (case h_ctx h of Some c \<Rightarrow> Ok (ctx_SessionToken c) | None \<Rightarrow> Err (Plain ''no session token stored in requestctx''))"

definition SetErrorCode :: "stringer \<Rightarrow> hstate \<Rightarrow> hstate" where
  "SetErrorCode errorCode = upd_ctx (\<lambda>c. c\<lparr>Error := errorCode\<rparr>)"

definition SetOperation :: "stringer \<Rightarrow> hstate \<Rightarrow> hstate" where
  "SetOperation opr = upd_ctx (\<lambda>c. c\<lparr>Operation := Some opr\<rparr>)"

definition GetOperation :: "hstate \<Rightarrow> stringer option" where
  "GetOperation h = (case h_ctx h of None \<Rightarrow> None | Some c \<Rightarrow> Operation c)"

definition SetUpstreamHTTPStatus :: "int \<Rightarrow> hstate \<Rightarrow> hstate" where
  "SetUpstreamHTTPStatus code = upd_ctx (\<lambda>c.
     if UpstreamHTTPStatus c \<noteq> 0 \<and> UpstreamHTTPStatus c = code then c else c\<lparr>UpstreamHTTPStatus := code\<rparr>)"

definition GetRequestID :: "hstate \<Rightarrow> string" where
  "GetRequestID h = (case h_ctx h of None \<Rightarrow> [] | Some c \<Rightarrow> RequestID c)"

section \<open>Tracking reads and writes\<close>

definition peta :: nat where
  "peta = 1000000000000000"

text \<open>The guard both counters share: \<open>n\<close> is the number of bytes moved.\<close>

definition count_bytes :: "nat \<Rightarrow> 64 word \<Rightarrow> 64 word" where
  "count_bytes n sofar = (if n < peta \<and> unat sofar < peta then sofar + of_nat n else sofar)"

definition track_Read :: "nat \<Rightarrow> RequestCtx \<Rightarrow> RequestCtx" where
  "track_Read n c = c\<lparr>BytesReceived := count_bytes n (BytesReceived c)\<rparr>"

definition track_Write :: "nat \<Rightarrow> RequestCtx \<Rightarrow> RequestCtx" where
  "track_Write n c = c\<lparr>BytesSent := count_bytes n (BytesSent c)\<rparr>"

definition valid_status :: "int \<Rightarrow> bool" where
  "valid_status code = (100 \<le> code \<and> code \<le> 999)"

definition informational :: "int \<Rightarrow> bool" where
  "informational code = (100 \<le> code \<and> code \<le> 199 \<and> code \<noteq> 101)"

text \<open>\<^verbatim>\<open>net/http\<close>: an invalid code panics, an informational one is sent on its own, the first
  other one fixes status and header, later ones are ignored.\<close>

definition http_WriteHeader :: "int \<Rightarrow> response \<Rightarrow> response result" where
  "http_WriteHeader code w =
     (if \<not> valid_status code then Panic ''invalid WriteHeader code''
      else if informational code \<or> rs_sent w \<noteq> None then Ok w
      else Ok (w\<lparr>rs_sent := Some (code, rs_header w)\<rparr>))"

definition http_Write :: "string \<Rightarrow> response \<Rightarrow> response" where
  "http_Write b w =
     (let w' = (if rs_sent w = None then w\<lparr>rs_sent := Some (200, rs_header w)\<rparr> else w) in
      w'\<lparr>rs_body := rs_body w' @ b\<rparr>)"

text \<open>The methods of \<^verbatim>\<open>trackingResponseWriter\<close>; the status is recorded before it is known
  whether the server accepts it.\<close>

definition w_WriteHeader :: "int \<Rightarrow> hstate \<Rightarrow> hstate result" where
  "w_WriteHeader statusCode h =
     (let h1 = (if rs_tracked (h_resp h) then upd_ctx (\<lambda>c. c\<lparr>HTTPStatus := statusCode\<rparr>) h else h) in
      go_bind (http_WriteHeader statusCode (h_resp h1)) (\<lambda>w. Ok (h1\<lparr>h_resp := w\<rparr>)))"

definition w_Write :: "string \<Rightarrow> hstate \<Rightarrow> hstate" where
  "w_Write b h =
     (let h1 = h\<lparr>h_resp := http_Write b (h_resp h)\<rparr> in
      if rs_tracked (h_resp h) then upd_ctx (track_Write (length b)) h1 else h1)"

definition w_Header_Set :: "string \<Rightarrow> string \<Rightarrow> hstate \<Rightarrow> hstate" where
  "w_Header_Set k v h = h\<lparr>h_resp := (h_resp h)\<lparr>rs_header := header_Set (rs_header (h_resp h)) k v\<rparr>\<rparr>"

definition w_Header_Add :: "string \<Rightarrow> string \<Rightarrow> hstate \<Rightarrow> hstate" where
  "w_Header_Add k v h = h\<lparr>h_resp := (h_resp h)\<lparr>rs_header := header_Add (rs_header (h_resp h)) k v\<rparr>\<rparr>"

text \<open>\<^verbatim>\<open>MakeSafeToWrite\<close>: the rest of the request body is read (through the tracking body) and
  thrown away; a writer that is not the tracking one gives an error, which is only logged.\<close>

definition MakeSafeToWrite :: "hstate \<Rightarrow> hstate" where
  "MakeSafeToWrite h =
     (if rs_tracked (h_resp h)
      then upd_ctx (track_Read (length (r_body (h_req h)))) (upd_req (\<lambda>r. r\<lparr>r_body := []\<rparr>) h)
      else h)"

section \<open>Responses\<close>

text \<open>\<^verbatim>\<open>WriteResponse\<close>: None is a nil response, the mime type of no type is the empty
  string.\<close>

definition normal_status :: "int \<Rightarrow> int" where
  "normal_status statusCode =
     (let s = (if statusCode = 0 then 200 else statusCode) in
      if s < 100 \<or> s > 999 then 500 else s)"

definition WriteResponse :: "int \<Rightarrow> string option \<Rightarrow> string \<Rightarrow> hstate \<Rightarrow> hstate result" where
  "WriteResponse statusCode response mType h =
     (let h1 = (if mType \<noteq> [] then w_Header_Set ''Content-Type'' mType h else h);
          h2 = w_Header_Set ''Content-Length''
                 (dec_string (case response of None \<Rightarrow> 0 | Some b \<Rightarrow> length b)) h1 in
      go_bind (w_WriteHeader (normal_status statusCode) h2) (\<lambda>h3.
        Ok (case response of None \<Rightarrow> h3 | Some b \<Rightarrow> w_Write b h3)))"

definition MimeXML :: string where
  "MimeXML = ''application/xml''"

definition WriteSuccessResponseXML :: "string option \<Rightarrow> hstate \<Rightarrow> hstate result" where
  "WriteSuccessResponseXML response = WriteResponse 200 response MimeXML"

section \<open>Properties\<close>

subsection \<open>Byte counters\<close>

lemma count_bytes_unat:
  "unat (count_bytes n c) = (if n < peta \<and> unat c < peta then unat c + n else unat c)"
proof (cases "n < peta \<and> unat c < peta")
  case True
  then have "unat c + n < 2 ^ 64" by (simp add: peta_def)
  moreover have "unat (of_nat n :: 64 word) = n"
    using True by (simp add: peta_def unat_of_nat take_bit_nat_eq_self)
  ultimately show ?thesis using True
    by (simp add: count_bytes_def unat_word_ariths)
qed (auto simp: count_bytes_def)

text \<open>Both counters of a request obey one contract: a step adds the bytes it moved, or none.
  What follows from it is proved once.\<close>

locale byte_counter =
  fixes cnt :: "'c \<Rightarrow> 64 word" and step :: "nat \<Rightarrow> 'c \<Rightarrow> 'c"
  assumes cnt_step: "cnt (step n c) = count_bytes n (cnt c)"
begin

lemma bounded: "unat (cnt c) < 2 * peta \<Longrightarrow> unat (cnt (fold step ns c)) < 2 * peta"
  by (induction ns arbitrary: c) (auto simp: cnt_step count_bytes_unat)

lemma monotone: "unat (cnt c) \<le> unat (cnt (fold step ns c))"
proof (induction ns arbitrary: c)
  case (Cons n ns)
  have "unat (cnt c) \<le> unat (cnt (step n c))" by (simp add: cnt_step count_bytes_unat)
  then show ?case using Cons [of "step n c"] by simp
qed simp

lemma exact: "unat (cnt c) + sum_list ns < peta \<Longrightarrow> unat (cnt (fold step ns c)) = unat (cnt c) + sum_list ns"
  by (induction ns arbitrary: c) (auto simp: cnt_step count_bytes_unat)

end

interpretation recv: byte_counter BytesReceived track_Read
  by unfold_locales (simp add: track_Read_def)

interpretation sent: byte_counter BytesSent track_Write
  by unfold_locales (simp add: track_Write_def)


definition empty_ctx :: RequestCtx where
  "empty_ctx = NewContextFromHttpRequestWithStartTime id ''id''
     \<lparr>r_method = ''GET'', r_url = empty_url, r_host = [], r_header = [], r_uri = [], r_remote = [],
      r_length = 0, r_body = []\<rparr> 0"


subsection \<open>Request identifiers\<close>

text \<open>A request identifier has the 36 characters of a UUID: one a client chooses is used in
  upper case, from the header first, and anything else gives the generated one. Only an
  identifier with letters beyond ASCII may get another length.\<close>

theorem getRequestId_length:
  assumes "length uuid = 36" and "is_ascii (header_Get (r_header req) XRequestID)"
    and "is_ascii (values_Get (r_query req) XRequestID)"
  shows "length (getRequestIdFromHttpRequest up uuid req) = 36
    \<and> getRequestIdFromHttpRequest up uuid req \<in>
        {uuid, to_upper (header_Get (r_header req) XRequestID), to_upper (values_Get (r_query req) XRequestID)}"
  using assms by (auto simp: getRequestIdFromHttpRequest_def hasUUID4Format_def ToUpper_def Let_def)

lemma getRequestId_length_witness:
  "\<forall>up. length (getRequestIdFromHttpRequest up ''01234567-89ab-cdef-0123-456789abcdef''
     \<lparr>r_method = ''GET'', r_url = empty_url, r_host = [],
      r_header = [(''X-Request-Id'', [''ABCDEFGH-89ab-cdef-0123-456789abcdef''])], r_uri = [], r_remote = [],
      r_length = 0, r_body = []\<rparr>) = 36"
proof -
  let ?r = "\<lparr>r_method = ''GET'', r_url = empty_url, r_host = [],
      r_header = [(''X-Request-Id'', [''ABCDEFGH-89ab-cdef-0123-456789abcdef''])], r_uri = [], r_remote = [],
      r_length = 0, r_body = []\<rparr>"
  have "length ''01234567-89ab-cdef-0123-456789abcdef'' = 36" by simp
  moreover have "is_ascii (header_Get (r_header ?r) XRequestID)" "is_ascii (values_Get (r_query ?r) XRequestID)"
    by code_simp+
  ultimately show ?thesis using getRequestId_length [of _ ?r] by blast
qed

subsection \<open>The access log\<close>

lemma first_attr_absent: "k \<notin> fst ` set as \<Longrightarrow> first_attr as k = []"
  by (induction as) auto

lemma first_attr_append:
  "first_attr (as @ bs) k = (if k \<in> fst ` set as then first_attr as k else first_attr bs k)"
proof (induction as)
  case (Cons a as)
  then show ?case by (cases a) auto
qed simp

text \<open>The access log keeps the first value a handler records under a name: a later record of
  the same name does not change what is read, and other groups are untouched.\<close>

theorem AccessLog_first_wins:
  "ctx_GetAccessLogStringInfo (ctx_AddAccessLogInfo g [(k, StrVal v)] c) g' k' =
     (if g' = g \<and> k' = k \<and> (case map_of (accessLogAttrs c) g of None \<Rightarrow> True | Some as \<Rightarrow> k \<notin> fst ` set as)
      then v else ctx_GetAccessLogStringInfo c g' k')"
  by (simp add: ctx_GetAccessLogStringInfo_def ctx_AddAccessLogInfo_def Let_def go_map first_attr_append
      first_attr_absent split: option.split)

subsection \<open>Responses\<close>

lemma normal_status_valid: "valid_status (normal_status s)"
  by (simp add: normal_status_def valid_status_def Let_def)

lemma w_WriteHeader_fresh:
  assumes "rs_sent (h_resp h) = None" and "valid_status s" and "\<not> informational s"
  obtains h' where "w_WriteHeader s h = Ok h'" "rs_sent (h_resp h') = Some (s, rs_header (h_resp h))"
    "rs_body (h_resp h') = rs_body (h_resp h)" "h_req h' = h_req h"
  using assms by (cases "rs_tracked (h_resp h)") (simp_all add: w_WriteHeader_def http_WriteHeader_def Let_def)

lemma w_Write_simps [simp]:
  "rs_body (h_resp (w_Write b h)) = rs_body (h_resp h) @ b"
  "rs_sent (h_resp h) = Some x \<Longrightarrow> rs_sent (h_resp (w_Write b h)) = Some x"
  "h_req (w_Write b h) = h_req h"
  by (simp_all add: w_Write_def http_Write_def Let_def)

lemma w_Header_Set_simps [simp]:
  "rs_header (h_resp (w_Header_Set k v h)) = header_Set (rs_header (h_resp h)) k v"
  "rs_sent (h_resp (w_Header_Set k v h)) = rs_sent (h_resp h)"
  "rs_body (h_resp (w_Header_Set k v h)) = rs_body (h_resp h)"
  "rs_tracked (h_resp (w_Header_Set k v h)) = rs_tracked (h_resp h)"
  "h_req (w_Header_Set k v h) = h_req h" "h_ctx (w_Header_Set k v h) = h_ctx h"
  by (simp_all add: w_Header_Set_def)

lemma WriteResponse_fresh:
  assumes "rs_sent (h_resp h) = None" and "\<not> informational (normal_status s)"
  obtains h' where "WriteResponse s (Some b) mType h = Ok h'"
    "rs_body (h_resp h') = rs_body (h_resp h) @ b" "h_req h' = h_req h"
    "\<exists>hdr. rs_sent (h_resp h') = Some (normal_status s, hdr) \<and> header_Get hdr ''Content-Length'' = dec_string (length b)"
proof -
  define h1 where "h1 = (if mType \<noteq> [] then w_Header_Set ''Content-Type'' mType h else h)"
  define h2 where "h2 = w_Header_Set ''Content-Length'' (dec_string (length b)) h1"
  have h1: "rs_sent (h_resp h1) = None" "rs_body (h_resp h1) = rs_body (h_resp h)" "h_req h1 = h_req h"
    using assms(1) by (simp_all add: h1_def)
  have h2: "rs_sent (h_resp h2) = None" "rs_body (h_resp h2) = rs_body (h_resp h)" "h_req h2 = h_req h"
    "header_Get (rs_header (h_resp h2)) ''Content-Length'' = dec_string (length b)"
    unfolding h2_def w_Header_Set_simps hdr.get_set h1 by simp_all
  from w_WriteHeader_fresh [OF h2(1) normal_status_valid assms(2)]
  obtain h3 where h3: "w_WriteHeader (normal_status s) h2 = Ok h3"
    "rs_sent (h_resp h3) = Some (normal_status s, rs_header (h_resp h2))"
    "rs_body (h_resp h3) = rs_body (h_resp h2)" "h_req h3 = h_req h2" .
  have "WriteResponse s (Some b) mType h = Ok (w_Write b h3)"
    unfolding WriteResponse_def Let_def option.case h1_def [symmetric] h2_def [symmetric] h3(1) by simp
  then show ?thesis
  proof (rule that)
    show "rs_body (h_resp (w_Write b h3)) = rs_body (h_resp h) @ b" by (simp add: h3 h2)
    show "h_req (w_Write b h3) = h_req h" by (simp add: h3 h2)
    show "\<exists>hdr. rs_sent (h_resp (w_Write b h3)) = Some (normal_status s, hdr) \<and>
        header_Get hdr ''Content-Length'' = dec_string (length b)"
      using h3(2) h2(4) by auto
  qed
qed

text \<open>\<^verbatim>\<open>WriteResponse\<close> never panics, whatever status it is asked for; on a fresh writer a
  final status is sent with the length of the body, and the body follows.\<close>

theorem WriteResponse_sends:
  assumes "rs_sent (h_resp h) = None" and "\<not> informational (normal_status s)"
  shows "\<exists>h'. WriteResponse s (Some b) mType h = Ok h' \<and>
    rs_body (h_resp h') = rs_body (h_resp h) @ b \<and>
    (\<exists>hdr. rs_sent (h_resp h') = Some (normal_status s, hdr) \<and>
       header_Get hdr ''Content-Length'' = dec_string (length b))"
  by (rule WriteResponse_fresh [OF assms, of b mType]) blast

lemma WriteResponse_sends_witness:
  "\<exists>h'. WriteResponse 1000 (Some ''oops'') MimeXML
     \<lparr>h_req = undefined, h_ctx = None, h_resp = new_response False\<rparr> = Ok h' \<and> rs_body (h_resp h') = ''oops''"
proof -
  have "rs_sent (h_resp \<lparr>h_req = undefined, h_ctx = None, h_resp = new_response False\<rparr>) = None"
    "\<not> informational (normal_status 1000)"
    by (simp_all add: new_response_def informational_def normal_status_def)
  from WriteResponse_sends [OF this, of "''oops''" MimeXML] show ?thesis by (auto simp: new_response_def)
qed

end
