(* ===== verification/Presign_Headers.thy ===== *)
theory Presign_Headers
  imports Request_Ctx
begin

text \<open>
  \<^verbatim>\<open>presign/header-operations.go\<close>: which headers a signature covers, and the temporary
  removal of all others while a request is signed. A header map is visited in the order of its
  association list.
\<close>

section \<open>Removing and restoring headers\<close>

text \<open>One round of the loop of \<^verbatim>\<open>temporaryRemoveHeaders\<close>; a key deleted in the meantime is not
  visited.\<close>

definition remove_step ::
  "string list \<Rightarrow> string \<Rightarrow> (string \<times> string) list \<times> mvals \<Rightarrow> (string \<times> string) list \<times> mvals" where
  "remove_step headersToKeep headerName s =
     (let (headers, h) = s in
      if headerName \<notin> fst ` set h \<or> headerName \<in> set headersToKeep then s
      else (AList.update headerName (header_Get h headerName) headers, header_Del h headerName))"

definition remove_headers :: "string list \<Rightarrow> mvals \<Rightarrow> (string \<times> string) list \<times> mvals" where
  "remove_headers headersToKeep h = fold (remove_step headersToKeep) (map fst h) ([], h)"

definition temporaryRemoveHeaders :: "request \<Rightarrow> string list \<Rightarrow> (string \<times> string) list \<times> request" where
  "temporaryRemoveHeaders r headersToKeep =
     (let (headers, h) = remove_headers headersToKeep (r_header r) in (headers, r\<lparr>r_header := h\<rparr>))"

definition add_headers :: "(string \<times> string) list \<Rightarrow> mvals \<Rightarrow> mvals" where
  "add_headers headers h = fold (\<lambda>(k, v) m. header_Add m k v) headers h"

definition reAddHeaders :: "(string \<times> string) list \<Rightarrow> request \<Rightarrow> request" where
  "reAddHeaders headers req = req\<lparr>r_header := add_headers headers (r_header req)\<rparr>"

section \<open>The headers a request has signed\<close>

definition alwaysSignHeaders :: "string list" where
  "alwaysSignHeaders = [AmzContentSHAKey, AmzRequestPayerKey, ''Host'', AuthorizationHeader]"

definition signedHeadersPrefix :: string where
  "signedHeadersPrefix = ''SignedHeaders=''"

definition invalid_structure :: "string \<Rightarrow> string \<Rightarrow> gerr" where
  "invalid_structure m ah = usererror_New (Some (Plain (m @ ah))) ''Authorization header has invalid structure''"

definition signed_headers_of_query :: "mvals \<Rightarrow> string list result" where
  "signed_headers_of_query queryVals =
     (if values_Has queryVals ExpiresKey \<and> values_Has queryVals SignatureKey \<and> values_Has queryVals AccessKeyId
      then Ok [canonical_key ''host'']
      else let s = values_Get queryVals AmzSignedHeadersKey in
        if s = ''host'' \<or> s = ''Host'' then Ok [canonical_key s]
        else if s = [] then Err (Plain ''no authorization header nor X-Amz-SignedHeaders query value'')
        else Err (usererror_New (Some (Plain (''unsupported  X-Amz-SignedHeaders value: '' @ s)))
                    ''Unsupported query value this is an error from the s3 proxy''))"

definition signed_headers_of_auth :: "string \<Rightarrow> string list result" where
  "signed_headers_of_auth ah =
     (let authorizationParts = str_split '','' ah in
      if length authorizationParts \<noteq> 3 then Err (invalid_structure ''signature not as expected; got: '' ah)
      else let p = trim_left_blank (authorizationParts ! 1) in
        if \<not> has_prefix p signedHeadersPrefix then
          Err (invalid_structure ''signature did not have expected signed headers prefix; got: '' ah)
        else Ok (map canonical_key (str_split '';'' (drop (length signedHeadersPrefix) p))))"

definition getSignedHeadersFromRequest :: "request \<Rightarrow> string list result" where
  "getSignedHeadersFromRequest req =
     (let ah = header_Get (r_header req) AuthorizationHeader in
      if ah = [] then signed_headers_of_query (r_query req) else signed_headers_of_auth ah)"

text \<open>\<^verbatim>\<open>TemporaryRemoveUntrustedHeaders\<close> returns the removed headers, which its callback
  adds again.\<close>

definition known_signed_headers :: "hstate \<Rightarrow> string list" where
  "known_signed_headers h = (case GetSignedHeaders h of Ok (Some hs) \<Rightarrow> hs | _ \<Rightarrow> [])"

definition TemporaryRemoveUntrustedHeaders :: "hstate \<Rightarrow> ((string \<times> string) list \<times> hstate) result" where
  "TemporaryRemoveUntrustedHeaders h =
     go_bind
       (if known_signed_headers h \<noteq> [] then Ok (known_signed_headers h, h)
        else go_bind (getSignedHeadersFromRequest (h_req h)) (\<lambda>hs. Ok (hs, SetSignedHeaders (Some hs) h)))
       (\<lambda>(signedHeaders, h1).
          let (headers, r) = temporaryRemoveHeaders (h_req h1) (signedHeaders @ alwaysSignHeaders) in
          Ok (headers, h1\<lparr>h_req := r\<rparr>))"

section \<open>Properties\<close>

lemma wf_header_canonical: "wf_header h \<Longrightarrow> k \<in> fst ` set h \<Longrightarrow> canonical_key k = k"
  by (auto simp: wf_header_def)

lemma header_Del_key: "wf_header h \<Longrightarrow> k \<in> fst ` set h \<Longrightarrow> header_Del h k = AList.delete k h"
  by (simp add: header_Del_def values_Del_def wf_header_canonical)

text \<open>The loop from any state: the keys it has yet to visit are removed unless kept.\<close>

lemma remove_fold:
  assumes "wf_header h" and "distinct ks" and "set ks \<subseteq> fst ` set h" and "set ks \<inter> fst ` set rem = {}"
  shows "fold (remove_step keep) ks (rem, h) =
    (rem @ map (\<lambda>k. (k, header_Get h k)) (filter (\<lambda>k. k \<notin> set keep) ks),
     filter (\<lambda>(k, _). k \<notin> set ks \<or> k \<in> set keep) h)"
  using assms
proof (induction ks arbitrary: rem h)
  case Nil
  then show ?case by simp
next
  case (Cons k ks)
  have k: "k \<in> fst ` set h" "k \<notin> fst ` set rem" "k \<notin> set ks" using Cons.prems by auto
  show ?case
  proof (cases "k \<in> set keep")
    case True
    have "fold (remove_step keep) ks (rem, h) =
        (rem @ map (\<lambda>k. (k, header_Get h k)) (filter (\<lambda>k. k \<notin> set keep) ks),
         filter (\<lambda>(k, _). k \<notin> set ks \<or> k \<in> set keep) h)"
      using Cons.prems by (intro Cons.IH) auto
    moreover have "filter (\<lambda>(x, _). x \<notin> set ks \<or> x \<in> set keep) h =
        filter (\<lambda>(x, _). x \<notin> set (k # ks) \<or> x \<in> set keep) h"
      using True by (intro filter_cong) auto
    moreover have "remove_step keep k (rem, h) = (rem, h)" using True by (simp add: remove_step_def)
    ultimately show ?thesis using True by simp
  next
    case False
    let ?h = "AList.delete k h"
    have upd: "AList.update k v rem = rem @ [(k, v)]" for v using k(2) by (induction rem) auto
    have step: "remove_step keep k (rem, h) = (rem @ [(k, header_Get h k)], ?h)"
      using False k Cons.prems(1) by (simp add: remove_step_def upd header_Del_key)
    have wf: "wf_header ?h"
      using wf_header_Del [OF Cons.prems(1), of k] k Cons.prems(1) by (simp add: header_Del_key)
    have "fold (remove_step keep) ks (rem @ [(k, header_Get h k)], ?h) =
        ((rem @ [(k, header_Get h k)]) @ map (\<lambda>k. (k, header_Get ?h k)) (filter (\<lambda>k. k \<notin> set keep) ks),
         filter (\<lambda>(k, _). k \<notin> set ks \<or> k \<in> set keep) ?h)"
      using Cons.prems k wf by (intro Cons.IH) (auto simp: set_delete_keys)
    moreover have "header_Get ?h x = header_Get h x" if "x \<in> set ks" for x
    proof -
      have "canonical_key x = x" using Cons.prems that by (auto intro: wf_header_canonical)
      moreover have "x \<noteq> k" using that k by auto
      ultimately show ?thesis by (simp add: header_Get_def values_Get_def values_vals_def go_map)
    qed
    moreover have "filter (\<lambda>(x, _). x \<notin> set ks \<or> x \<in> set keep) ?h =
        filter (\<lambda>(x, _). x \<notin> set (k # ks) \<or> x \<in> set keep) h"
      using False k(3) unfolding AList.delete_eq filter_filter by (intro filter_cong) auto
    ultimately show ?thesis using False step by (simp cong: map_cong)
  qed
qed

lemma remove_headers_char:
  assumes "wf_header h"
  shows "remove_headers keep h =
    (map (\<lambda>k. (k, header_Get h k)) (filter (\<lambda>k. k \<notin> set keep) (map fst h)),
     filter (\<lambda>(k, _). k \<in> set keep) h)"
proof -
  have "filter (\<lambda>(k, _). k \<notin> set (map fst h) \<or> k \<in> set keep) h = filter (\<lambda>(k, _). k \<in> set keep) h"
    by (intro filter_cong) (force intro: rev_image_eqI)+
  then show ?thesis
    using remove_fold [OF assms, of "map fst h" "[]" keep] assms
    by (simp add: remove_headers_def wf_header_def)
qed

lemma values_add_headers:
  assumes "distinct (map fst hs)" and "\<forall>(k, _) \<in> set hs. canonical_key k = k"
  shows "header_Values (add_headers hs m) x =
    header_Values m x @ (case map_of hs (canonical_key x) of None \<Rightarrow> [] | Some v \<Rightarrow> [v])"
  using assms
proof (induction hs arbitrary: m)
  case (Cons kv hs)
  obtain k v where kv: "kv = (k, v)" by (cases kv)
  have "map_of hs k = None" using Cons.prems(1) kv by (simp add: map_of_eq_None_iff)
  then show ?case using Cons kv
    by (auto simp: add_headers_def hdr.vals_add split: option.split)
qed (simp add: add_headers_def)

text \<open>Removing the headers a signature does not cover and adding them again gives back every
  kept header unchanged, but of a removed header only its FIRST value: a header sent with several
  values loses all others on its way through the signature check.\<close>

theorem reAddHeaders_first_values:
  assumes "wf_header (r_header r)" and "temporaryRemoveHeaders r keep = (hs, r')"
  shows "header_Values (r_header (reAddHeaders hs r')) x =
    (if canonical_key x \<in> set keep \<or> header_Values (r_header r) x = [] \<and> canonical_key x \<notin> fst ` set (r_header r)
     then header_Values (r_header r) x else [header_Get (r_header r) x])"
proof -
  let ?h = "r_header r" and ?ks = "filter (\<lambda>k. k \<notin> set keep) (map fst (r_header r))"
  have hs: "hs = map (\<lambda>k. (k, header_Get ?h k)) ?ks" and r': "r_header r' = filter (\<lambda>(k, _). k \<in> set keep) ?h"
    using assms(2) by (auto simp: temporaryRemoveHeaders_def remove_headers_char [OF assms(1)])
  have "distinct (map fst hs)" using assms(1) by (simp add: hs comp_def wf_header_def)
  moreover have "\<forall>(k, _) \<in> set hs. canonical_key k = k"
    unfolding hs using wf_header_canonical [OF assms(1)] by auto
  ultimately have vals: "header_Values (r_header (reAddHeaders hs r')) x = header_Values (r_header r') x @
      (case map_of hs (canonical_key x) of None \<Rightarrow> [] | Some v \<Rightarrow> [v])"
    by (simp add: reAddHeaders_def values_add_headers)
  have rem: "map_of hs (canonical_key x) =
      (if canonical_key x \<in> set ?ks then Some (header_Get ?h (canonical_key x)) else None)"
    unfolding hs by (simp only: map_of_map_restrict restrict_map_def o_def)
  have kept: "header_Values (r_header r') x = (if canonical_key x \<in> set keep then header_Values ?h x else [])"
    by (simp add: r' header_Values_def values_vals_def go_map)
  have get: "header_Get ?h (canonical_key x) = header_Get ?h x" if "canonical_key x \<in> fst ` set ?h"
    using wf_header_canonical [OF assms(1) that] by (simp add: header_Get_def)
  have absent: "header_Values ?h x = []" if "canonical_key x \<notin> fst ` set ?h"
    using that by (simp add: header_Values_def values_vals_def flip: map_of_eq_None_iff)
  show ?thesis
  proof (cases "canonical_key x \<in> set keep")
    case True
    then show ?thesis by (simp add: vals rem kept)
  next
    case False
    then show ?thesis
      using get absent by (cases "canonical_key x \<in> fst ` set ?h") (simp_all add: vals rem kept)
  qed
qed

lemma reAddHeaders_first_values_witness:
  "\<exists>hs r'. temporaryRemoveHeaders (\<lparr>r_method = ''GET'', r_url = empty_url, r_host = [],
      r_header = [(''X-Meta'', [''a'', ''b''])], r_uri = [], r_remote = [], r_length = 0, r_body = []\<rparr>) [] = (hs, r')
    \<and> header_Values (r_header (reAddHeaders hs r')) ''X-Meta'' = [''a'']"
proof -
  let ?r = "\<lparr>r_method = ''GET'', r_url = empty_url, r_host = [],
      r_header = [(''X-Meta'', [''a'', ''b''])], r_uri = [], r_remote = [], r_length = 0, r_body = []\<rparr>"
  have c: "canonical_key ''X-Meta'' = ''X-Meta''" by code_simp
  obtain hs r' where t: "temporaryRemoveHeaders ?r [] = (hs, r')" by (cases "temporaryRemoveHeaders ?r []")
  have "wf_header (r_header ?r)" by (simp add: wf_header_def c)
  from reAddHeaders_first_values [OF this t, of "''X-Meta''"] t show ?thesis
    by (auto simp: c header_Get_def values_Get_def values_vals_def)
qed

end
