(* ===== verification/Aws_Time.thy ===== *)
theory Aws_Time
  imports Numbers
begin

text \<open>
  Dates of presigned URLs: \<^verbatim>\<open>presign/aws-conversion.go\<close> and \<^verbatim>\<open>presign/utils.go\<close>, with
  \<^verbatim>\<open>time.Parse\<close> for the one layout the code uses, \<^verbatim>\<open>20060102T150405Z\<close>, written out: the
  hour may have one digit, a fraction of a second is accepted although the layout has none, and
  the day must exist in its month. An instant is in nanoseconds since the epoch.
\<close>

section \<open>Calendar\<close>

definition leap_year :: "int \<Rightarrow> bool" where
  "leap_year y = (y mod 4 = 0 \<and> (y mod 100 \<noteq> 0 \<or> y mod 400 = 0))"

definition days_in :: "int \<Rightarrow> int \<Rightarrow> int" where
  "days_in m y = (if m = 2 then (if leap_year y then 29 else 28)
                  else if m \<in> {4, 6, 9, 11} then 30 else 31)"

definition days_before_year :: "int \<Rightarrow> int" where
  "days_before_year y = 365 * (y - 1) + (y - 1) div 4 - (y - 1) div 100 + (y - 1) div 400"

definition epoch_day :: "int \<Rightarrow> int \<Rightarrow> int \<Rightarrow> int" where
  "epoch_day y m d =
     days_before_year y + sum_list (map (\<lambda>i. days_in i y) [1..m - 1]) + (d - 1) - days_before_year 1970"

section \<open>Parsing\<close>

definition getnum :: "bool \<Rightarrow> string \<Rightarrow> (int \<times> string) option" where
  "getnum fixed s =
     (case s of
        a # b # r \<Rightarrow>
          if \<not> is_digit a then None
          else if is_digit b then Some (int (dec_value [a, b]), r)
          else if fixed then None else Some (int (dec_value [a]), b # r)
      | [a] \<Rightarrow> if is_digit a \<and> \<not> fixed then Some (int (dec_value [a]), []) else None
      | [] \<Rightarrow> None)"

definition get_year :: "string \<Rightarrow> (int \<times> string) option" where
  "get_year s = (if length s \<ge> 4 \<and> list_all is_digit (take 4 s)
                 then Some (int (dec_value (take 4 s)), drop 4 s) else None)"

text \<open>The fraction after the seconds: at most nine digits count.\<close>

definition get_fraction :: "string \<Rightarrow> int \<times> string" where
  "get_fraction s =
     (case s of
        c # a # r \<Rightarrow>
          if (c = CHR ''.'' \<or> c = CHR '','') \<and> is_digit a then
            (let ds = take 9 (takeWhile is_digit (a # r)) in
             (int (dec_value ds * 10 ^ (9 - length ds)), dropWhile is_digit (a # r)))
          else (0, s)
      | _ \<Rightarrow> (0, s))"

definition time_error :: gerr where
  "time_error = Plain ''parsing time''"

definition in_range :: "int \<Rightarrow> int \<Rightarrow> int \<Rightarrow> bool" where
  "in_range lo hi x = (lo \<le> x \<and> x \<le> hi)"

definition XAmzDateToTime :: "string \<Rightarrow> int result" where
  "XAmzDateToTime s =
     (case get_year s of None \<Rightarrow> Err time_error | Some (y, s1) \<Rightarrow>
      (case getnum True s1 of None \<Rightarrow> Err time_error | Some (mo, s2) \<Rightarrow>
      (case getnum True s2 of None \<Rightarrow> Err time_error | Some (d, s3) \<Rightarrow>
      if \<not> has_prefix s3 ''T'' \<or> \<not> in_range 1 12 mo then Err time_error else
      (case getnum False (drop 1 s3) of None \<Rightarrow> Err time_error | Some (h, s4) \<Rightarrow>
      (case getnum True s4 of None \<Rightarrow> Err time_error | Some (mi, s5) \<Rightarrow>
      (case getnum True s5 of None \<Rightarrow> Err time_error | Some (se, s6) \<Rightarrow>
      (let (ns, s7) = get_fraction s6 in
       if \<not> in_range 0 23 h \<or> \<not> in_range 0 59 mi \<or> \<not> in_range 0 59 se \<or> s7 \<noteq> ''Z''
          \<or> \<not> in_range 1 (days_in mo y) d
       then Err time_error
       else Ok ((((epoch_day y mo d * 24 + h) * 60 + mi) * 60 + se) * time_Second + ns))))))))"

text \<open>\<^verbatim>\<open>XAmzExpiryToTime\<close> reports an invalid date together with a time; the model keeps the
  error.\<close>

definition XAmzExpiryToTime :: "string \<Rightarrow> nat \<Rightarrow> int result" where
  "XAmzExpiryToTime XAmzDate expirySeconds =
     (if expirySeconds < 365 * 24 * 3600
      then go_bind (XAmzDateToTime XAmzDate) (\<lambda>t. Ok (t + time_Duration_seconds (int expirySeconds)))
      else Err (Plain (''invalid amount of expiry seconds '' @ dec_string expirySeconds)))"

definition epochStrToTime :: "string \<Rightarrow> int result" where
  "epochStrToTime s = go_bind (go_Atoi s) (\<lambda>expiresInt. Ok (expiresInt * time_Second))"

lemma XAmzDateToTime_examples:
  "XAmzDateToTime ''19700101T000000Z'' = Ok 0"
  "XAmzDateToTime ''20240914T190903Z'' = Ok (1726340943 * time_Second)"
  "XAmzDateToTime ''20240229T000000Z'' = Ok (1709164800 * time_Second)"
  "XAmzDateToTime ''20230229T000000Z'' = Err time_error"
  by code_simp+

section \<open>Printing\<close>

text \<open>The inverse: the format the layout describes.\<close>

definition two_digits :: "nat \<Rightarrow> string" where
  "two_digits n = [digit_char (n div 10), digit_char (n mod 10)]"

definition four_digits :: "nat \<Rightarrow> string" where
  "four_digits n = two_digits (n div 100) @ two_digits (n mod 100)"

definition amz_format :: "nat \<Rightarrow> nat \<Rightarrow> nat \<Rightarrow> nat \<Rightarrow> nat \<Rightarrow> nat \<Rightarrow> string" where
  "amz_format y mo d h mi s =
     four_digits y @ two_digits mo @ two_digits d @ ''T'' @ two_digits h @ two_digits mi @ two_digits s @ ''Z''"

lemma two_digits_value: "n < 100 \<Longrightarrow> is_digit (digit_char (n div 10)) \<and> is_digit (digit_char (n mod 10))
    \<and> dec_value (two_digits n) = n"
proof -
  assume "n < 100"
  then have "n div 10 < 10" "n mod 10 < 10" by auto
  then show ?thesis by (simp add: two_digits_def dec_value_def is_digit_range of_digit_char)
qed

lemma getnum_two_digits: "n < 100 \<Longrightarrow> getnum f (two_digits n @ r) = Some (int n, r)"
  using two_digits_value [of n] by (simp add: getnum_def two_digits_def)

lemma get_year_four_digits: "y < 10000 \<Longrightarrow> get_year (four_digits y @ r) = Some (int y, r)"
proof -
  assume y: "y < 10000"
  then have "y div 100 < 100" "y mod 100 < 100" by auto
  note d = two_digits_value [OF this(1)] two_digits_value [OF this(2)]
  have "dec_value (four_digits y) = dec_value (two_digits (y div 100)) * 100 + dec_value (two_digits (y mod 100))"
    by (simp add: four_digits_def two_digits_def dec_value_def)
  then have "dec_value (four_digits y) = y" using d by simp
  then show ?thesis using d by (simp add: get_year_def four_digits_def two_digits_def)
qed

lemma parse_amz_format:
  assumes "y < 10000" and "1 \<le> mo" and "mo \<le> 12" and "1 \<le> d" and "int d \<le> days_in (int mo) (int y)"
    and "h < 24" and "mi < 60" and "s < 60"
  shows "XAmzDateToTime (amz_format y mo d h mi s) =
    Ok ((((epoch_day (int y) (int mo) (int d) * 24 + int h) * 60 + int mi) * 60 + int s) * time_Second)"
proof -
  have "d < 100" using assms(5) by (simp add: days_in_def split: if_splits)
  then show ?thesis using assms
    by (simp add: XAmzDateToTime_def amz_format_def get_year_four_digits getnum_two_digits has_prefix_def
        in_range_def get_fraction_def)
qed

end
