(* ===== verification/Sha1.thy ===== *)
theory Sha1
  imports Numbers
begin

text \<open>
  \<^verbatim>\<open>Sha1sum\<close> of \<^verbatim>\<open>utils/hashing.go\<close>, with SHA-1 of the standard library (\<^verbatim>\<open>crypto/sha1\<close>) written out on
  32-bit words and a test vector evaluated in four parts.
\<close>

unbundle bit_operations_syntax

section \<open>Words and bytes\<close>

definition word_of_chars :: "string \<Rightarrow> 32 word" where
  "word_of_chars s = foldl (\<lambda>w c. push_bit 8 w OR of_nat (of_char c)) 0 s"

definition byte_of_word :: "'a::len word \<Rightarrow> nat \<Rightarrow> char" where
  "byte_of_word w k = char_of (unat (drop_bit k w AND 0xFF))"

definition chars_of_word :: "32 word \<Rightarrow> string" where
  "chars_of_word w = map (byte_of_word w) [24, 16, 8, 0]"

definition rotate_left :: "nat \<Rightarrow> 32 word \<Rightarrow> 32 word" where
  "rotate_left n w = push_bit n w OR drop_bit (32 - n) w"

section \<open>The digest\<close>

definition sha1_pad :: "string \<Rightarrow> string" where
  "sha1_pad s = s @ CHR 0x80 # replicate ((119 - length s mod 64) mod 64) (CHR 0x00)
     @ map (byte_of_word (push_bit 3 (of_nat (length s)) :: 64 word)) [56, 48, 40, 32, 24, 16, 8, 0]"

text \<open>The message schedule, the newest word first.\<close>

fun sha1_expand :: "nat \<Rightarrow> 32 word list \<Rightarrow> 32 word list" where
  "sha1_expand 0 ws = ws"
| "sha1_expand (Suc n) ws = sha1_expand n (rotate_left 1 (ws ! 2 XOR ws ! 7 XOR ws ! 13 XOR ws ! 15) # ws)"

type_synonym sha1_state = "32 word \<times> 32 word \<times> 32 word \<times> 32 word \<times> 32 word"

fun sha1_round :: "sha1_state \<Rightarrow> nat \<times> 32 word \<Rightarrow> sha1_state" where
  "sha1_round (a, b, c, d, e) (t, w) =
     (let (f, k) = (if t < 20 then ((b AND c) OR (NOT b AND d), 0x5A827999)
                    else if t < 40 then (b XOR c XOR d, 0x6ED9EBA1)
                    else if t < 60 then ((b AND c) OR (b AND d) OR (c AND d), 0x8F1BBCDC)
                    else (b XOR c XOR d, 0xCA62C1D6)) in
      (rotate_left 5 a + f + e + k + w, a, rotate_left 30 b, c, d))"

fun sha1_add :: "sha1_state \<Rightarrow> sha1_state \<Rightarrow> sha1_state" where
  "sha1_add (a, b, c, d, e) (a', b', c', d', e') = (a + a', b + b', c + c', d + d', e + e')"

definition sha1_block :: "sha1_state \<Rightarrow> string \<Rightarrow> sha1_state" where
  "sha1_block h block =
     (let ws = rev (sha1_expand 64 (rev (map word_of_chars (chunks 4 block)))) in
      sha1_add h (foldl sha1_round h (zip [0..<80] ws)))"

definition sha1_init :: sha1_state where
  "sha1_init = (0x67452301, 0xEFCDAB89, 0x98BADCFE, 0x10325476, 0xC3D2E1F0)"

fun sha1_output :: "sha1_state \<Rightarrow> string" where
  "sha1_output (a, b, c, d, e) = concat (map chars_of_word [a, b, c, d, e])"

definition sha1 :: "string \<Rightarrow> string" where
  "sha1 s = sha1_output (foldl sha1_block sha1_init (chunks 64 (sha1_pad s)))"

definition hex_lower :: "nat \<Rightarrow> char" where
  "hex_lower n = ''0123456789abcdef'' ! n"

definition hex_encode :: "string \<Rightarrow> string" where
  "hex_encode s = concat (map (\<lambda>c. [hex_lower (of_char c div 16), hex_lower (of_char c mod 16)]) s)"

definition Sha1sum :: "string \<Rightarrow> string" where
  "Sha1sum s = hex_encode (sha1 s)"

section \<open>A test vector\<close>

lemma sha1_expand_add: "sha1_expand (m + n) ws = sha1_expand n (sha1_expand m ws)"
  by (induction m arbitrary: ws) simp_all

text \<open>The words of the schedule for the empty message, sixteen at a time.\<close>

definition empty_words :: "32 word list" where
  "empty_words = [
     0x80000000, 0, 0, 0, 0, 0, 0, 0, 0, 0, 0, 0, 0, 0, 0, 0, 1, 0, 0, 0x2, 0, 0, 0x4, 0, 0x2,
     0x8, 0, 0, 0x10, 0, 0xA, 0x20, 0x6, 0, 0x40, 0x8, 0x28, 0x80, 0x8, 0, 0x108, 0, 0xA0,
     0x200, 0x64, 0, 0x408, 0x88, 0x29C, 0x800, 0x80, 0x28, 0x1088, 0, 0xA40, 0x2000, 0x668,
     0x80, 0x4088, 0x880, 0x28C8, 0x8000, 0x8A8, 0x80, 0x108E8, 0, 0xA000, 0x20080, 0x6400, 0,
     0x40800, 0x8800, 0x29C10, 0x80000, 0x8080, 0x2820, 0x1088C0, 0, 0xA40C0, 0x200080]"

lemma empty_block: "map word_of_chars (chunks 4 (sha1_pad [])) = take 16 empty_words"
  by code_simp

lemma empty_schedule_1: "sha1_expand 16 (rev (take 16 empty_words)) = rev (take 32 empty_words)"
  by code_simp

lemma empty_schedule_2: "sha1_expand 16 (rev (take 32 empty_words)) = rev (take 48 empty_words)"
  by code_simp

lemma empty_schedule_3: "sha1_expand 16 (rev (take 48 empty_words)) = rev (take 64 empty_words)"
  by code_simp

lemma empty_schedule_4: "sha1_expand 16 (rev (take 64 empty_words)) = rev (take 80 empty_words)"
  by code_simp

lemma empty_rounds_1:
  "foldl sha1_round (0x67452301, 0xEFCDAB89, 0x98BADCFE, 0x10325476, 0xC3D2E1F0)
     (zip [0..<20] (take 20 (drop 0 empty_words))) =
   (0xE758E8DA, 0xB3088DD, 0x8A2A5483, 0xC1AFE45C, 0xF63F5951)"
  by code_simp

lemma empty_rounds_2:
  "foldl sha1_round (0xE758E8DA, 0xB3088DD, 0x8A2A5483, 0xC1AFE45C, 0xF63F5951)
     (zip [20..<40] (take 20 (drop 20 empty_words))) =
   (0x9BDBDD71, 0x62273351, 0xEC805E22, 0x413C1D9A, 0x2AEEAE62)"
  by code_simp

lemma empty_rounds_3:
  "foldl sha1_round (0x9BDBDD71, 0x62273351, 0xEC805E22, 0x413C1D9A, 0x2AEEAE62)
     (zip [40..<60] (take 20 (drop 40 empty_words))) =
   (0x9B9D2913, 0x982BCBCA, 0xB86BEAC8, 0xC5A3382E, 0xAF9292FA)"
  by code_simp

lemma empty_rounds_4:
  "foldl sha1_round (0x9B9D2913, 0x982BCBCA, 0xB86BEAC8, 0xC5A3382E, 0xAF9292FA)
     (zip [60..<80] (take 20 (drop 60 empty_words))) =
   (0x72F480ED, 0x6E9D9F84, 0x999AE2F1, 0x852DC41A, 0xEC052519)"
  by code_simp

lemma empty_schedule: "sha1_expand 64 (rev (take 16 empty_words)) = rev empty_words"
proof -
  have "sha1_expand (16 + (16 + (16 + 16))) (rev (take 16 empty_words)) = rev (take 80 empty_words)"
    unfolding sha1_expand_add using empty_schedule_1 empty_schedule_2 empty_schedule_3 empty_schedule_4 by simp
  then show ?thesis by (simp add: empty_words_def)
qed

lemma zip_upt_split:
  assumes "length ws = b" and "k \<le> b"
  shows "zip [a..<a + b] ws = zip [a..<a + k] (take k ws) @ zip [a + k..<a + b] (drop k ws)"
proof -
  have "[a..<a + b] = [a..<a + k] @ [a + k..<a + b]"
    using upt_add_eq_append [of a "a + k" "b - k"] assms(2) by simp
  moreover have "zip ([a..<a + k] @ [a + k..<a + b]) (take k ws @ drop k ws)
      = zip [a..<a + k] (take k ws) @ zip [a + k..<a + b] (drop k ws)"
    using assms by (intro zip_append) simp
  ultimately show ?thesis by simp
qed

lemma empty_rounds: "foldl sha1_round sha1_init (zip [0..<80] empty_words) =
   (0x72F480ED, 0x6E9D9F84, 0x999AE2F1, 0x852DC41A, 0xEC052519)"
proof -
  have len: "length empty_words = 80" by (simp add: empty_words_def)
  have "zip [0..<80] empty_words = zip [0..<20] (take 20 empty_words) @ zip [20..<40] (take 20 (drop 20 empty_words))
      @ zip [40..<60] (take 20 (drop 40 empty_words)) @ zip [60..<80] (take 20 (drop 60 empty_words))"
    using zip_upt_split [of empty_words 80 20 0] zip_upt_split [of "drop 20 empty_words" 60 20 20]
      zip_upt_split [of "drop 40 empty_words" 40 20 40] len by simp
  then show ?thesis
    using empty_rounds_1 empty_rounds_2 empty_rounds_3 empty_rounds_4 by (simp add: sha1_init_def)
qed

definition sha1_of_nothing :: string where
  "sha1_of_nothing = [CHR 0xDA, CHR 0x39, CHR 0xA3, CHR 0xEE, CHR 0x5E,
     CHR 0x6B, CHR 0x4B, CHR 0x0D, CHR 0x32, CHR 0x55, CHR 0xBF, CHR 0xEF, CHR 0x95,
     CHR 0x60, CHR 0x18, CHR 0x90, CHR 0xAF, CHR 0xD8, CHR 0x07, CHR 0x09]"

lemma sha1_of_nothing: "sha1 [] = sha1_of_nothing"
proof -
  have "length (sha1_pad []) = 64" by code_simp
  then have one: "chunks 64 (sha1_pad []) = [sha1_pad []]"
    using chunks_append [of "sha1_pad []" 64 "[]"] by simp
  have "sha1_block sha1_init (sha1_pad []) = sha1_add sha1_init (foldl sha1_round sha1_init (zip [0..<80] empty_words))"
    unfolding sha1_block_def empty_block Let_def empty_schedule by simp
  then have "sha1 [] = sha1_output (sha1_add sha1_init
      (0x72F480ED, 0x6E9D9F84, 0x999AE2F1, 0x852DC41A, 0xEC052519))"
    by (simp only: sha1_def one empty_rounds foldl.simps)
  also have "\<dots> = sha1_of_nothing" by code_simp
  finally show ?thesis .
qed

lemma Sha1sum_nil: "Sha1sum [] = ''da39a3ee5e6b4b0d3255bfef95601890afd80709''"
  unfolding Sha1sum_def sha1_of_nothing by code_simp

end
