(* ===== verification/Credentials.thy ===== *)
theory Credentials
  imports Codecs Sha1
begin

text \<open>
  Key material and credentials: \<^verbatim>\<open>utils/rsa.go\<close>, \<^verbatim>\<open>utils/file.go\<close> (reading),
  \<^verbatim>\<open>aws/credentials\<close> and \<^verbatim>\<open>aws/service/sts/session\<close>.
  Cryptography is a parameter: the ASN.1 parsers of the standard library, and the
  package \<^verbatim>\<open>golang-jwt\<close> (signing and verification of tokens), whose documented behaviour is
  the predicate \<open>jwt_lib_ok\<close>. A file system is a map from paths to contents. The clock and the
  generated UUID are arguments of the functions that read them.
\<close>

section \<open>Keys\<close>

record rsa_pub =
  pub_N :: nat
  pub_E :: nat

record rsa_key =
  key_pub :: rsa_pub
  key_D :: nat

text \<open>\<open>pem_Decode\<close> returns the bytes of the first block, None when there is none.\<close>

record x509_lib =
  pem_Decode :: "string \<Rightarrow> string option"
  ParsePKCS1PrivateKey :: "string \<Rightarrow> rsa_key result"
  ParsePKIXPublicKey :: "string \<Rightarrow> rsa_pub option result"
  ParsePKCS1PublicKey :: "string \<Rightarrow> rsa_pub result"

definition nil_deref :: string where
  "nil_deref = ''invalid memory address or nil pointer dereference''"

definition ReadFileFull :: "(string \<rightharpoonup> string) \<Rightarrow> string \<Rightarrow> string result" where
  "ReadFileFull fs filePath = (case fs filePath of None \<Rightarrow> Err (Plain ''no such file or directory'') | Some c \<Rightarrow> Ok c)"

text \<open>The block is used without a nil check: content that holds no PEM block panics.\<close>

definition PrivateKeyFromPem :: "x509_lib \<Rightarrow> string \<Rightarrow> rsa_key result" where
  "PrivateKeyFromPem X pemBytes =
     (case pem_Decode X pemBytes of
        None \<Rightarrow> Panic nil_deref
      | Some block \<Rightarrow> ParsePKCS1PrivateKey X block)"

definition PrivateKeyFromPemFile :: "x509_lib \<Rightarrow> (string \<rightharpoonup> string) \<Rightarrow> string \<Rightarrow> rsa_key result" where
  "PrivateKeyFromPemFile X fs filePath =
     go_bind (ReadFileFull fs filePath) (\<lambda>pemBytes. PrivateKeyFromPem X pemBytes)"

text \<open>\<open>ParsePKIXPublicKey\<close> gives \<open>Ok None\<close> for a key that is not an RSA key.\<close>

definition PublicKeyFromPem :: "x509_lib \<Rightarrow> string \<Rightarrow> rsa_pub result" where
  "PublicKeyFromPem X pemBytes =
     (case pem_Decode X pemBytes of
        None \<Rightarrow> Panic nil_deref
      | Some block \<Rightarrow>
          (case ParsePKIXPublicKey X block of
             Ok (Some pk) \<Rightarrow> Ok pk
           | Ok None \<Rightarrow> Err (Plain ''could build public key'')
           | Err _ \<Rightarrow> ParsePKCS1PublicKey X block
           | Panic m \<Rightarrow> Panic m))"

definition PublickKeyFromPemFile :: "x509_lib \<Rightarrow> (string \<rightharpoonup> string) \<Rightarrow> string \<Rightarrow> rsa_pub result" where
  "PublickKeyFromPemFile X fs filePath =
     go_bind (ReadFileFull fs filePath) (\<lambda>pemBytes. PublicKeyFromPem X pemBytes)"

section \<open>Session claims and tokens\<close>

record AWSSessionTags =
  PrincipalTags :: "(string \<times> string list) list"
  TransitiveTagKeys :: "string list"

text \<open>\<^verbatim>\<open>SessionClaims\<close> with the fields of the embedded \<^verbatim>\<open>IDPClaims\<close> and
  \<^verbatim>\<open>jwt.RegisteredClaims\<close>. The dates are optional and have a precision of one second.\<close>

record SessionClaims =
  RoleARN :: string
  IIssuer :: string
  Tags :: AWSSessionTags
  reg_Issuer :: string
  reg_Subject :: string
  ExpiresAt :: "int option"
  IssuedAt :: "int option"
  NotBefore :: "int option"
  reg_ID :: string
  AccessKeyID :: string

type_synonym keyfunc = "SessionClaims \<Rightarrow> rsa_pub result"

record jwt_lib =
  SignedString :: "SessionClaims \<Rightarrow> rsa_key \<Rightarrow> string result"
  ParseUnverified :: "string \<Rightarrow> SessionClaims result"
  ParseWithClaims :: "int \<Rightarrow> int \<Rightarrow> string \<Rightarrow> keyfunc \<Rightarrow> SessionClaims result"
  verified :: "string \<Rightarrow> rsa_pub \<Rightarrow> SessionClaims \<Rightarrow> bool"

text \<open>The validity in time that the parser checks by default, with a leeway.\<close>

definition claims_time_ok :: "int \<Rightarrow> int \<Rightarrow> SessionClaims \<Rightarrow> bool" where
  "claims_time_ok now leeway c =
     ((case ExpiresAt c of None \<Rightarrow> True | Some e \<Rightarrow> now < e + leeway) \<and>
      (case NotBefore c of None \<Rightarrow> True | Some n \<Rightarrow> n \<le> now + leeway))"

text \<open>Documented behaviour of the JWT package: a token it accepts carries claims that verify
  under the key the key function returned and are valid at this time; a token it signed is
  accepted under the matching public key while its claims are valid; parsing without
  verification gives the same claims.\<close>

definition jwt_lib_ok :: "jwt_lib \<Rightarrow> bool" where
  "jwt_lib_ok J =
     ((\<forall>now lw tok kf c. ParseWithClaims J now lw tok kf = Ok c \<longrightarrow>
         (\<exists>pk. kf c = Ok pk \<and> verified J tok pk c) \<and> claims_time_ok now lw c) \<and>
      (\<forall>now lw tok kf c sk. SignedString J c sk = Ok tok \<and> kf c = Ok (key_pub sk) \<and> claims_time_ok now lw c \<longrightarrow>
         ParseWithClaims J now lw tok kf = Ok c) \<and>
      (\<forall>now lw tok kf c. ParseWithClaims J now lw tok kf = Ok c \<longrightarrow> ParseUnverified J tok = Ok c))"

lemma jwt_accepts:
  "jwt_lib_ok J \<Longrightarrow> SignedString J c sk = Ok tok \<Longrightarrow> kf c = Ok (key_pub sk) \<Longrightarrow> claims_time_ok now lw c \<Longrightarrow>
   ParseWithClaims J now lw tok kf = Ok c"
  unfolding jwt_lib_ok_def by blast

definition NewNumericDate :: "int \<Rightarrow> int" where
  "NewNumericDate t = t - t mod time_Second"

text \<open>\<^verbatim>\<open>NewIDPClaims\<close>: the fields outside \<^verbatim>\<open>IDPClaims\<close> are empty.\<close>

definition NewIDPClaims :: "int \<Rightarrow> string \<Rightarrow> string \<Rightarrow> string \<Rightarrow> int \<Rightarrow> AWSSessionTags \<Rightarrow> SessionClaims" where
  "NewIDPClaims now uuid issuer subject expiry tags =
     \<lparr>RoleARN = [], IIssuer = [], Tags = tags, reg_Issuer = issuer, reg_Subject = subject,
      ExpiresAt = Some (NewNumericDate (now + expiry)), IssuedAt = Some (NewNumericDate now),
      NotBefore = Some (NewNumericDate now), reg_ID = uuid, AccessKeyID = []\<rparr>"

definition CreateRS256PolicyToken ::
  "int \<Rightarrow> string \<Rightarrow> string \<Rightarrow> string \<Rightarrow> string \<Rightarrow> string \<Rightarrow> int \<Rightarrow> AWSSessionTags \<Rightarrow> SessionClaims" where
  "CreateRS256PolicyToken now uuid issuer iIssuer subject roleARN expiry tags =
     \<lparr>RoleARN = roleARN, IIssuer = iIssuer, Tags = tags, reg_Issuer = issuer, reg_Subject = subject,
      ExpiresAt = Some (NewNumericDate (now + expiry)), IssuedAt = Some (NewNumericDate now),
      NotBefore = Some (NewNumericDate now), reg_ID = uuid, AccessKeyID = []\<rparr>"

definition SetAccessKeyId :: "SessionClaims \<Rightarrow> string \<Rightarrow> SessionClaims" where
  "SetAccessKeyId s akid = s\<lparr>AccessKeyID := akid\<rparr>"

definition GetAccessKeyId :: "SessionClaims \<Rightarrow> string" where
  "GetAccessKeyId s = AccessKeyID s"

definition CreateSignedToken :: "jwt_lib \<Rightarrow> SessionClaims \<Rightarrow> rsa_key result \<Rightarrow> string result" where
  "CreateSignedToken J t keyStorage = go_bind keyStorage (\<lambda>signingKey. SignedString J t signingKey)"

text \<open>\<^verbatim>\<open>ExtractTokenClaims\<close>: no key function means no verification; the error of an
  expired token gets a message for the client.\<close>

definition expired_text :: string where
  "expired_text = ''token has invalid claims: token is expired''"

definition ExtractTokenClaims :: "jwt_lib \<Rightarrow> int \<Rightarrow> int \<Rightarrow> string \<Rightarrow> keyfunc option \<Rightarrow> SessionClaims result" where
  "ExtractTokenClaims J now leeway token keyFunc =
     (if token = [] then Err (Plain ''invalid argument'')
      else case (case keyFunc of None \<Rightarrow> ParseUnverified J token
                 | Some kf \<Rightarrow> ParseWithClaims J now leeway token kf) of
        Err e \<Rightarrow> if err_Error e = expired_text
                 then Err (usererror_New (Some e) ''Session credentials are expired'')
                 else Err e
      | r \<Rightarrow> r)"

definition ExtractOIDCTokenClaims :: "jwt_lib \<Rightarrow> int \<Rightarrow> string \<Rightarrow> keyfunc \<Rightarrow> SessionClaims result" where
  "ExtractOIDCTokenClaims J now token oidcKeyFunc = ExtractTokenClaims J now 0 token (Some oidcKeyFunc)"

lemma ExtractTokenClaims_verified:
  assumes "jwt_lib_ok J" and "ExtractTokenClaims J now lw token (Some kf) = Ok c"
  shows "\<exists>pk. kf c = Ok pk \<and> verified J token pk c" and "claims_time_ok now lw c"
    and "ExtractTokenClaims J now' lw' token None = Ok c"
proof -
  have p: "ParseWithClaims J now lw token kf = Ok c" "token \<noteq> []"
    using assms(2) by (auto simp: ExtractTokenClaims_def split: if_splits go.splits)
  then show "\<exists>pk. kf c = Ok pk \<and> verified J token pk c" "claims_time_ok now lw c"
    using assms(1) unfolding jwt_lib_ok_def by blast+
  have "ParseUnverified J token = Ok c" using p assms(1) unfolding jwt_lib_ok_def by blast
  then show "ExtractTokenClaims J now' lw' token None = Ok c" using p by (simp add: ExtractTokenClaims_def)
qed

section \<open>The key store\<close>

text \<open>The interface \<^verbatim>\<open>KeyPairKeeper\<close>: what its clients rely on is that the public key belongs
  to the private key.\<close>

locale key_pair_keeper =
  fixes GetPrivateKey :: "'s \<Rightarrow> rsa_key result"
    and GetPublicKey :: "'s \<Rightarrow> rsa_pub result"
    and GetJwtKeyFunc :: "'s \<Rightarrow> keyfunc"
  assumes public_matches: "GetPrivateKey s = Ok sk \<Longrightarrow> GetPublicKey s = Ok (key_pub sk)"
    and keyfunc_public: "GetJwtKeyFunc s c = GetPublicKey s"
begin

lemma own_token_accepted:
  assumes "jwt_lib_ok J" and "GetPrivateKey s = Ok sk" and "SignedString J c sk = Ok tok" and "tok \<noteq> []"
    and "claims_time_ok now lw c"
  shows "ExtractTokenClaims J now lw tok (Some (GetJwtKeyFunc s)) = Ok c"
proof -
  have "GetJwtKeyFunc s c = Ok (key_pub sk)" using assms(2) by (simp add: keyfunc_public public_matches)
  then have "ParseWithClaims J now lw tok (GetJwtKeyFunc s) = Ok c"
    using assms unfolding jwt_lib_ok_def by blast
  then show ?thesis using assms(4) by (simp add: ExtractTokenClaims_def)
qed

lemma accepted_token_verified:
  assumes "jwt_lib_ok J" and "GetPrivateKey s = Ok sk"
    and "ExtractTokenClaims J now lw tok (Some (GetJwtKeyFunc s)) = Ok c"
  shows "verified J tok (key_pub sk) c \<and> claims_time_ok now lw c"
  using ExtractTokenClaims_verified [OF assms(1,3)] public_matches [OF assms(2)]
  by (auto simp: keyfunc_public)

end

record privateKeyStorage =
  privateKey :: rsa_key

definition GetPrivateKey :: "privateKeyStorage \<Rightarrow> rsa_key result" where
  "GetPrivateKey s = Ok (privateKey s)"

definition GetPublicKey :: "privateKeyStorage \<Rightarrow> rsa_pub result" where
  "GetPublicKey s = Ok (key_pub (privateKey s))"

definition GetJwtKeyFunc :: "privateKeyStorage \<Rightarrow> keyfunc" where
  "GetJwtKeyFunc s = (\<lambda>t. GetPublicKey s)"

definition NewKeyStorage :: "x509_lib \<Rightarrow> (string \<rightharpoonup> string) \<Rightarrow> string \<Rightarrow> privateKeyStorage result" where
  "NewKeyStorage X fs path = go_bind (PrivateKeyFromPemFile X fs path) (\<lambda>key. Ok \<lparr>privateKey = key\<rparr>)"

interpretation keeper: key_pair_keeper GetPrivateKey GetPublicKey GetJwtKeyFunc
  by unfold_locales (auto simp: GetPrivateKey_def GetPublicKey_def GetJwtKeyFunc_def)

section \<open>Credentials\<close>

record AWSCredentials =
  AccessKey :: string
  SecretKey :: string
  SessionToken :: string
  Expiration :: int

record aws_Credentials =
  aws_AccessKeyID :: string
  aws_SecretAccessKey :: string
  aws_SessionToken :: string
  aws_CanExpire :: bool
  aws_Expires :: int
  aws_Source :: string
  aws_AccountID :: string

text \<open>The zero value of \<^verbatim>\<open>time.Time\<close> is 1 January of year 1.\<close>

definition zero_time :: int where
  "zero_time = - 62135596800 * time_Second"

definition FromAwsFormat :: "aws_Credentials \<Rightarrow> AWSCredentials" where
  "FromAwsFormat creds = \<lparr>AccessKey = aws_AccessKeyID creds, SecretKey = aws_SecretAccessKey creds,
     SessionToken = aws_SessionToken creds, Expiration = aws_Expires creds\<rparr>"

definition ToAwsSDKCredentials :: "AWSCredentials \<Rightarrow> aws_Credentials" where
  "ToAwsSDKCredentials creds = \<lparr>aws_AccessKeyID = AccessKey creds, aws_SecretAccessKey = SecretKey creds,
     aws_SessionToken = SessionToken creds, aws_CanExpire = False, aws_Expires = zero_time,
     aws_Source = [], aws_AccountID = []\<rparr>"

definition cred_Retrieve :: "AWSCredentials \<Rightarrow> aws_Credentials" where
  "cred_Retrieve cred = \<lparr>aws_AccessKeyID = AccessKey cred, aws_SecretAccessKey = SecretKey cred,
     aws_SessionToken = SessionToken cred, aws_CanExpire = True, aws_Expires = Expiration cred,
     aws_Source = ''stsProxy'', aws_AccountID = ''000000000000''\<rparr>"

text \<open>\<^verbatim>\<open>NewAccessKey\<close> for a generated UUID in its text form.\<close>

definition NewAccessKey :: "string \<Rightarrow> string" where
  "NewAccessKey uuid = remove_char (CHR ''-'') uuid"

text \<open>\<^verbatim>\<open>CalculateSecretKey\<close>. Nothing is ever written to the hasher: \<^verbatim>\<open>Sum(b)\<close> appends
  the digest of what was written so far to \<open>b\<close>, so it returns its argument followed by the
  SHA-1 digest of the empty string (theory Sha1). The slice of the encoded text panics when it is shorter.\<close>

definition hasher_Sum :: "string \<Rightarrow> string" where
  "hasher_Sum b = b @ sha1_of_nothing"

definition secretKeyLength :: nat where
  "secretKeyLength = 42"

definition CalculateSecretKey :: "string \<Rightarrow> rsa_key result \<Rightarrow> string result" where
  "CalculateSecretKey accessKey keyStorage =
     go_bind keyStorage (\<lambda>signingkey.
       let toHash = accessKey @ dec_string (key_D signingkey);
           encoded = b64_encode b64_url_alphabet (hasher_Sum toHash) in
       if length encoded < secretKeyLength then Panic ''slice bounds out of range''
       else Ok (take secretKeyLength encoded))"

definition ErrInvalidSecretKey :: gerr where
  "ErrInvalidSecretKey = Sentinel ''invalid secret access key''"

definition ErrExpiredAwsCredentials :: gerr where
  "ErrExpiredAwsCredentials = Sentinel ''expired credentials''"

text \<open>\<^verbatim>\<open>isValid\<close>: the unit value is the nil error. The claims of the token are parsed into a
  map and only their validity is used.\<close>

definition cred_IsValid :: "jwt_lib \<Rightarrow> int \<Rightarrow> AWSCredentials \<Rightarrow> rsa_key result \<Rightarrow> unit result" where
  "cred_IsValid J now cred keyStorage =
     (if Expiration cred < now then Err ErrExpiredAwsCredentials
      else go_bind (CalculateSecretKey (AccessKey cred) keyStorage) (\<lambda>calculatedSecretKey.
        if calculatedSecretKey \<noteq> SecretKey cred then Err ErrInvalidSecretKey
        else go_bind keyStorage (\<lambda>signingkey.
          go_bind (ParseWithClaims J now 0 (SessionToken cred) (\<lambda>t. Ok (key_pub signingkey))) (\<lambda>_.
            Ok ()))))"

text \<open>\<^verbatim>\<open>NewAWSCredentials\<close>: the claims are None when they are not of the session type.\<close>

definition NewAWSCredentials ::
  "jwt_lib \<Rightarrow> int \<Rightarrow> string \<Rightarrow> SessionClaims option \<Rightarrow> int \<Rightarrow> rsa_key result \<Rightarrow> AWSCredentials result" where
  "NewAWSCredentials J now uuid token expiry keyStorage =
     (let accessKey = NewAccessKey uuid in
      case token of
        None \<Rightarrow> Err (Plain ''AWS session token can only be created with token having AWSSessionTokenClaims'')
      | Some claims \<Rightarrow>
          (let claims' = SetAccessKeyId claims accessKey in
           go_bind keyStorage (\<lambda>key.
           go_bind (SignedString J claims' key) (\<lambda>sessionToken.
           go_bind (CalculateSecretKey accessKey keyStorage) (\<lambda>secretKey.
             Ok \<lparr>AccessKey = accessKey, SecretKey = secretKey, SessionToken = sessionToken,
                 Expiration = now + expiry\<rparr>)))))"

subsection \<open>The secret key\<close>

lemma CalculateSecretKey_length: "CalculateSecretKey a ks = Ok s \<Longrightarrow> length s = 42"
  by (auto simp: CalculateSecretKey_def go_bind_Ok_iff secretKeyLength_def Let_def split: if_splits)

lemma CalculateSecretKey_total:
  assumes "11 \<le> length a"
  shows "CalculateSecretKey a (Ok sk) =
    Ok (take 42 (b64_encode b64_url_alphabet (a @ dec_string (key_D sk) @ sha1_of_nothing)))"
proof -
  let ?s = "a @ dec_string (key_D sk) @ sha1_of_nothing"
  have "length sha1_of_nothing = 20" by (simp add: sha1_of_nothing_def)
  moreover have "0 < length (dec_string (key_D sk))" by simp
  ultimately have "32 \<le> length ?s" using assms unfolding length_append by linarith
  then have "42 \<le> length (b64_encode b64_url_alphabet ?s)"
    using length_digits6 [of ?s] length_b64_encode [of ?s b64_url_alphabet] by linarith
  then show ?thesis by (simp add: CalculateSecretKey_def hasher_Sum_def secretKeyLength_def Let_def)
qed

text \<open>C39. For every access key the server issues (32 characters), the derived secret key does
  not depend on the server's private key: two servers with different keys derive the same
  secret, which anybody can compute from the access key alone.\<close>

theorem CalculateSecretKey_ignores_key:
  assumes "32 \<le> length a"
  shows "CalculateSecretKey a (Ok sk) = CalculateSecretKey a (Ok sk')
     \<and> CalculateSecretKey a (Ok sk) = Ok (take 42 (b64_encode b64_url_alphabet a))"
proof -
  have eq: "take 42 (b64_encode b64_url_alphabet (a @ t)) = take 42 (b64_encode b64_url_alphabet a)" for t
    using assms by (intro take_b64_encode [of 42 32]) auto
  have "11 \<le> length a" using assms by simp
  from CalculateSecretKey_total [OF this] show ?thesis by (simp add: eq)
qed

lemma CalculateSecretKey_ignores_key_witness:
  "CalculateSecretKey ''0123456789abcdef0123456789abcdef'' (Ok \<lparr>key_pub = \<lparr>pub_N = 1, pub_E = 3\<rparr>, key_D = 5\<rparr>) =
   CalculateSecretKey ''0123456789abcdef0123456789abcdef'' (Ok \<lparr>key_pub = \<lparr>pub_N = 2, pub_E = 3\<rparr>, key_D = 77\<rparr>)"
proof -
  have "32 \<le> length ''0123456789abcdef0123456789abcdef''" by simp
  from CalculateSecretKey_ignores_key [OF this] show ?thesis by blast
qed

subsection \<open>Issued credentials\<close>

lemma NewAWSCredentials_Ok:
  "NewAWSCredentials J now uuid (Some c) expiry (Ok sk) = Ok cred \<longleftrightarrow>
   SignedString J (SetAccessKeyId c (NewAccessKey uuid)) sk = Ok (SessionToken cred) \<and>
   CalculateSecretKey (NewAccessKey uuid) (Ok sk) = Ok (SecretKey cred) \<and>
   AccessKey cred = NewAccessKey uuid \<and> Expiration cred = now + expiry"
  by (cases cred) (auto simp: NewAWSCredentials_def go_bind_Ok_iff Let_def)

lemma claims_time_ok_SetAccessKeyId [simp]:
  "claims_time_ok now lw (SetAccessKeyId c a) = claims_time_ok now lw c"
  by (simp add: claims_time_ok_def SetAccessKeyId_def)

text \<open>Credentials the server issues pass its own validity check as long as neither they nor
  the claims they were made from have expired, and are refused as soon as their expiration is
  past.\<close>

lemma NewAWSCredentials_valid:
  assumes "jwt_lib_ok J" and "NewAWSCredentials J now uuid (Some c) expiry (Ok sk) = Ok cred"
    and "claims_time_ok later 0 c"
  shows "cred_IsValid J later cred (Ok sk) =
    (if later \<le> now + expiry then Ok () else Err ErrExpiredAwsCredentials)"
proof -
  note cred = assms(2) [unfolded NewAWSCredentials_Ok]
  have "claims_time_ok later 0 (SetAccessKeyId c (NewAccessKey uuid))" using assms(3) by simp
  then have "ParseWithClaims J later 0 (SessionToken cred) (\<lambda>t. Ok (key_pub sk)) =
      Ok (SetAccessKeyId c (NewAccessKey uuid))"
    using cred by (intro jwt_accepts [OF assms(1)]) auto
  then show ?thesis using cred by (simp add: cred_IsValid_def)
qed

text \<open>A concrete library that knows one token, for the witnesses.\<close>

definition toy_key :: rsa_key where
  "toy_key = \<lparr>key_pub = \<lparr>pub_N = 33, pub_E = 3\<rparr>, key_D = 7\<rparr>"

definition toy_tags :: AWSSessionTags where
  "toy_tags = \<lparr>PrincipalTags = [], TransitiveTagKeys = []\<rparr>"

definition toy_uuid :: string where
  "toy_uuid = ''01234567-89ab-cdef-0123-456789abcdef''"

definition toy_claims :: SessionClaims where
  "toy_claims = CreateRS256PolicyToken 0 ''id'' ''sts'' ''idp'' ''me'' ''role'' (3600 * time_Second) toy_tags"

definition toy_jwt :: "SessionClaims \<Rightarrow> jwt_lib" where
  "toy_jwt c0 = \<lparr>
     SignedString = \<lambda>c sk. if c = c0 \<and> sk = toy_key then Ok ''tok'' else Err (Plain ''cannot sign''),
     ParseUnverified = \<lambda>tok. if tok = ''tok'' then Ok c0 else Err (Plain ''malformed''),
     ParseWithClaims = \<lambda>now lw tok kf. if tok = ''tok'' \<and> kf c0 = Ok (key_pub toy_key) \<and> claims_time_ok now lw c0
       then Ok c0 else Err (Plain ''invalid token''),
     verified = \<lambda>tok pk c. tok = ''tok'' \<and> pk = key_pub toy_key \<and> c = c0\<rparr>"

lemma toy_jwt_ok: "jwt_lib_ok (toy_jwt c0)"
  by (auto simp: jwt_lib_ok_def toy_jwt_def split: if_splits)

lemma NewAWSCredentials_valid_witness:
  "\<exists>cred. NewAWSCredentials (toy_jwt (SetAccessKeyId toy_claims (NewAccessKey toy_uuid))) 0 toy_uuid (Some toy_claims)
      (3600 * time_Second) (Ok toy_key) = Ok cred
    \<and> cred_IsValid (toy_jwt (SetAccessKeyId toy_claims (NewAccessKey toy_uuid))) 5 cred (Ok toy_key) = Ok ()"
proof -
  let ?a = "NewAccessKey toy_uuid" and ?J = "toy_jwt (SetAccessKeyId toy_claims (NewAccessKey toy_uuid))"
  have len: "11 \<le> length ?a" by code_simp
  then obtain s where s: "CalculateSecretKey ?a (Ok toy_key) = Ok s"
    using CalculateSecretKey_total by blast
  let ?cred = "\<lparr>AccessKey = ?a, SecretKey = s, SessionToken = ''tok'', Expiration = 0 + 3600 * time_Second\<rparr>"
  have new: "NewAWSCredentials ?J 0 toy_uuid (Some toy_claims) (3600 * time_Second) (Ok toy_key) = Ok ?cred"
    unfolding NewAWSCredentials_Ok by (simp add: s toy_jwt_def)
  have "claims_time_ok 5 0 toy_claims"
    by (simp add: claims_time_ok_def toy_claims_def CreateRS256PolicyToken_def NewNumericDate_def time_Second_def)
  from NewAWSCredentials_valid [OF toy_jwt_ok new this] new show ?thesis
    by (auto simp: time_Second_def)
qed

end
