(* ===== verification/Presign.thy ===== *)
theory Presign
  imports Presign_Headers Aws_Time Credentials
begin

text \<open>
  Presigned URLs and signing: \<^verbatim>\<open>presign/hmacv1query.go\<close>, \<^verbatim>\<open>presign/s3v4.go\<close>,
  \<^verbatim>\<open>presign/s3v4query.go\<close>, \<^verbatim>\<open>presign/factory.go\<close>. The signer of the AWS SDK and HMAC-SHA1
  are the parameter \<open>signer_lib\<close>. What a presigned URL is checked for is returned together with the
  state of the request: a check may record the signed headers in the request context.
\<close>

record signer_lib =
  PresignHTTP :: "aws_Credentials \<Rightarrow> request \<Rightarrow> string \<Rightarrow> string \<Rightarrow> string \<Rightarrow> int \<Rightarrow> string result"
  SignHTTP :: "aws_Credentials \<Rightarrow> request \<Rightarrow> string \<Rightarrow> string \<Rightarrow> string \<Rightarrow> int \<Rightarrow> request result"
  hmac_sha1 :: "string \<Rightarrow> string \<Rightarrow> string"

type_synonym secret_deriver = "string \<Rightarrow> string result"

type_synonym url_details = "(bool \<times> aws_Credentials \<times> int \<times> hstate) result"

definition static_credentials :: "string \<Rightarrow> string \<Rightarrow> string \<Rightarrow> aws_Credentials" where
  "static_credentials ak sk st = \<lparr>aws_AccessKeyID = ak, aws_SecretAccessKey = sk, aws_SessionToken = st,
     aws_CanExpire = False, aws_Expires = zero_time, aws_Source = [], aws_AccountID = []\<rparr>"

section \<open>Signing with version 4\<close>

definition signatureQueryParamNamesToRemove :: "string list" where
  "signatureQueryParamNamesToRemove =
     [AmzAlgorithmKey, AmzCredentialKey, AmzDateKey, AmzSecurityTokenKey, ''x-amz-security-token'',
      AmzSignedHeadersKey, AmzSignatureKey, SignatureKey, AccessKeyId, ''X-Request-ID'']"

definition whole_seconds :: "int \<Rightarrow> int" where
  "whole_seconds d = (if d < 0 then - ((- d) div time_Second) else d div time_Second)"

definition sign_query :: "int \<Rightarrow> mvals \<Rightarrow> mvals" where
  "sign_query expiryInSeconds query =
     (let q = fold (\<lambda>k m. values_Del m k) signatureQueryParamNamesToRemove query in
      if expiryInSeconds > 0
      then values_Set q AmzExpiresKey (int_string (whole_seconds (time_Duration_seconds expiryInSeconds)))
      else q)"

text \<open>\<^verbatim>\<open>GetS3SignRequestParams\<close>: the request with its new query, the payload hash and the
  region.\<close>

definition GetS3SignRequestParams :: "request \<Rightarrow> int \<Rightarrow> string \<Rightarrow> (request \<times> string \<times> string) result" where
  "GetS3SignRequestParams req expiryInSeconds defaultRegion =
     go_bind (GetRegionFromRequest req defaultRegion) (\<lambda>region.
       let req' = set_rawquery req (values_Encode (sign_query expiryInSeconds (r_query req)));
           sha = header_Get (r_header req) AmzContentSHAKey in
       Ok (req', if sha = [] then ''UNSIGNED-PAYLOAD'' else sha, region))"

definition PreSignRequestWithCreds ::
  "signer_lib \<Rightarrow> request \<Rightarrow> int \<Rightarrow> int \<Rightarrow> aws_Credentials \<Rightarrow> string \<Rightarrow> string result" where
  "PreSignRequestWithCreds G req expiryInSeconds signingTime creds defaultRegion =
     (if expiryInSeconds \<le> 0 then Err (Plain ''expiryInSeconds must be bigger than 0 for presigned requests'')
      else go_bind (GetS3SignRequestParams req expiryInSeconds defaultRegion) (\<lambda>(req', payloadHash, region).
        PresignHTTP G creds req' payloadHash ''s3'' region signingTime))"

definition SignRequestWithCreds ::
  "signer_lib \<Rightarrow> request \<Rightarrow> int \<Rightarrow> int \<Rightarrow> aws_Credentials \<Rightarrow> string \<Rightarrow> request result" where
  "SignRequestWithCreds G req expiryInSeconds signingTime creds defaultRegion =
     go_bind (GetS3SignRequestParams req expiryInSeconds defaultRegion) (\<lambda>(req', payloadHash, region).
       SignHTTP G creds req' payloadHash ''s3'' region signingTime)"

text \<open>\<^verbatim>\<open>SignWithCreds\<close>: the signing time is the date header when it is valid, now otherwise.\<close>

definition SignWithCreds :: "signer_lib \<Rightarrow> int \<Rightarrow> request \<Rightarrow> aws_Credentials \<Rightarrow> string \<Rightarrow> request result" where
  "SignWithCreds G now req creds defaultRegion =
     (let amzDate = header_Get (r_header req) AmzDateKey;
          signingTime = (if amzDate = [] then now else case XAmzDateToTime amzDate of Ok t \<Rightarrow> t | _ \<Rightarrow> now) in
      SignRequestWithCreds G req (-1) signingTime creds defaultRegion)"

section \<open>Version 4 URLs\<close>

definition isS3V4Query :: "request \<Rightarrow> bool" where
  "isS3V4Query r =
     (values_Get (r_query r) AmzSignatureKey \<noteq> [] \<and> values_Get (r_query r) AmzCredentialKey \<noteq> []
      \<and> values_Get (r_query r) AmzAlgorithmKey \<noteq> [])"

definition getSignatureFromV4QueryUrl :: "string \<Rightarrow> string result" where
  "getSignatureFromV4QueryUrl inputUrl =
     go_bind (GetQueryParamsFromUrl inputUrl) (\<lambda>q.
       if values_Get q AmzSignatureKey = [] then Err (Plain (''url got empty signature: '' @ inputUrl))
       else Ok (values_Get q AmzSignatureKey))"

definition haveSameSigv4QuerySignature :: "string \<Rightarrow> string \<Rightarrow> bool result" where
  "haveSameSigv4QuerySignature url1 url2 =
     go_bind (getSignatureFromV4QueryUrl url1) (\<lambda>s1.
     go_bind (getSignatureFromV4QueryUrl url2) (\<lambda>s2. Ok (s1 = s2)))"

text \<open>The clone that is signed again: the host is added as a header and every header that was
  not signed is removed.\<close>

definition with_host_header :: "request \<Rightarrow> request" where
  "with_host_header r =
     (if header_Get (r_header r) ''Host'' = [] then r\<lparr>r_header := header_Add (r_header r) ''Host'' (r_host r)\<rparr> else r)"

definition s3v4_signed_uri :: "signer_lib \<Rightarrow> hstate \<Rightarrow> int \<Rightarrow> int \<Rightarrow> aws_Credentials \<Rightarrow> (string \<times> hstate) result" where
  "s3v4_signed_uri G h expirySeconds signDate creds =
     go_bind (relabel (\<lambda>_. usererror_New (Some (Plain ''could not temporary remove untrusted headers''))
                         ''Invalid authorization header'')
                (TemporaryRemoveUntrustedHeaders (upd_req with_host_header h)))
       (\<lambda>(_, c). go_bind
          (relabel (\<lambda>e. Plain (''InvalidSignature: encountered error trying to sign a similar req: '' @ err_Error e))
             (PreSignRequestWithCreds G (h_req c) expirySeconds signDate creds []))
          (\<lambda>signedUri. Ok (signedUri, c\<lparr>h_req := h_req h\<rparr>)))"

text \<open>What the methods of the URL read from its query.\<close>

definition getAmzCredential :: "request \<Rightarrow> string" where
  [simp]: "getAmzCredential r = values_Get (r_query r) AmzCredentialKey"

definition getAmzSecurityToken :: "request \<Rightarrow> string" where
  [simp]: "getAmzSecurityToken r = values_Get (r_query r) AmzSecurityTokenKey"

definition getAccessKeyId :: "request \<Rightarrow> string result" where
  [simp]: "getAccessKeyId r = GetCredentialPart (getAmzCredential r) CredentialPartAccessKeyId"

definition getSignTime :: "request \<Rightarrow> int result" where
  [simp]: "getSignTime r = XAmzDateToTime (values_Get (r_query r) AmzDateKey)"

definition s3v4_GetPresignedUrlDetails :: "signer_lib \<Rightarrow> hstate \<Rightarrow> secret_deriver \<Rightarrow> url_details" where
  "s3v4_GetPresignedUrlDetails G h deriver =
     (let q = r_query (h_req h) in
      go_bind (getAccessKeyId (h_req h)) (\<lambda>accessKeyId.
      go_bind (deriver accessKeyId) (\<lambda>secretAccessKey.
        let creds = static_credentials accessKeyId secretAccessKey (getAmzSecurityToken (h_req h)) in
      go_bind (getSignTime (h_req h)) (\<lambda>signDate.
      go_bind (relabel (\<lambda>_. Plain ''InvalidSignature: could not get Expire seconds'')
                 (go_Atoi (values_Get q AmzExpiresKey))) (\<lambda>expirySeconds.
      go_bind (s3v4_signed_uri G h expirySeconds signDate creds) (\<lambda>(signedUri, h').
      go_bind (getSignatureFromV4QueryUrl signedUri) (\<lambda>calculatedSignature.
        Ok (values_Get q AmzSignatureKey = calculatedSignature, creds,
            signDate + time_Duration_seconds expirySeconds, h'))))))))"

section \<open>HMAC version 1 URLs\<close>

definition isHmacV1Query :: "request \<Rightarrow> bool" where
  "isHmacV1Query r = (values_Get (r_query r) SignatureKey \<noteq> [] \<and> values_Get (r_query r) AccessKeyId \<noteq> [])"

definition getHmacV1QuerySecurityToken :: "request \<Rightarrow> string" where
  "getHmacV1QuerySecurityToken r =
     (let result = values_Get (r_query r) ''x-amz-security-token'' in
      if result = [] then values_Get (r_query r) AmzSecurityTokenKey else result)"

definition assureSecTokenHeader :: "aws_Credentials \<Rightarrow> mvals \<Rightarrow> mvals" where
  "assureSecTokenHeader creds h =
     (if aws_SessionToken creds = [] then h
      else header_Add
        (fold (\<lambda>hk m. if to_lower hk = ''x-amz-security-token'' then header_Del m (to_lower hk) else m) (map fst h) h)
        ''x-amz-security-token'' (aws_SessionToken creds))"

definition interestingHeaders :: "string list" where
  "interestingHeaders = [''content-md5'', ''content-type'', ''date'']"

text \<open>\<^verbatim>\<open>getCanonicalStandardHeaders\<close> first sets the date header of the clone to the expiry; the
  result is the text and the changed header.\<close>

definition getCanonicalStandardHeaders :: "string \<Rightarrow> mvals \<Rightarrow> string \<times> mvals" where
  "getCanonicalStandardHeaders expires hdr0 =
     (let h = header_Set hdr0 ''Date'' expires in
      (str_join [CHR 0x0A]
         (map (\<lambda>ih. case List.find (\<lambda>hk. to_lower hk = ih) (map fst h) of
                 None \<Rightarrow> [] | Some hk \<Rightarrow> trim_blank (header_Get h hk)) interestingHeaders), h))"

definition getCommaSeparatedTrimmedHeaderValues :: "mvals \<Rightarrow> string \<Rightarrow> string" where
  "getCommaSeparatedTrimmedHeaderValues h headerKey = str_join '','' (map trim_blank (header_Values h headerKey))"

definition amz_header_keys :: "mvals \<Rightarrow> string list" where
  "amz_header_keys h = filter (\<lambda>hk. has_prefix (to_lower hk) ''x-amz-'') (map fst h)"

definition getCanonicalCustomHeaders :: "mvals \<Rightarrow> string" where
  "getCanonicalCustomHeaders h =
     (let headers = fold (\<lambda>hk m. AList.update (to_lower hk) (getCommaSeparatedTrimmedHeaderValues h hk) m)
                      (amz_header_keys h) [] in
      str_join [CHR 0x0A]
        (map (\<lambda>key. key @ '':'' @ (case map_of headers key of None \<Rightarrow> [] | Some v \<Rightarrow> v))
           (sort (map to_lower (amz_header_keys h)))))"

definition queryStringArgumentsOfInterest :: "string list" where
  "queryStringArgumentsOfInterest =
     [''accelerate'', ''acl'', ''cors'', ''defaultObjectAcl'', ''location'', ''logging'', ''partNumber'', ''policy'',
      ''torrent'', ''versioning'', ''versionId'', ''versions'', ''website'', ''uploads'', ''uploadId'',
      ''response-content-type'', ''response-content-language'', ''response-expires'', ''response-cache-control'',
      ''response-content-disposition'', ''response-content-encoding'', ''delete'', ''lifecycle'', ''tagging'',
      ''restore'', ''storageClass'', ''notification'', ''replication'', ''requestPayment'', ''analytics'', ''metrics'',
      ''inventory'', ''select'', ''select-type'', ''object-lock'']"

definition getCanonicalResource :: "request \<Rightarrow> string result" where
  "getCanonicalResource req =
     (if list_ex (\<lambda>(queryName, _). queryName \<in> set queryStringArgumentsOfInterest) (r_query req)
      then Err (Plain ''processing query parameters of interest is not yet implemented'')
      else Ok (u_path (r_url req)))"

definition getCanonicalRequestString :: "request \<Rightarrow> string \<Rightarrow> string result" where
  "getCanonicalRequestString req expires =
     (let method = to_upper (r_method req) in
      if method \<noteq> ''GET'' \<and> method \<noteq> ''HEAD'' then Err (Plain ''only Get and Head are implemented at the moment'')
      else let (standard, h) = getCanonicalStandardHeaders expires (r_header req);
               custom = getCanonicalCustomHeaders h in
        go_bind (getCanonicalResource req) (\<lambda>resource.
          Ok (method @ [CHR 0x0A] @ standard @ [CHR 0x0A] @ custom
              @ (if custom \<noteq> [] then [CHR 0x0A] else []) @ resource)))"

definition hmac_query :: "aws_Credentials \<Rightarrow> string \<Rightarrow> string \<Rightarrow> string" where
  "hmac_query creds expires signature =
     ''AWSAccessKeyId='' @ query_escape (aws_AccessKeyID creds) @ ''&Signature='' @ query_escape signature
     @ (if aws_SessionToken creds \<noteq> [] then ''&x-amz-security-token='' @ query_escape (aws_SessionToken creds) else [])
     @ ''&Expires='' @ expires"

definition buildHmacV1QueryUrl :: "request \<Rightarrow> aws_Credentials \<Rightarrow> string \<Rightarrow> string \<Rightarrow> string" where
  "buildHmacV1QueryUrl req creds expires signature =
     (if u_scheme (r_url req) \<noteq> [] then u_scheme (r_url req) else ''https'') @ ''://'' @ u_host (r_url req)
     @ u_path (r_url req) @ ''?'' @ hmac_query creds expires signature"

definition hmac_signature :: "signer_lib \<Rightarrow> request \<Rightarrow> aws_Credentials \<Rightarrow> string \<Rightarrow> string result" where
  "hmac_signature G req creds expires =
     go_bind (getCanonicalRequestString (req\<lparr>r_header := assureSecTokenHeader creds (r_header req)\<rparr>) expires) (\<lambda>cs.
       Ok (b64_encode b64_std_alphabet (hmac_sha1 G (aws_SecretAccessKey creds) cs)))"

definition calculateS3PresignedHmacV1QueryUrlWithExpiryTime ::
  "signer_lib \<Rightarrow> request \<Rightarrow> aws_Credentials \<Rightarrow> string \<Rightarrow> string result" where
  "calculateS3PresignedHmacV1QueryUrlWithExpiryTime G req creds expires =
     go_bind (hmac_signature G req creds expires) (\<lambda>signature. Ok (buildHmacV1QueryUrl req creds expires signature))"

definition getExpiresFromHmacv1QueryUrl :: "request \<Rightarrow> string" where
  [simp]: "getExpiresFromHmacv1QueryUrl r = values_Get (r_query r) ExpiresKey"

definition getExpiresTime :: "request \<Rightarrow> int result" where
  [simp]: "getExpiresTime r = epochStrToTime (getExpiresFromHmacv1QueryUrl r)"

definition getExpiresFromExpirySeconds :: "int \<Rightarrow> int \<Rightarrow> string" where
  "getExpiresFromExpirySeconds now expirySeconds =
     int_string ((now + time_Duration_seconds expirySeconds) div time_Second)"

definition CalculateS3PresignedHmacV1QueryUrl ::
  "signer_lib \<Rightarrow> int \<Rightarrow> request \<Rightarrow> aws_Credentials \<Rightarrow> int \<Rightarrow> string result" where
  "CalculateS3PresignedHmacV1QueryUrl G now req creds expirySeconds =
     (let expires = getExpiresFromHmacv1QueryUrl req in
      if expires = [] \<and> expirySeconds = 0 then
        Err (Plain ''got expirySeconds 0 but no expires in URL, impossible to get expires'')
      else if expirySeconds > 0 \<and> expires \<noteq> [] then
        Err (Plain ''got expirySeconds and expires in URL, impossible to now which expires to use'')
      else calculateS3PresignedHmacV1QueryUrlWithExpiryTime G req creds
             (if expirySeconds > 0 then getExpiresFromExpirySeconds now expirySeconds else expires))"

definition hasValidSignature :: "signer_lib \<Rightarrow> int \<Rightarrow> request \<Rightarrow> aws_Credentials \<Rightarrow> bool result" where
  "hasValidSignature G now r creds =
     go_bind (CalculateS3PresignedHmacV1QueryUrl G now r creds 0) (\<lambda>expectedUrl.
     go_bind (CompareRequestWithUrl r expectedUrl) (\<lambda>(_, isSameHost, isSamePath, isSameQuery).
       Ok (isSameHost \<and> isSamePath \<and> isSameQuery)))"

definition hmac_GetPresignedUrlDetails :: "signer_lib \<Rightarrow> int \<Rightarrow> hstate \<Rightarrow> secret_deriver \<Rightarrow> url_details" where
  "hmac_GetPresignedUrlDetails G now h deriver =
     (let r = h_req h; accessKeyId = values_Get (r_query r) AccessKeyId in
      go_bind (deriver accessKeyId) (\<lambda>secretAccessKey.
        let creds = static_credentials accessKeyId secretAccessKey (getHmacV1QuerySecurityToken r) in
      go_bind (hasValidSignature G now r creds) (\<lambda>isValid.
      go_bind (getExpiresTime r) (\<lambda>expires.
        Ok (isValid, creds, expires, h)))))"

section \<open>The factory\<close>

datatype presigned_url_kind = HmacV1Url | S3V4Url

definition MakePresignedUrl :: "request \<Rightarrow> presigned_url_kind result" where
  "MakePresignedUrl r =
     (if isHmacV1Query r then Ok HmacV1Url
      else if isS3V4Query r then Ok S3V4Url
      else Err (Plain (''unsupported presign request; '' @ FullUrlFromRequest r)))"

fun GetPresignedUrlDetails :: "signer_lib \<Rightarrow> int \<Rightarrow> presigned_url_kind \<Rightarrow> hstate \<Rightarrow> secret_deriver \<Rightarrow> url_details" where
  "GetPresignedUrlDetails G now HmacV1Url h deriver = hmac_GetPresignedUrlDetails G now h deriver"
| "GetPresignedUrlDetails G now S3V4Url h deriver = s3v4_GetPresignedUrlDetails G h deriver"

end
