(* ===== verification/Presign_Check.thy ===== *)
theory Presign_Check
  imports Presign
begin

text \<open>
  What the check of a presigned URL establishes. The interface \<^verbatim>\<open>PresignedUrl\<close> of
  \<^verbatim>\<open>presign/presign-interface.go\<close> is the locale \<open>presigned_url\<close>, interpreted for both kinds
  of URL; the rest of the theory shows that a version 1 URL that is found valid carries the
  signature the derived secret gives for it.
\<close>

section \<open>The interface\<close>

locale presigned_url =
  fixes details :: "hstate \<Rightarrow> secret_deriver \<Rightarrow> url_details"
  assumes derived: "details h d = Ok (v, creds, t, h') \<Longrightarrow> d (aws_AccessKeyID creds) = Ok (aws_SecretAccessKey creds)"
    and request_kept: "details h d = Ok (v, creds, t, h') \<Longrightarrow> h_req h' = h_req h"
    and response_kept: "details h d = Ok (v, creds, t, h') \<Longrightarrow> h_resp h' = h_resp h"
begin

lemma secret_of_key_storage:
  assumes "details h (\<lambda>a. CalculateSecretKey a keyStorage) = Ok (v, creds, t, h')"
  shows "CalculateSecretKey (aws_AccessKeyID creds) keyStorage = Ok (aws_SecretAccessKey creds)
    \<and> length (aws_SecretAccessKey creds) = 42"
  using derived [OF assms] by (simp add: CalculateSecretKey_length)

end

lemma SetSignedHeaders_resp [simp]: "h_resp (SetSignedHeaders hs h) = h_resp h" "h_req (SetSignedHeaders hs h) = h_req h"
  by (simp_all add: SetSignedHeaders_def)

lemma TemporaryRemove_resp:
  "TemporaryRemoveUntrustedHeaders h = Ok (rem, h') \<Longrightarrow> h_resp h' = h_resp h"
  by (auto simp: TemporaryRemoveUntrustedHeaders_def go_bind_Ok_iff Let_def split_def split: if_splits)

interpretation hmac_url: presigned_url "hmac_GetPresignedUrlDetails G now"
  by unfold_locales (auto simp: hmac_GetPresignedUrlDetails_def go_bind_Ok_iff Let_def static_credentials_def)

lemma s3v4_signed_uri_state:
  "s3v4_signed_uri G h n t creds = Ok (uri, h') \<Longrightarrow> h_req h' = h_req h \<and> h_resp h' = h_resp h"
  by (auto simp: s3v4_signed_uri_def go_bind_Ok_iff dest: TemporaryRemove_resp)

interpretation s3v4_url: presigned_url "s3v4_GetPresignedUrlDetails G"
  by unfold_locales
    (auto simp: s3v4_GetPresignedUrlDetails_def go_bind_Ok_iff Let_def static_credentials_def
      dest!: s3v4_signed_uri_state)

lemma details_derived:
  "GetPresignedUrlDetails G now k h d = Ok (v, creds, t, h') \<Longrightarrow> d (aws_AccessKeyID creds) = Ok (aws_SecretAccessKey creds)"
  by (cases k) (auto dest: hmac_url.derived s3v4_url.derived)

lemma details_frame:
  "GetPresignedUrlDetails G now k h d = Ok (v, creds, t, h') \<Longrightarrow> h_req h' = h_req h \<and> h_resp h' = h_resp h"
  by (cases k) (auto dest: hmac_url.request_kept hmac_url.response_kept s3v4_url.request_kept s3v4_url.response_kept)

section \<open>Path and query of a URL that is parsed again\<close>

lemma length_unescape: "unescape q s = Ok t \<Longrightarrow> length t \<le> length s"
proof (induction q s arbitrary: t rule: unescape.induct)
  case (2 q c s)
  then show ?case
    by (force split: if_splits list.splits option.splits prod.splits simp: go_bind_Ok_iff)
qed simp

lemma cut_query_append:
  "CHR ''?'' \<notin> set a \<Longrightarrow> cut_query (a @ s) = (a @ fst (cut_query s), snd (cut_query s))"
  by (cases "str_cut ''?'' s") (auto simp: cut_query_def str_cut_char_append)

lemma parse_nofrag_path:
  assumes "sch = ''http'' \<or> sch = ''https''" and "plain_authority h"
    and "parse_nofrag (sch @ ''://'' @ h @ CHR ''/'' # p) = Ok u"
  shows "unescape False (fst (cut_query (CHR ''/'' # p))) = Ok (u_path u) \<and> u_rawquery u = snd (cut_query (CHR ''/'' # p))"
proof -
  have g: "get_scheme (sch @ CHR '':'' # ''//'' @ h @ CHR ''/'' # p) = Ok (sch, ''//'' @ h @ CHR ''/'' # p)"
    using assms(1) scheme_literals by (intro get_scheme_colon) auto
  have lower: "to_lower sch = sch" using assms(1) scheme_literals by auto
  have nq: "CHR ''?'' \<notin> set (''//'' @ h)" and ns: "CHR ''/'' \<notin> set h"
    using assms(2) by (auto simp: plain_authority_def list_all_iff)
  obtain p' q where cq: "cut_query (CHR ''/'' # p) = (CHR ''/'' # p', q)"
    by (cases "str_cut ''?'' p") (auto simp: cut_query_def)
  have cut: "cut_query (''//'' @ h @ CHR ''/'' # p) = (''//'' @ h @ CHR ''/'' # p', q)"
    using cut_query_append [OF nq, of "CHR ''/'' # p"] cq by simp
  have ne: "sch @ ''://'' @ h @ CHR ''/'' # p \<noteq> ''*''" "sch \<noteq> []" using assms(1) by auto
  show ?thesis
    using assms(3) g cut ne lower ns cq
    by (auto simp: parse_nofrag_def has_prefix_def takeWhile_noslash go_bind_Ok_iff Let_def split: if_splits)
qed

text \<open>A parsed URL has the whole of the path that was written only when that path holds neither
  a fragment nor a query of its own.\<close>

lemma parse_url_same_path:
  assumes "sch = ''http'' \<or> sch = ''https''" and "plain_authority h" and "CHR ''#'' \<notin> set Q"
    and "parse_url (sch @ ''://'' @ h @ CHR ''/'' # p @ ''?'' @ Q) = Ok u" and "u_path u = CHR ''/'' # p"
  shows "u_rawquery u = Q"
proof -
  have nh: "CHR ''#'' \<notin> set (sch @ ''://'' @ h @ ''/'')"
  proof -
    have "CHR ''#'' \<notin> set h" using assms(2) by (auto simp: plain_authority_def list_all_iff)
    moreover have "CHR ''#'' \<notin> set sch" using assms(1) by (elim disjE) simp_all
    ultimately show ?thesis by simp
  qed
  have short: False if "parse_nofrag (sch @ ''://'' @ h @ CHR ''/'' # x) = Ok u" "length (fst (cut_query (CHR ''/'' # x))) \<le> length p" for x
    using parse_nofrag_path [OF assms(1,2) that(1)] that(2) length_unescape assms(5) by fastforce
  have no_hash: "CHR ''#'' \<notin> set p"
  proof
    assume "CHR ''#'' \<in> set p"
    then obtain a b where p: "p = a @ CHR ''#'' # b" "CHR ''#'' \<notin> set a" by (auto dest: split_list_first)
    have "CHR ''#'' \<notin> set ((sch @ ''://'' @ h @ ''/'') @ a)" using nh p(2) by simp
    from str_cut_char [OF this, of "b @ ''?'' @ Q"]
    have "str_cut ''#'' (sch @ ''://'' @ h @ CHR ''/'' # p @ ''?'' @ Q) =
        Some (sch @ ''://'' @ h @ CHR ''/'' # a, b @ ''?'' @ Q)"
      using p(1) by simp
    then have "parse_nofrag (sch @ ''://'' @ h @ CHR ''/'' # a) = Ok u"
      using assms(4) by (auto simp: parse_url_def go_bind_Ok_iff split: if_splits)
    moreover have "length (fst (cut_query (CHR ''/'' # a))) \<le> length p"
    proof -
      have "length (fst (cut_query s)) \<le> length s" for s
        by (auto simp: cut_query_def split: option.split dest: str_cut_Some)
      from this [of "CHR ''/'' # a"] show ?thesis by (simp add: p(1))
    qed
    ultimately show False by (rule short)
  qed
  have "CHR ''#'' \<notin> set ((sch @ ''://'' @ h @ ''/'') @ p @ ''?'' @ Q)" using nh no_hash assms(3) by simp
  from str_cut_char_None [OF this]
  have "str_cut ''#'' (sch @ ''://'' @ h @ CHR ''/'' # p @ ''?'' @ Q) = None" by simp
  then have pn: "parse_nofrag (sch @ ''://'' @ h @ CHR ''/'' # p @ ''?'' @ Q) = Ok u"
    using assms(4) by (auto simp: parse_url_def go_bind_Ok_iff split: if_splits)
  show ?thesis
  proof (cases "CHR ''?'' \<in> set p")
    case True
    then obtain a b where p: "p = a @ CHR ''?'' # b" "CHR ''?'' \<notin> set a" by (auto dest: split_list_first)
    have "CHR ''?'' \<notin> set (CHR ''/'' # a)" using p(2) by simp
    from str_cut_char [OF this, of "b @ ''?'' @ Q"]
    have "length (fst (cut_query (CHR ''/'' # p @ ''?'' @ Q))) \<le> length p"
      by (simp add: p(1) cut_query_def)
    then show ?thesis using short [OF pn] by blast
  next
    case False
    then have "CHR ''?'' \<notin> set (CHR ''/'' # p)" by simp
    from str_cut_char [OF this, of Q]
    have "cut_query (CHR ''/'' # p @ ''?'' @ Q) = (CHR ''/'' # p, Q)" by (simp add: cut_query_def)
    then show ?thesis using parse_nofrag_path [OF assms(1,2) pn] by simp
  qed
qed

section \<open>The signature of a version 1 URL\<close>

text \<open>The query of the URL that is built for comparison, as pairs. The expiry is not escaped; for a
  number it is the escaped form of a text in which a plus sign is a blank.\<close>

definition expiry_text :: "string \<Rightarrow> bool" where
  "expiry_text s = list_all (\<lambda>c. is_digit c \<or> c = CHR ''-'' \<or> c = CHR ''+'') s"

definition plus_blank :: "string \<Rightarrow> string" where
  "plus_blank s = map (\<lambda>c. if c = CHR ''+'' then CHR '' '' else c) s"

definition hmac_pairs :: "aws_Credentials \<Rightarrow> string \<Rightarrow> string \<Rightarrow> (string \<times> string) list" where
  "hmac_pairs creds expires signature =
     [(''AWSAccessKeyId'', aws_AccessKeyID creds), (''Signature'', signature)]
     @ (if aws_SessionToken creds \<noteq> [] then [(''x-amz-security-token'', aws_SessionToken creds)] else [])
     @ [(''Expires'', plus_blank expires)]"

lemma query_escape_expiry: "expiry_text s \<Longrightarrow> query_escape (plus_blank s) = s"
proof (induction s)
  case (Cons c s)
  have "escape_char (if c = CHR ''+'' then CHR '' '' else c) = [c]"
    using Cons.prems by (auto simp: expiry_text_def escape_char_def unreserved_def char_defs)
  then show ?case using Cons by (simp add: query_escape_def plus_blank_def expiry_text_def)
qed (simp add: query_escape_def plus_blank_def)

lemma query_escape_keys:
  "query_escape ''AWSAccessKeyId'' = ''AWSAccessKeyId''" "query_escape ''Signature'' = ''Signature''"
  "query_escape ''x-amz-security-token'' = ''x-amz-security-token''" "query_escape ''Expires'' = ''Expires''"
  by code_simp+

lemma hmac_query_pairs:
  assumes "expiry_text expires"
  shows "hmac_query creds expires signature = str_join ''&'' (map (\<lambda>(k, v). query_pair k v) (hmac_pairs creds expires signature))"
  by (simp add: hmac_query_def hmac_pairs_def query_pair_def query_escape_keys query_escape_expiry [OF assms])

lemma hmac_query_values:
  assumes "expiry_text expires"
  shows "values_vals (parse_query (hmac_query creds expires signature)) ''Signature'' = [signature]"
    and "values_vals (parse_query (hmac_query creds expires signature)) ''AWSAccessKeyId'' = [aws_AccessKeyID creds]"
  unfolding hmac_query_pairs [OF assms] parse_query_join by (simp_all add: hmac_pairs_def)

lemma hmac_query_no_hash: "expiry_text expires \<Longrightarrow> CHR ''#'' \<notin> set (hmac_query creds expires signature)"
proof -
  assume e: "expiry_text expires"
  have "CHR ''#'' \<notin> set (query_escape s)" for s
    using query_escape_chars [of "CHR ''#''" s] by (auto simp: query_char_def unreserved_def char_defs)
  moreover have "CHR ''#'' \<notin> set expires" using e by (auto simp: expiry_text_def list_all_iff char_defs)
  ultimately show ?thesis by (simp add: hmac_query_def)
qed

lemma go_Atoi_expiry_text: "go_Atoi s = Ok v \<Longrightarrow> expiry_text s"
  by (cases s) (auto simp: go_Atoi_def parse_digits_def expiry_text_def list_all_iff split: if_splits)

lemma IsSameQuery_value:
  assumes "IsSameQuery m1 m2" and "values_vals m1 k = [v]" and "distinct (map fst m1)"
  shows "values_vals m2 k = [v]"
proof -
  have m1: "map_of m1 k = Some [v]"
    using assms(2) by (auto simp: values_vals_def split: option.splits)
  from map_of_SomeD [OF this] assms(1) obtain vs where "map_of m2 k = Some vs" "length vs = 1" "v \<in> set vs"
    by (fastforce simp: IsSameQuery_def list_all_iff split: if_splits option.splits)
  then show ?thesis by (auto simp: values_vals_def length_Suc_conv)
qed

lemma hmac_url_query:
  assumes "u_scheme (r_url r) \<in> {[], ''http'', ''https''}" and "plain_authority (u_host (r_url r))"
    and "has_prefix (u_path (r_url r)) ''/''" and "expiry_text expires"
    and "CompareRequestWithUrl r (buildHmacV1QueryUrl r creds expires signature) = Ok (a, b, True, True)"
  shows "IsSameQuery (parse_query (hmac_query creds expires signature)) (r_query r)"
proof -
  define sch where "sch = (if u_scheme (r_url r) \<noteq> [] then u_scheme (r_url r) else ''https'')"
  have sch: "sch = ''http'' \<or> sch = ''https''" using assms(1) by (auto simp: sch_def)
  obtain p where p: "u_path (r_url r) = CHR ''/'' # p" using assms(3) by (auto simp: has_prefix_def prefix_def)
  obtain u where u: "parse_url (buildHmacV1QueryUrl r creds expires signature) = Ok u"
    "u_path u = CHR ''/'' # p" "IsSameQuery (url_Query u) (r_query r)"
    using assms(5) p by (auto simp: CompareRequestWithUrl_def go_bind_Ok_iff)
  have "buildHmacV1QueryUrl r creds expires signature =
      sch @ ''://'' @ u_host (r_url r) @ CHR ''/'' # p @ ''?'' @ hmac_query creds expires signature"
    by (simp add: buildHmacV1QueryUrl_def sch_def p)
  with parse_url_same_path [OF sch assms(2) hmac_query_no_hash [OF assms(4)], of p creds signature u] u
  have "u_rawquery u = hmac_query creds expires signature" by simp
  then show ?thesis using u(3) by (simp add: url_Query_def)
qed

text \<open>C26. A version 1 URL is found valid only when its signature parameter is the one the secret
  of its access key gives for this request (method, expiry, signed headers and path), and the
  key of the credentials is the one in the URL: whatever the path holds, a URL with another
  signature is never accepted.\<close>

theorem hmac_url_valid_signature:
  assumes "hmac_GetPresignedUrlDetails G now h deriver = Ok (True, creds, t, h')"
    and "u_scheme (r_url (h_req h)) \<in> {[], ''http'', ''https''}" and "plain_authority (u_host (r_url (h_req h)))"
    and "has_prefix (u_path (r_url (h_req h))) ''/''"
  shows "deriver (values_Get (r_query (h_req h)) ''AWSAccessKeyId'') = Ok (aws_SecretAccessKey creds)
    \<and> hmac_signature G (h_req h) creds (values_Get (r_query (h_req h)) ''Expires'') =
        Ok (values_Get (r_query (h_req h)) ''Signature'')
    \<and> epochStrToTime (values_Get (r_query (h_req h)) ''Expires'') = Ok t"
proof -
  let ?r = "h_req h" and ?e = "values_Get (r_query (h_req h)) ''Expires''"
  have d: "deriver (values_Get (r_query ?r) ''AWSAccessKeyId'') = Ok (aws_SecretAccessKey creds)"
    "hasValidSignature G now ?r creds = Ok True" "epochStrToTime ?e = Ok t"
    using assms(1) by (auto simp: hmac_GetPresignedUrlDetails_def go_bind_Ok_iff Let_def static_credentials_def)
  have e: "expiry_text ?e" using d(3) by (auto simp: epochStrToTime_def go_bind_Ok_iff dest: go_Atoi_expiry_text)
  obtain signature a b where s: "hmac_signature G ?r creds ?e = Ok signature"
    "CompareRequestWithUrl ?r (buildHmacV1QueryUrl ?r creds ?e signature) = Ok (a, b, True, True)"
    using d(2) by (auto simp: hasValidSignature_def CalculateS3PresignedHmacV1QueryUrl_def
        calculateS3PresignedHmacV1QueryUrlWithExpiryTime_def go_bind_Ok_iff Let_def split: if_splits)
  have same: "IsSameQuery (parse_query (hmac_query creds ?e signature)) (r_query ?r)"
    by (rule hmac_url_query [OF assms(2-4) e s(2)])
  have dist: "distinct (map fst (parse_query (hmac_query creds ?e signature)))"
    using wf_parse_query [of "hmac_query creds ?e signature"] by (simp add: wf_query_def)
  have "values_vals (r_query ?r) ''Signature'' = [signature]"
    by (rule IsSameQuery_value [OF same hmac_query_values(1) [OF e] dist])
  then show ?thesis using d s(1) by (simp add: values_Get_def)
qed

definition toy_signer :: signer_lib where
  "toy_signer = \<lparr>PresignHTTP = \<lambda>creds r hash service region t. Err (Plain ''no''),
     SignHTTP = \<lambda>creds r hash service region t. Err (Plain ''no''), hmac_sha1 = \<lambda>k m. ''x''\<rparr>"

definition toy_presigned :: hstate where
  "toy_presigned = \<lparr>h_req = \<lparr>r_method = ''GET'',
       r_url = empty_url\<lparr>u_path := ''/b/k'', u_rawquery := ''AWSAccessKeyId=ak&Signature=eA%3D%3D&Expires=10''\<rparr>,
       r_host = [], r_header = [], r_uri = [], r_remote = [], r_length = 0, r_body = []\<rparr>,
     h_ctx = None, h_resp = new_response True\<rparr>"

lemma toy_presigned_valid:
  "hmac_GetPresignedUrlDetails toy_signer 0 toy_presigned (\<lambda>_. Ok ''sk'') =
   Ok (True, static_credentials ''ak'' ''sk'' [], 10 * time_Second, toy_presigned)"
  by code_simp

lemma hmac_url_valid_signature_witness:
  "hmac_signature toy_signer (h_req toy_presigned) (static_credentials ''ak'' ''sk'' []) ''10'' = Ok ''eA==''"
proof -
  have q: "values_Get (r_query (h_req toy_presigned)) ''Expires'' = ''10''"
    "values_Get (r_query (h_req toy_presigned)) ''Signature'' = ''eA==''"
    by code_simp+
  have "u_scheme (r_url (h_req toy_presigned)) \<in> {[], ''http'', ''https''}"
    "plain_authority (u_host (r_url (h_req toy_presigned)))" "has_prefix (u_path (r_url (h_req toy_presigned))) ''/''"
    by (simp_all add: toy_presigned_def empty_url_def plain_authority_def has_prefix_def)
  from hmac_url_valid_signature [OF toy_presigned_valid this] show ?thesis by (simp add: q)
qed

end
