(* ===== verification/Utf8.thy ===== *)
theory Utf8
  imports Prelude
begin

text \<open>
  Runes and bytes: \<^verbatim>\<open>unicode/utf8\<close> of the standard library, as the pattern matcher and
  \<^verbatim>\<open>utils.CapitalizeFirstLetter\<close> use it.
\<close>

section \<open>Runes\<close>

definition cont_byte :: "nat \<Rightarrow> bool" where
  "cont_byte b = (128 \<le> b \<and> b \<le> 191)"

text \<open>\<^verbatim>\<open>utf8.DecodeRune\<close> on a non-empty byte sequence: the rune (None for an invalid
  encoding) and the number of bytes it takes.\<close>

fun decode_rune :: "nat list \<Rightarrow> nat option \<times> nat" where
  "decode_rune [] = (None, 0)"
| "decode_rune (b0 # bs) =
     (if b0 < 128 then (Some b0, 1)
      else if 194 \<le> b0 \<and> b0 \<le> 223 then
        (case bs of
           b1 # _ \<Rightarrow> if cont_byte b1 then (Some ((b0 - 192) * 64 + (b1 - 128)), 2) else (None, 1)
         | [] \<Rightarrow> (None, 1))
      else if 224 \<le> b0 \<and> b0 \<le> 239 then
        (case bs of
           b1 # b2 # _ \<Rightarrow>
             if cont_byte b1 \<and> (b0 = 224 \<longrightarrow> 160 \<le> b1) \<and> (b0 = 237 \<longrightarrow> b1 \<le> 159) \<and> cont_byte b2
             then (Some ((b0 - 224) * 4096 + (b1 - 128) * 64 + (b2 - 128)), 3) else (None, 1)
         | _ \<Rightarrow> (None, 1))
      else if 240 \<le> b0 \<and> b0 \<le> 244 then
        (case bs of
           b1 # b2 # b3 # _ \<Rightarrow>
             if cont_byte b1 \<and> (b0 = 240 \<longrightarrow> 144 \<le> b1) \<and> (b0 = 244 \<longrightarrow> b1 \<le> 143)
                \<and> cont_byte b2 \<and> cont_byte b3
             then (Some ((b0 - 240) * 262144 + (b1 - 128) * 4096 + (b2 - 128) * 64 + (b3 - 128)), 4)
             else (None, 1)
         | _ \<Rightarrow> (None, 1))
      else (None, 1))"

lemma decode_rune_pos: "snd (decode_rune (b # bs)) \<noteq> 0"
  by (auto split: list.splits)

text \<open>Some rune, or None, per encoded or invalid position of a byte sequence.\<close>

function utf8 :: "nat list \<Rightarrow> nat option list" where
  "utf8 [] = []"
| "utf8 (b # bs) =
     fst (decode_rune (b # bs)) # utf8 (drop (snd (decode_rune (b # bs))) (b # bs))"
  by pat_completeness auto
termination
  using decode_rune_pos by (relation "measure length") (auto simp del: decode_rune.simps)

definition bytes :: "string \<Rightarrow> nat list" where
  "bytes s = map of_char s"

definition valid_utf8 :: "string \<Rightarrow> bool" where
  "valid_utf8 s = (None \<notin> set (utf8 (bytes s)))"

definition rune_error :: nat where
  "rune_error = 65533"

definition runes :: "string \<Rightarrow> nat list" where
  "runes s = map (\<lambda>r. case r of None \<Rightarrow> rune_error | Some x \<Rightarrow> x) (utf8 (bytes s))"

lemma utf8_ascii: "list_all (\<lambda>b. b < 128) bs \<Longrightarrow> utf8 (bs @ rest) = map Some bs @ utf8 rest"
  by (induction bs) auto

definition ascii :: "string \<Rightarrow> bool" where
  "ascii s = list_all (\<lambda>b. b < 128) (bytes s)"

lemma runes_ascii: "ascii s \<Longrightarrow> runes s = bytes s"
  using utf8_ascii [of "bytes s" "[]"] by (simp add: ascii_def runes_def comp_def)

lemma runes_ascii_append: "ascii s \<Longrightarrow> runes (s @ t) = bytes s @ runes t"
  using utf8_ascii [of "bytes s" "bytes t"] by (simp add: ascii_def runes_def bytes_def comp_def)

lemma valid_utf8_ascii: "ascii s \<Longrightarrow> valid_utf8 s"
  using utf8_ascii [of "bytes s" "[]"] by (auto simp: ascii_def valid_utf8_def)

text \<open>\<^verbatim>\<open>utf8.EncodeRune\<close> for a valid rune.\<close>

definition encode_rune :: "nat \<Rightarrow> string" where
  "encode_rune r =
     map char_of
      (if r < 128 then [r]
       else if r < 2048 then [192 + r div 64, 128 + r mod 64]
       else if r < 65536 then [224 + r div 4096, 128 + r div 64 mod 64, 128 + r mod 64]
       else [240 + r div 262144, 128 + r div 4096 mod 64, 128 + r div 64 mod 64, 128 + r mod 64])"

text \<open>\<^verbatim>\<open>utils.CapitalizeFirstLetter\<close>. The tables of \<^verbatim>\<open>unicode\<close> are the parameter
  \<open>U\<close> for runes from 128 on (Some of the upper-case rune for a letter); ASCII is written out.\<close>

definition upper_letter :: "(nat \<Rightarrow> nat option) \<Rightarrow> nat \<Rightarrow> nat option" where
  "upper_letter U r =
     (if 97 \<le> r \<and> r \<le> 122 then Some (r - 32)
      else if 65 \<le> r \<and> r \<le> 90 then Some r
      else if r < 128 then None
      else U r)"

definition CapitalizeFirstLetter :: "(nat \<Rightarrow> nat option) \<Rightarrow> string \<Rightarrow> string" where
  "CapitalizeFirstLetter U s =
     (if s = [] then s
      else let (r, size) = decode_rune (bytes s) in
        case upper_letter U (case r of None \<Rightarrow> rune_error | Some x \<Rightarrow> x) of
          Some u \<Rightarrow> encode_rune u @ drop size s
        | None \<Rightarrow> s)"

lemma CapitalizeFirstLetter_ascii:
  "code_of c < 128 \<Longrightarrow> CapitalizeFirstLetter U (c # s) = upper_char c # s"
  by (auto simp: CapitalizeFirstLetter_def bytes_def upper_letter_def encode_rune_def upper_char_def
      is_lower_def code_of_def)

end
