(* ===== verification/Error_Responses.thy ===== *)
theory Error_Responses
  imports Request_Ctx Utf8 Credentials
begin

text \<open>
  Answers to clients: \<^verbatim>\<open>aws/service/api-headers.go\<close>, \<^verbatim>\<open>writeS3ErrorResponse\<close> and the error
  reporter of \<^verbatim>\<open>s3/s3-errors.go\<close>, \<^verbatim>\<open>writeSTSErrorResponse\<close> of \<^verbatim>\<open>sts/sts-errors.go\<close> and
  the documents of \<^verbatim>\<open>sts/sts-datatypes.go\<close>. The XML encoder of the standard library and its
  table of upper-case letters beyond ASCII are the parameter \<open>svc_lib\<close>.
\<close>

record S3ErrorResponse =
  s3r_Code :: string
  s3r_Message :: string
  s3r_RequestID :: string
  s3r_HostId :: string

record STSErrorResponse =
  stsr_Type :: string
  stsr_Code :: string
  stsr_Message :: string
  stsr_RequestID :: string

record AssumedRoleUser =
  aru_Arn :: string
  aru_AssumedRoleID :: string

record WebIdentityResult =
  wi_AssumedRoleUser :: AssumedRoleUser
  wi_Audience :: string
  wi_Credentials :: AWSCredentials
  wi_PackedPolicySize :: int
  wi_Provider :: string
  wi_SubjectFromWebIdentityToken :: string

record AssumeRoleWithWebIdentityResponse =
  ar_Result :: WebIdentityResult
  ar_RequestID :: string

datatype xml_doc = XmlS3Error S3ErrorResponse | XmlSTSError STSErrorResponse
  | XmlWebIdentity AssumeRoleWithWebIdentityResponse

record svc_lib =
  marshal :: "xml_doc \<Rightarrow> string option"
  unicode_upper :: "nat \<Rightarrow> nat option"

definition xml_Header :: string where
  "xml_Header = ''<?xml version='' @ [CHR 0x22] @ ''1.0'' @ [CHR 0x22] @ '' encoding='' @ [CHR 0x22] @ ''UTF-8''
     @ [CHR 0x22] @ ''?>'' @ [CHR 0x0A]"

text \<open>An encoder error gives the nil response.\<close>

definition EncodeResponse :: "svc_lib \<Rightarrow> xml_doc \<Rightarrow> string option" where
  "EncodeResponse S response = map_option (\<lambda>x. xml_Header @ x) (marshal S response)"

section \<open>S3 errors\<close>

definition s3_error_document :: "svc_lib \<Rightarrow> s3_error_code \<Rightarrow> gerr option \<Rightarrow> string \<Rightarrow> S3ErrorResponse" where
  "s3_error_document S errCode err requestId =
     \<lparr>s3r_Code = ae_Code (ToS3Err errCode),
      s3r_Message = (case usererror_Get err of
          None \<Rightarrow> ae_Description (ToS3Err errCode)
        | Some userFacing \<Rightarrow> CapitalizeFirstLetter (unicode_upper S) (err_Error userFacing)),
      s3r_RequestID = requestId, s3r_HostId = []\<rparr>"

definition writeS3ErrorResponse :: "svc_lib \<Rightarrow> s3_error_code \<Rightarrow> gerr option \<Rightarrow> hstate \<Rightarrow> hstate result" where
  "writeS3ErrorResponse S errCode err h =
     (let h1 = SetErrorCode (ErrorS3 errCode) (MakeSafeToWrite h) in
      WriteResponse (ae_HTTPStatusCode (ToS3Err errCode))
        (EncodeResponse S (XmlS3Error (s3_error_document S errCode err (GetRequestID h1)))) MimeXML h1)"

definition WriteErrorResponse :: "svc_lib \<Rightarrow> aws_error_code \<Rightarrow> gerr option \<Rightarrow> hstate \<Rightarrow> hstate result" where
  "WriteErrorResponse S errCode err = writeS3ErrorResponse S (toS3ErrorCode errCode) err"

section \<open>STS errors\<close>

definition writeSTSErrorResponse :: "svc_lib \<Rightarrow> sts_error_code \<Rightarrow> gerr option \<Rightarrow> hstate \<Rightarrow> hstate result" where
  "writeSTSErrorResponse S errCode err h =
     (let h1 = SetErrorCode (ErrorSTS errCode) h;
          doc = \<lparr>stsr_Type = [], stsr_Code = ae_Code (ToSTSErr errCode),
                 stsr_Message = (case err of None \<Rightarrow> ae_Description (ToSTSErr errCode) | Some e \<Rightarrow> err_Error e),
                 stsr_RequestID = GetRequestID h1\<rparr> in
      WriteResponse (ae_HTTPStatusCode (ToSTSErr errCode)) (EncodeResponse S (XmlSTSError doc)) MimeXML h1)"

section \<open>Properties\<close>

lemma final_status: "s \<in> {400, 403, 500, 503} \<Longrightarrow> normal_status s = s \<and> \<not> informational s \<and> valid_status s"
  by (auto simp: normal_status_def informational_def valid_status_def)

lemma w_WriteHeader_total:
  assumes "valid_status s"
  obtains h' where "w_WriteHeader s h = Ok h'" "h_req h' = h_req h"
proof (cases "rs_tracked (h_resp h)")
  case True
  then show ?thesis using assms that
    by (cases "informational s \<or> rs_sent (h_resp h) \<noteq> None")
      (simp_all add: w_WriteHeader_def http_WriteHeader_def Let_def)
next
  case False
  then show ?thesis using assms that
    by (cases "informational s \<or> rs_sent (h_resp h) \<noteq> None")
      (simp_all add: w_WriteHeader_def http_WriteHeader_def Let_def)
qed

lemma WriteResponse_total: "\<exists>h'. WriteResponse s r m h = Ok h' \<and> h_req h' = h_req h"
proof -
  define h1 where "h1 = (if m \<noteq> [] then w_Header_Set ''Content-Type'' m h else h)"
  define h2 where "h2 = w_Header_Set ''Content-Length'' (dec_string (case r of None \<Rightarrow> 0 | Some b \<Rightarrow> length b)) h1"
  have q: "h_req h2 = h_req h" by (simp add: h1_def h2_def)
  obtain h3 where h3: "w_WriteHeader (normal_status s) h2 = Ok h3" "h_req h3 = h_req h2"
    using normal_status_valid by (rule w_WriteHeader_total)
  have "WriteResponse s r m h = Ok (case r of None \<Rightarrow> h3 | Some b \<Rightarrow> w_Write b h3)"
    unfolding WriteResponse_def Let_def h1_def [symmetric] h2_def [symmetric] h3(1) by simp
  then show ?thesis using h3(2) q by (cases r) simp_all
qed

lemma writeS3_total: "\<exists>h'. writeS3ErrorResponse S c e h = Ok h'"
  unfolding writeS3ErrorResponse_def Let_def using WriteResponse_total by blast

lemma writeS3_not_panic: "writeS3ErrorResponse S c e h \<noteq> Panic m" "writeS3ErrorResponse S c e h \<noteq> Err x"
  using writeS3_total [of S c e h] by auto

text \<open>C27. What a client learns from an S3 error depends only on the error code and the user-facing
  text of the error: two errors that agree on it, whatever internal details they wrap, give the
  same response, and an error without a user-facing part gives the fixed text of its code.\<close>

theorem writeS3ErrorResponse_hides_internals:
  assumes "map_option err_Error (usererror_Get e1) = map_option err_Error (usererror_Get e2)"
  shows "writeS3ErrorResponse S errCode e1 h = writeS3ErrorResponse S errCode e2 h"
proof -
  have "s3_error_document S errCode e1 r = s3_error_document S errCode e2 r" for r
    using assms by (cases "usererror_Get e1"; cases "usererror_Get e2") (simp_all add: s3_error_document_def)
  then show ?thesis by (simp add: writeS3ErrorResponse_def)
qed

lemma writeS3ErrorResponse_hides_internals_witness:
  "\<forall>S h. writeS3ErrorResponse S ErrS3InternalError (Some (Plain ''db password is x'')) h =
     writeS3ErrorResponse S ErrS3InternalError None h"
  by (intro allI, rule writeS3ErrorResponse_hides_internals)
    (simp add: usererror_Get_def errors_As_user.simps)


definition toy_svc :: svc_lib where
  "toy_svc = \<lparr>marshal = (\<lambda>d. Some (case d of XmlS3Error e \<Rightarrow> s3r_Code e @ [CHR 0x3A] @ s3r_Message e
      | XmlSTSError e \<Rightarrow> stsr_Code e @ [CHR 0x3A] @ stsr_Message e
      | XmlWebIdentity r \<Rightarrow> ar_RequestID r)),
     unicode_upper = (\<lambda>_. None)\<rparr>"

definition plain_request :: "string \<Rightarrow> string \<Rightarrow> request" where
  "plain_request m path = \<lparr>r_method = m, r_url = empty_url\<lparr>u_path := path\<rparr>, r_host = ''s3.test:8443'',
     r_header = [], r_uri = path, r_remote = [], r_length = 0, r_body = []\<rparr>"

definition toy_hstate :: "request \<Rightarrow> hstate" where
  "toy_hstate r = \<lparr>h_req = r, h_ctx = Some (NewContextFromHttpRequestWithStartTime id ''0123'' r 0),
     h_resp = \<lparr>rs_header = [], rs_sent = None, rs_body = [], rs_tracked = True\<rparr>\<rparr>"


end
