(* ===== verification/AuthN.thy ===== *)
theory AuthN
  imports Presign_Check Error_Responses
begin

text \<open>
  Authentication: \<^verbatim>\<open>middleware/authentication.go\<close> and
  \<^verbatim>\<open>middleware/authentication_options.go\<close>. A handler takes the state of the request and gives
  the new one; an authentication step says in addition whether the next handler runs. What a
  step reads from outside (key store, signer, clock, environment) is the record \<open>authn_env\<close>;
  the clock does not move during one step.
\<close>

section \<open>Options and environment\<close>

text \<open>A compiled regular expression is its method \<^verbatim>\<open>FindString\<close>.\<close>

record AuthenticationOptions =
  Leeway :: int
  RemovableQueryParams :: "(string \<Rightarrow> string) list"

text \<open>The parser options of the token check: no options mean no leeway.\<close>

definition GetParserOptions :: "AuthenticationOptions option \<Rightarrow> int" where
  "GetParserOptions a = (case a of None \<Rightarrow> 0 | Some opts \<Rightarrow> Leeway opts)"

record authn_env =
  env_svc :: svc_lib
  env_jwt :: jwt_lib
  env_signer :: signer_lib
  env_keys :: privateKeyStorage
  env_now :: int
  env_legacy :: string
  env_default_backend :: string

definition deny :: "authn_env \<Rightarrow> aws_error_code \<Rightarrow> gerr option \<Rightarrow> hstate \<Rightarrow> (bool \<times> hstate) result" where
  "deny E code err h = go_bind (WriteErrorResponse (env_svc E) code err h) (\<lambda>h'. Ok (False, h'))"

definition wrap_err :: "string \<Rightarrow> gerr \<Rightarrow> gerr" where
  "wrap_err m e = Wrapped (m @ '': '' @ err_Error e) e"

section \<open>Steps\<close>

definition IsPresignedAWSRequest :: "request \<Rightarrow> bool" where
  "IsPresignedAWSRequest r =
     (let q = r_query r in
      if values_Has q SignatureKey \<and> values_Has q ''x-amz-security-token'' \<and> values_Has q AccessKeyId then True
      else if values_Has q AmzAlgorithmKey \<and> values_Has q AmzSignatureKey then True
      else False)"

definition cleanRemovableQueryParameters :: "AuthenticationOptions \<Rightarrow> request \<Rightarrow> request" where
  "cleanRemovableQueryParameters opts r =
     (let urlVals = r_query r in
      set_rawquery r (values_Encode
        (fold (\<lambda>key m. if list_ex (\<lambda>re. re key \<noteq> []) (RemovableQueryParams opts) then values_Del m key else m)
          (map fst urlVals) urlVals)))"

definition getCredentialsFromRequest :: "request \<Rightarrow> (string \<times> string) result" where
  "getCredentialsFromRequest r =
     go_bind (GetSignatureCredentialPartFromRequest r CredentialPartAccessKeyId) (\<lambda>accessKeyId.
       Ok (accessKeyId, header_Get (r_header r) AmzSecurityTokenKey))"

text \<open>The test of the environment variable; the long s is the only letter outside ASCII that
  \<^verbatim>\<open>strings.ToUpper\<close> turns into a letter of YES.\<close>

definition legacy_allowed :: "string \<Rightarrow> bool" where
  "legacy_allowed v = (to_upper v = ''YES'' \<or> to_upper v = ''YE'' @ [CHR 0xC5, CHR 0xBF])"

definition makeSureSessionTokenIsForAccessKey ::
  "authn_env \<Rightarrow> string \<Rightarrow> string \<Rightarrow> AuthenticationOptions option \<Rightarrow> unit result" where
  "makeSureSessionTokenIsForAccessKey E sessionToken accessKeyId authOptions =
     go_bind (ExtractTokenClaims (env_jwt E) (env_now E) (GetParserOptions authOptions) sessionToken
                (Some (GetJwtKeyFunc (env_keys E)))) (\<lambda>claims.
       if AccessKeyID claims = accessKeyId then Ok ()
       else if legacy_allowed (env_legacy E) then Ok ()
       else Err (Plain (''mismatch between session token and access key i:d ''
                   @ AccessKeyID claims @ '' <> '' @ accessKeyId)))"

definition addRegionToSession :: "authn_env \<Rightarrow> hstate \<Rightarrow> hstate result" where
  "addRegionToSession E h =
     go_bind (GetRegionFromRequest (h_req h) (env_default_backend E)) (\<lambda>targetBackendId.
       Ok (AddAccessLogInfo ''s3'' [(''TargetRegion'', StrVal targetBackendId)] (SetTargetRegion targetBackendId h)))"

text \<open>The access key and the session token are noted before the token is checked.\<close>

definition note_credentials :: "string \<Rightarrow> string \<Rightarrow> hstate \<Rightarrow> hstate" where
  "note_credentials accessKeyId sessionToken h =
     SetSessionToken sessionToken (AddAccessLogInfo ''s3'' [(''AKID'', StrVal accessKeyId)] h)"

definition token_check_err :: "gerr \<Rightarrow> gerr" where
  "token_check_err = wrap_err ''error when making sure session token corresponds to used credential pair''"

section \<open>Presigned requests\<close>

definition HeadAsGet :: string where
  "HeadAsGet = ''X-Proxy-Head-As-Get''"

definition EmptyStringSHA256 :: string where
  "EmptyStringSHA256 = ''e3b0c44298fc1c149afbf4c8996fb92427ae41e4649b934ca495991b7852b855''"

definition request_to_check :: "request \<Rightarrow> request" where
  "request_to_check r =
     (if values_Get (r_query r) HeadAsGet \<noteq> [] \<and> to_lower (values_Get (r_query r) HeadAsGet) = ''true''
         \<and> r_method r = ''HEAD''
      then r\<lparr>r_method := ''GET''\<rparr> else r)"

text \<open>The deferred function, which runs after the response of a refusal was written too.\<close>

definition dropHeadAsGet :: "request \<Rightarrow> request" where
  "dropHeadAsGet r = set_rawquery r (values_Encode (values_Del (r_query r) HeadAsGet))"

text \<open>The body from the call of \<^verbatim>\<open>MakePresignedUrl\<close> on. The details are taken from the
  request to check, a copy when a HEAD is checked as a GET; all other steps see the request.\<close>

definition checkPresigned :: "authn_env \<Rightarrow> AuthenticationOptions \<Rightarrow> hstate \<Rightarrow> (bool \<times> hstate) result" where
  "checkPresigned E opts h =
     (let r = h_req h; toCheck = request_to_check r;
          secretDeriver = (\<lambda>a. CalculateSecretKey a (GetPrivateKey (env_keys E))) in
      go_try (MakePresignedUrl toCheck)
        (\<lambda>e. deny E ErrAWSInternalError (Some (wrap_err ''could not get presigned url'' e)) h)
        (\<lambda>presignedUrl.
      go_try (GetPresignedUrlDetails (env_signer E) (env_now E) presignedUrl (h\<lparr>h_req := toCheck\<rparr>) secretDeriver)
        (\<lambda>e. deny E ErrAWSInternalError (Some (wrap_err ''error geting details of presigned url'' e)) h)
        (\<lambda>(isValid, creds, expires, hd).
      let h1 = note_credentials (aws_AccessKeyID creds) (aws_SessionToken creds) (hd\<lparr>h_req := r\<rparr>) in
      go_try (makeSureSessionTokenIsForAccessKey E (aws_SessionToken creds) (aws_AccessKeyID creds) (Some opts))
        (\<lambda>e. deny E ErrAuthorizationHeaderMalformed (Some (token_check_err e)) h1)
        (\<lambda>_.
      go_bind (addRegionToSession E h1) (\<lambda>h2.
      if expires < env_now E then
        deny E ErrAWSInvalidSignature (Some (usererror_New (Some (Plain ''expired URL'')) ''Expired URL'')) h2
      else if \<not> isValid then
        deny E ErrAWSAccessDenied (Some (Plain ''failed authentication S3 signature'')) h2
      else Ok (True, upd_req (\<lambda>r. r\<lparr>r_header := header_Add (r_header r) AmzContentSHAKey EmptyStringSHA256\<rparr>) h2))))))"

definition handleAuthNPresigned :: "authn_env \<Rightarrow> AuthenticationOptions \<Rightarrow> hstate \<Rightarrow> (bool \<times> hstate) result" where
  "handleAuthNPresigned E opts h =
     (let h1 = upd_req (cleanRemovableQueryParameters opts) (SetAuthType AuthTypeQueryString h);
          deferred = values_Get (r_query (h_req h1)) HeadAsGet \<noteq> [] in
      go_bind (checkPresigned E opts h1) (\<lambda>(shouldContinue, h2).
        Ok (shouldContinue, if deferred then upd_req dropHeadAsGet h2 else h2)))"

section \<open>Requests with an authorization header\<close>

text \<open>The content length is not used for signing when its header was not signed.\<close>

definition hide_content_length :: "request \<Rightarrow> request" where
  "hide_content_length r =
     (if header_Get (r_header r) ''Content-Length'' = [] then r\<lparr>r_length := -1\<rparr> else r)"

definition restore_request :: "(string \<times> string) list \<Rightarrow> int \<Rightarrow> request \<Rightarrow> request" where
  "restore_request removed backupContentLength r = (reAddHeaders removed r)\<lparr>r_length := backupContentLength\<rparr>"

definition same_signature :: "string \<Rightarrow> string \<Rightarrow> bool" where
  "same_signature a b = (remove_char (CHR '' '') a = remove_char (CHR '' '') b)"

text \<open>The part after the session token was checked.\<close>

definition checkSignature :: "authn_env \<Rightarrow> string \<Rightarrow> string \<Rightarrow> hstate \<Rightarrow> (bool \<times> hstate) result" where
  "checkSignature E accessKeyId sessionToken h =
     go_try (CalculateSecretKey accessKeyId (GetPrivateKey (env_keys E)))
       (\<lambda>e. deny E ErrAWSInternalError (Some (wrap_err ''could not calculate secret key'' e)) h)
       (\<lambda>secretAccessKey.
     let backupContentLength = r_length (h_req h);
         passedSignature = header_Get (r_header (h_req h)) AuthorizationHeader in
     go_try (TemporaryRemoveUntrustedHeaders h)
       (\<lambda>_. deny E ErrAuthorizationHeaderMalformed
              (Some (usererror_New (Some (Plain ''could not temporary remove untrusted headers''))
                       ''Invalid authorization header'')) h)
       (\<lambda>(removed, h1).
     let h2 = upd_req hide_content_length h1 in
     go_try (SignWithCreds (env_signer E) (env_now E) (h_req h2)
               (static_credentials accessKeyId secretAccessKey sessionToken)
               ''ThisShouldNotBeUsedForSigv4Requests258'')
       (\<lambda>e. deny E ErrAWSInternalError (Some (wrap_err ''could not sign request'' e)) h2)
       (\<lambda>clonedReq.
     let calculatedSignature = header_Get (r_header clonedReq) AuthorizationHeader;
         h3 = upd_req (restore_request removed backupContentLength) h2 in
     if \<not> same_signature calculatedSignature passedSignature then deny E ErrAWSInvalidSignature None h3
     else Ok (True, h3))))"

definition handleAuthNNormal :: "authn_env \<Rightarrow> hstate \<Rightarrow> (bool \<times> hstate) result" where
  "handleAuthNNormal E h =
     (let h1 = SetAuthType (if header_Get (r_header (h_req h)) AuthorizationHeader = []
                 then AuthTypeNone else AuthTypeAuthHeader) h in
      go_try (getCredentialsFromRequest (h_req h1))
        (\<lambda>e. deny E ErrAuthorizationHeaderMalformed (Some (wrap_err ''could not get credentials from request'' e)) h1)
        (\<lambda>(accessKeyId, sessionToken).
      let h2 = note_credentials accessKeyId sessionToken h1 in
      go_try (makeSureSessionTokenIsForAccessKey E sessionToken accessKeyId None)
        (\<lambda>e. deny E ErrAuthorizationHeaderMalformed (Some (token_check_err e)) h2)
        (\<lambda>_.
      go_bind (addRegionToSession E h2) (checkSignature E accessKeyId sessionToken))))"

definition authenticate :: "authn_env \<Rightarrow> AuthenticationOptions \<Rightarrow> hstate \<Rightarrow> (bool \<times> hstate) result" where
  "authenticate E opts h =
     (if IsPresignedAWSRequest (h_req h) then handleAuthNPresigned E opts h else handleAuthNNormal E h)"

definition AWSAuthN :: "authn_env \<Rightarrow> AuthenticationOptions \<Rightarrow> (hstate \<Rightarrow> hstate result) \<Rightarrow> hstate \<Rightarrow> hstate result" where
  "AWSAuthN E opts next_handler h =
     go_bind (authenticate E opts h) (\<lambda>(shouldContinue, h'). if shouldContinue then next_handler h' else Ok h')"

section \<open>Properties\<close>

lemma deny_refuses [simp]: "deny E code e h \<noteq> Ok (True, h')"
  by (auto simp: deny_def go_bind_Ok_iff)

lemma authn_upd [simp]:
  "h_req (note_credentials a t h) = h_req h" "h_resp (note_credentials a t h) = h_resp h"
  "h_req (SetAuthType ty h) = h_req h" "h_resp (SetAuthType ty h) = h_resp h"
  by (simp_all add: note_credentials_def SetSessionToken_def AddAccessLogInfo_def SetAuthType_def)

text \<open>The session token a request context holds, if there is a context.\<close>

definition ctx_token_is :: "string \<Rightarrow> hstate \<Rightarrow> bool" where
  "ctx_token_is tok h = (\<forall>c. h_ctx h = Some c \<longrightarrow> ctx_SessionToken c = tok)"

lemma ctx_token_note: "ctx_token_is t (note_credentials a t h)"
  by (cases "h_ctx h") (simp_all add: ctx_token_is_def note_credentials_def SetSessionToken_def AddAccessLogInfo_def)

lemma ctx_token_setters [simp]:
  "ctx_token_is t (AddAccessLogInfo g as h) = ctx_token_is t h"
  "ctx_token_is t (SetTargetRegion region h) = ctx_token_is t h"
  "ctx_token_is t (SetAuthType ty h) = ctx_token_is t h"
  "ctx_token_is t (SetSignedHeaders hs h) = ctx_token_is t h"
  "ctx_token_is t (upd_req f h) = ctx_token_is t h"
  "ctx_token_is t (h\<lparr>h_req := r\<rparr>) = ctx_token_is t h"
  by (cases "h_ctx h"; simp add: ctx_token_is_def AddAccessLogInfo_def SetTargetRegion_def SetAuthType_def
      SetSignedHeaders_def ctx_AddAccessLogInfo_def Let_def)+

lemma known_signed_headers_setters [simp]:
  "known_signed_headers (AddAccessLogInfo g as h) = known_signed_headers h"
  "known_signed_headers (SetTargetRegion region h) = known_signed_headers h"
  "known_signed_headers (SetAuthType ty h) = known_signed_headers h"
  "known_signed_headers (SetSessionToken t h) = known_signed_headers h"
  "known_signed_headers (SetOperation opr h) = known_signed_headers h"
  by (cases "h_ctx h"; simp add: known_signed_headers_def GetSignedHeaders_def AddAccessLogInfo_def SetTargetRegion_def
      SetAuthType_def SetSessionToken_def SetOperation_def ctx_AddAccessLogInfo_def)+

lemma known_signed_headers_note [simp]: "known_signed_headers (note_credentials a t h) = known_signed_headers h"
  by (simp add: note_credentials_def)

lemma setters_req [simp]:
  "h_req (AddAccessLogInfo g as h) = h_req h" "h_req (SetTargetRegion region h) = h_req h"
  by (simp_all add: AddAccessLogInfo_def SetTargetRegion_def)

lemma ctx_token_region:
  assumes "addRegionToSession E h = Ok h'"
  shows "h_req h' = h_req h" and "ctx_token_is t h' = ctx_token_is t h"
    and "known_signed_headers h' = known_signed_headers h"
proof -
  obtain region where "h' = AddAccessLogInfo ''s3'' [(''TargetRegion'', StrVal region)] (SetTargetRegion region h)"
    using assms by (auto simp: addRegionToSession_def go_bind_Ok_iff)
  then show "h_req h' = h_req h" "ctx_token_is t h' = ctx_token_is t h" "known_signed_headers h' = known_signed_headers h"
    by simp_all
qed

text \<open>What all requests keep: everything but the headers and the length.\<close>

definition same_target :: "request \<Rightarrow> request \<Rightarrow> bool" where
  "same_target r r' = (r_method r' = r_method r \<and> r_url r' = r_url r \<and> r_host r' = r_host r \<and> r_uri r' = r_uri r
     \<and> r_body r' = r_body r)"

lemma same_target_simps [simp]:
  "same_target r (hide_content_length r') = same_target r r'" "same_target r (restore_request hs n r') = same_target r r'"
  "r_length (restore_request hs n r') = n"
  by (simp_all add: same_target_def hide_content_length_def restore_request_def reAddHeaders_def)

lemma TemporaryRemove_frame:
  assumes "TemporaryRemoveUntrustedHeaders h = Ok (removed, h')"
  shows "same_target (h_req h) (h_req h')" and "r_length (h_req h') = r_length (h_req h)"
    and "ctx_token_is t h' = ctx_token_is t h"
proof -
  define step where "step h1 hs = h1\<lparr>h_req := snd (temporaryRemoveHeaders (h_req h1) (hs @ alwaysSignHeaders))\<rparr>" for h1 :: hstate and hs
  have "\<exists>hs. h' = step h hs \<or> h' = step (SetSignedHeaders (Some hs) h) hs"
    using assms unfolding step_def
    by (cases "known_signed_headers h = []")
      (auto simp: TemporaryRemoveUntrustedHeaders_def go_bind_Ok_iff Let_def split_def)
  then obtain h1 hs where h1: "h1 = h \<or> h1 = SetSignedHeaders (Some hs) h" and h': "h' = step h1 hs" by blast
  have "h_req h1 = h_req h" "ctx_token_is t h1 = ctx_token_is t h" using h1 by auto
  then show "same_target (h_req h) (h_req h')" "r_length (h_req h') = r_length (h_req h)"
    "ctx_token_is t h' = ctx_token_is t h"
    unfolding h' step_def by (simp_all add: temporaryRemoveHeaders_def same_target_def split_def Let_def)
qed

text \<open>What the later steps read from the context: the removal of headers notes the signed ones and
  changes nothing else of it.\<close>

lemma context_reads_setters [simp]:
  "GetTargetRegion (AddAccessLogInfo g as h) = GetTargetRegion h" "GetSessionToken (AddAccessLogInfo g as h) = GetSessionToken h"
  "GetTargetRegion (SetSignedHeaders hs h) = GetTargetRegion h" "GetSessionToken (SetSignedHeaders hs h) = GetSessionToken h"
  "GetTargetRegion (h\<lparr>h_req := r\<rparr>) = GetTargetRegion h" "GetSessionToken (h\<lparr>h_req := r\<rparr>) = GetSessionToken h"
  "GetTargetRegion (upd_req f h) = GetTargetRegion h" "GetSessionToken (upd_req f h) = GetSessionToken h"
  "GetSessionToken (SetTargetRegion region h) = GetSessionToken h"
  by (cases "h_ctx h"; simp add: GetTargetRegion_def GetSessionToken_def AddAccessLogInfo_def SetSignedHeaders_def
      SetTargetRegion_def ctx_AddAccessLogInfo_def Let_def)+

lemma TemporaryRemove_reads:
  assumes "TemporaryRemoveUntrustedHeaders h = Ok (removed, h')"
  shows "GetTargetRegion h' = GetTargetRegion h \<and> GetSessionToken h' = GetSessionToken h"
  using assms
  by (cases "known_signed_headers h = []")
    (auto simp: TemporaryRemoveUntrustedHeaders_def go_bind_Ok_iff Let_def split_def)

lemma addRegion_reads:
  assumes "h_ctx h \<noteq> None" and "GetRegionFromRequest (h_req h) (env_default_backend E) = Ok region"
    and "addRegionToSession E (note_credentials ak tok h) = Ok h'"
  shows "GetTargetRegion h' = Ok region \<and> GetSessionToken h' = Ok tok"
proof -
  obtain c where "h_ctx h = Some c" using assms(1) by auto
  moreover have "h' = AddAccessLogInfo ''s3'' [(''TargetRegion'', StrVal region)] (SetTargetRegion region (note_credentials ak tok h))"
    using assms(2,3) by (simp add: addRegionToSession_def)
  ultimately show ?thesis
    by (simp add: note_credentials_def) (simp add: GetTargetRegion_def GetSessionToken_def SetTargetRegion_def SetSessionToken_def
        AddAccessLogInfo_def)
qed

text \<open>A session token that authenticates an access key: its claims verify under the public key of
  the store, have not expired and name the key (unless the legacy switch is on).\<close>

definition token_authentic :: "authn_env \<Rightarrow> int \<Rightarrow> string \<Rightarrow> string \<Rightarrow> bool" where
  "token_authentic E leeway token accessKeyId =
     (\<exists>c. verified (env_jwt E) token (key_pub (privateKey (env_keys E))) c \<and> claims_time_ok (env_now E) leeway c
        \<and> (AccessKeyID c = accessKeyId \<or> legacy_allowed (env_legacy E))
        \<and> ExtractTokenClaims (env_jwt E) (env_now E) 0 token None = Ok c)"

lemma token_check_authentic:
  assumes "jwt_lib_ok (env_jwt E)" and "makeSureSessionTokenIsForAccessKey E tok ak opts = Ok ()"
  shows "token_authentic E (GetParserOptions opts) tok ak"
proof -
  obtain c where c: "ExtractTokenClaims (env_jwt E) (env_now E) (GetParserOptions opts) tok
      (Some (GetJwtKeyFunc (env_keys E))) = Ok c" "AccessKeyID c = ak \<or> legacy_allowed (env_legacy E)"
    using assms(2) by (auto simp: makeSureSessionTokenIsForAccessKey_def go_bind_Ok_iff split: if_splits)
  have "GetPrivateKey (env_keys E) = Ok (privateKey (env_keys E))" by (simp add: GetPrivateKey_def)
  from keeper.accepted_token_verified [OF assms(1) this c(1)] ExtractTokenClaims_verified(3) [OF assms(1) c(1)] c(2)
  show ?thesis unfolding token_authentic_def by blast
qed

text \<open>The headers a request has signed and the request the signature is computed for: the
  headers that were not signed are removed, and the length is hidden when its header is not there.\<close>

definition trusted_headers :: "hstate \<Rightarrow> string list result" where
  "trusted_headers h =
     (if known_signed_headers h \<noteq> [] then Ok (known_signed_headers h) else getSignedHeadersFromRequest (h_req h))"

definition request_to_sign :: "hstate \<Rightarrow> request result" where
  "request_to_sign h = go_bind (trusted_headers h) (\<lambda>hs.
     Ok (hide_content_length (snd (temporaryRemoveHeaders (h_req h) (hs @ alwaysSignHeaders)))))"

lemma request_to_sign_iff:
  "request_to_sign h = Ok r \<longleftrightarrow>
     (\<exists>removed h1. TemporaryRemoveUntrustedHeaders h = Ok (removed, h1) \<and> r = hide_content_length (h_req h1))"
proof (cases "known_signed_headers h = []")
  case True
  have "h_req (SetSignedHeaders hs h) = h_req h" for hs by simp
  then show ?thesis using True
    by (cases "getSignedHeadersFromRequest (h_req h)")
      (auto simp: request_to_sign_def trusted_headers_def TemporaryRemoveUntrustedHeaders_def Let_def split_def)
next
  case False
  then show ?thesis
    by (auto simp: request_to_sign_def trusted_headers_def TemporaryRemoveUntrustedHeaders_def Let_def split_def)
qed

text \<open>The signature check of a request with an authorization header: the header is the one the
  signer gives for exactly that request under the secret of the access key.\<close>

definition header_signed :: "authn_env \<Rightarrow> string \<Rightarrow> string \<Rightarrow> hstate \<Rightarrow> bool" where
  "header_signed E accessKeyId token h =
     (\<exists>secret r signed. CalculateSecretKey accessKeyId (GetPrivateKey (env_keys E)) = Ok secret \<and>
        request_to_sign h = Ok r \<and>
        SignWithCreds (env_signer E) (env_now E) r (static_credentials accessKeyId secret token)
          ''ThisShouldNotBeUsedForSigv4Requests258'' = Ok signed \<and>
        same_signature (header_Get (r_header signed) ''Authorization'') (header_Get (r_header (h_req h)) ''Authorization''))"

lemma header_signed_cong:
  "h_req h' = h_req h \<Longrightarrow> known_signed_headers h' = known_signed_headers h \<Longrightarrow>
   header_signed E ak tok h' = header_signed E ak tok h"
  by (simp add: header_signed_def request_to_sign_def trusted_headers_def)

lemma checkSignature_passes:
  assumes "checkSignature E ak tok h = Ok (True, h')"
  shows "header_signed E ak tok h \<and> same_target (h_req h) (h_req h') \<and> r_length (h_req h') = r_length (h_req h)
    \<and> (ctx_token_is t h \<longrightarrow> ctx_token_is t h')"
proof -
  obtain sk removed h1 signed where s: "CalculateSecretKey ak (GetPrivateKey (env_keys E)) = Ok sk"
    "TemporaryRemoveUntrustedHeaders h = Ok (removed, h1)"
    "SignWithCreds (env_signer E) (env_now E) (hide_content_length (h_req h1)) (static_credentials ak sk tok)
       ''ThisShouldNotBeUsedForSigv4Requests258'' = Ok signed"
    "same_signature (header_Get (r_header signed) ''Authorization'') (header_Get (r_header (h_req h)) ''Authorization'')"
    "h' = upd_req (restore_request removed (r_length (h_req h))) (upd_req hide_content_length h1)"
    using assms by (auto simp: checkSignature_def go_try_Ok_iff Let_def split: if_splits)
  have f: "same_target (h_req h) (h_req h1)" "ctx_token_is t h \<longrightarrow> ctx_token_is t h1"
    using TemporaryRemove_frame [OF s(2)] by blast+
  have "request_to_sign h = Ok (hide_content_length (h_req h1))" using s(2) by (auto simp: request_to_sign_iff)
  then have "header_signed E ak tok h" using s(1,3,4) unfolding header_signed_def by blast
  then show ?thesis using f s(5) by simp
qed

lemma handleAuthNNormal_passes:
  assumes "jwt_lib_ok (env_jwt E)" and "handleAuthNNormal E h = Ok (True, h')"
  obtains ak tok where "getCredentialsFromRequest (h_req h) = Ok (ak, tok)" "token_authentic E 0 tok ak"
    "header_signed E ak tok h" "ctx_token_is tok h'" "same_target (h_req h) (h_req h')"
    "r_length (h_req h') = r_length (h_req h)"
proof -
  define h0 where "h0 = SetAuthType (if header_Get (r_header (h_req h)) ''Authorization'' = []
                 then AuthTypeNone else AuthTypeAuthHeader) h"
  have h0: "h_req h0 = h_req h" by (simp add: h0_def)
  obtain ak tok h2 where s: "getCredentialsFromRequest (h_req h) = Ok (ak, tok)"
    "makeSureSessionTokenIsForAccessKey E tok ak None = Ok ()"
    "addRegionToSession E (note_credentials ak tok h0) = Ok h2" "checkSignature E ak tok h2 = Ok (True, h')"
    using assms(2) unfolding handleAuthNNormal_def Let_def h0_def [symmetric]
    by (auto simp: go_try_Ok_iff go_bind_Ok_iff h0)
  have r: "h_req h2 = h_req h" "ctx_token_is tok h2" "known_signed_headers h2 = known_signed_headers h"
    using ctx_token_region [OF s(3)] ctx_token_note h0 by (auto simp: h0_def)
  show ?thesis
    using that [OF s(1)] token_check_authentic [OF assms(1) s(2)] checkSignature_passes [OF s(4), of tok] r
      header_signed_cong [OF r(1,3)]
    by (simp add: GetParserOptions_def)
qed

text \<open>C7. A request with an authorization header is authenticated only with a session token
  that verifies under the public key of the key store, has not expired and names the access key
  of the header (or the legacy switch is on), and with the signature the signer computes under
  the derived secret for this very request without the headers it did not sign; the request that goes on has the method, URL, host,
  body and length of the one received, and its context holds the token that was checked.\<close>

theorem handleAuthNNormal_safe:
  assumes "jwt_lib_ok (env_jwt E)" and "handleAuthNNormal E h = Ok (True, h')"
  shows "\<exists>ak tok. getCredentialsFromRequest (h_req h) = Ok (ak, tok) \<and> token_authentic E 0 tok ak
    \<and> header_signed E ak tok h \<and> ctx_token_is tok h' \<and> same_target (h_req h) (h_req h')
    \<and> r_length (h_req h') = r_length (h_req h)"
  using assms by (rule handleAuthNNormal_passes) blast

text \<open>The converse: a request that is signed, with credentials that belong together, passes.\<close>

lemma checkSignature_complete:
  assumes "header_signed E ak tok h"
  obtains h' where "checkSignature E ak tok h = Ok (True, h')" "GetTargetRegion h' = GetTargetRegion h"
    "GetSessionToken h' = GetSessionToken h"
proof -
  obtain sk r signed where s: "CalculateSecretKey ak (GetPrivateKey (env_keys E)) = Ok sk" "request_to_sign h = Ok r"
    "SignWithCreds (env_signer E) (env_now E) r (static_credentials ak sk tok) ''ThisShouldNotBeUsedForSigv4Requests258'' = Ok signed"
    "same_signature (header_Get (r_header signed) ''Authorization'') (header_Get (r_header (h_req h)) ''Authorization'')"
    using assms unfolding header_signed_def by blast
  obtain removed h1 where t: "TemporaryRemoveUntrustedHeaders h = Ok (removed, h1)" "r = hide_content_length (h_req h1)"
    using s(2) unfolding request_to_sign_iff by blast
  have "checkSignature E ak tok h = Ok (True, upd_req (restore_request removed (r_length (h_req h))) (upd_req hide_content_length h1))"
    by (simp add: checkSignature_def s(1,4) t(1) s(3) [unfolded t(2)])
  then show ?thesis using that TemporaryRemove_reads [OF t(1)] by simp
qed

lemma handleAuthNNormal_complete:
  assumes "h_ctx h \<noteq> None" and "getCredentialsFromRequest (h_req h) = Ok (ak, tok)"
    and "makeSureSessionTokenIsForAccessKey E tok ak None = Ok ()"
    and "GetRegionFromRequest (h_req h) (env_default_backend E) = Ok region" and "header_signed E ak tok h"
  obtains h' where "handleAuthNNormal E h = Ok (True, h')" "GetTargetRegion h' = Ok region" "GetSessionToken h' = Ok tok"
    "same_target (h_req h) (h_req h')"
proof -
  define h0 where "h0 = SetAuthType (if header_Get (r_header (h_req h)) ''Authorization'' = []
                 then AuthTypeNone else AuthTypeAuthHeader) h"
  have h0: "h_req h0 = h_req h" "h_ctx h0 \<noteq> None" "known_signed_headers h0 = known_signed_headers h"
    using assms(1) by (simp_all add: h0_def) (auto simp: SetAuthType_def)
  obtain h2 where h2: "addRegionToSession E (note_credentials ak tok h0) = Ok h2"
    by (simp add: addRegionToSession_def h0 assms(4))
  have r: "h_req h2 = h_req h" "known_signed_headers h2 = known_signed_headers h"
    "GetTargetRegion h2 = Ok region" "GetSessionToken h2 = Ok tok"
    using ctx_token_region [OF h2] addRegion_reads [OF h0(2) _ h2] assms(4) h0 by simp_all
  have "header_signed E ak tok h2" using header_signed_cong [OF r(1,2)] assms(5) by simp
  then obtain h' where h': "checkSignature E ak tok h2 = Ok (True, h')" "GetTargetRegion h' = GetTargetRegion h2"
    "GetSessionToken h' = GetSessionToken h2"
    by (rule checkSignature_complete)
  have "handleAuthNNormal E h = Ok (True, h')"
    by (simp add: handleAuthNNormal_def Let_def h0_def [symmetric] h0 assms(2,3) h2 h'(1))
  moreover have "same_target (h_req h) (h_req h')" using checkSignature_passes [OF h'(1)] r(1) by simp
  ultimately show ?thesis using that h'(2,3) r(3,4) by simp
qed

lemma checkPresigned_passes:
  assumes "jwt_lib_ok (env_jwt E)" and "checkPresigned E opts h = Ok (True, h')"
  obtains k creds t hd where "MakePresignedUrl (request_to_check (h_req h)) = Ok k"
    "GetPresignedUrlDetails (env_signer E) (env_now E) k (h\<lparr>h_req := request_to_check (h_req h)\<rparr>)
       (\<lambda>a. CalculateSecretKey a (GetPrivateKey (env_keys E))) = Ok (True, creds, t, hd)"
    "env_now E \<le> t" "token_authentic E (Leeway opts) (aws_SessionToken creds) (aws_AccessKeyID creds)"
    "ctx_token_is (aws_SessionToken creds) h'" "same_target (h_req h) (h_req h')"
proof -
  define r where "r = h_req h"
  obtain k creds t hd h2 where s: "MakePresignedUrl (request_to_check r) = Ok k"
    "GetPresignedUrlDetails (env_signer E) (env_now E) k (h\<lparr>h_req := request_to_check r\<rparr>)
       (\<lambda>a. CalculateSecretKey a (GetPrivateKey (env_keys E))) = Ok (True, creds, t, hd)"
    "makeSureSessionTokenIsForAccessKey E (aws_SessionToken creds) (aws_AccessKeyID creds) (Some opts) = Ok ()"
    "addRegionToSession E (note_credentials (aws_AccessKeyID creds) (aws_SessionToken creds) (hd\<lparr>h_req := r\<rparr>)) = Ok h2"
    "env_now E \<le> t"
    "h' = upd_req (\<lambda>r. r\<lparr>r_header := header_Add (r_header r) ''X-Amz-Content-Sha256'' EmptyStringSHA256\<rparr>) h2"
    using assms(2) unfolding checkPresigned_def Let_def r_def [symmetric]
    by (auto simp: go_try_Ok_iff go_bind_Ok_iff split: if_splits)
  have "ctx_token_is (aws_SessionToken creds) h2" "h_req h2 = r"
    using ctx_token_region [OF s(4)] ctx_token_note by auto
  then have "ctx_token_is (aws_SessionToken creds) h'" "same_target r (h_req h')"
    using s(6) by (simp_all add: same_target_def)
  then show ?thesis
    using that s(1,2,5) token_check_authentic [OF assms(1) s(3)] by (simp add: GetParserOptions_def r_def)
qed

lemma authn_query_changes:
  "r_method (cleanRemovableQueryParameters opts r) = r_method r" "r_host (cleanRemovableQueryParameters opts r) = r_host r"
  "u_path (r_url (cleanRemovableQueryParameters opts r)) = u_path (r_url r)"
  "r_uri (cleanRemovableQueryParameters opts r) = r_uri r" "r_body (cleanRemovableQueryParameters opts r) = r_body r"
  "r_method (dropHeadAsGet r) = r_method r" "r_host (dropHeadAsGet r) = r_host r"
  "u_path (r_url (dropHeadAsGet r)) = u_path (r_url r)" "r_uri (dropHeadAsGet r) = r_uri r"
  "r_body (dropHeadAsGet r) = r_body r"
  by (simp_all add: cleanRemovableQueryParameters_def dropHeadAsGet_def set_rawquery_def Let_def)

lemma handleAuthNPresigned_passes:
  assumes "jwt_lib_ok (env_jwt E)" and "handleAuthNPresigned E opts h = Ok (True, h')"
  shows "\<exists>k creds t h1 hd.
    GetPresignedUrlDetails (env_signer E) (env_now E) k h1 (\<lambda>a. CalculateSecretKey a (GetPrivateKey (env_keys E)))
      = Ok (True, creds, t, hd)
    \<and> h_req h1 = request_to_check (cleanRemovableQueryParameters opts (h_req h)) \<and> env_now E \<le> t
    \<and> token_authentic E (Leeway opts) (aws_SessionToken creds) (aws_AccessKeyID creds)
    \<and> ctx_token_is (aws_SessionToken creds) h'
    \<and> r_method (h_req h') = r_method (h_req h) \<and> u_path (r_url (h_req h')) = u_path (r_url (h_req h))
    \<and> r_host (h_req h') = r_host (h_req h) \<and> r_body (h_req h') = r_body (h_req h) \<and> r_uri (h_req h') = r_uri (h_req h)"
proof -
  define h0 where "h0 = upd_req (cleanRemovableQueryParameters opts) (SetAuthType AuthTypeQueryString h)"
  define d where "d = (values_Get (r_query (h_req h0)) HeadAsGet \<noteq> [])"
  have r0: "h_req h0 = cleanRemovableQueryParameters opts (h_req h)" by (simp add: h0_def)
  obtain h2 where h2: "checkPresigned E opts h0 = Ok (True, h2)" "h' = (if d then upd_req dropHeadAsGet h2 else h2)"
    using assms(2) unfolding handleAuthNPresigned_def Let_def h0_def [symmetric] d_def [symmetric]
    by (auto simp: go_bind_Ok_iff)
  obtain k creds t hd where s: "MakePresignedUrl (request_to_check (h_req h0)) = Ok k"
    "GetPresignedUrlDetails (env_signer E) (env_now E) k (h0\<lparr>h_req := request_to_check (h_req h0)\<rparr>)
       (\<lambda>a. CalculateSecretKey a (GetPrivateKey (env_keys E))) = Ok (True, creds, t, hd)"
    "env_now E \<le> t" "token_authentic E (Leeway opts) (aws_SessionToken creds) (aws_AccessKeyID creds)"
    "ctx_token_is (aws_SessionToken creds) h2" "same_target (h_req h0) (h_req h2)"
    using checkPresigned_passes [OF assms(1) h2(1)] .
  have "ctx_token_is (aws_SessionToken creds) h'" using s(5) h2(2) by simp
  moreover have "r_method (h_req h') = r_method (h_req h) \<and> u_path (r_url (h_req h')) = u_path (r_url (h_req h))
    \<and> r_host (h_req h') = r_host (h_req h) \<and> r_body (h_req h') = r_body (h_req h) \<and> r_uri (h_req h') = r_uri (h_req h)"
    using s(6) h2(2) r0 by (auto simp: same_target_def authn_query_changes)
  ultimately show ?thesis
    using s(2-4) r0 by (intro exI [of _ k] exI [of _ creds] exI [of _ t] exI [of _ "h0\<lparr>h_req := request_to_check (h_req h0)\<rparr>"] exI [of _ hd]) simp
qed

text \<open>C8. A presigned request is authenticated only when the signature of its URL is valid under
  the secret derived for the access key it names, the URL has not expired, and its session token
  verifies for that access key within the leeway of the options; method, path, host and body are
  those of the request received, and the context holds the token that was checked.\<close>

theorem handleAuthNPresigned_safe:
  assumes "jwt_lib_ok (env_jwt E)" and "handleAuthNPresigned E opts h = Ok (True, h')"
  shows "\<exists>k creds t h1 hd.
    GetPresignedUrlDetails (env_signer E) (env_now E) k h1 (\<lambda>a. CalculateSecretKey a (GetPrivateKey (env_keys E)))
      = Ok (True, creds, t, hd)
    \<and> h_req h1 = request_to_check (cleanRemovableQueryParameters opts (h_req h)) \<and> env_now E \<le> t
    \<and> token_authentic E (Leeway opts) (aws_SessionToken creds) (aws_AccessKeyID creds)
    \<and> ctx_token_is (aws_SessionToken creds) h'
    \<and> r_method (h_req h') = r_method (h_req h) \<and> u_path (r_url (h_req h')) = u_path (r_url (h_req h))
    \<and> r_host (h_req h') = r_host (h_req h) \<and> r_body (h_req h') = r_body (h_req h) \<and> r_uri (h_req h') = r_uri (h_req h)"
  using assms by (rule handleAuthNPresigned_passes)

subsection \<open>A concrete server\<close>

definition toy_akid :: string where
  "toy_akid = ''AKIDEXAMPLE''"

definition toy_authorization :: string where
  "toy_authorization = ''AWS4-HMAC-SHA256 Credential='' @ toy_akid
     @ ''/20240101/eu/s3/aws4_request, SignedHeaders=host, Signature=ab12''"

definition toy_env :: authn_env where
  "toy_env = \<lparr>env_svc = toy_svc, env_jwt = toy_jwt (SetAccessKeyId toy_claims toy_akid),
     env_signer = toy_signer\<lparr>SignHTTP := \<lambda>creds r hash service region t.
       Ok (r\<lparr>r_header := header_Set (r_header r) ''Authorization'' toy_authorization\<rparr>)\<rparr>,
     env_keys = \<lparr>privateKey = toy_key\<rparr>, env_now = 5, env_legacy = [], env_default_backend = ''eu''\<rparr>"

definition toy_signed :: hstate where
  "toy_signed = toy_hstate ((plain_request ''GET'' ''/b/k'')\<lparr>r_header :=
     [(''Authorization'', [toy_authorization]), (''X-Amz-Security-Token'', [''tok''])]\<rparr>)"

definition toy_presigned_token :: hstate where
  "toy_presigned_token = toy_hstate ((plain_request ''GET'' ''/b/k'')\<lparr>r_host := [],
     r_url := empty_url\<lparr>u_path := ''/b/k'', u_rawquery := ''AWSAccessKeyId='' @ toy_akid
       @ ''&Expires=10&Signature=eA%3D%3D&x-amz-security-token=tok''\<rparr>\<rparr>)"

definition toy_options :: AuthenticationOptions where
  "toy_options = \<lparr>Leeway = 0, RemovableQueryParams = []\<rparr>"

lemma toy_env_jwt: "jwt_lib_ok (env_jwt toy_env)"
  by (simp add: toy_env_def toy_jwt_ok)

fun passes :: "(bool \<times> hstate) result \<Rightarrow> bool" where
  "passes (Ok (b, h)) = b"
| "passes (Err e) = False"
| "passes (Panic m) = False"

lemma passesE: "passes r \<Longrightarrow> \<exists>h. r = Ok (True, h)"
  by (cases r rule: passes.cases) auto

abbreviation toy_request :: request where
  "toy_request \<equiv> h_req toy_signed"

lemma toy_request_evaluated:
  "getCredentialsFromRequest toy_request = Ok (toy_akid, ''tok'')
   \<and> GetSignatureCredentialPartFromRequest toy_request CredentialPartRegionName = Ok ''eu''
   \<and> getSignedHeadersFromRequest toy_request = Ok [''Host'']
   \<and> temporaryRemoveHeaders toy_request (''Host'' # alwaysSignHeaders) = ([(''X-Amz-Security-Token'', ''tok'')],
       toy_request\<lparr>r_header := [(''Authorization'', [toy_authorization])]\<rparr>)
   \<and> GetSignatureCredentialPartFromRequest (hide_content_length (toy_request\<lparr>r_header := [(''Authorization'', [toy_authorization])]\<rparr>))
       CredentialPartRegionName = Ok ''eu''
   \<and> header_Get (r_header toy_request) ''Authorization'' = toy_authorization \<and> toy_authorization \<noteq> []
   \<and> known_signed_headers toy_signed = []"
  by code_simp

lemma toy_credentials: "getCredentialsFromRequest toy_request = Ok (toy_akid, ''tok'')"
  and toy_region: "GetRegionFromRequest toy_request x = Ok ''eu''"
  and toy_signed_headers: "getSignedHeadersFromRequest toy_request = Ok [''Host'']"
  and toy_removed: "temporaryRemoveHeaders toy_request (''Host'' # alwaysSignHeaders) = ([(''X-Amz-Security-Token'', ''tok'')],
     toy_request\<lparr>r_header := [(''Authorization'', [toy_authorization])]\<rparr>)"
  and toy_header_region:
    "GetRegionFromRequest (hide_content_length (toy_request\<lparr>r_header := [(''Authorization'', [toy_authorization])]\<rparr>)) x = Ok ''eu''"
  and toy_auth_header: "header_Get (r_header toy_request) ''Authorization'' = toy_authorization" "toy_authorization \<noteq> []"
  using toy_request_evaluated by (simp_all add: GetRegionFromRequest_def)

lemma toy_token: "makeSureSessionTokenIsForAccessKey toy_env ''tok'' toy_akid opts = Ok ()" if "GetParserOptions opts = 0"
proof -
  have "claims_time_ok 5 0 (SetAccessKeyId toy_claims toy_akid)"
    unfolding claims_time_ok_SetAccessKeyId
    by (simp add: claims_time_ok_def toy_claims_def CreateRS256PolicyToken_def NewNumericDate_def time_Second_def)
  then have "ExtractTokenClaims (env_jwt toy_env) (env_now toy_env) 0 ''tok'' (Some (GetJwtKeyFunc (env_keys toy_env)))
      = Ok (SetAccessKeyId toy_claims toy_akid)"
    by (simp add: ExtractTokenClaims_def toy_env_def toy_jwt_def GetJwtKeyFunc_def GetPublicKey_def)
  then show ?thesis using that by (simp add: makeSureSessionTokenIsForAccessKey_def SetAccessKeyId_def)
qed

definition toy_noted :: "hstate \<Rightarrow> hstate" where
  "toy_noted h = AddAccessLogInfo ''s3'' [(''TargetRegion'', StrVal ''eu'')]
     (SetTargetRegion ''eu'' (note_credentials toy_akid ''tok'' (SetAuthType AuthTypeAuthHeader h)))"

lemma toy_noted_facts:
  "h_req (toy_noted h) = h_req h" "known_signed_headers (toy_noted h) = known_signed_headers h"
  by (simp_all add: toy_noted_def)

lemma toy_remove:
  assumes "h_req h = toy_request" and "known_signed_headers h = []"
  shows "TemporaryRemoveUntrustedHeaders (toy_noted h) = Ok ([(''X-Amz-Security-Token'', ''tok'')],
     (SetSignedHeaders (Some [''Host'']) (toy_noted h))\<lparr>h_req := toy_request\<lparr>r_header := [(''Authorization'', [toy_authorization])]\<rparr>\<rparr>)"
  using toy_removed assms
  by (simp add: TemporaryRemoveUntrustedHeaders_def toy_noted_facts toy_signed_headers)

lemma toy_sign:
  assumes "GetRegionFromRequest r x = Ok region"
  shows "\<exists>r'. SignWithCreds (env_signer toy_env) now r creds x = Ok r' \<and> header_Get (r_header r') ''Authorization'' = toy_authorization"
  using assms
  by (simp add: SignWithCreds_def SignRequestWithCreds_def GetS3SignRequestParams_def toy_env_def Let_def hdr.get_set)

lemma toy_secret: obtains sk where "CalculateSecretKey toy_akid (GetPrivateKey (env_keys toy_env)) = Ok sk"
proof -
  have "11 \<le> length toy_akid" by (simp add: toy_akid_def)
  from CalculateSecretKey_total [OF this] that show ?thesis by (simp add: GetPrivateKey_def toy_env_def)
qed

lemma toy_request_passes:
  assumes r: "h_req h = toy_request" and known: "known_signed_headers h = []"
  shows "passes (handleAuthNNormal toy_env h)"
proof -
  obtain sk where sk: "CalculateSecretKey toy_akid (GetPrivateKey (env_keys toy_env)) = Ok sk" by (rule toy_secret)
  have "addRegionToSession toy_env (note_credentials toy_akid ''tok'' (SetAuthType AuthTypeAuthHeader h)) = Ok (toy_noted h)"
    by (simp add: addRegionToSession_def r toy_region toy_noted_def)
  moreover have "passes (checkSignature toy_env toy_akid ''tok'' (toy_noted h))"
  proof -
    obtain r' where "SignWithCreds (env_signer toy_env) (env_now toy_env)
        (hide_content_length (toy_request\<lparr>r_header := [(''Authorization'', [toy_authorization])]\<rparr>))
        (static_credentials toy_akid sk ''tok'') ''ThisShouldNotBeUsedForSigv4Requests258'' = Ok r'"
      "header_Get (r_header r') ''Authorization'' = toy_authorization"
      using toy_sign [OF toy_header_region] by blast
    then show ?thesis
      by (simp add: checkSignature_def sk toy_remove [OF assms] toy_noted_facts r toy_auth_header same_signature_def)
  qed
  moreover have "makeSureSessionTokenIsForAccessKey toy_env ''tok'' toy_akid None = Ok ()"
    by (rule toy_token) (simp add: GetParserOptions_def)
  ultimately show ?thesis
    by (simp add: handleAuthNNormal_def r toy_auth_header toy_credentials)
qed

lemma toy_signed_passes: "passes (handleAuthNNormal toy_env toy_signed)"
  using toy_request_passes [OF refl] toy_request_evaluated by simp

lemma handleAuthNNormal_safe_witness:
  "\<exists>h' ak tok. handleAuthNNormal toy_env toy_signed = Ok (True, h') \<and> token_authentic toy_env 0 tok ak
     \<and> ctx_token_is tok h'"
proof -
  obtain h' where h': "handleAuthNNormal toy_env toy_signed = Ok (True, h')" using passesE [OF toy_signed_passes] ..
  from handleAuthNNormal_safe [OF toy_env_jwt this] h' show ?thesis by blast
qed

abbreviation toy_url :: request where
  "toy_url \<equiv> h_req toy_presigned_token"

lemma toy_query:
  "r_query toy_url = [(''AWSAccessKeyId'', [toy_akid]), (''Expires'', [''10'']), (''Signature'', [''eA=='']),
     (''x-amz-security-token'', [''tok''])]"
  by code_simp

lemma toy_clean: "cleanRemovableQueryParameters toy_options toy_url = toy_url"
proof -
  have "values_Encode (r_query toy_url) = u_rawquery (r_url toy_url)" unfolding toy_query by code_simp
  moreover have "fold (\<lambda>key m. m) ks q = q" for ks :: "string list" and q :: mvals by (induction ks) simp_all
  ultimately show ?thesis by (simp add: cleanRemovableQueryParameters_def toy_options_def set_rawquery_def Let_def)
qed

lemma toy_query_values:
  "values_Get (r_query toy_url) ''AWSAccessKeyId'' = toy_akid" "values_Get (r_query toy_url) ''Expires'' = ''10''"
  "values_Get (r_query toy_url) HeadAsGet = []" "values_Get (r_query toy_url) ''X-Amz-Algorithm'' = []"
  "values_Get (r_query toy_url) ''Signature'' = ''eA==''" "values_Get (r_query toy_url) ''x-amz-security-token'' = ''tok''"
  by (simp_all add: toy_query values_Get_def values_vals_def HeadAsGet_def)

lemma toy_no_authorization: "header_Get (r_header toy_url) ''Authorization'' = []"
  by (simp add: toy_presigned_token_def toy_hstate_def plain_request_def header_Get_def values_Get_def values_vals_def)

lemma toy_url_kind:
  "request_to_check toy_url = toy_url" "MakePresignedUrl toy_url = Ok HmacV1Url"
  "GetRegionFromRequest toy_url ''eu'' = Ok ''eu''"
  by (simp_all add: request_to_check_def MakePresignedUrl_def isHmacV1Query_def toy_query_values GetRegionFromRequest_def
      GetSignatureCredentialPartFromRequest_def toy_no_authorization getSignatureCredentialStringFromRequestQParams_def
      signAlgorithm_def toy_akid_def)

lemma toy_epoch: "epochStrToTime ''10'' = Ok (10 * time_Second)"
  and toy_signature: "hmac_signature (env_signer toy_env) toy_url (static_credentials toy_akid sk ''tok'') ''10'' = Ok ''eA==''"
  and toy_expected_url:
    "buildHmacV1QueryUrl toy_url (static_credentials toy_akid sk ''tok'') ''10'' ''eA=='' =
     ''https:///b/k?AWSAccessKeyId=AKIDEXAMPLE&Signature=eA%3D%3D&x-amz-security-token=tok&Expires=10''"
proof -
  have "epochStrToTime ''10'' = Ok (10 * time_Second)
    \<and> hmac_signature (env_signer toy_env) toy_url (static_credentials toy_akid sk ''tok'') ''10'' = Ok ''eA==''
    \<and> buildHmacV1QueryUrl toy_url (static_credentials toy_akid sk ''tok'') ''10'' ''eA=='' =
        ''https:///b/k?AWSAccessKeyId=AKIDEXAMPLE&Signature=eA%3D%3D&x-amz-security-token=tok&Expires=10''"
    by code_simp
  then show "epochStrToTime ''10'' = Ok (10 * time_Second)"
    "hmac_signature (env_signer toy_env) toy_url (static_credentials toy_akid sk ''tok'') ''10'' = Ok ''eA==''"
    "buildHmacV1QueryUrl toy_url (static_credentials toy_akid sk ''tok'') ''10'' ''eA=='' =
     ''https:///b/k?AWSAccessKeyId=AKIDEXAMPLE&Signature=eA%3D%3D&x-amz-security-token=tok&Expires=10''"
    by blast+
qed

lemma toy_expected_parse:
  "parse_url ''https:///b/k?AWSAccessKeyId=AKIDEXAMPLE&Signature=eA%3D%3D&x-amz-security-token=tok&Expires=10'' =
   Ok (empty_url\<lparr>u_scheme := ''https'', u_path := ''/b/k'',
     u_rawquery := ''AWSAccessKeyId=AKIDEXAMPLE&Signature=eA%3D%3D&x-amz-security-token=tok&Expires=10''\<rparr>)"
  by code_simp

lemma toy_expected_query:
  "parse_query ''AWSAccessKeyId=AKIDEXAMPLE&Signature=eA%3D%3D&x-amz-security-token=tok&Expires=10'' =
   [(''AWSAccessKeyId'', [toy_akid]), (''Signature'', [''eA=='']), (''x-amz-security-token'', [''tok'']), (''Expires'', [''10''])]"
  by code_simp

lemma toy_url_valid:
  "hasValidSignature (env_signer toy_env) 5 toy_url (static_credentials toy_akid sk ''tok'') = Ok True"
proof -
  define url where "url = ''https:///b/k?AWSAccessKeyId=AKIDEXAMPLE&Signature=eA%3D%3D&x-amz-security-token=tok&Expires=10''"
  have url: "CalculateS3PresignedHmacV1QueryUrl (env_signer toy_env) 5 toy_url (static_credentials toy_akid sk ''tok'') 0 = Ok url"
    by (simp add: CalculateS3PresignedHmacV1QueryUrl_def toy_query_values calculateS3PresignedHmacV1QueryUrlWithExpiryTime_def
        toy_signature toy_expected_url url_def)
  have same: "IsSameQuery [(''AWSAccessKeyId'', [toy_akid]), (''Signature'', [''eA=='']),
      (''x-amz-security-token'', [''tok'']), (''Expires'', [''10''])] (r_query toy_url)"
    unfolding toy_query by (simp add: IsSameQuery_def)
  have "u_host (r_url toy_url) = []" "u_path (r_url toy_url) = ''/b/k''" by (simp_all add: toy_presigned_token_def toy_hstate_def empty_url_def)
  then have "CompareRequestWithUrl toy_url url = Ok (u_scheme (r_url toy_url) = ''https'', True, True, True)"
    using same unfolding CompareRequestWithUrl_def url_def toy_expected_parse
    by (simp add: url_Query_def toy_expected_query empty_url_def eq_commute)
  then show ?thesis by (simp add: hasValidSignature_def url)
qed

lemma toy_url_passes: "passes (handleAuthNPresigned toy_env toy_options toy_presigned_token)"
proof -
  define h where "h = upd_req (cleanRemovableQueryParameters toy_options) (SetAuthType AuthTypeQueryString toy_presigned_token)"
  have r: "h_req h = toy_url" by (simp add: h_def toy_clean)
  obtain sk where sk: "CalculateSecretKey toy_akid (GetPrivateKey (env_keys toy_env)) = Ok sk" by (rule toy_secret)
  have now: "env_now toy_env = 5" "env_default_backend toy_env = ''eu''" by (simp_all add: toy_env_def)
  have tok: "makeSureSessionTokenIsForAccessKey toy_env ''tok'' toy_akid (Some toy_options) = Ok ()"
    by (rule toy_token) (simp add: GetParserOptions_def toy_options_def)
  have "passes (checkPresigned toy_env toy_options h)"
    by (simp add: checkPresigned_def r toy_url_kind hmac_GetPresignedUrlDetails_def toy_query_values toy_epoch sk now tok
        getHmacV1QuerySecurityToken_def static_credentials_def [of toy_akid sk "''tok''"]
        toy_url_valid [unfolded static_credentials_def] addRegionToSession_def time_Second_def)
  then obtain h2 where "checkPresigned toy_env toy_options h = Ok (True, h2)" using passesE by blast
  then show ?thesis by (simp add: handleAuthNPresigned_def h_def [symmetric] r toy_query_values)
qed

lemma handleAuthNPresigned_safe_witness:
  "\<exists>h' (creds :: aws_Credentials). handleAuthNPresigned toy_env toy_options toy_presigned_token = Ok (True, h')
     \<and> token_authentic toy_env (Leeway toy_options) (aws_SessionToken creds) (aws_AccessKeyID creds)"
proof -
  obtain h' where h': "handleAuthNPresigned toy_env toy_options toy_presigned_token = Ok (True, h')"
    using passesE [OF toy_url_passes] ..
  obtain creds :: aws_Credentials where "token_authentic toy_env (Leeway toy_options) (aws_SessionToken creds) (aws_AccessKeyID creds)"
    using handleAuthNPresigned_safe [OF toy_env_jwt h'] by (elim exE conjE) (rule that)
  with h' show ?thesis by (intro exI conjI)
qed

end
