(* ===== verification/Iam_Glob.thy ===== *)
theory Iam_Glob
  imports Utf8
begin

text \<open>
  \<^verbatim>\<open>iamStringLike\<close> of \<^verbatim>\<open>aws/service/iam/policy-evaluation.go\<close>: the wildcard match
  of policy actions, resources and condition values. The function quotes the pattern
  (\<^verbatim>\<open>regexp.QuoteMeta\<close>), turns the quoted wildcards into the expressions \<open>.*\<close> and \<open>.\<close>
  (\<^verbatim>\<open>strings.NewReplacer\<close>) and asks \<^verbatim>\<open>regexp.MatchString\<close>, which looks for the
  expression anywhere in the text. All three steps are modelled on the strings they
  produce: \<open>quote_meta\<close>, \<open>replace_wildcards\<close>, and the parser \<open>parse_re\<close> and the
  matcher \<open>re_search\<close> for the expressions that can occur (literals, escaped literals,
  \<open>.\<close>, \<open>.*\<close>, concatenation; any other metacharacter makes \<open>parse_re\<close> fail, and
  \<open>compile_pattern\<close> shows it never occurs). The expression language is the one of
  \<^verbatim>\<open>regexp/syntax\<close> with its default flags: it matches UTF-8 runes, an invalid byte of
  the text counts as U+FFFD, an invalid byte in the expression is an error, and \<open>.\<close> does not
  match a newline. The size limit of a compiled expression is not modelled.
\<close>

section \<open>The expression the code builds\<close>

definition regex_special :: "char \<Rightarrow> bool" where
  "regex_special c = (c \<in> set (CHR 0x5C # ''.+*?()|[]{}^$''))"

definition quote_meta :: "string \<Rightarrow> string" where
  "quote_meta s = concat (map (\<lambda>c. if regex_special c then [CHR 0x5C, c] else [c]) s)"

text \<open>The replacer: at each position the first matching pair is applied, else a byte is
  copied.\<close>

fun replace_wildcards :: "string \<Rightarrow> string" where
  "replace_wildcards (a # b # s) =
     (if a = CHR 0x5C \<and> b = CHR ''*'' then ''.*'' @ replace_wildcards s
      else if a = CHR 0x5C \<and> b = CHR ''?'' then ''.'' @ replace_wildcards s
      else a # replace_wildcards (b # s))"
| "replace_wildcards s = s"

definition expr_of_pattern :: "string \<Rightarrow> string" where
  "expr_of_pattern patternString = replace_wildcards (quote_meta patternString)"

section \<open>Parsing and matching it\<close>

datatype re_item = Lit nat | Any | AnyStar

definition special_rune :: "nat \<Rightarrow> bool" where
  "special_rune r = (r \<in> of_char ` set (CHR 0x5C # ''.+*?()|[]{}^$''))"

fun parse_re :: "nat list \<Rightarrow> re_item list option" where
  "parse_re [] = Some []"
| "parse_re (r # rs) =
     (if r = 92 then
        (case rs of
           [] \<Rightarrow> None
         | x # rs' \<Rightarrow> if special_rune x then map_option ((#) (Lit x)) (parse_re rs') else None)
      else if r = 46 then
        (case rs of
           [] \<Rightarrow> Some [Any]
         | x # rs' \<Rightarrow> if x = 42 then map_option ((#) AnyStar) (parse_re rs')
                     else map_option ((#) Any) (parse_re (x # rs')))
      else if special_rune r then None
      else map_option ((#) (Lit r)) (parse_re rs))"

definition dot :: "nat \<Rightarrow> bool" where
  "dot r = (r \<noteq> 10)"

function re_here :: "re_item list \<Rightarrow> nat list \<Rightarrow> bool" where
  "re_here [] t = True"
| "re_here (Lit x # is) t = (case t of [] \<Rightarrow> False | r # t' \<Rightarrow> r = x \<and> re_here is t')"
| "re_here (Any # is) t = (case t of [] \<Rightarrow> False | r # t' \<Rightarrow> dot r \<and> re_here is t')"
| "re_here (AnyStar # is) t =
     (re_here is t \<or> (case t of [] \<Rightarrow> False | r # t' \<Rightarrow> dot r \<and> re_here (AnyStar # is) t'))"
  by pat_completeness auto
termination
  by (relation "measure (\<lambda>(is, t). length is + length t)") auto

text \<open>\<^verbatim>\<open>MatchString\<close>: is there a match anywhere in the text?\<close>

definition re_search :: "re_item list \<Rightarrow> nat list \<Rightarrow> bool" where
  "re_search is t = list_ex (re_here is) (suffixes t)"

definition match_string :: "string \<Rightarrow> string \<Rightarrow> bool" where
  "match_string expr text =
     (if \<not> valid_utf8 expr then False
      else case parse_re (runes expr) of None \<Rightarrow> False | Some is \<Rightarrow> re_search is (runes text))"

definition iamStringLike :: "string \<Rightarrow> string \<Rightarrow> bool" where
  "iamStringLike patternString literalStrin = match_string (expr_of_pattern patternString) literalStrin"

definition doesResourceMatch :: "string \<Rightarrow> string \<Rightarrow> bool" where
  "doesResourceMatch statementResource resource = iamStringLike statementResource resource"

section \<open>What the pattern compiles to\<close>

definition wild_item :: "nat \<Rightarrow> re_item" where
  "wild_item r = (if r = 42 then AnyStar else if r = 63 then Any else Lit r)"

definition expr_char :: "char \<Rightarrow> string" where
  "expr_char c = (if c = CHR ''*'' then ''.*'' else if c = CHR ''?'' then ''.''
                  else if regex_special c then [CHR 0x5C, c] else [c])"

lemma replace_wildcards_char:
  "b \<noteq> CHR 0x5C \<Longrightarrow> replace_wildcards (b # s) = b # replace_wildcards s"
  by (cases s) auto

lemma quote_meta_Cons:
  "quote_meta (c # s) = (if regex_special c then [CHR 0x5C, c] else [c]) @ quote_meta s"
  by (simp add: quote_meta_def)

lemma quote_meta_hd: "quote_meta s = b # r \<Longrightarrow> b \<noteq> CHR ''*'' \<and> b \<noteq> CHR ''?''"
  by (cases s) (auto simp: quote_meta_Cons regex_special_def quote_meta_def split: if_splits)

lemma replace_backslash:
  "replace_wildcards (CHR 0x5C # quote_meta s) = CHR 0x5C # replace_wildcards (quote_meta s)"
  using quote_meta_hd [of s] by (cases "quote_meta s") auto

lemma expr_of_pattern_concat: "expr_of_pattern p = concat (map expr_char p)"
proof (induction p)
  case Nil
  then show ?case by (simp add: expr_of_pattern_def quote_meta_def)
next
  case (Cons c p)
  show ?case
  proof (cases "c = CHR 0x5C")
    case True
    then show ?thesis using Cons
      by (simp add: expr_of_pattern_def quote_meta_Cons regex_special_def expr_char_def replace_backslash)
  next
    case False
    then show ?thesis using Cons
      by (auto simp: expr_of_pattern_def quote_meta_Cons expr_char_def replace_wildcards_char
          regex_special_def)
  qed
qed

text \<open>The same rewriting on byte values, and how it commutes with decoding.\<close>

definition expr_byte :: "nat \<Rightarrow> nat list" where
  "expr_byte b = (if b = 42 then [46, 42] else if b = 63 then [46]
                  else if special_rune b then [92, b] else [b])"

lemma special_rune_of_char: "special_rune (of_char c) = regex_special c"
  unfolding special_rune_def regex_special_def by (rule inj_image_mem_iff) (simp add: inj_def)

lemma special_rune_set: "special_rune r \<longleftrightarrow> r \<in> {92, 46, 43, 42, 63, 40, 41, 124, 91, 93, 123, 125, 94, 36}"
  unfolding special_rune_def by auto

lemma of_char_wild: "(of_char c = (42::nat)) = (c = CHR ''*'')" "(of_char c = (63::nat)) = (c = CHR ''?'')"
proof -
  have "of_char (CHR ''*'') = (42::nat)" "of_char (CHR ''?'') = (63::nat)" by simp_all
  then show "(of_char c = (42::nat)) = (c = CHR ''*'')" "(of_char c = (63::nat)) = (c = CHR ''?'')"
    by (metis of_char_eq_iff)+
qed

lemma bytes_expr_char: "bytes (expr_char c) = expr_byte (of_char c)"
  by (simp add: expr_char_def expr_byte_def of_char_wild special_rune_of_char bytes_def)

lemma bytes_expr: "bytes (expr_of_pattern p) = concat (map expr_byte (bytes p))"
proof -
  have "bytes (concat (map expr_char p)) = concat (map expr_byte (bytes p))"
  proof (induction p)
    case (Cons c p)
    then show ?case using bytes_expr_char [of c] by (simp add: bytes_def)
  qed (simp add: bytes_def)
  then show ?thesis by (simp add: expr_of_pattern_concat)
qed

definition high :: "nat \<Rightarrow> bool" where
  "high b = (128 \<le> b)"

lemma expr_byte_high: "high b \<Longrightarrow> expr_byte b = [b]"
  by (auto simp: expr_byte_def high_def special_rune_set)

lemma expr_byte_low: "\<not> high b \<Longrightarrow> list_all (\<lambda>x. x < 128) (expr_byte b) \<and> expr_byte b \<noteq> []"
  by (auto simp: expr_byte_def high_def)

lemma takeWhile_expr: "takeWhile high (concat (map expr_byte bs)) = takeWhile high bs"
proof (induction bs)
  case (Cons b bs)
  show ?case
  proof (cases "high b")
    case False
    then obtain x xs where "expr_byte b = x # xs" "\<not> high x"
      using expr_byte_low [of b] by (cases "expr_byte b") (auto simp: high_def)
    then show ?thesis using False by simp
  qed (simp add: Cons expr_byte_high)
qed simp

lemma drop_expr:
  "n \<le> length (takeWhile high bs) \<Longrightarrow>
   drop n (concat (map expr_byte bs)) = concat (map expr_byte (drop n bs))"
proof (induction bs arbitrary: n)
  case (Cons b bs)
  then show ?case by (cases n) (auto simp: expr_byte_high split: if_splits)
qed simp

lemma decode_rune_high:
  assumes "high b"
  shows "decode_rune (b # bs) = decode_rune (b # takeWhile high bs)"
    and "snd (decode_rune (b # bs)) \<le> Suc (length (takeWhile high bs))"
    and "fst (decode_rune (b # bs)) = Some r \<Longrightarrow> high r"
  using assms
  by (auto simp: high_def cont_byte_def split: list.splits if_splits)

lemma decode_rune_expr:
  "high b \<Longrightarrow> decode_rune (b # concat (map expr_byte bs)) = decode_rune (b # bs)"
  using decode_rune_high(1) [of b bs] decode_rune_high(1) [of b "concat (map expr_byte bs)"]
  by (simp only: takeWhile_expr)

definition expr_rune :: "nat option \<Rightarrow> nat option list" where
  "expr_rune x = (case x of None \<Rightarrow> [None] | Some r \<Rightarrow> if high r then [Some r] else map Some (expr_byte r))"

lemma utf8_expr: "utf8 (concat (map expr_byte bs)) = concat (map expr_rune (utf8 bs))"
proof (induction bs rule: utf8.induct)
  case (2 b bs)
  show ?case
  proof (cases "high b")
    case True
    let ?n = "snd (decode_rune (b # bs))"
    have n: "?n \<noteq> 0" "?n \<le> Suc (length (takeWhile high bs))"
      using decode_rune_pos decode_rune_high(2) [OF True] by auto
    then obtain m where m: "?n = Suc m" "m \<le> length (takeWhile high bs)"
      by (cases ?n) auto
    have "expr_rune (fst (decode_rune (b # bs))) = [fst (decode_rune (b # bs))]"
      using decode_rune_high(3) [OF True, of bs] by (auto simp: expr_rune_def split: option.splits)
    then show ?thesis
      using "2.IH" m True
      by (simp del: decode_rune.simps add: expr_byte_high decode_rune_expr drop_expr)
  next
    case False
    then show ?thesis
      using "2.IH" utf8_ascii [of "expr_byte b"] expr_byte_low [OF False]
      by (simp add: high_def expr_rune_def)
  qed
qed simp

lemma parse_re_dot:
  "(\<And>x t'. t = x # t' \<Longrightarrow> x \<noteq> 42) \<Longrightarrow> parse_re (46 # t) = map_option ((#) Any) (parse_re t)"
  by (cases t) (auto simp: special_rune_set)

lemma parse_re_expr:
  "parse_re (concat (map (\<lambda>r. if high r then [r] else expr_byte r) rs)) = Some (map wild_item rs)"
proof (induction rs)
  case (Cons r rs)
  let ?t = "concat (map (\<lambda>r. if high r then [r] else expr_byte r) rs)"
  have hd: "?t = x # t' \<Longrightarrow> x \<noteq> 42" for x t'
    by (cases rs) (auto simp: expr_byte_def high_def special_rune_set split: if_splits)
  show ?case
  proof (cases "r = 63")
    case True
    then show ?thesis using Cons parse_re_dot [OF hd]
      by (simp add: expr_byte_def high_def wild_item_def del: parse_re.simps)
  next
    case False
    then show ?thesis using Cons
      by (auto simp: expr_byte_def high_def wild_item_def special_rune_set)
  qed
qed simp

lemma compile_valid: "valid_utf8 (expr_of_pattern p) = valid_utf8 p"
proof -
  have "None \<in> set (concat (map expr_rune us)) \<longleftrightarrow> None \<in> set us" for us
    by (induction us) (auto simp: expr_rune_def split: option.splits)
  then show ?thesis by (simp add: valid_utf8_def bytes_expr utf8_expr)
qed

lemma compile_pattern:
  assumes "valid_utf8 p"
  shows "parse_re (runes (expr_of_pattern p)) = Some (map wild_item (runes p))"
proof -
  have "map (\<lambda>r. case r of None \<Rightarrow> rune_error | Some x \<Rightarrow> x) (concat (map expr_rune us)) =
        concat (map (\<lambda>r. if high r then [r] else expr_byte r)
          (map (\<lambda>r. case r of None \<Rightarrow> rune_error | Some x \<Rightarrow> x) us))" for us
    by (induction us) (auto simp: expr_rune_def high_def rune_error_def comp_def split: option.splits)
  then have "runes (expr_of_pattern p) = concat (map (\<lambda>r. if high r then [r] else expr_byte r) (runes p))"
    by (simp add: runes_def bytes_expr utf8_expr)
  then show ?thesis by (simp only: parse_re_expr)
qed

section \<open>What the code matches\<close>

text \<open>The language of a wildcard pattern: \<open>glob ps w\<close> holds when the whole of \<open>w\<close> is an
  instance of the pattern.\<close>

inductive glob :: "nat list \<Rightarrow> nat list \<Rightarrow> bool" where
  glob_Nil: "glob [] []"
| glob_Star: "list_all dot u \<Longrightarrow> glob ps w \<Longrightarrow> glob (42 # ps) (u @ w)"
| glob_Any: "dot r \<Longrightarrow> glob ps w \<Longrightarrow> glob (63 # ps) (r # w)"
| glob_Lit: "r \<noteq> 42 \<Longrightarrow> r \<noteq> 63 \<Longrightarrow> glob ps w \<Longrightarrow> glob (r # ps) (r # w)"

inductive_cases glob_NilE: "glob [] w"
inductive_cases glob_ConsE: "glob (p # ps) w"

lemma wild_item_simps [simp]:
  "wild_item 42 = AnyStar" "wild_item 63 = Any"
  "wild_item r = AnyStar \<longleftrightarrow> r = 42" "wild_item r = Any \<longleftrightarrow> r = 63"
  "wild_item r = Lit x \<longleftrightarrow> r = x \<and> r \<noteq> 42 \<and> r \<noteq> 63"
  "AnyStar = wild_item r \<longleftrightarrow> r = 42" "Any = wild_item r \<longleftrightarrow> r = 63"
  "Lit x = wild_item r \<longleftrightarrow> r = x \<and> r \<noteq> 42 \<and> r \<noteq> 63"
  "r \<noteq> 42 \<Longrightarrow> r \<noteq> 63 \<Longrightarrow> wild_item r = Lit r"
  by (auto simp: wild_item_def)

lemma glob_re_here: "glob ps w \<Longrightarrow> re_here (map wild_item ps) (w @ t)"
proof (induction rule: glob.induct)
  case (glob_Star u ps w)
  have "re_here (AnyStar # map wild_item ps) (u @ w @ t)"
    using glob_Star by (induction u) auto
  then show ?case by simp
qed auto

lemma re_here_glob:
  "re_here is t \<Longrightarrow> is = map wild_item ps \<Longrightarrow> \<exists>w t'. t = w @ t' \<and> glob ps w"
proof (induction "is" t arbitrary: ps rule: re_here.induct)
  case (1 t)
  then show ?case using glob_Nil by auto
next
  case (2 x "is" t)
  then obtain ps' r t' where p: "ps = x # ps'" "x \<noteq> 42" "x \<noteq> 63" "t = x # t'" "is = map wild_item ps'" "re_here is t'"
    by (cases ps; cases t) auto
  with 2(1) [of x t' ps'] obtain w t'' where "t' = w @ t''" "glob ps' w" by auto
  then show ?case using p glob_Lit [of x ps' w] by (metis append_Cons)
next
  case (3 "is" t)
  then obtain ps' r t' where p: "ps = 63 # ps'" "dot r" "t = r # t'" "is = map wild_item ps'" "re_here is t'"
    by (cases ps; cases t) auto
  with 3(1) [of r t' ps'] obtain w t'' where "t' = w @ t''" "glob ps' w" by auto
  then show ?case using p glob_Any [of r ps' w] by (metis append_Cons)
next
  case (4 "is" t)
  then obtain ps' where p: "ps = 42 # ps'" "is = map wild_item ps'"
    by (cases ps) auto
  show ?case
  proof (cases "re_here is t")
    case True
    with 4(1) [OF True p(2)] obtain w t' where "t = w @ t'" "glob ps' w" by auto
    then show ?thesis using p glob_Star [of "[]" ps' w] by auto
  next
    case False
    with 4(3) obtain r t0 where t: "t = r # t0" "dot r" "re_here (AnyStar # is) t0"
      by (cases t) auto
    with 4(2) [OF t(1) t(3) 4(4)] p obtain w t' where w: "t0 = w @ t'" "glob (42 # ps') w" by auto
    from w(2) obtain u v where "w = u @ v" "list_all dot u" "glob ps' v" by (auto elim: glob_ConsE)
    then have "glob (42 # ps') (r # w)" using glob_Star [of "r # u" ps' v] t(2) by simp
    then show ?thesis using p t w by (metis append_Cons)
  qed
qed

lemma re_search_iff: "re_search (map wild_item ps) t \<longleftrightarrow> (\<exists>a w b. t = a @ w @ b \<and> glob ps w)"
  unfolding re_search_def list_ex_iff in_set_conv_nth
  using re_here_glob [of _ _ ps] glob_re_here [of ps]
  by (metis (no_types, lifting) in_set_conv_nth in_set_suffixes suffix_def)

lemma iamStringLike_glob:
  "iamStringLike p s \<longleftrightarrow> valid_utf8 p \<and> (\<exists>a w b. runes s = a @ w @ b \<and> glob (runes p) w)"
  by (auto simp: iamStringLike_def match_string_def compile_valid compile_pattern re_search_iff)

text \<open>C31. \<^verbatim>\<open>iamStringLike\<close> accepts exactly the texts that CONTAIN an instance of the
  pattern: the match is not anchored, so text before and after the instance is ignored. The
  quoting is exact: every byte of the pattern other than the two wildcards stands for itself, a
  pattern that is not valid UTF-8 matches nothing, and a wildcard does not match a newline.\<close>

theorem iamStringLike_infix:
  "iamStringLike p s \<longleftrightarrow> valid_utf8 p \<and> (\<exists>a w b. runes s = a @ w @ b \<and> glob (runes p) w)"
  by (rule iamStringLike_glob)

text \<open>The language of a pattern without wildcards, and of the pattern \<open>*\<close>.\<close>

definition plain_pattern :: "string \<Rightarrow> bool" where
  "plain_pattern p = (ascii p \<and> list_all (\<lambda>c. c \<notin> {CHR ''*'', CHR ''?''}) p)"

lemma glob_plain: "list_all (\<lambda>r. r \<noteq> 42 \<and> r \<noteq> 63) ps \<Longrightarrow> glob ps w \<longleftrightarrow> w = ps"
proof (induction ps arbitrary: w)
  case Nil
  then show ?case by (auto intro: glob_Nil elim: glob_NilE)
next
  case (Cons p ps)
  then show ?case by (auto intro: glob_Lit elim: glob_ConsE)
qed

lemma plain_runes: "plain_pattern p \<Longrightarrow> runes p = bytes p \<and> valid_utf8 p \<and> list_all (\<lambda>r. r \<noteq> 42 \<and> r \<noteq> 63) (bytes p)"
  by (auto simp: plain_pattern_def runes_ascii valid_utf8_ascii bytes_def list_all_iff of_char_wild)

lemma iamStringLike_plain:
  "plain_pattern p \<Longrightarrow> iamStringLike p s \<longleftrightarrow> sublist (bytes p) (runes s)"
  using plain_runes [of p] unfolding iamStringLike_glob sublist_def by (auto simp: glob_plain)

lemma iamStringLike_star: "iamStringLike ''*'' s"
proof -
  have "runes ''*'' = [42]" "valid_utf8 ''*''"
    by (simp_all add: runes_ascii valid_utf8_ascii ascii_def bytes_def)
  then show ?thesis unfolding iamStringLike_glob
    using glob_Star [OF _ glob_Nil, of "[]"] by (metis append_Nil list.pred_inject(1))
qed

lemma iamStringLike_refl: "plain_pattern p \<Longrightarrow> iamStringLike p p"
  using plain_runes [of p] by (simp add: iamStringLike_plain)

text \<open>A pattern without wildcards, which IAM matches against the whole resource or
  action, is matched by every text that has it as a substring: a statement about one bucket
  also covers every bucket whose name only starts like it.\<close>

theorem iamStringLike_plain_substring:
  assumes "plain_pattern p" and "ascii (a @ p @ b)"
  shows "iamStringLike p (a @ p @ b)"
proof -
  have "runes (a @ p @ b) = bytes a @ bytes p @ bytes b"
    using runes_ascii [OF assms(2)] by (simp add: bytes_def)
  then show ?thesis using assms(1) by (simp add: iamStringLike_plain)
qed

lemma iamStringLike_plain_substring_witness:
  "iamStringLike ''arn:aws:s3:::bucket1'' ''arn:aws:s3:::bucket1-private''"
proof -
  have "plain_pattern ''arn:aws:s3:::bucket1''" "ascii ([] @ ''arn:aws:s3:::bucket1'' @ ''-private'')"
    by (simp_all add: plain_pattern_def ascii_def bytes_def)
  from iamStringLike_plain_substring [OF this] show ?thesis by simp
qed

end
