(* ===== verification/Iam_Policy.thy ===== *)
theory Iam_Policy
  imports Credentials Iam_Glob "HOL-Library.Multiset"
begin

text \<open>
  Policy evaluation: \<^verbatim>\<open>aws/service/iam/policy-evaluation.go\<close> and
  \<^verbatim>\<open>policy-iam-action.go\<close>. The package \<^verbatim>\<open>github.com/micahhausler/aws-iam-policy\<close> is not part
  of the repository. What the code uses of it is a parameter: a record \<open>policy_lib\<close> of the
  methods of a condition value (of a type \<open>'cv\<close> the model knows nothing about) and the
  statement fields as their accessors return them. \<open>policy_lib_ok\<close> states the documented
  behaviour of the constructor the code calls.
\<close>

section \<open>Data\<close>

text \<open>The maps are association lists, in the order a \<^verbatim>\<open>range\<close> loop visits them.\<close>

type_synonym 'cv cond_map = "(string \<times> 'cv) list"

record 'cv statement =
  Effect :: string
  Actions :: "string list"
  Resources :: "string list"
  Conditions :: "(string \<times> 'cv cond_map) list"

record 'cv policy_lib =
  IsSingular :: "'cv \<Rightarrow> bool"
  StrValues :: "'cv \<Rightarrow> string list"
  NewConditionValueString :: "bool \<Rightarrow> string list \<Rightarrow> 'cv"
  decode_policy :: "string \<Rightarrow> 'cv statement list option"

definition policy_lib_ok :: "'cv policy_lib \<Rightarrow> bool" where
  "policy_lib_ok L = (\<forall>b vs. IsSingular L (NewConditionValueString L b vs) = b
     \<and> StrValues L (NewConditionValueString L b vs) = vs)"

record 'cv iam_action =
  Action :: string
  Resource :: string
  Context :: "'cv cond_map"

record 'cv policy_evaluator =
  pe_statements :: "'cv statement list"

record PolicySessionClaims =
  Subject :: string
  Issuer :: string

record PolicySessionData =
  sd_claims :: PolicySessionClaims
  sd_tags :: AWSSessionTags
  RequestedRegion :: string

section \<open>IAM actions\<close>

definition addAwsPrincipalTagConditionKeys ::
  "'cv policy_lib \<Rightarrow> 'cv cond_map \<Rightarrow> PolicySessionData option \<Rightarrow> 'cv cond_map" where
  "addAwsPrincipalTagConditionKeys L context session =
     (case session of
        None \<Rightarrow> context
      | Some s \<Rightarrow>
          fold (\<lambda>(tagKey, tagValues) ctx.
            AList.update (''aws:PrincipalTag/'' @ tagKey) (NewConditionValueString L True tagValues) ctx)
          (PrincipalTags (sd_tags s)) context)"

definition addAwsRequestedRegionConditionKey ::
  "'cv policy_lib \<Rightarrow> 'cv cond_map \<Rightarrow> PolicySessionData option \<Rightarrow> 'cv cond_map" where
  "addAwsRequestedRegionConditionKey L context session =
     (case session of
        None \<Rightarrow> context
      | Some s \<Rightarrow>
          if RequestedRegion s \<noteq> [] then
            AList.update ''aws:RequestedRegion'' (NewConditionValueString L True [RequestedRegion s]) context
          else context)"

definition addGenericTokenClaims ::
  "'cv policy_lib \<Rightarrow> 'cv cond_map \<Rightarrow> PolicySessionData option \<Rightarrow> 'cv cond_map" where
  "addGenericTokenClaims L context session =
     (case session of
        None \<Rightarrow> context
      | Some s \<Rightarrow>
          (let c1 = (if Subject (sd_claims s) \<noteq> []
                     then AList.update ''claims:sub'' (NewConditionValueString L True [Subject (sd_claims s)]) context
                     else context) in
           if Issuer (sd_claims s) \<noteq> []
           then AList.update ''claims:iss'' (NewConditionValueString L True [Issuer (sd_claims s)]) c1
           else c1))"

definition addGenericSessionContextKeys ::
  "'cv policy_lib \<Rightarrow> 'cv cond_map \<Rightarrow> PolicySessionData option \<Rightarrow> 'cv cond_map" where
  "addGenericSessionContextKeys L context session =
     addGenericTokenClaims L
       (addAwsRequestedRegionConditionKey L (addAwsPrincipalTagConditionKeys L context session) session)
       session"

definition NewIamAction ::
  "'cv policy_lib \<Rightarrow> string \<Rightarrow> string \<Rightarrow> PolicySessionData option \<Rightarrow> 'cv iam_action" where
  "NewIamAction L action resource session =
     \<lparr>Action = action, Resource = resource, Context = addGenericSessionContextKeys L [] session\<rparr>"

definition AddContext :: "'cv iam_action \<Rightarrow> 'cv cond_map \<Rightarrow> 'cv iam_action" where
  "AddContext a context = a\<lparr>Context := fold (\<lambda>(k, v). AList.update k v) context (Context a)\<rparr>"

section \<open>Conditions\<close>

definition areAllConditionValuesSingular :: "'cv policy_lib \<Rightarrow> 'cv cond_map \<Rightarrow> bool" where
  "areAllConditionValuesSingular L context = list_all (\<lambda>(_, value). IsSingular L value) context"

text \<open>The first context value is taken by index: with no value the program panics.\<close>

definition isConditionMetForStringLike :: "'cv policy_lib \<Rightarrow> 'cv \<Rightarrow> 'cv \<Rightarrow> bool result" where
  "isConditionMetForStringLike L statementValues context =
     (case StrValues L context of
        [] \<Rightarrow> Panic ''index out of range [0] with length 0''
      | ctxStrValue # _ \<Rightarrow>
          Ok (list_ex (\<lambda>sValue. iamStringLike sValue ctxStrValue) (StrValues L statementValues)))"

fun stringLike_loop :: "'cv policy_lib \<Rightarrow> 'cv cond_map \<Rightarrow> 'cv cond_map \<Rightarrow> bool result" where
  "stringLike_loop L [] context = Ok True"
| "stringLike_loop L ((sConditionKey, sConditionValue) # rest) context =
     (case map_of context sConditionKey of
        None \<Rightarrow> Ok False
      | Some contextValue \<Rightarrow>
          go_bind (isConditionMetForStringLike L sConditionValue contextValue) (\<lambda>met.
            if \<not> met then Ok False else stringLike_loop L rest context))"

definition evalStringLike :: "'cv policy_lib \<Rightarrow> 'cv cond_map \<Rightarrow> 'cv cond_map \<Rightarrow> bool result" where
  "evalStringLike L conditionDetails context =
     (if \<not> areAllConditionValuesSingular L context then Err (Plain ''non-singular value'')
      else stringLike_loop L conditionDetails context)"

definition condition_error :: "bool result \<Rightarrow> bool result" where
  "condition_error r = (case r of
     Err e \<Rightarrow> Err (Plain (''operator StringLike encountered '' @ err_Error e)) | _ \<Rightarrow> r)"

definition isConditionMetForOperator ::
  "'cv policy_lib \<Rightarrow> string \<Rightarrow> 'cv cond_map \<Rightarrow> 'cv cond_map \<Rightarrow> bool result" where
  "isConditionMetForOperator L conditionOperator conditionDetails context =
     (if conditionOperator = ''StringLike'' then
        condition_error (evalStringLike L conditionDetails context)
      else if conditionOperator = ''StringNotLike'' then
        go_bind (condition_error (evalStringLike L conditionDetails context)) (\<lambda>result. Ok (\<not> result))
      else Err (Plain (''unsupported condition: '' @ [CHR 0x27] @ conditionOperator @ [CHR 0x27])))"

section \<open>Statements and policies\<close>

fun conditions_loop ::
  "'cv policy_lib \<Rightarrow> (string \<times> 'cv cond_map) list \<Rightarrow> 'cv cond_map \<Rightarrow> bool result" where
  "conditions_loop L [] context = Ok True"
| "conditions_loop L ((conditionOperator, conditionDetails) # rest) context =
     go_bind (isConditionMetForOperator L conditionOperator conditionDetails context) (\<lambda>isMet.
       if \<not> isMet then Ok False else conditions_loop L rest context)"

definition action_in_scope :: "'cv statement \<Rightarrow> 'cv iam_action \<Rightarrow> bool" where
  "action_in_scope st a =
     list_ex (\<lambda>statementAction. statementAction = Action a \<or> iamStringLike statementAction (Action a)) (Actions st)"

definition resource_in_scope :: "'cv statement \<Rightarrow> 'cv iam_action \<Rightarrow> bool" where
  "resource_in_scope st a =
     list_ex (\<lambda>statementResource. doesResourceMatch statementResource (Resource a)) (Resources st)"

definition isRelevantFor :: "'cv policy_lib \<Rightarrow> 'cv statement \<Rightarrow> 'cv iam_action \<Rightarrow> bool result" where
  "isRelevantFor L st a =
     (if \<not> action_in_scope st a then Ok False
      else if \<not> resource_in_scope st a then Ok False
      else conditions_loop L (Conditions st) (Context a))"

text \<open>The loop of \<^verbatim>\<open>Evaluate\<close>, with its two named results as the accumulator. An error
  outcome stands for \<^verbatim>\<open>(false, reason, err)\<close> with a non-nil error, for which callers only use
  the error.\<close>

datatype evalReason = reasonActionIsAllowed | reasonNoStatementAllowingAction | reasonExplicitDeny
  | reasonErrorEncountered

fun evaluate_loop ::
  "'cv policy_lib \<Rightarrow> 'cv statement list \<Rightarrow> 'cv iam_action \<Rightarrow> bool \<times> evalReason \<Rightarrow>
   (gerr \<times> evalReason, bool \<times> evalReason) go" where
  "evaluate_loop L [] a acc = Ok acc"
| "evaluate_loop L (s # rest) a acc =
     (if Effect s = ''Allow'' then
        (case isRelevantFor L s a of
           Err e \<Rightarrow> Err (e, reasonNoStatementAllowingAction)
         | Panic m \<Rightarrow> Panic m
         | Ok relevant \<Rightarrow> evaluate_loop L rest a (if relevant then (True, reasonActionIsAllowed) else acc))
      else if Effect s = ''Deny'' then
        (case isRelevantFor L s a of
           Err e \<Rightarrow> Err (e, reasonErrorEncountered)
         | Panic m \<Rightarrow> Panic m
         | Ok relevant \<Rightarrow> if relevant then Ok (False, reasonExplicitDeny) else evaluate_loop L rest a acc)
      else evaluate_loop L rest a acc)"

definition Evaluate ::
  "'cv policy_lib \<Rightarrow> 'cv policy_evaluator \<Rightarrow> 'cv iam_action \<Rightarrow> (gerr \<times> evalReason, bool \<times> evalReason) go" where
  "Evaluate L e a = evaluate_loop L (pe_statements e) a (False, reasonNoStatementAllowingAction)"

fun evaluateAll_loop ::
  "'cv policy_lib \<Rightarrow> 'cv policy_evaluator \<Rightarrow> 'cv iam_action list \<Rightarrow> bool \<times> evalReason \<Rightarrow>
   (gerr \<times> evalReason, bool \<times> evalReason) go" where
  "evaluateAll_loop L e [] acc = Ok acc"
| "evaluateAll_loop L e (action # rest) acc =
     go_bind (Evaluate L e action) (\<lambda>(isAllowed, reason).
       if \<not> isAllowed then Ok (isAllowed, reason) else evaluateAll_loop L e rest (isAllowed, reason))"

definition EvaluateAll ::
  "'cv policy_lib \<Rightarrow> 'cv policy_evaluator \<Rightarrow> 'cv iam_action list \<Rightarrow> (gerr \<times> evalReason, bool \<times> evalReason) go" where
  "EvaluateAll L e actions =
     (if length actions < 1
      then Err (Plain ''EvaluateAll must have at least 1 iamAction'', reasonNoStatementAllowingAction)
      else evaluateAll_loop L e actions (False, reasonNoStatementAllowingAction))"

text \<open>\<^verbatim>\<open>NewPolicyEvaluatorFromStr\<close>: the JSON decoder of the policy package, which rejects
  unknown fields, is the parameter \<open>decode_policy\<close>.\<close>

definition parsePolicy :: "'cv policy_lib \<Rightarrow> string \<Rightarrow> 'cv statement list result" where
  "parsePolicy L policyContent =
     (case decode_policy L policyContent of
        None \<Rightarrow> Err (Plain ''invalid policy document'')
      | Some ss \<Rightarrow> Ok ss)"

definition NewPolicyEvaluator :: "'cv statement list \<Rightarrow> 'cv policy_evaluator" where
  "NewPolicyEvaluator pol = \<lparr>pe_statements = pol\<rparr>"

definition NewPolicyEvaluatorFromStr :: "'cv policy_lib \<Rightarrow> string \<Rightarrow> 'cv policy_evaluator result" where
  "NewPolicyEvaluatorFromStr L policyContent =
     go_bind (parsePolicy L policyContent) (\<lambda>p. Ok (NewPolicyEvaluator p))"

section \<open>The decision of a policy\<close>

definition grants :: "'cv policy_lib \<Rightarrow> 'cv policy_evaluator \<Rightarrow> 'cv iam_action \<Rightarrow> bool" where
  "grants L e a = (Evaluate L e a = Ok (True, reasonActionIsAllowed))"

definition decides :: "'cv policy_lib \<Rightarrow> 'cv statement \<Rightarrow> 'cv iam_action \<Rightarrow> bool" where
  "decides L s a =
     (if Effect s = ''Allow'' then is_ok (isRelevantFor L s a)
      else if Effect s = ''Deny'' then isRelevantFor L s a = Ok False
      else True)"

definition allows :: "'cv policy_lib \<Rightarrow> 'cv statement \<Rightarrow> 'cv iam_action \<Rightarrow> bool" where
  "allows L s a = (Effect s = ''Allow'' \<and> isRelevantFor L s a = Ok True)"

lemma evaluate_loop_iff:
  "evaluate_loop L ss a (b, if b then reasonActionIsAllowed else reasonNoStatementAllowingAction) = Ok (True, r) \<longleftrightarrow>
   r = reasonActionIsAllowed \<and> list_all (\<lambda>s. decides L s a) ss \<and> (b \<or> list_ex (\<lambda>s. allows L s a) ss)"
proof (induction ss arbitrary: b)
  case (Cons s ss)
  consider "Effect s = ''Allow''" | "Effect s = ''Deny''" | "Effect s \<noteq> ''Allow''" "Effect s \<noteq> ''Deny''"
    by blast
  then show ?case
  proof cases
    case 1
    then show ?thesis using Cons.IH [of b] Cons.IH [of True]
      by (cases "isRelevantFor L s a") (auto simp: decides_def allows_def)
  next
    case 2
    then show ?thesis using Cons.IH [of b]
      by (cases "isRelevantFor L s a") (auto simp: decides_def allows_def)
  next
    case 3
    then show ?thesis using Cons.IH [of b] by (simp add: decides_def allows_def)
  qed
qed auto

lemma Evaluate_True: "Evaluate L e a = Ok (True, r) \<Longrightarrow> r = reasonActionIsAllowed"
  using evaluate_loop_iff [of L "pe_statements e" a False r] by (simp add: Evaluate_def)

text \<open>C10. A policy grants an action exactly when every statement can be decided, no Deny
  statement is relevant for it, and at least one Allow statement is: an explicit deny wins
  wherever it stands, the default is to refuse, and a statement that cannot be evaluated
  refuses the request.\<close>

theorem Evaluate_grants_iff:
  "grants L e a \<longleftrightarrow>
   list_all (\<lambda>s. decides L s a) (pe_statements e) \<and> list_ex (\<lambda>s. allows L s a) (pe_statements e)"
  using evaluate_loop_iff [of L "pe_statements e" a False] by (simp add: grants_def Evaluate_def)

lemma grants_iff:
  "grants L e a \<longleftrightarrow>
   list_all (\<lambda>s. decides L s a) (pe_statements e) \<and> list_ex (\<lambda>s. allows L s a) (pe_statements e)"
  using evaluate_loop_iff [of L "pe_statements e" a False] by (simp add: grants_def Evaluate_def)

text \<open>The order of the statements of a policy has no influence on what it grants.\<close>

theorem Evaluate_order:
  assumes "mset (pe_statements e) = mset (pe_statements e')"
  shows "grants L e a = grants L e' a"
proof -
  have "set (pe_statements e) = set (pe_statements e')"
    using assms by (rule mset_eq_setD)
  then show ?thesis by (simp add: grants_iff list_all_iff list_ex_iff)
qed

lemma Evaluate_order_witness:
  "grants pair_lib \<lparr>pe_statements = [\<lparr>Effect = ''Deny'', Actions = [''*''], Resources = [], Conditions = []\<rparr>,
       \<lparr>Effect = ''Allow'', Actions = [''*''], Resources = [''*''], Conditions = []\<rparr>]\<rparr> \<lparr>Action = ''s3:GetObject'', Resource = ''r'', Context = []\<rparr> =
   grants pair_lib \<lparr>pe_statements = [\<lparr>Effect = ''Allow'', Actions = [''*''], Resources = [''*''], Conditions = []\<rparr>,
       \<lparr>Effect = ''Deny'', Actions = [''*''], Resources = [], Conditions = []\<rparr>]\<rparr> \<lparr>Action = ''s3:GetObject'', Resource = ''r'', Context = []\<rparr>"
  by (rule Evaluate_order) (simp add: add_mset_commute)

lemma evaluateAll_loop_iff:
  "evaluateAll_loop L e as (b, r0) = Ok (True, r) \<longleftrightarrow>
   list_all (grants L e) as \<and> (if as = [] then b \<and> r = r0 else r = reasonActionIsAllowed)"
proof (induction as arbitrary: b r0)
  case (Cons a as)
  show ?case
  proof (cases "Evaluate L e a")
    case (Ok x)
    obtain b' r' where x: "x = (b', r')" by (cases x)
    then show ?thesis using Ok Cons.IH [of b' r'] Evaluate_True [of L e a r']
      by (cases b') (auto simp: grants_def)
  qed (auto simp: grants_def)
qed auto

text \<open>C22. \<^verbatim>\<open>EvaluateAll\<close> grants a request exactly when it asks for at least one action
  and every one of them is granted.\<close>

theorem EvaluateAll_grants_iff:
  "EvaluateAll L e actions = Ok (True, r) \<longleftrightarrow>
   actions \<noteq> [] \<and> r = reasonActionIsAllowed \<and> list_all (grants L e) actions"
  by (auto simp: EvaluateAll_def evaluateAll_loop_iff)

section \<open>Conditions\<close>

text \<open>What a condition block means when no context value is empty: every key of the block is
  present in the request context and one of its patterns matches the value.\<close>

definition like_block :: "'cv policy_lib \<Rightarrow> 'cv cond_map \<Rightarrow> 'cv cond_map \<Rightarrow> bool" where
  "like_block L details context =
     list_all (\<lambda>(k, v). case map_of context k of
        None \<Rightarrow> False
      | Some c \<Rightarrow> list_ex (\<lambda>p. iamStringLike p (hd (StrValues L c))) (StrValues L v)) details"

definition good_context :: "'cv policy_lib \<Rightarrow> 'cv cond_map \<Rightarrow> bool" where
  "good_context L context = list_all (\<lambda>(_, v). IsSingular L v \<and> StrValues L v \<noteq> []) context"

lemma good_context_lookup:
  "good_context L ctx \<Longrightarrow> map_of ctx k = Some c \<Longrightarrow> IsSingular L c \<and> (\<exists>x xs. StrValues L c = x # xs)"
  unfolding good_context_def list_all_iff by (drule map_of_SomeD) (auto simp: neq_Nil_conv)

lemma stringLike_loop_block:
  assumes "good_context L ctx"
  shows "stringLike_loop L details ctx = Ok (like_block L details ctx)"
proof (induction details)
  case (Cons d details)
  obtain k v where d: "d = (k, v)" by (cases d)
  show ?case
  proof (cases "map_of ctx k")
    case (Some c)
    then obtain x xs where "StrValues L c = x # xs" using good_context_lookup [OF assms] by blast
    then show ?thesis using Cons Some d
      by (simp add: isConditionMetForStringLike_def like_block_def list_ex_iff)
  qed (simp add: d like_block_def)
qed (simp add: like_block_def)

lemma evalStringLike_block:
  "good_context L ctx \<Longrightarrow> evalStringLike L details ctx = Ok (like_block L details ctx)"
  by (auto simp: evalStringLike_def stringLike_loop_block areAllConditionValuesSingular_def
      good_context_def list_all_iff)

lemma isConditionMet_block:
  assumes "good_context L ctx"
  shows "isConditionMetForOperator L opr details ctx =
    (if opr = ''StringLike'' then Ok (like_block L details ctx)
     else if opr = ''StringNotLike'' then Ok (\<not> like_block L details ctx)
     else Err (Plain (''unsupported condition: '' @ [CHR 0x27] @ opr @ [CHR 0x27])))"
  by (simp add: isConditionMetForOperator_def evalStringLike_block [OF assms] condition_error_def)

definition operator_ok :: "string \<Rightarrow> bool" where
  "operator_ok opr = (opr = ''StringLike'' \<or> opr = ''StringNotLike'')"

lemma conditions_loop_good:
  assumes "good_context L ctx" and "list_all (\<lambda>(opr, _). operator_ok opr) conds"
  shows "conditions_loop L conds ctx =
    Ok (list_all (\<lambda>(opr, d). like_block L d ctx = (opr = ''StringLike'')) conds)"
  using assms(2)
proof (induction conds)
  case (Cons c conds)
  then show ?case
    by (cases c) (auto simp: isConditionMet_block [OF assms(1)] operator_ok_def)
qed simp

lemma conditions_loop_no_panic:
  assumes "good_context L ctx"
  shows "conditions_loop L conds ctx \<noteq> Panic m"
proof (induction conds)
  case (Cons c conds)
  obtain opr d where c: "c = (opr, d)" by (cases c)
  show ?case
  proof (cases "isConditionMetForOperator L opr d ctx")
    case (Panic m')
    then show ?thesis by (simp add: isConditionMet_block [OF assms] split: if_splits)
  qed (use Cons c in auto)
qed simp

lemma isRelevantFor_no_panic: "good_context L (Context a) \<Longrightarrow> isRelevantFor L s a \<noteq> Panic m"
  by (simp add: isRelevantFor_def conditions_loop_no_panic)

lemma evaluate_loop_no_panic:
  "good_context L (Context a) \<Longrightarrow> evaluate_loop L ss a acc \<noteq> Panic m"
  by (induction ss arbitrary: acc) (auto split: go.splits simp: isRelevantFor_no_panic)

section \<open>The context of an action\<close>

lemma map_of_fold_tags:
  "distinct (map fst tags) \<Longrightarrow>
   map_of (fold (\<lambda>(k, vs) c. AList.update (pre @ k) (g vs) c) tags ctx) (pre @ x) =
   (case map_of tags x of Some vs \<Rightarrow> Some (g vs) | None \<Rightarrow> map_of ctx (pre @ x))"
proof (induction tags arbitrary: ctx)
  case (Cons t tags)
  obtain k vs where t: "t = (k, vs)" by (cases t)
  have "x = k \<Longrightarrow> map_of tags x = None"
    using Cons.prems t by (simp add: map_of_eq_None_iff)
  then show ?case using Cons by (auto simp: t go_map split: option.split)
qed simp

lemma map_of_fold_tags_other:
  "\<not> prefix pre x \<Longrightarrow> map_of (fold (\<lambda>(k, vs) c. AList.update (pre @ k) (g vs) c) tags ctx) x = map_of ctx x"
  by (induction tags arbitrary: ctx) (auto simp: go_map)

definition session_value :: "PolicySessionData \<Rightarrow> string \<Rightarrow> string list option" where
  "session_value s k =
     (if prefix ''aws:PrincipalTag/'' k then map_of (PrincipalTags (sd_tags s)) (drop 17 k)
      else if k = ''aws:RequestedRegion'' \<and> RequestedRegion s \<noteq> [] then Some [RequestedRegion s]
      else if k = ''claims:sub'' \<and> Subject (sd_claims s) \<noteq> [] then Some [Subject (sd_claims s)]
      else if k = ''claims:iss'' \<and> Issuer (sd_claims s) \<noteq> [] then Some [Issuer (sd_claims s)]
      else None)"

text \<open>The context of a new action holds exactly the session's values: one key per
  principal tag, the requested region, subject and issuer when they are not empty, and nothing
  else; a policy condition sees each of them under its documented key.\<close>

theorem NewIamAction_context:
  assumes "distinct (map fst (PrincipalTags (sd_tags s)))"
  shows "map_of (Context (NewIamAction L act res (Some s))) k =
         map_option (NewConditionValueString L True) (session_value s k)"
proof -
  let ?tags = "addAwsPrincipalTagConditionKeys L [] (Some s)"
  have base: "map_of ?tags k =
    (if prefix ''aws:PrincipalTag/'' k
     then map_option (NewConditionValueString L True) (map_of (PrincipalTags (sd_tags s)) (drop 17 k))
     else None)"
  proof (cases "prefix ''aws:PrincipalTag/'' k")
    case True
    then obtain x where "k = ''aws:PrincipalTag/'' @ x" by (auto simp: prefix_def)
    then show ?thesis
      using map_of_fold_tags [OF assms, of "''aws:PrincipalTag/''" "NewConditionValueString L True" "[]" x]
      by (simp add: addAwsPrincipalTagConditionKeys_def split: option.splits)
  next
    case False
    then show ?thesis
      using map_of_fold_tags_other [OF False, of "NewConditionValueString L True" "PrincipalTags (sd_tags s)" "[]"]
      by (simp only: addAwsPrincipalTagConditionKeys_def option.case if_False map_of.simps(1))
  qed
  have np: "k = ''aws:RequestedRegion'' \<or> k = ''claims:sub'' \<or> k = ''claims:iss'' \<Longrightarrow> \<not> prefix ''aws:PrincipalTag/'' k"
    by (elim disjE) simp_all
  show ?thesis
  proof (cases "prefix ''aws:PrincipalTag/'' k")
    case True
    then have "k \<noteq> ''aws:RequestedRegion''" "k \<noteq> ''claims:sub''" "k \<noteq> ''claims:iss''"
      using np by blast+
    then show ?thesis using base True
      by (simp add: NewIamAction_def addGenericSessionContextKeys_def addGenericTokenClaims_def Let_def
          addAwsRequestedRegionConditionKey_def session_value_def go_map)
  next
    case False
    then show ?thesis using base
      by (auto simp add: NewIamAction_def addGenericSessionContextKeys_def addGenericTokenClaims_def Let_def
          addAwsRequestedRegionConditionKey_def session_value_def go_map)
  qed
qed

definition tag_free_session :: PolicySessionData where
  "tag_free_session = \<lparr>sd_claims = \<lparr>Subject = ''sub'', Issuer = ''iss''\<rparr>,
     sd_tags = \<lparr>PrincipalTags = [(''team'', [''a''])], TransitiveTagKeys = []\<rparr>, RequestedRegion = ''eu''\<rparr>"

definition pair_lib :: "(bool \<times> string list) policy_lib" where
  "pair_lib = \<lparr>IsSingular = fst, StrValues = snd, NewConditionValueString = Pair, decode_policy = \<lambda>_. None\<rparr>"

lemma pair_lib_ok: "policy_lib_ok pair_lib"
  by (simp add: policy_lib_ok_def pair_lib_def)

lemma NewIamAction_context_witness:
  "map_of (Context (NewIamAction pair_lib ''a'' ''r'' (Some tag_free_session))) ''aws:PrincipalTag/team'' = Some (True, [''a''])"
proof -
  have "distinct (map fst (PrincipalTags (sd_tags tag_free_session)))" by (simp add: tag_free_session_def)
  from NewIamAction_context [OF this, of pair_lib "''a''" "''r''" "''aws:PrincipalTag/team''"]
  show ?thesis by (simp add: session_value_def tag_free_session_def pair_lib_def)
qed

lemma fold_update_keys: "set (fold (\<lambda>(k, vs) c. AList.update (pre @ k) (g vs) c) tags ctx)
    \<subseteq> set ctx \<union> (\<lambda>(k, vs). (pre @ k, g vs)) ` set tags"
proof (induction tags arbitrary: ctx)
  case (Cons t tags)
  obtain k vs where t: "t = (k, vs)" by (cases t)
  show ?case using Cons [of "AList.update (pre @ k) (g vs) ctx"] set_update_subset [of "pre @ k" "g vs" ctx]
    unfolding t by auto
qed simp

definition tags_filled :: "PolicySessionData \<Rightarrow> bool" where
  "tags_filled s = list_all (\<lambda>(_, vs). vs \<noteq> []) (PrincipalTags (sd_tags s))"

lemma good_context_update:
  "good_context L ctx \<Longrightarrow> IsSingular L v \<Longrightarrow> StrValues L v \<noteq> [] \<Longrightarrow> good_context L (AList.update k v ctx)"
  using set_update_subset [of k v ctx] by (auto simp: good_context_def list_all_iff)

lemma good_context_session:
  assumes "policy_lib_ok L" and "tags_filled s"
  shows "good_context L (Context (NewIamAction L act res (Some s)))"
proof -
  have new: "IsSingular L (NewConditionValueString L True vs)" "StrValues L (NewConditionValueString L True vs) = vs" for vs
    using assms(1) by (auto simp: policy_lib_ok_def)
  have "good_context L (addAwsPrincipalTagConditionKeys L [] (Some s))"
    unfolding good_context_def list_all_iff
  proof (intro ballI)
    fix x assume "x \<in> set (addAwsPrincipalTagConditionKeys L [] (Some s))"
    then have "x \<in> (\<lambda>(k, vs). (''aws:PrincipalTag/'' @ k, NewConditionValueString L True vs)) `
        set (PrincipalTags (sd_tags s))"
      using fold_update_keys [of "''aws:PrincipalTag/''" "NewConditionValueString L True" "PrincipalTags (sd_tags s)" "[]"]
      unfolding addAwsPrincipalTagConditionKeys_def option.case list.set Un_empty_left by blast
    then obtain t where t: "snd x = NewConditionValueString L True (snd t)" "t \<in> set (PrincipalTags (sd_tags s))"
      by (elim imageE) (simp add: split_def)
    then have "snd t \<noteq> []" using assms(2) by (auto simp: tags_filled_def list_all_iff split_def)
    then show "case x of (_, v) \<Rightarrow> IsSingular L v \<and> StrValues L v \<noteq> []"
      using t(1) by (simp add: new split_def)
  qed
  then show ?thesis
    by (simp add: NewIamAction_def addGenericSessionContextKeys_def addGenericTokenClaims_def Let_def
        addAwsRequestedRegionConditionKey_def good_context_update new)
qed

lemma good_context_AddContext:
  assumes "good_context L (Context a)" and "good_context L ctx"
  shows "good_context L (Context (AddContext a ctx))"
proof -
  have "good_context L c \<Longrightarrow> good_context L (fold (\<lambda>(k, v). AList.update k v) ctx c)" for c
    using assms(2)
  proof (induction ctx arbitrary: c)
    case (Cons x ctx)
    obtain k v where x: "x = (k, v)" by (cases x)
    have "IsSingular L v" "StrValues L v \<noteq> []" "good_context L ctx"
      using Cons.prems(2) by (simp_all add: x good_context_def)
    then show ?case using Cons.IH good_context_update [OF Cons.prems(1)] by (simp add: x)
  qed simp
  then show ?thesis using assms(1) by (simp add: AddContext_def)
qed



text \<open>A token whose principal tag has an empty list of values makes the evaluation panic
  as soon as a statement in scope tests that tag.\<close>

definition empty_tag_session :: PolicySessionData where
  "empty_tag_session = \<lparr>sd_claims = \<lparr>Subject = [], Issuer = []\<rparr>,
     sd_tags = \<lparr>PrincipalTags = [(''team'', [])], TransitiveTagKeys = []\<rparr>, RequestedRegion = []\<rparr>"

definition team_statement :: "string \<Rightarrow> 'cv \<Rightarrow> 'cv statement" where
  "team_statement opr v = \<lparr>Effect = ''Allow'', Actions = [''*''], Resources = [''*''],
     Conditions = [(opr, [(''aws:PrincipalTag/team'', v)])]\<rparr>"

lemma team_statement_relevant:
  "isRelevantFor L (team_statement opr v) a = conditions_loop L [(opr, [(''aws:PrincipalTag/team'', v)])] (Context a)"
  by (simp add: isRelevantFor_def team_statement_def action_in_scope_def resource_in_scope_def
      doesResourceMatch_def iamStringLike_star)

text \<open>A session tag with an empty list of values panics the evaluation: for every
  library that behaves as documented, a policy that tests the tag reads the first element of an
  empty list.\<close>

theorem Evaluate_empty_tag_panics:
  assumes "policy_lib_ok L"
  shows "Evaluate L \<lparr>pe_statements = [team_statement ''StringLike'' v]\<rparr>
           (NewIamAction L act res (Some empty_tag_session)) =
         Panic ''index out of range [0] with length 0''"
proof -
  have ctx: "Context (NewIamAction L act res (Some empty_tag_session)) =
      [(''aws:PrincipalTag/team'', NewConditionValueString L True [])]"
    by (simp add: NewIamAction_def addGenericSessionContextKeys_def addGenericTokenClaims_def
        addAwsRequestedRegionConditionKey_def addAwsPrincipalTagConditionKeys_def empty_tag_session_def)
  have "StrValues L (NewConditionValueString L True []) = []" "IsSingular L (NewConditionValueString L True [])"
    using assms by (auto simp: policy_lib_ok_def)
  then show ?thesis
    by (simp add: Evaluate_def team_statement_relevant ctx isConditionMetForOperator_def evalStringLike_def
        areAllConditionValuesSingular_def isConditionMetForStringLike_def condition_error_def)
      (simp add: team_statement_def)
qed

lemma Evaluate_empty_tag_panics_witness:
  "Evaluate pair_lib \<lparr>pe_statements = [team_statement ''StringLike'' (True, [''x''])]\<rparr>
     (NewIamAction pair_lib ''a'' ''r'' (Some empty_tag_session)) =
   Panic ''index out of range [0] with length 0''"
  by (rule Evaluate_empty_tag_panics [OF pair_lib_ok])

text \<open>\<^verbatim>\<open>StringNotLike\<close> negates the block as a whole: it is met as soon as ONE of its
  keys is absent or matches none of its patterns, where IAM requires this of every key.\<close>

theorem StringNotLike_any_key:
  assumes "good_context L ctx"
  shows "isConditionMetForOperator L ''StringNotLike'' details ctx =
    Ok (list_ex (\<lambda>(k, v). case map_of ctx k of
        None \<Rightarrow> True
      | Some c \<Rightarrow> \<not> list_ex (\<lambda>p. iamStringLike p (hd (StrValues L c))) (StrValues L v)) details)"
proof -
  have "(\<not> like_block L details ctx) = list_ex (\<lambda>(k, v). case map_of ctx k of
        None \<Rightarrow> True
      | Some c \<Rightarrow> \<not> list_ex (\<lambda>p. iamStringLike p (hd (StrValues L c))) (StrValues L v)) details"
    by (induction details) (auto simp: like_block_def split: option.split)
  then show ?thesis by (simp add: isConditionMet_block [OF assms])
qed

lemma StringNotLike_any_key_witness:
  "isConditionMetForOperator pair_lib ''StringNotLike'' [(''k'', (True, [''x'']))] [] = Ok True"
proof -
  have "good_context pair_lib []" by (simp add: good_context_def)
  from StringNotLike_any_key [OF this, of "[(''k'', (True, [''x'']))]"] show ?thesis by simp
qed

end
