(* ===== verification/S3_Actions.thy ===== *)
theory S3_Actions
  imports Iam_Policy Request_Ctx
begin

text \<open>
  From an HTTP request to the permissions it needs: \<^verbatim>\<open>aws/service/s3/mwregisteroperation.go\<close>
  (which S3 operation a request is), \<^verbatim>\<open>s3/iam.go\<close> (which IAM actions an operation needs) and
  \<^verbatim>\<open>IsVirtualHostingRequest\<close> of \<^verbatim>\<open>s3/server.go\<close>. The router \<^verbatim>\<open>minio/mux\<close> is not part of
  the repository: its matchers are the parameter \<open>mux_lib\<close>, and \<open>mux_lib_ok\<close> states their
  documented behaviour. The first route all of whose matchers accept a request is taken.
\<close>

section \<open>The operation of a request\<close>

record mux_lib =
  mux_Methods :: "string \<Rightarrow> request \<Rightarrow> bool"
  mux_Path :: "string \<Rightarrow> request \<Rightarrow> bool"
  mux_Query :: "string \<Rightarrow> string \<Rightarrow> request \<Rightarrow> bool"

text \<open>All routes are below the path prefix of one slash. A route of the table: method, path restriction, query restrictions (a key with the value
  or the template of its value), operation.\<close>

datatype route = Route string "string option" "(string \<times> string) list" s3_operation

definition s3_routes :: "route list" where
  "s3_routes =
     [Route ''GET'' None [(''list-type'', ''2'')] ListObjectsV2,
      Route ''GET'' (Some ''/'') [] ListBuckets,
      Route ''GET'' None [] GetObject,
      Route ''HEAD'' (Some ''/'') [] HeadBucket,
      Route ''HEAD'' None [] HeadObject,
      Route ''PUT'' None [(''partNumber'', ''{pn:.*}''), (''uploadId'', ''{ui:.*}'')] UploadPart,
      Route ''PUT'' None [] PutObject,
      Route ''POST'' None [(''uploads'', [])] CreateMultipartUpload,
      Route ''POST'' None [(''uploadId'', ''{id:.*}'')] CompleteMultipartUpload,
      Route ''DELETE'' None [(''uploadId'', ''{id:.*}'')] AbortMultipartUpload]"

fun route_matches :: "mux_lib \<Rightarrow> request \<Rightarrow> route \<Rightarrow> bool" where
  "route_matches M r (Route m p qs _) =
     (mux_Methods M m r \<and> (case p of None \<Rightarrow> True | Some x \<Rightarrow> mux_Path M x r)
      \<and> list_all (\<lambda>(k, v). mux_Query M k v r) qs)"

fun route_op :: "route \<Rightarrow> s3_operation" where
  "route_op (Route _ _ _ x) = x"

definition matched_operation :: "mux_lib \<Rightarrow> request \<Rightarrow> s3_operation option" where
  "matched_operation M r =
     (if \<not> has_prefix (u_path (r_url r)) ''/'' then None
      else map_option route_op (List.find (route_matches M r) s3_routes))"

text \<open>\<^verbatim>\<open>RegisterOperation\<close>: the router runs and then, whatever it did, the next handler.
  Without a matching route the router has written its own not-found response, the
  parameter \<open>not_found\<close>.\<close>

definition RegisterOperation ::
  "mux_lib \<Rightarrow> (hstate \<Rightarrow> hstate) \<Rightarrow> (hstate \<Rightarrow> hstate result) \<Rightarrow> hstate \<Rightarrow> hstate result" where
  "RegisterOperation M not_found next_handler h =
     next_handler (case matched_operation M (h_req h) of
       Some x \<Rightarrow> SetOperation (OpS3 x) h
     | None \<Rightarrow> not_found h)"

text \<open>\<^verbatim>\<open>getS3Action\<close> of \<^verbatim>\<open>handler-builder.go\<close>.\<close>

definition getS3Action :: "hstate \<Rightarrow> s3_operation" where
  "getS3Action h = (case GetOperation h of Some (OpS3 x) \<Rightarrow> x | _ \<Rightarrow> UnknownOperation)"

section \<open>Bucket and object\<close>

definition makeS3BucketArn :: "string \<Rightarrow> string" where
  "makeS3BucketArn bucketName = ''arn:aws:s3:::'' @ bucketName"

definition makeS3ObjectArn :: "string \<Rightarrow> string \<Rightarrow> string" where
  "makeS3ObjectArn bucketName objectKey = makeS3BucketArn bucketName @ ''/'' @ objectKey"

text \<open>\<^verbatim>\<open>IsVirtualHostingRequest\<close>, for the names of the server.\<close>

definition IsVirtualHostingRequest :: "string list \<Rightarrow> request \<Rightarrow> bool" where
  "IsVirtualHostingRequest fqdns req =
     (let hostWithoutPort = to_lower (hd (str_split '':'' (r_host req))) in
      \<not> list_ex (\<lambda>fqdn. to_lower fqdn = hostWithoutPort) fqdns)"

definition getS3ObjectFromRequest :: "string list \<Rightarrow> request \<Rightarrow> (string \<times> string) result" where
  "getS3ObjectFromRequest fqdns req =
     (if IsVirtualHostingRequest fqdns req then
        Err (Plain ''virtual hosting not supported try path-style request'')
      else if \<not> has_prefix (u_path (r_url req)) ''/'' then
        Err (Plain (''request uri did not start with '' @ [CHR 0x27] @ ''/'' @ [CHR 0x27] @ '': '' @ r_uri req))
      else let string_parts = str_split ''/'' (drop 1 (u_path (r_url req))) in
        Ok (hd string_parts, str_join ''/'' (tl string_parts)))"

definition getS3BucketFromRequest :: "string list \<Rightarrow> request \<Rightarrow> string result" where
  "getS3BucketFromRequest fqdns req =
     go_bind (getS3ObjectFromRequest fqdns req) (\<lambda>(bucketName, _).
       if bucketName = [] then Err (Plain ''bucket name was empty'') else Ok bucketName)"

section \<open>The IAM actions of an operation\<close>

definition object_action ::
  "'cv policy_lib \<Rightarrow> string list \<Rightarrow> string \<Rightarrow> request \<Rightarrow> PolicySessionData option \<Rightarrow> 'cv iam_action list result" where
  "object_action L fqdns action req session =
     go_bind (getS3ObjectFromRequest fqdns req) (\<lambda>(bucket, key).
       Ok [NewIamAction L action (makeS3ObjectArn bucket key) session])"

definition newIamActionsFromS3Request ::
  "'cv policy_lib \<Rightarrow> string list \<Rightarrow> s3_operation \<Rightarrow> request \<Rightarrow> PolicySessionData option \<Rightarrow> 'cv iam_action list result" where
  "newIamActionsFromS3Request L fqdns api_action req session =
     (case api_action of
        PutObject \<Rightarrow> object_action L fqdns IAMActionS3PutObject req session
      | CreateMultipartUpload \<Rightarrow> object_action L fqdns IAMActionS3PutObject req session
      | CompleteMultipartUpload \<Rightarrow> object_action L fqdns IAMActionS3PutObject req session
      | UploadPart \<Rightarrow> object_action L fqdns IAMActionS3PutObject req session
      | GetObject \<Rightarrow> object_action L fqdns IAMActionS3GetObject req session
      | HeadObject \<Rightarrow> object_action L fqdns IAMActionS3GetObject req session
      | ListObjectsV2 \<Rightarrow>
          go_bind (getS3ObjectFromRequest fqdns req) (\<lambda>(bucket, _).
            Ok [AddContext (NewIamAction L IAMActionS3ListBucket (makeS3BucketArn bucket) session)
                  [(IAMConditionS3Prefix, NewConditionValueString L True [values_Get (r_query req) ''prefix''])]])
      | AbortMultipartUpload \<Rightarrow> object_action L fqdns IAMActionS3AbortMultipartUpload req session
      | ListBuckets \<Rightarrow> Ok [NewIamAction L IAMActionS3ListAllMyBuckets ''*'' session]
      | _ \<Rightarrow> Err (Plain ''cannot get IAM actions due to unsupported api action''))"

text \<open>The deferred call of \<^verbatim>\<open>AddAccessLogInfo\<close> evaluates its arguments at once, when the
  bucket variable is still empty; the cases then assign a new variable of the same name. So the
  log entry that is added when the function returns is always the empty string.\<close>

definition log_bucket :: "hstate \<Rightarrow> hstate" where
  "log_bucket = AddAccessLogInfo ''s3'' [(''Bucket'', StrVal [])]"

section \<open>Properties\<close>

lemma getS3ObjectFromRequest_path:
  assumes "\<not> IsVirtualHostingRequest fqdns req" and "u_path (r_url req) = ''/'' @ b @ ''/'' @ k" and "CHR ''/'' \<notin> set b"
  shows "getS3ObjectFromRequest fqdns req = Ok (b, k)"
  using assms by (simp add: getS3ObjectFromRequest_def has_prefix_def str_split_char_Cons str_join_split)

lemma getS3ObjectFromRequest_bucket:
  assumes "\<not> IsVirtualHostingRequest fqdns req" and "u_path (r_url req) = ''/'' @ b" and "CHR ''/'' \<notin> set b"
  shows "getS3ObjectFromRequest fqdns req = Ok (b, [])"
  using assms by (simp add: getS3ObjectFromRequest_def has_prefix_def str_split_char_single)

lemma split_head_tail:
  assumes "str_split ''/'' s = x # xs"
  shows "s = x @ ''/'' @ str_join ''/'' xs \<or> (s = x \<and> xs = [])"
  using str_join_split [of "''/''" s] assms by (cases xs) auto

lemma split_head_char: "str_split [c] s = x # xs \<Longrightarrow> c \<notin> set x"
proof (cases "c \<in> set s")
  case True
  then obtain a b where "s = a @ c # b" "c \<notin> set a" by (auto dest: split_list_first)
  moreover assume "str_split [c] s = x # xs"
  ultimately show ?thesis by (simp add: str_split_char_Cons)
qed (auto simp: str_split_char_single)

lemma object_arn_split:
  assumes "getS3ObjectFromRequest fqdns req = Ok (b, k)"
  shows "CHR ''/'' \<notin> set b \<and> (u_path (r_url req) = ''/'' @ b @ ''/'' @ k \<or> (u_path (r_url req) = ''/'' @ b \<and> k = []))"
proof -
  obtain p where p: "u_path (r_url req) = ''/'' @ p"
    using assms by (auto simp: getS3ObjectFromRequest_def has_prefix_def prefix_def split: if_splits)
  obtain x xs where x: "str_split ''/'' p = x # xs"
    using str_split_not_Nil [of "''/''" p] by (cases "str_split ''/'' p") simp_all
  then have "b = x" "k = str_join ''/'' xs"
    using assms p by (auto simp: getS3ObjectFromRequest_def has_prefix_def Let_def split: if_splits)
  then show ?thesis using split_head_tail [OF x] split_head_char [OF x] p by auto
qed

text \<open>The resource of an object operation names exactly the object of the request: for a
  path-style request for \<open>/bucket/key\<close> it is the ARN of that bucket and key, slashes of the key
  included, and the actions of the operation are those of its kind alone.\<close>

theorem newIamActions_object:
  assumes "\<not> IsVirtualHostingRequest fqdns req" and "u_path (r_url req) = ''/'' @ b @ ''/'' @ k"
    and "CHR ''/'' \<notin> set b"
  shows "newIamActionsFromS3Request L fqdns opr req session =
    (let object_arn = ''arn:aws:s3:::'' @ b @ ''/'' @ k in
     if opr \<in> {PutObject, CreateMultipartUpload, CompleteMultipartUpload, UploadPart}
       then Ok [NewIamAction L ''s3:PutObject'' object_arn session]
     else if opr \<in> {GetObject, HeadObject} then Ok [NewIamAction L ''s3:GetObject'' object_arn session]
     else if opr = AbortMultipartUpload then Ok [NewIamAction L ''s3:AbortMultipartUpload'' object_arn session]
     else if opr = ListObjectsV2 then
       Ok [AddContext (NewIamAction L ''s3:ListBucket'' (''arn:aws:s3:::'' @ b) session)
             [(''s3:prefix'', NewConditionValueString L True [values_Get (r_query req) ''prefix''])]]
     else if opr = ListBuckets then Ok [NewIamAction L ''s3:ListAllMyBuckets'' ''*'' session]
     else Err (Plain ''cannot get IAM actions due to unsupported api action''))"
  using getS3ObjectFromRequest_path [OF assms]
  by (cases opr) (simp_all add: newIamActionsFromS3Request_def object_action_def makeS3ObjectArn_def makeS3BucketArn_def)

text \<open>A request for an example host, used in the witnesses.\<close>

definition s3_request :: "string \<Rightarrow> string \<Rightarrow> string \<Rightarrow> mvals \<Rightarrow> request" where
  "s3_request m path rawquery hdr = \<lparr>r_method = m,
     r_url = empty_url\<lparr>u_path := path, u_rawquery := rawquery\<rparr>, r_host = ''s3.test:8443'',
     r_header = hdr, r_uri = path, r_remote = [], r_length = 0, r_body = []\<rparr>"

lemma s3_request_sel:
  "r_method (s3_request m p q hdr) = m" "u_path (r_url (s3_request m p q hdr)) = p"
  "r_header (s3_request m p q hdr) = hdr"
  by (simp_all add: s3_request_def)

lemma s3_request_query: "r_query (s3_request m p [] hdr) = []"
proof -
  have "parse_query [] = []" by code_simp
  then show ?thesis by (simp add: s3_request_def url_Query_def)
qed

lemma s3_request_path_style: "\<not> IsVirtualHostingRequest [''s3.test''] (s3_request m p q hdr)"
proof -
  have "to_lower (hd (str_split '':'' ''s3.test:8443'')) = to_lower ''s3.test''" by code_simp
  then show ?thesis by (simp add: IsVirtualHostingRequest_def s3_request_def)
qed

lemma newIamActions_object_witness:
  "newIamActionsFromS3Request pair_lib [''s3.test''] GetObject (s3_request ''GET'' ''/b/dir/key'' [] []) None =
   Ok [NewIamAction pair_lib ''s3:GetObject'' ''arn:aws:s3:::b/dir/key'' None]"
proof -
  have "u_path (r_url (s3_request ''GET'' ''/b/dir/key'' [] [])) = ''/'' @ ''b'' @ ''/'' @ ''dir/key''"
    by (simp add: s3_request_def)
  from newIamActions_object [OF s3_request_path_style this, of pair_lib GetObject None]
  show ?thesis by simp
qed

text \<open>Requests the routes do not know, and those for which no permission is defined.\<close>

lemma newIamActions_unsupported:
  "opr = UnknownOperation \<or> opr = HeadBucket \<Longrightarrow>
   \<exists>e. newIamActionsFromS3Request L fqdns opr req session = Err e"
  by (auto simp: newIamActionsFromS3Request_def)

lemma newIamActions_virtual:
  "IsVirtualHostingRequest fqdns req \<Longrightarrow> opr \<noteq> ListBuckets \<Longrightarrow>
   \<exists>e. newIamActionsFromS3Request L fqdns opr req session = Err e"
  by (cases opr) (auto simp: newIamActionsFromS3Request_def object_action_def getS3ObjectFromRequest_def)

lemma newIamActions_nonempty:
  "newIamActionsFromS3Request L fqdns opr req session = Ok as \<Longrightarrow> \<exists>a. as = [a]"
  by (cases opr) (auto simp: newIamActionsFromS3Request_def object_action_def go_bind_Ok_iff)

text \<open>Documented behaviour of the router's matchers: a method matcher compares the method, the
  path matcher for the root accepts the root path only, a query matcher for a literal compares
  the first value of the key, and one for an empty value or a catch-all template only asks for
  the key.\<close>

definition mux_lib_ok :: "mux_lib \<Rightarrow> bool" where
  "mux_lib_ok M =
     ((\<forall>m r. mux_Methods M m r = (r_method r = m)) \<and>
      (\<forall>r. mux_Path M ''/'' r = (u_path (r_url r) = ''/'')) \<and>
      (\<forall>k r. mux_Query M k ''2'' r = (values_Get (r_query r) k = ''2'')) \<and>
      (\<forall>k v r. v = [] \<or> has_prefix v ''{'' \<longrightarrow> mux_Query M k v r = values_Has (r_query r) k))"

definition plain_mux :: mux_lib where
  "plain_mux = \<lparr>mux_Methods = \<lambda>m r. r_method r = m, mux_Path = \<lambda>p r. u_path (r_url r) = p,
     mux_Query = \<lambda>k v r. if v = [] \<or> has_prefix v ''{'' then values_Has (r_query r) k else values_Get (r_query r) k = v\<rparr>"

lemma plain_mux_ok: "mux_lib_ok plain_mux"
  by (simp add: mux_lib_ok_def plain_mux_def has_prefix_def)

definition expected_operation :: "request \<Rightarrow> s3_operation option" where
  "expected_operation r =
     (let q = r_query r; root = (u_path (r_url r) = ''/'') in
      if \<not> has_prefix (u_path (r_url r)) ''/'' then None
      else if r_method r = ''GET'' then
        Some (if values_Get q ''list-type'' = ''2'' then ListObjectsV2 else if root then ListBuckets else GetObject)
      else if r_method r = ''HEAD'' then Some (if root then HeadBucket else HeadObject)
      else if r_method r = ''PUT'' then
        Some (if values_Has q ''partNumber'' \<and> values_Has q ''uploadId'' then UploadPart else PutObject)
      else if r_method r = ''POST'' then
        (if values_Has q ''uploads'' then Some CreateMultipartUpload
         else if values_Has q ''uploadId'' then Some CompleteMultipartUpload else None)
      else if r_method r = ''DELETE'' then
        (if values_Has q ''uploadId'' then Some AbortMultipartUpload else None)
      else None)"

lemma matched_operation_expected:
  assumes "mux_lib_ok M"
  shows "matched_operation M r = expected_operation r"
proof -
  have m: "mux_Methods M x r = (r_method r = x)" for x using assms by (simp add: mux_lib_ok_def)
  have p: "mux_Path M ''/'' r = (u_path (r_url r) = ''/'')" using assms by (simp add: mux_lib_ok_def)
  have q: "mux_Query M k ''2'' r = (values_Get (r_query r) k = ''2'')"
    "mux_Query M k [] r = values_Has (r_query r) k"
    "mux_Query M k ''{pn:.*}'' r = values_Has (r_query r) k"
    "mux_Query M k ''{ui:.*}'' r = values_Has (r_query r) k"
    "mux_Query M k ''{id:.*}'' r = values_Has (r_query r) k" for k
    using assms by (simp_all add: mux_lib_ok_def has_prefix_def)
  consider "r_method r = ''GET''" | "r_method r = ''HEAD''" | "r_method r = ''PUT''" | "r_method r = ''POST''"
    | "r_method r = ''DELETE''" | "r_method r \<notin> {''GET'', ''HEAD'', ''PUT'', ''POST'', ''DELETE''}" by blast
  then show ?thesis
    by cases (simp_all add: matched_operation_def s3_routes_def expected_operation_def m p q Let_def)
qed

text \<open>C25. The first-match table of routes classifies a request by its method, the root path and
  four query keys only: every GET that is neither a listing of version two nor for the root is
  a GetObject, every PUT that is not an upload of a part is a PutObject, and a DELETE without an
  upload id is no operation at all.\<close>

theorem matched_operation_spec:
  assumes "mux_lib_ok M"
  shows "matched_operation M r = expected_operation r"
  using assms by (rule matched_operation_expected)

lemma matched_operation_spec_witness:
  "matched_operation plain_mux (s3_request ''DELETE'' ''/b/k'' [] []) = None"
  using matched_operation_spec [OF plain_mux_ok, of "s3_request ''DELETE'' ''/b/k'' [] []"]
  by (simp add: expected_operation_def s3_request_query s3_request_sel values_Has_def)

text \<open>A listing of the first version is authorised as a read: a GET for a bucket asks for
  \<^verbatim>\<open>s3:GetObject\<close> on the ARN that ends in a slash, never for \<^verbatim>\<open>s3:ListBucket\<close>.\<close>

theorem bucket_get_needs_GetObject:
  assumes "mux_lib_ok M" and "\<not> IsVirtualHostingRequest fqdns r" and "r_method r = ''GET''"
    and "u_path (r_url r) = ''/'' @ b" and "b \<noteq> []" and "CHR ''/'' \<notin> set b"
    and "values_Get (r_query r) ''list-type'' \<noteq> ''2''"
  shows "matched_operation M r = Some GetObject \<and>
    newIamActionsFromS3Request L fqdns GetObject r session =
      Ok [NewIamAction L ''s3:GetObject'' (''arn:aws:s3:::'' @ b @ ''/'') session]"
  using matched_operation_expected [OF assms(1), of r] getS3ObjectFromRequest_bucket [OF assms(2,4,6)] assms
  by (simp add: expected_operation_def newIamActionsFromS3Request_def object_action_def makeS3ObjectArn_def
      makeS3BucketArn_def has_prefix_def)

lemma bucket_get_needs_GetObject_witness:
  "matched_operation plain_mux (s3_request ''GET'' ''/team'' [] []) = Some GetObject \<and>
    newIamActionsFromS3Request pair_lib [''s3.test''] GetObject (s3_request ''GET'' ''/team'' [] []) None =
      Ok [NewIamAction pair_lib ''s3:GetObject'' (''arn:aws:s3:::'' @ ''team'' @ ''/'') None]"
  by (rule bucket_get_needs_GetObject [OF plain_mux_ok s3_request_path_style])
    (simp_all add: s3_request_sel s3_request_query values_Get_def values_vals_def)

text \<open>The permissions of a request do not depend on its headers: a PUT that names a source
  object to copy from needs the permission to write its target and nothing else.\<close>

theorem newIamActions_ignores_headers:
  "newIamActionsFromS3Request L fqdns opr (r\<lparr>r_header := hdr\<rparr>) session =
   newIamActionsFromS3Request L fqdns opr r session"
  by (cases opr) (simp_all add: newIamActionsFromS3Request_def object_action_def getS3ObjectFromRequest_def
      IsVirtualHostingRequest_def)

end
