(* ===== verification/Policy_Store.thy ===== *)
theory Policy_Store
  imports Iam_Policy Numbers "HOL-Library.Char_ord" "HOL-Library.List_Lexorder"
begin

text \<open>
  Where policies come from: \<^verbatim>\<open>aws/service/iam/policy-retrieval.go\<close>. A policy is a template
  in a file whose name is the encoded role; the policy manager keeps parsed templates in a cache
  that file system events invalidate. The interface \<^verbatim>\<open>PolicyRetriever\<close> is the locale
  \<open>policy_retriever\<close>, interpreted for the local directory and for the test retriever. Package
  \<^verbatim>\<open>text/template\<close> is the parameter \<open>tmpl_lib\<close>. Each operation is one step here; the
  gap between reading a file and storing its template, which no lock covers, is in theory Policy_Race.
\<close>

record 't tmpl_lib =
  tmpl_Parse :: "string \<Rightarrow> string \<Rightarrow> 't result"
  tmpl_Execute :: "'t \<Rightarrow> PolicySessionData \<Rightarrow> string result"

section \<open>The policy manager\<close>

text \<open>The manager for a retriever whose state is \<open>'w\<close>; \<open>retrieve\<close> is its method
  \<^verbatim>\<open>retrievePolicyStr\<close>.\<close>

record ('t, 'w) policy_manager =
  pm_templates :: "(string \<times> 't) list"
  pm_world :: 'w

type_synonym 'w retriever = "'w \<Rightarrow> string \<Rightarrow> string result \<times> 'w"

definition NewPolicyManager :: "'w \<Rightarrow> ('t, 'w) policy_manager" where
  "NewPolicyManager w = \<lparr>pm_templates = [], pm_world = w\<rparr>"

definition getPolicyTemplateFromCache :: "('t, 'w) policy_manager \<Rightarrow> string \<Rightarrow> 't option" where
  "getPolicyTemplateFromCache m arn = map_of (pm_templates m) arn"

definition getPolicyTemplate ::
  "'t tmpl_lib \<Rightarrow> 'w retriever \<Rightarrow> string \<Rightarrow> ('t, 'w) policy_manager \<Rightarrow> 't result \<times> ('t, 'w) policy_manager" where
  "getPolicyTemplate T retrieve arn m =
     (case getPolicyTemplateFromCache m arn of
        Some tmpl \<Rightarrow> (Ok tmpl, m)
      | None \<Rightarrow>
          let (policy, w) = retrieve (pm_world m) arn; m' = m\<lparr>pm_world := w\<rparr>; tmpl = go_bind policy (tmpl_Parse T arn) in
          (tmpl, case tmpl of Ok t \<Rightarrow> m'\<lparr>pm_templates := AList.update arn t (pm_templates m')\<rparr> | _ \<Rightarrow> m'))"

definition DoesPolicyExist ::
  "'t tmpl_lib \<Rightarrow> 'w retriever \<Rightarrow> string \<Rightarrow> ('t, 'w) policy_manager \<Rightarrow> bool \<times> ('t, 'w) policy_manager" where
  "DoesPolicyExist T retrieve arn m = (let (r, m') = getPolicyTemplate T retrieve arn m in (is_ok r, m'))"

definition GetPolicy ::
  "'t tmpl_lib \<Rightarrow> 'w retriever \<Rightarrow> string \<Rightarrow> PolicySessionData \<Rightarrow> ('t, 'w) policy_manager \<Rightarrow>
   string result \<times> ('t, 'w) policy_manager" where
  "GetPolicy T retrieve arn d m =
     (let (r, m') = getPolicyTemplate T retrieve arn m in (go_bind r (\<lambda>tmpl. tmpl_Execute T tmpl d), m'))"

fun prewarm_loop ::
  "'t tmpl_lib \<Rightarrow> 'w retriever \<Rightarrow> string list \<Rightarrow> ('t, 'w) policy_manager \<Rightarrow> unit result \<times> ('t, 'w) policy_manager" where
  "prewarm_loop T retrieve [] m = (Ok (), m)"
| "prewarm_loop T retrieve (policyId # ids) m =
     (case getPolicyTemplate T retrieve policyId m of
        (Ok _, m') \<Rightarrow> prewarm_loop T retrieve ids m'
      | (Err e, m') \<Rightarrow> (Err e, m')
      | (Panic p, m') \<Rightarrow> (Panic p, m'))"

definition PreWarm ::
  "'t tmpl_lib \<Rightarrow> 'w retriever \<Rightarrow> ('w \<Rightarrow> string list result) \<Rightarrow> ('t, 'w) policy_manager \<Rightarrow>
   unit result \<times> ('t, 'w) policy_manager" where
  "PreWarm T retrieve identifiers m =
     (case identifiers (pm_world m) of
        Ok ids \<Rightarrow> prewarm_loop T retrieve ids m
      | Err e \<Rightarrow> (Err e, m)
      | Panic p \<Rightarrow> (Panic p, m))"

definition deletePolicyCacheEntry :: "string \<Rightarrow> ('t, 'w) policy_manager \<Rightarrow> ('t, 'w) policy_manager" where
  "deletePolicyCacheEntry arn m =
     (if arn \<notin> fst ` set (pm_templates m) then m
      else m\<lparr>pm_templates := AList.delete arn (pm_templates m)\<rparr>)"

text \<open>The data of a policy come from the claims of the session token; the issuer the proxy put
  into the token goes before the one that signed it.\<close>

definition GetPolicySessionDataFromClaims :: "SessionClaims \<Rightarrow> PolicySessionData" where
  "GetPolicySessionDataFromClaims claims =
     \<lparr>sd_claims = \<lparr>Subject = reg_Subject claims,
        Issuer = (if IIssuer claims = [] then reg_Issuer claims else IIssuer claims)\<rparr>,
      sd_tags = Tags claims, RequestedRegion = []\<rparr>"

section \<open>The local directory\<close>

text \<open>The files are an association list from paths to contents. \<open>lf_watched\<close> are the paths the
  file watcher holds, \<open>lf_events\<close> the events it has not delivered yet.\<close>

datatype fs_event = EvWrite string | EvRemove string | EvRename string

record local_files =
  lf_files :: "(string \<times> string) list"
  lf_watched :: "string list"
  lf_events :: "fs_event list"

definition policySuffix :: string where
  "policySuffix = ''.json.tmpl''"

definition getPolicyPathPrefix :: "string \<Rightarrow> string" where
  "getPolicyPathPrefix rolePolicyPath = rolePolicyPath @ ''/''"

definition getPolicyPath :: "string \<Rightarrow> string \<Rightarrow> string" where
  "getPolicyPath dir arn = getPolicyPathPrefix dir @ B32 arn @ policySuffix"

text \<open>The warning for a short path does not return: the slice expression panics.\<close>

definition safe_policy_name :: "string \<Rightarrow> string \<Rightarrow> string" where
  "safe_policy_name dir filePath =
     take (length filePath - length policySuffix - length (getPolicyPathPrefix dir)) (drop (length (getPolicyPathPrefix dir)) filePath)"

definition getPolicyArn :: "string \<Rightarrow> string \<Rightarrow> string result" where
  "getPolicyArn dir filePath =
     (if length (getPolicyPathPrefix dir) + length policySuffix > length filePath then Panic ''slice bounds out of range''
      else B32Decode (safe_policy_name dir filePath))"

text \<open>\<^verbatim>\<open>watcher.Add\<close> fails for a path that does not exist, which is only logged.\<close>

definition startWatching :: "string \<Rightarrow> local_files \<Rightarrow> local_files" where
  "startWatching fileName w =
     (if map_of (lf_files w) fileName = None then w else w\<lparr>lf_watched := List.insert fileName (lf_watched w)\<rparr>)"

definition restartWatching :: "string \<Rightarrow> local_files \<Rightarrow> local_files" where
  "restartWatching fileName w =
     (let w1 = w\<lparr>lf_watched := removeAll fileName (lf_watched w)\<rparr> in
      if map_of (lf_files w1) fileName = None then w1 else startWatching fileName w1)"

definition retrievePolicyStr :: "string \<Rightarrow> local_files retriever" where
  "retrievePolicyStr dir w arn =
     (let filePath = getPolicyPath dir arn; w' = startWatching filePath w in
      (ReadFileFull (map_of (lf_files w')) filePath, w'))"

text \<open>\<^verbatim>\<open>filepath.Glob\<close> for the directory: the files right below it that have the suffix, in
  lexical order. The directory itself holds no pattern.\<close>

definition glob_policies :: "string \<Rightarrow> local_files \<Rightarrow> string list" where
  "glob_policies dir w =
     sort (filter (\<lambda>p. let n = safe_policy_name dir p in p = getPolicyPathPrefix dir @ n @ policySuffix \<and> CHR ''/'' \<notin> set n)
       (map fst (lf_files w)))"

fun decode_all :: "string list \<Rightarrow> string list result" where
  "decode_all [] = Ok []"
| "decode_all (n # ns) = go_bind (B32Decode n) (\<lambda>a. go_bind (decode_all ns) (\<lambda>as. Ok (a # as)))"

definition retrieveAllIdentifiers :: "string \<Rightarrow> local_files \<Rightarrow> string list result" where
  "retrieveAllIdentifiers dir w = decode_all (map (safe_policy_name dir) (glob_policies dir w))"

section \<open>The test retriever\<close>

definition test_retrievePolicyStr :: "(string \<times> string) list retriever" where
  "test_retrievePolicyStr policies arn =
     (case map_of policies arn of
        None \<Rightarrow> Err (Plain (''no test policy named '' @ arn))
      | Some policy \<Rightarrow> Ok policy, policies)"

definition test_retrieveAllIdentifiers :: "(string \<times> string) list \<Rightarrow> string list result" where
  "test_retrieveAllIdentifiers policies = Ok (map fst policies)"

text \<open>\<^verbatim>\<open>NewPolicyManagerForLocalPolicies\<close>.\<close>

definition NewPolicyManagerForLocalPolicies ::
  "'t tmpl_lib \<Rightarrow> string \<Rightarrow> local_files \<Rightarrow> ('t, local_files) policy_manager result" where
  "NewPolicyManagerForLocalPolicies T dir w =
     (let (r, m) = PreWarm T (retrievePolicyStr dir) (retrieveAllIdentifiers dir) (NewPolicyManager w) in
      go_bind r (\<lambda>_. Ok m))"

section \<open>The interface\<close>

locale policy_retriever =
  fixes retrieve :: "'w retriever"
    and identifiers :: "'w \<Rightarrow> string list result"
    and content :: "'w \<Rightarrow> string \<Rightarrow> string option"
  assumes retrieve_content: "fst (retrieve w arn) = Ok s \<longleftrightarrow> content w arn = Some s"
    and retrieve_keeps: "content (snd (retrieve w arn)) = content w"
    and retrieve_no_panic: "fst (retrieve w arn) \<noteq> Panic p"
    and identifiers_complete: "identifiers w = Ok ids \<Longrightarrow> content w arn = Some s \<Longrightarrow> arn \<in> set ids"
begin

text \<open>A cache is fresh when each of its templates is that of the present content.\<close>

definition fresh :: "'t tmpl_lib \<Rightarrow> ('t, 'w) policy_manager \<Rightarrow> bool" where
  "fresh T m = (\<forall>arn t. map_of (pm_templates m) arn = Some t \<longrightarrow>
     (\<exists>s. content (pm_world m) arn = Some s \<and> tmpl_Parse T arn s = Ok t))"

lemma getPolicyTemplate_content: "content (pm_world (snd (getPolicyTemplate T retrieve arn m))) = content (pm_world m)"
  using retrieve_keeps [of "pm_world m" arn]
  by (auto simp: getPolicyTemplate_def getPolicyTemplateFromCache_def Let_def split_def split: option.splits go.splits)

lemma getPolicyTemplate_fresh:
  assumes "fresh T m"
  shows "fst (getPolicyTemplate T retrieve arn m) = Ok t \<longleftrightarrow>
      (\<exists>s. content (pm_world m) arn = Some s \<and> tmpl_Parse T arn s = Ok t)"
proof (cases "map_of (pm_templates m) arn")
  case None
  then show ?thesis
    by (simp add: getPolicyTemplate_def getPolicyTemplateFromCache_def split_def Let_def go_bind_Ok_iff retrieve_content)
next
  case (Some t')
  then obtain s where "content (pm_world m) arn = Some s" "tmpl_Parse T arn s = Ok t'" using assms by (auto simp: fresh_def)
  then show ?thesis using Some by (simp add: getPolicyTemplate_def getPolicyTemplateFromCache_def)
qed

lemma getPolicyTemplate_keeps_fresh:
  assumes "fresh T m"
  shows "fresh T (snd (getPolicyTemplate T retrieve arn m))"
proof (cases "map_of (pm_templates m) arn")
  case None
  show ?thesis
  proof (cases "go_bind (fst (retrieve (pm_world m) arn)) (tmpl_Parse T arn)")
    case (Ok t)
    then obtain s where "content (pm_world m) arn = Some s" "tmpl_Parse T arn s = Ok t"
      by (auto simp: go_bind_Ok_iff retrieve_content)
    then show ?thesis using Ok None assms
      by (simp add: fresh_def getPolicyTemplate_def getPolicyTemplateFromCache_def split_def Let_def retrieve_keeps go_map)
  next
    case (Err e)
    then show ?thesis using None assms
      by (simp add: fresh_def getPolicyTemplate_def getPolicyTemplateFromCache_def split_def Let_def retrieve_keeps)
  next
    case (Panic p)
    then show ?thesis using None assms
      by (simp add: fresh_def getPolicyTemplate_def getPolicyTemplateFromCache_def split_def Let_def retrieve_keeps)
  qed
next
  case (Some t)
  then show ?thesis using assms by (simp add: getPolicyTemplate_def getPolicyTemplateFromCache_def)
qed

lemma GetPolicy_renders:
  assumes "fresh T m"
  shows "fst (GetPolicy T retrieve arn d m) = Ok p \<longleftrightarrow>
    (\<exists>s t. content (pm_world m) arn = Some s \<and> tmpl_Parse T arn s = Ok t \<and> tmpl_Execute T t d = Ok p)"
proof -
  have "fst (GetPolicy T retrieve arn d m) = Ok p \<longleftrightarrow>
      (\<exists>t. fst (getPolicyTemplate T retrieve arn m) = Ok t \<and> tmpl_Execute T t d = Ok p)"
    by (simp add: GetPolicy_def split_def Let_def go_bind_Ok_iff)
  then show ?thesis unfolding getPolicyTemplate_fresh [OF assms] by blast
qed

lemma DoesPolicyExist_iff:
  assumes "fresh T m"
  shows "fst (DoesPolicyExist T retrieve arn m) \<longleftrightarrow>
    (\<exists>s t. content (pm_world m) arn = Some s \<and> tmpl_Parse T arn s = Ok t)"
proof -
  have "is_ok r \<longleftrightarrow> (\<exists>t. r = Ok t)" for r :: "'t result" by (cases r) simp_all
  then have "fst (DoesPolicyExist T retrieve arn m) \<longleftrightarrow> (\<exists>t. fst (getPolicyTemplate T retrieve arn m) = Ok t)"
    by (simp add: DoesPolicyExist_def split_def Let_def)
  then show ?thesis unfolding getPolicyTemplate_fresh [OF assms] by blast
qed

lemma getPolicyTemplate_cached_after:
  assumes "fst (getPolicyTemplate T retrieve arn m) = Ok t"
  shows "map_of (pm_templates (snd (getPolicyTemplate T retrieve arn m))) arn = Some t"
  using assms
  by (cases "map_of (pm_templates m) arn")
    (simp_all add: getPolicyTemplate_def getPolicyTemplateFromCache_def split_def Let_def go_map)

lemma getPolicyTemplate_cache_grows:
  assumes "map_of (pm_templates m) a = Some t"
  shows "map_of (pm_templates (snd (getPolicyTemplate T retrieve arn m))) a = Some t"
proof (cases "map_of (pm_templates m) arn")
  case None
  then have "a \<noteq> arn" using assms by auto
  then show ?thesis using None assms
    by (cases "go_bind (fst (retrieve (pm_world m) arn)) (tmpl_Parse T arn)")
      (simp_all add: getPolicyTemplate_def getPolicyTemplateFromCache_def split_def Let_def go_map)
next
  case (Some t')
  then show ?thesis using assms by (simp add: getPolicyTemplate_def getPolicyTemplateFromCache_def)
qed

lemma prewarm_loop_cache_grows:
  "prewarm_loop T retrieve ids m = (Ok (), m') \<Longrightarrow> map_of (pm_templates m) a = Some t \<Longrightarrow>
   map_of (pm_templates m') a = Some t"
proof (induction ids arbitrary: m)
  case (Cons x ids)
  then show ?case
    using getPolicyTemplate_cache_grows [of m a t T x]
    by (cases "getPolicyTemplate T retrieve x m" rule: prod.exhaust) (auto split: go.splits)
qed simp

lemma prewarm_loop_all:
  assumes "prewarm_loop T retrieve ids m = (Ok (), m')" and "fresh T m"
  shows "fresh T m' \<and> content (pm_world m') = content (pm_world m) \<and> (\<forall>arn \<in> set ids. map_of (pm_templates m') arn \<noteq> None)"
  using assms
proof (induction ids arbitrary: m)
  case (Cons x ids)
  obtain t m1 where x: "getPolicyTemplate T retrieve x m = (Ok t, m1)" "prewarm_loop T retrieve ids m1 = (Ok (), m')"
    using Cons.prems(1) by (cases "getPolicyTemplate T retrieve x m" rule: prod.exhaust) (auto split: go.splits)
  have m1: "m1 = snd (getPolicyTemplate T retrieve x m)" using x by simp
  have "fresh T m1" using getPolicyTemplate_keeps_fresh [OF Cons.prems(2), of x] m1 by simp
  then have IH: "fresh T m' \<and> content (pm_world m') = content (pm_world m1) \<and> (\<forall>arn \<in> set ids. map_of (pm_templates m') arn \<noteq> None)"
    by (rule Cons.IH [OF x(2)])
  have "map_of (pm_templates m1) x = Some t" using getPolicyTemplate_cached_after [of T x m t] x by simp
  then have "map_of (pm_templates m') x = Some t" by (rule prewarm_loop_cache_grows [OF x(2)])
  then show ?case using IH getPolicyTemplate_content [of T x m] m1 by simp
qed simp

lemma PreWarm_all:
  assumes "PreWarm T retrieve identifiers (NewPolicyManager w) = (Ok (), m)" and "content w arn = Some s"
  shows "\<exists>t. map_of (pm_templates m) arn = Some t \<and> tmpl_Parse T arn s = Ok t"
proof -
  obtain ids where ids: "identifiers w = Ok ids" "prewarm_loop T retrieve ids (NewPolicyManager w) = (Ok (), m)"
    using assms(1) by (auto simp: PreWarm_def NewPolicyManager_def split: go.splits)
  have "fresh T (NewPolicyManager w)" by (simp add: fresh_def NewPolicyManager_def)
  note all = prewarm_loop_all [OF ids(2) this]
  then obtain t where t: "map_of (pm_templates m) arn = Some t"
    using identifiers_complete [OF ids(1) assms(2)] by blast
  then have "\<exists>s'. content (pm_world m) arn = Some s' \<and> tmpl_Parse T arn s' = Ok t" using all unfolding fresh_def by blast
  moreover have "content (pm_world m) = content w" using all by (simp add: NewPolicyManager_def)
  ultimately show ?thesis using t assms(2) by auto
qed

end

section \<open>The two retrievers\<close>

lemma getPolicyArn_getPolicyPath: "getPolicyArn dir (getPolicyPath dir arn) = Ok arn"
  by (simp add: getPolicyArn_def getPolicyPath_def safe_policy_name_def B32Decode_B32)

lemma safe_policy_name_path: "safe_policy_name dir (getPolicyPath dir arn) = B32 arn"
  by (simp add: safe_policy_name_def getPolicyPath_def)

lemma getPolicyPath_inj: "getPolicyPath dir a = getPolicyPath dir b \<Longrightarrow> a = b"
  by (drule arg_cong [where f = "getPolicyArn dir"]) (simp only: getPolicyArn_getPolicyPath go.inject)

lemma B32_no_slash: "CHR ''/'' \<notin> set (B32 s)"
proof
  assume "CHR ''/'' \<in> set (B32 s)"
  then have "CHR ''/'' \<in> set b32_alphabet \<union> {b32_pad}" by (rule B32_chars)
  moreover have "CHR ''/'' \<notin> set b32_alphabet" "CHR ''/'' \<noteq> b32_pad" by code_simp+
  ultimately show False by blast
qed

lemma map_of_Some_key: "map_of m k = Some v \<Longrightarrow> k \<in> fst ` set m"
  by (rule rev_image_eqI [OF map_of_SomeD]) simp_all

lemma getPolicyPath_globbed:
  assumes "map_of (lf_files w) (getPolicyPath dir arn) = Some s"
  shows "getPolicyPath dir arn \<in> set (glob_policies dir w)"
proof -
  have "getPolicyPath dir arn \<in> set (map fst (lf_files w))"
    using map_of_Some_key [OF assms] by simp
  moreover have "getPolicyPath dir arn = getPolicyPathPrefix dir @ B32 arn @ policySuffix"
    by (rule getPolicyPath_def)
  ultimately have "getPolicyPath dir arn \<in> set (map fst (lf_files w)) \<and>
      getPolicyPath dir arn = getPolicyPathPrefix dir @ safe_policy_name dir (getPolicyPath dir arn) @ policySuffix \<and>
      CHR ''/'' \<notin> set (safe_policy_name dir (getPolicyPath dir arn))"
    unfolding safe_policy_name_path using B32_no_slash by blast
  then show ?thesis unfolding glob_policies_def Let_def set_sort set_filter mem_Collect_eq .
qed

lemma decode_all_complete: "decode_all ns = Ok as \<Longrightarrow> n \<in> set ns \<Longrightarrow> B32Decode n = Ok a \<Longrightarrow> a \<in> set as"
  by (induction ns arbitrary: as) (auto simp: go_bind_Ok_iff)

definition local_content :: "string \<Rightarrow> local_files \<Rightarrow> string \<Rightarrow> string option" where
  "local_content dir w arn = map_of (lf_files w) (getPolicyPath dir arn)"

lemma startWatching_files [simp]: "lf_files (startWatching p w) = lf_files w" "lf_events (startWatching p w) = lf_events w"
  by (simp_all add: startWatching_def)

lemma startWatching_watched:
  "set (lf_watched (startWatching p w)) = (if map_of (lf_files w) p = None then {} else {p}) \<union> set (lf_watched w)"
  by (simp add: startWatching_def)

interpretation local_dir: policy_retriever "retrievePolicyStr dir" "retrieveAllIdentifiers dir" "local_content dir"
proof unfold_locales
  fix w arn s
  show "fst (retrievePolicyStr dir w arn) = Ok s \<longleftrightarrow> local_content dir w arn = Some s"
    by (simp add: retrievePolicyStr_def ReadFileFull_def local_content_def Let_def split: option.splits)
  show "local_content dir (snd (retrievePolicyStr dir w arn)) = local_content dir w"
    by (rule ext) (simp add: retrievePolicyStr_def local_content_def Let_def)
  show "fst (retrievePolicyStr dir w arn) \<noteq> Panic p" for p
    by (simp add: retrievePolicyStr_def ReadFileFull_def Let_def split: option.splits)
next
  fix w ids arn s
  assume ids: "retrieveAllIdentifiers dir w = Ok ids" and c: "local_content dir w arn = Some s"
  have "B32 arn \<in> set (map (safe_policy_name dir) (glob_policies dir w))"
    using imageI [OF getPolicyPath_globbed [OF c [unfolded local_content_def]], of "safe_policy_name dir"]
    by (simp add: safe_policy_name_path)
  then show "arn \<in> set ids"
    using ids B32Decode_B32 decode_all_complete unfolding retrieveAllIdentifiers_def by blast
qed

interpretation test: policy_retriever test_retrievePolicyStr test_retrieveAllIdentifiers map_of
  by unfold_locales
    (auto simp: test_retrievePolicyStr_def test_retrieveAllIdentifiers_def split: option.splits dest: map_of_Some_key)

section \<open>File system events\<close>

type_synonym 't local_manager = "('t, local_files) policy_manager"

definition callback_arn :: "string \<Rightarrow> string \<Rightarrow> string result" where
  "callback_arn dir fileName = go_try (getPolicyArn dir fileName) (\<lambda>_. Ok []) Ok"

definition fileDeleted :: "string \<Rightarrow> string \<Rightarrow> 't local_manager \<Rightarrow> 't local_manager result" where
  "fileDeleted dir fileName m = go_bind (callback_arn dir fileName) (\<lambda>arn. Ok (deletePolicyCacheEntry arn m))"

definition fileUpdated :: "'t tmpl_lib \<Rightarrow> string \<Rightarrow> string \<Rightarrow> 't local_manager \<Rightarrow> 't local_manager result" where
  "fileUpdated T dir fileName m =
     go_bind (callback_arn dir fileName) (\<lambda>arn.
       Ok (snd (getPolicyTemplate T (retrievePolicyStr dir) arn (deletePolicyCacheEntry arn m))))"

definition upd_world :: "('w \<Rightarrow> 'w) \<Rightarrow> ('t, 'w) policy_manager \<Rightarrow> ('t, 'w) policy_manager" where
  "upd_world f m = m\<lparr>pm_world := f (pm_world m)\<rparr>"

text \<open>The loop of the watcher goroutine for one event; a rename is neither a write nor a
  removal.\<close>

fun handle_event :: "'t tmpl_lib \<Rightarrow> string \<Rightarrow> fs_event \<Rightarrow> 't local_manager \<Rightarrow> 't local_manager result" where
  "handle_event T dir (EvWrite name) m = fileUpdated T dir name m"
| "handle_event T dir (EvRemove name) m =
     go_bind (fileDeleted dir name m) (\<lambda>m'. Ok (upd_world (restartWatching name) m'))"
| "handle_event T dir (EvRename name) m = Ok m"

text \<open>What other processes do to the directory, with the events the watcher then gets: a watch
  ends when its file is removed, replaced or moved away.\<close>

definition fs_write :: "string \<Rightarrow> string \<Rightarrow> local_files \<Rightarrow> local_files" where
  "fs_write p c w = w\<lparr>lf_files := AList.update p c (lf_files w),
     lf_events := lf_events w @ (if p \<in> set (lf_watched w) then [EvWrite p] else [])\<rparr>"

definition fs_remove :: "string \<Rightarrow> local_files \<Rightarrow> local_files" where
  "fs_remove p w = \<lparr>lf_files = AList.delete p (lf_files w), lf_watched = removeAll p (lf_watched w),
     lf_events = lf_events w @ (if p \<in> set (lf_watched w) then [EvRemove p] else [])\<rparr>"

definition fs_rename :: "string \<Rightarrow> string \<Rightarrow> string \<Rightarrow> local_files \<Rightarrow> local_files" where
  "fs_rename p q c w =
     (let w1 = fs_remove q w in
      \<lparr>lf_files = AList.update q c (AList.delete p (lf_files w1)), lf_watched = removeAll p (lf_watched w1),
       lf_events = lf_events w1 @ (if p \<in> set (lf_watched w) then [EvRename p] else [])\<rparr>)"

text \<open>One step of the program or its environment; with \<open>moved\<close> a file the program watches may
  also be moved away.\<close>

inductive store_step :: "'t tmpl_lib \<Rightarrow> string \<Rightarrow> bool \<Rightarrow> 't local_manager \<Rightarrow> 't local_manager \<Rightarrow> bool"
  for T :: "'t tmpl_lib" and dir :: string and moved :: bool
where
  get: "store_step T dir moved m (snd (getPolicyTemplate T (retrievePolicyStr dir) arn m))"
| file_written: "store_step T dir moved m (upd_world (fs_write p c) m)"
| file_removed: "store_step T dir moved m (upd_world (fs_remove p) m)"
| file_renamed: "map_of (lf_files (pm_world m)) p = Some c \<Longrightarrow> p \<noteq> q \<Longrightarrow> moved \<or> p \<notin> set (lf_watched (pm_world m)) \<Longrightarrow>
    store_step T dir moved m (upd_world (fs_rename p q c) m)"
| event: "lf_events (pm_world m) = e # es \<Longrightarrow>
    handle_event T dir e (upd_world (\<lambda>w. w\<lparr>lf_events := es\<rparr>) m) = Ok m' \<Longrightarrow> store_step T dir moved m m'"

text \<open>The invariant: a cached template is that of the file it was read from, which is still
  watched, or an event that will invalidate it is on its way.\<close>

definition event_pending :: "string \<Rightarrow> local_files \<Rightarrow> bool" where
  "event_pending p w = (EvWrite p \<in> set (lf_events w) \<or> EvRemove p \<in> set (lf_events w))"

definition template_of_file :: "'t tmpl_lib \<Rightarrow> string \<Rightarrow> string \<Rightarrow> local_files \<Rightarrow> 't \<Rightarrow> bool" where
  "template_of_file T dir arn w t = (\<exists>s. local_content dir w arn = Some s \<and> tmpl_Parse T arn s = Ok t)"

definition cache_ok :: "'t tmpl_lib \<Rightarrow> string \<Rightarrow> (string \<times> 't) list \<Rightarrow> local_files \<Rightarrow> bool" where
  "cache_ok T dir ts w = (\<forall>arn t. map_of ts arn = Some t \<longrightarrow>
     getPolicyPath dir arn \<in> set (lf_watched w) \<and> template_of_file T dir arn w t \<or> event_pending (getPolicyPath dir arn) w)"

fun event_path :: "fs_event \<Rightarrow> string" where
  "event_path (EvWrite p) = p"
| "event_path (EvRemove p) = p"
| "event_path (EvRename p) = p"

definition only_policies :: "string \<Rightarrow> local_files \<Rightarrow> bool" where
  "only_policies dir w = (set (lf_watched w) \<union> event_path ` set (lf_events w) \<subseteq> range (getPolicyPath dir))"

definition store_inv :: "'t tmpl_lib \<Rightarrow> string \<Rightarrow> 't local_manager \<Rightarrow> bool" where
  "store_inv T dir m = (cache_ok T dir (pm_templates m) (pm_world m) \<and> only_policies dir (pm_world m))"

lemma cache_ok_mono:
  assumes "cache_ok T dir ts w"
    and "\<And>arn t. map_of ts' arn = Some t \<Longrightarrow> map_of ts arn = Some t \<Longrightarrow>
      getPolicyPath dir arn \<in> set (lf_watched w) \<and> template_of_file T dir arn w t \<or> event_pending (getPolicyPath dir arn) w \<Longrightarrow>
      getPolicyPath dir arn \<in> set (lf_watched w') \<and> template_of_file T dir arn w' t \<or> event_pending (getPolicyPath dir arn) w'"
    and "\<And>arn t. map_of ts' arn = Some t \<Longrightarrow> map_of ts arn \<noteq> Some t \<Longrightarrow>
      getPolicyPath dir arn \<in> set (lf_watched w') \<and> template_of_file T dir arn w' t"
  shows "cache_ok T dir ts' w'"
  using assms unfolding cache_ok_def by meson

lemma template_of_file_cong: "lf_files w' = lf_files w \<Longrightarrow> template_of_file T dir arn w' t = template_of_file T dir arn w t"
  by (simp add: template_of_file_def local_content_def)

lemma retrievePolicyStr_snd: "snd (retrievePolicyStr dir w arn) = startWatching (getPolicyPath dir arn) w"
  by (simp add: retrievePolicyStr_def Let_def)

lemma cache_ok_startWatching: "cache_ok T dir ts w \<Longrightarrow> cache_ok T dir ts (startWatching p w)"
  by (auto simp: cache_ok_def startWatching_watched event_pending_def template_of_file_def local_content_def)

lemma store_inv_get:
  assumes "store_inv T dir m"
  shows "store_inv T dir (snd (getPolicyTemplate T (retrievePolicyStr dir) arn m))"
proof (cases "map_of (pm_templates m) arn")
  case None
  let ?p = "getPolicyPath dir arn" let ?w = "startWatching ?p (pm_world m)"
  let ?r = "go_bind (fst (retrievePolicyStr dir (pm_world m) arn)) (tmpl_Parse T arn)"
  have only: "only_policies dir ?w"
    using assms by (auto simp: store_inv_def only_policies_def startWatching_watched)
  have ok: "cache_ok T dir (pm_templates m) ?w"
    using assms by (simp add: store_inv_def cache_ok_startWatching)
  have eq: "snd (getPolicyTemplate T (retrievePolicyStr dir) arn m) =
      (let m' = m\<lparr>pm_world := ?w\<rparr> in case ?r of Ok t \<Rightarrow> m'\<lparr>pm_templates := AList.update arn t (pm_templates m')\<rparr> | _ \<Rightarrow> m')"
    unfolding retrievePolicyStr_snd [symmetric]
    using None by (simp add: getPolicyTemplate_def getPolicyTemplateFromCache_def split_def Let_def)
  show ?thesis
  proof (cases ?r)
    case (Ok t)
    then obtain s where s: "local_content dir (pm_world m) arn = Some s" "tmpl_Parse T arn s = Ok t"
      by (auto simp: go_bind_Ok_iff local_dir.retrieve_content)
    have "?p \<in> set (lf_watched ?w)" "template_of_file T dir arn ?w t"
      using s by (auto simp: startWatching_watched template_of_file_def local_content_def)
    then have "cache_ok T dir (AList.update arn t (pm_templates m)) ?w"
      using ok by (elim cache_ok_mono) (auto simp: go_map split: if_splits)
    then show ?thesis using Ok only by (simp add: eq store_inv_def Let_def)
  qed (use ok only in \<open>simp_all add: eq store_inv_def Let_def\<close>)
next
  case (Some t)
  then show ?thesis using assms by (simp add: getPolicyTemplate_def getPolicyTemplateFromCache_def)
qed

lemma deletePolicyCacheEntry_templates:
  "map_of (pm_templates (deletePolicyCacheEntry arn m)) arn' = (if arn' = arn then None else map_of (pm_templates m) arn')"
  "pm_world (deletePolicyCacheEntry arn m) = pm_world m"
proof -
  show "pm_world (deletePolicyCacheEntry arn m) = pm_world m" by (simp add: deletePolicyCacheEntry_def)
  have "arn \<notin> fst ` set (pm_templates m) \<Longrightarrow> map_of (pm_templates m) arn = None" by (simp add: map_of_eq_None_iff)
  then show "map_of (pm_templates (deletePolicyCacheEntry arn m)) arn' =
      (if arn' = arn then None else map_of (pm_templates m) arn')"
    by (cases "arn \<in> fst ` set (pm_templates m)") (simp_all add: deletePolicyCacheEntry_def go_map)
qed

lemma callback_arn_path: "callback_arn dir (getPolicyPath dir arn) = Ok arn"
  by (simp add: callback_arn_def getPolicyArn_getPolicyPath)

text \<open>Delivering an event for the file of \<open>arn\<close>, once its cache entry is gone.\<close>

lemma cache_ok_deliver:
  assumes "cache_ok T dir (pm_templates m) w" and "lf_events w = e # es" and "event_path e = getPolicyPath dir arn"
  shows "cache_ok T dir (pm_templates (deletePolicyCacheEntry arn m)) (w\<lparr>lf_events := es\<rparr>)"
  unfolding cache_ok_def
proof (intro allI impI)
  fix a t
  assume "map_of (pm_templates (deletePolicyCacheEntry arn m)) a = Some t"
  then have a: "map_of (pm_templates m) a = Some t" "a \<noteq> arn"
    by (simp_all add: deletePolicyCacheEntry_templates split: if_splits)
  then have "getPolicyPath dir a \<noteq> event_path e" using assms(3) getPolicyPath_inj by metis
  then have "event_pending (getPolicyPath dir a) w = event_pending (getPolicyPath dir a) (w\<lparr>lf_events := es\<rparr>)"
    using assms(2) by (cases e) (auto simp: event_pending_def)
  moreover have "getPolicyPath dir a \<in> set (lf_watched w) \<and> template_of_file T dir a w t \<or> event_pending (getPolicyPath dir a) w"
    using assms(1) a(1) by (simp add: cache_ok_def)
  ultimately show "getPolicyPath dir a \<in> set (lf_watched (w\<lparr>lf_events := es\<rparr>)) \<and> template_of_file T dir a (w\<lparr>lf_events := es\<rparr>) t
      \<or> event_pending (getPolicyPath dir a) (w\<lparr>lf_events := es\<rparr>)"
    by (simp add: template_of_file_def local_content_def)
qed

lemma restartWatching_facts:
  "lf_files (restartWatching p w) = lf_files w" "lf_events (restartWatching p w) = lf_events w"
  "set (lf_watched (restartWatching p w)) =
     set (lf_watched w) - {p} \<union> (if map_of (lf_files w) p = None then {} else {p})"
  by (auto simp: restartWatching_def startWatching_watched Let_def)

lemma cache_ok_restart:
  assumes "cache_ok T dir ts w" and "map_of ts arn = None"
  shows "cache_ok T dir ts (restartWatching (getPolicyPath dir arn) w)"
  unfolding cache_ok_def
proof (intro allI impI)
  fix a t
  assume a: "map_of ts a = Some t"
  then have "getPolicyPath dir a \<noteq> getPolicyPath dir arn" using assms(2) getPolicyPath_inj by fastforce
  then show "getPolicyPath dir a \<in> set (lf_watched (restartWatching (getPolicyPath dir arn) w)) \<and>
      template_of_file T dir a (restartWatching (getPolicyPath dir arn) w) t \<or>
      event_pending (getPolicyPath dir a) (restartWatching (getPolicyPath dir arn) w)"
    using assms(1) a by (simp add: cache_ok_def restartWatching_facts template_of_file_def local_content_def event_pending_def)
qed

lemma store_inv_event:
  assumes inv: "store_inv T dir m" and ev: "lf_events (pm_world m) = e # es"
    and h: "handle_event T dir e (upd_world (\<lambda>w. w\<lparr>lf_events := es\<rparr>) m) = Ok m'"
  shows "store_inv T dir m'"
proof -
  obtain arn where arn: "event_path e = getPolicyPath dir arn"
    using inv ev by (auto simp: store_inv_def only_policies_def)
  let ?m = "upd_world (\<lambda>w. w\<lparr>lf_events := es\<rparr>) m"
  have world: "pm_world ?m = (pm_world m)\<lparr>lf_events := es\<rparr>" "pm_templates ?m = pm_templates m" by (simp_all add: upd_world_def)
  have only: "only_policies dir (pm_world ?m)" using inv ev by (auto simp: store_inv_def only_policies_def world)
  have "cache_ok T dir (pm_templates (deletePolicyCacheEntry arn ?m)) (pm_world ?m)"
    using cache_ok_deliver [OF _ ev arn, of T ?m] inv by (simp add: store_inv_def world)
  then have del: "store_inv T dir (deletePolicyCacheEntry arn ?m)"
    using only by (simp add: store_inv_def deletePolicyCacheEntry_templates)
  show ?thesis
  proof (cases e)
    case (EvWrite p)
    then have "m' = snd (getPolicyTemplate T (retrievePolicyStr dir) arn (deletePolicyCacheEntry arn ?m))"
      using h arn by (simp add: fileUpdated_def callback_arn_path)
    then show ?thesis using store_inv_get [OF del] by simp
  next
    case (EvRemove p)
    let ?d = "deletePolicyCacheEntry arn ?m"
    have m': "m' = upd_world (restartWatching (getPolicyPath dir arn)) ?d"
      using EvRemove h arn by (simp add: fileDeleted_def callback_arn_path)
    have "cache_ok T dir (pm_templates ?d) (restartWatching (getPolicyPath dir arn) (pm_world ?d))"
      using del by (intro cache_ok_restart) (simp_all add: store_inv_def deletePolicyCacheEntry_templates)
    moreover have "only_policies dir (restartWatching (getPolicyPath dir arn) (pm_world ?d))"
      using del by (auto simp: store_inv_def only_policies_def restartWatching_facts)
    ultimately show ?thesis by (simp add: m' store_inv_def upd_world_def)
  next
    case (EvRename p)
    have m': "m' = ?m" using EvRename h by simp
    have "cache_ok T dir (pm_templates ?m) (pm_world ?m)"
      using inv ev EvRename by (auto simp: store_inv_def cache_ok_def world event_pending_def template_of_file_def local_content_def)
    then show ?thesis using only by (simp add: m' store_inv_def)
  qed
qed

lemma store_inv_write: "store_inv T dir m \<Longrightarrow> store_inv T dir (upd_world (fs_write p c) m)"
  by (auto simp: store_inv_def cache_ok_def only_policies_def upd_world_def fs_write_def event_pending_def
      template_of_file_def local_content_def go_map)

lemma store_inv_remove: "store_inv T dir m \<Longrightarrow> store_inv T dir (upd_world (fs_remove p) m)"
  by (auto simp: store_inv_def cache_ok_def only_policies_def upd_world_def fs_remove_def event_pending_def
      template_of_file_def local_content_def go_map)

lemma store_inv_rename:
  assumes "store_inv T dir m" and "p \<notin> set (lf_watched (pm_world m))"
  shows "store_inv T dir (upd_world (fs_rename p q c) m)"
  using assms
  by (auto simp: store_inv_def cache_ok_def only_policies_def upd_world_def fs_rename_def fs_remove_def event_pending_def
      template_of_file_def local_content_def go_map Let_def)

section \<open>Properties\<close>

text \<open>C29. The file of a role lies right in the policy directory whatever the role's name holds (its
  name has no separator), no two roles share a file, and the role is read back from the file's
  path exactly.\<close>

theorem policy_path_faithful:
  "getPolicyArn dir (getPolicyPath dir arn) = Ok arn
   \<and> (\<exists>n. getPolicyPath dir arn = dir @ ''/'' @ n \<and> CHR ''/'' \<notin> set n)
   \<and> (getPolicyPath dir arn = getPolicyPath dir arn' \<longleftrightarrow> arn = arn')"
proof (intro conjI)
  show "getPolicyArn dir (getPolicyPath dir arn) = Ok arn" by (rule getPolicyArn_getPolicyPath)
  show "\<exists>n. getPolicyPath dir arn = dir @ ''/'' @ n \<and> CHR ''/'' \<notin> set n"
    using B32_no_slash by (intro exI [of _ "B32 arn @ policySuffix"]) (simp add: getPolicyPath_def getPolicyPathPrefix_def policySuffix_def)
  show "getPolicyPath dir arn = getPolicyPath dir arn' \<longleftrightarrow> arn = arn'" using getPolicyPath_inj by blast
qed

lemma store_inv_step: "store_step T dir False m m' \<Longrightarrow> store_inv T dir m \<Longrightarrow> store_inv T dir m'"
  by (erule store_step.cases)
    (auto intro: store_inv_get store_inv_write store_inv_remove store_inv_rename store_inv_event)

definition unwatched :: "(string \<times> string) list \<Rightarrow> local_files" where
  "unwatched fs = \<lparr>lf_files = fs, lf_watched = [], lf_events = []\<rparr>"

lemma store_inv_reachable:
  assumes "(store_step T dir False)\<^sup>*\<^sup>* (NewPolicyManager (unwatched fs)) m"
  shows "store_inv T dir m"
  using assms
proof (induction rule: rtranclp_induct)
  case base
  show ?case by (simp add: store_inv_def cache_ok_def only_policies_def NewPolicyManager_def unwatched_def)
qed (rule store_inv_step)

lemma GetPolicy_current:
  assumes "(store_step T dir False)\<^sup>*\<^sup>* (NewPolicyManager (unwatched fs)) m"
    and "\<not> event_pending (getPolicyPath dir arn) (pm_world m)"
  shows "fst (GetPolicy T (retrievePolicyStr dir) arn d m) = Ok p \<longleftrightarrow>
    (\<exists>s t. local_content dir (pm_world m) arn = Some s \<and> tmpl_Parse T arn s = Ok t \<and> tmpl_Execute T t d = Ok p)"
proof (cases "map_of (pm_templates m) arn")
  case (Some t)
  have "template_of_file T dir arn (pm_world m) t"
    using store_inv_reachable [OF assms(1)] assms(2) Some by (auto simp: store_inv_def cache_ok_def)
  then show ?thesis using Some
    by (auto simp: GetPolicy_def getPolicyTemplate_def getPolicyTemplateFromCache_def template_of_file_def)
next
  case None
  then show ?thesis
    by (auto simp: GetPolicy_def getPolicyTemplate_def getPolicyTemplateFromCache_def split_def Let_def go_bind_Ok_iff
        local_dir.retrieve_content)
qed


text \<open>Templates that are their own text, for the witnesses.\<close>

definition text_templates :: "string tmpl_lib" where
  "text_templates = \<lparr>tmpl_Parse = \<lambda>_ s. Ok s, tmpl_Execute = \<lambda>t _. Ok t\<rparr>"

abbreviation role_file :: string where
  "role_file \<equiv> getPolicyPath ''policies'' ''r''"

definition cached_role :: "string local_manager" where
  "cached_role = snd (getPolicyTemplate text_templates (retrievePolicyStr ''policies'') ''r''
     (NewPolicyManager (unwatched [(role_file, ''old'')])))"

lemma cached_role_eq:
  "cached_role = \<lparr>pm_templates = [(''r'', ''old'')],
     pm_world = \<lparr>lf_files = [(role_file, ''old'')], lf_watched = [role_file], lf_events = []\<rparr>\<rparr>"
  by (simp add: cached_role_def getPolicyTemplate_def getPolicyTemplateFromCache_def NewPolicyManager_def unwatched_def
      retrievePolicyStr_def startWatching_def ReadFileFull_def text_templates_def Let_def)

definition rewritten_role :: "string local_manager" where
  "rewritten_role = \<lparr>pm_templates = [(''r'', ''new'')],
     pm_world = \<lparr>lf_files = [(role_file, ''new'')], lf_watched = [role_file], lf_events = []\<rparr>\<rparr>"

lemma rewritten_role_reached:
  "(store_step text_templates ''policies'' False)\<^sup>*\<^sup>* (NewPolicyManager (unwatched [(role_file, ''old'')])) rewritten_role"
proof -
  let ?S = "store_step text_templates ''policies'' False"
  let ?m = "upd_world (fs_write role_file ''new'') cached_role"
  have get: "?S (NewPolicyManager (unwatched [(role_file, ''old'')])) cached_role"
    unfolding cached_role_def by (rule store_step.get)
  have written: "?S cached_role ?m" by (rule store_step.file_written)
  have delivered: "?S ?m rewritten_role"
  proof (rule store_step.event)
    show "lf_events (pm_world ?m) = EvWrite role_file # []" by (simp add: upd_world_def fs_write_def cached_role_eq)
    show "handle_event text_templates ''policies'' (EvWrite role_file) (upd_world (\<lambda>w. w\<lparr>lf_events := []\<rparr>) ?m) = Ok rewritten_role"
      by (simp add: fileUpdated_def callback_arn_path deletePolicyCacheEntry_def upd_world_def fs_write_def cached_role_eq
          getPolicyTemplate_def getPolicyTemplateFromCache_def retrievePolicyStr_def startWatching_def ReadFileFull_def
          text_templates_def rewritten_role_def Let_def)
  qed
  from get written delivered show ?thesis
    by (meson converse_rtranclp_into_rtranclp rtranclp.rtrancl_refl)
qed


text \<open>A policy file that is moved away keeps its effect: the watcher ignores the rename event
  and the watch is gone, so the state that follows has no file, no event and no watch for the role,
  yet the role still has its old policy.\<close>

theorem moved_policy_stays:
  "\<exists>m. (store_step text_templates ''policies'' True)\<^sup>*\<^sup>* (NewPolicyManager (unwatched [(role_file, ''old'')])) m
     \<and> local_content ''policies'' (pm_world m) ''r'' = None \<and> lf_events (pm_world m) = [] \<and> lf_watched (pm_world m) = []
     \<and> (\<forall>d. fst (GetPolicy text_templates (retrievePolicyStr ''policies'') ''r'' d m) = Ok ''old'')"
proof -
  let ?S = "store_step text_templates ''policies'' True"
  let ?m = "upd_world (fs_rename role_file [] ''old'') cached_role"
  let ?e = "upd_world (\<lambda>w. w\<lparr>lf_events := []\<rparr>) ?m"
  have ne: "role_file \<noteq> []" by (simp add: getPolicyPath_def getPolicyPathPrefix_def)
  have get: "?S (NewPolicyManager (unwatched [(role_file, ''old'')])) cached_role"
    unfolding cached_role_def by (rule store_step.get)
  have moved: "?S cached_role ?m" using ne by (intro store_step.file_renamed) (simp_all add: cached_role_eq)
  have delivered: "?S ?m ?e"
    by (rule store_step.event [where e = "EvRename role_file" and es = "[]"])
      (use ne in \<open>simp_all add: upd_world_def fs_rename_def fs_remove_def cached_role_eq Let_def\<close>)
  from get moved delivered have "?S\<^sup>*\<^sup>* (NewPolicyManager (unwatched [(role_file, ''old'')])) ?e"
    by (meson converse_rtranclp_into_rtranclp rtranclp.rtrancl_refl)
  moreover have "local_content ''policies'' (pm_world ?e) ''r'' = None \<and> lf_events (pm_world ?e) = [] \<and> lf_watched (pm_world ?e) = []
     \<and> (\<forall>d. fst (GetPolicy text_templates (retrievePolicyStr ''policies'') ''r'' d ?e) = Ok ''old'')"
    using ne by (simp add: upd_world_def fs_rename_def fs_remove_def cached_role_eq Let_def local_content_def go_map
        GetPolicy_def getPolicyTemplate_def getPolicyTemplateFromCache_def text_templates_def)
  ultimately show ?thesis by blast
qed

text \<open>A policy manager that starts has every policy of its directory: each role with a file
  has a cached template, that of the file's content; one file that does not parse keeps the
  server from starting.\<close>

theorem NewPolicyManager_prewarmed:
  assumes "NewPolicyManagerForLocalPolicies T dir w = Ok m" and "local_content dir w arn = Some s"
  shows "\<exists>t. map_of (pm_templates m) arn = Some t \<and> tmpl_Parse T arn s = Ok t"
proof -
  have "PreWarm T (retrievePolicyStr dir) (retrieveAllIdentifiers dir) (NewPolicyManager w) = (Ok (), m)"
    using assms(1) by (auto simp: NewPolicyManagerForLocalPolicies_def split_def Let_def go_bind_Ok_iff prod_eq_iff)
  then show ?thesis using assms(2) by (rule local_dir.PreWarm_all)
qed

lemma NewPolicyManager_prewarmed_witness:
  "\<exists>m. NewPolicyManagerForLocalPolicies text_templates ''policies'' (unwatched [(role_file, ''old'')]) = Ok m
     \<and> map_of (pm_templates m) ''r'' = Some ''old''"
proof -
  let ?w = "unwatched [(role_file, ''old'')]"
  have "glob_policies ''policies'' ?w = [role_file]"
    by (simp add: glob_policies_def unwatched_def safe_policy_name_path B32_no_slash Let_def) (simp add: getPolicyPath_def)
  then have "retrieveAllIdentifiers ''policies'' ?w = Ok [''r'']"
    by (simp add: retrieveAllIdentifiers_def safe_policy_name_path B32Decode_B32)
  moreover have "getPolicyTemplate text_templates (retrievePolicyStr ''policies'') ''r'' (NewPolicyManager ?w) = (Ok ''old'', cached_role)"
    unfolding cached_role_eq
    by (simp add: getPolicyTemplate_def getPolicyTemplateFromCache_def NewPolicyManager_def unwatched_def
      retrievePolicyStr_def startWatching_def ReadFileFull_def text_templates_def Let_def)
  ultimately have new: "NewPolicyManagerForLocalPolicies text_templates ''policies'' ?w = Ok cached_role"
    by (simp add: NewPolicyManagerForLocalPolicies_def PreWarm_def) (simp add: NewPolicyManager_def)
  have "local_content ''policies'' ?w ''r'' = Some ''old''" by (simp add: local_content_def unwatched_def)
  from NewPolicyManager_prewarmed [OF new this] new show ?thesis by (auto simp: text_templates_def)
qed

end
