(* ===== verification/Backends.thy ===== *)
theory Backends
  imports Credentials Request_Utils Enums
begin

text \<open>
  The backends of the proxy: \<^verbatim>\<open>aws/service/s3/backendconfig.go\<close>, the interfaces of
  \<^verbatim>\<open>s3/interfaces/backends.go\<close>, and the path functions it needs (\<^verbatim>\<open>package path\<close>,
  \<^verbatim>\<open>utils/file.go\<close>). The YAML decoder is the parameter \<open>yaml_lib\<close>; an
  \<^verbatim>\<open>any\<close> value of the decoded file is the datatype \<open>yaml_any\<close>.
\<close>

section \<open>Paths\<close>

fun clean_parts :: "bool \<Rightarrow> string list \<Rightarrow> string list \<Rightarrow> string list" where
  "clean_parts rooted [] acc = rev acc"
| "clean_parts rooted (p # ps) acc =
     (if p = [] \<or> p = ''.'' then clean_parts rooted ps acc
      else if p = ''..'' then
        (if acc \<noteq> [] \<and> hd acc \<noteq> ''..'' then clean_parts rooted ps (tl acc)
         else if rooted then clean_parts rooted ps acc
         else clean_parts rooted ps (''..'' # acc))
      else clean_parts rooted ps (p # acc))"

definition path_IsAbs :: "string \<Rightarrow> bool" where
  "path_IsAbs p = has_prefix p ''/''"

definition path_Clean :: "string \<Rightarrow> string" where
  "path_Clean p =
     (if p = [] then ''.''
      else let r = path_IsAbs p; s = str_join ''/'' (clean_parts r (str_split ''/'' p) []) in
        if r then CHR ''/'' # s else if s = [] then ''.'' else s)"

definition path_Join :: "string \<Rightarrow> string \<Rightarrow> string" where
  "path_Join a b =
     (case filter (\<lambda>x. x \<noteq> []) [a, b] of [] \<Rightarrow> [] | xs \<Rightarrow> path_Clean (str_join ''/'' xs))"

definition path_Base :: "string \<Rightarrow> string" where
  "path_Base p =
     (if p = [] then ''.''
      else let s = rev (dropWhile (\<lambda>c. c = CHR ''/'') (rev p));
               b = rev (takeWhile (\<lambda>c. c \<noteq> CHR ''/'') (rev s)) in
        if b = [] then ''/'' else b)"

definition GetFilenameAndRelativePath :: "string \<Rightarrow> string \<times> string" where
  "GetFilenameAndRelativePath fullFilename =
     (let filename = path_Base fullFilename in (filename, trim_suffix fullFilename filename))"

section \<open>The configuration file\<close>

datatype yaml_any = YStr string | YMap "(string \<times> yaml_any) list" | YOther

record backendConfigFileEntry =
  bf_RegionName :: string
  bf_Credentials :: "(string \<times> yaml_any) list"
  bf_Endpoint :: string
  bf_Capabilities :: "string list"

record backendsConfigFile =
  bcf_Backends :: "backendConfigFileEntry list"
  bcf_Default :: string

record awsBackendCredentialFile =
  cf_AccessKey :: string
  cf_SecretKey :: string
  cf_SessionToken :: string

record yaml_lib =
  y_backends :: "string \<Rightarrow> backendsConfigFile result"
  y_credentials :: "string \<Rightarrow> awsBackendCredentialFile result"
  y_buckets :: "string \<Rightarrow> string list result"

definition lookupString :: "(string \<times> yaml_any) list \<Rightarrow> string \<Rightarrow> string" where
  "lookupString m key = (case map_of m key of Some (YStr s) \<Rightarrow> s | _ \<Rightarrow> [])"

definition backend_credentials :: "string \<Rightarrow> string \<Rightarrow> string \<Rightarrow> bool \<Rightarrow> aws_Credentials" where
  "backend_credentials ak sk st canExpire =
     \<lparr>aws_AccessKeyID = ak, aws_SecretAccessKey = sk, aws_SessionToken = st, aws_CanExpire = canExpire,
      aws_Expires = zero_time, aws_Source = [], aws_AccountID = []\<rparr>"

definition credentials_from_file :: "yaml_lib \<Rightarrow> string \<Rightarrow> aws_Credentials result" where
  "credentials_from_file Y buf =
     (case y_credentials Y buf of
        Err _ \<Rightarrow> Err (Plain ''error unmarshalling file'')
      | Panic m \<Rightarrow> Panic m
      | Ok c \<Rightarrow>
          if cf_AccessKey c = [] then Err (Plain ''invalid credentials file, missing access key'')
          else if cf_SecretKey c = [] then Err (Plain ''invalid credentials file, missing secret key'')
          else Ok (backend_credentials (cf_AccessKey c) (cf_SecretKey c) (cf_SessionToken c) (cf_SessionToken c \<noteq> [])))"

text \<open>\<^verbatim>\<open>getCredentials\<close>: a credentials file, resolved against the directory of the
  configuration, or inline credentials.\<close>

definition getCredentials ::
  "yaml_lib \<Rightarrow> (string \<rightharpoonup> string) \<Rightarrow> backendConfigFileEntry \<Rightarrow> string \<Rightarrow> aws_Credentials result" where
  "getCredentials Y fs entry relativepath =
     (case map_of (bf_Credentials entry) ''file'' of
        Some (YStr filePath0) \<Rightarrow>
          (let filePath = (if \<not> path_IsAbs filePath0 then path_Join relativepath filePath0 else filePath0) in
           case fs filePath of
             None \<Rightarrow> Err (Plain (''could not read credentials file '' @ filePath))
           | Some buf \<Rightarrow> credentials_from_file Y buf)
      | Some _ \<Rightarrow> Err (Plain ''When providing a credential file it must be a string'')
      | None \<Rightarrow>
          (case map_of (bf_Credentials entry) ''inline'' of
             Some (YMap inlineMap) \<Rightarrow>
               (let accessKey = lookupString inlineMap ''aws_access_key_id'';
                    secretKey = lookupString inlineMap ''aws_secret_access_key'';
                    sessionToken = lookupString inlineMap ''aws_session_token'' in
                if accessKey = [] then Err (Plain ''Must have a non empty access key'')
                else if secretKey = [] then Err (Plain ''Must have a non empty secret key'')
                else Ok (backend_credentials accessKey secretKey sessionToken False))
           | Some _ \<Rightarrow> Err (Plain ''When providing inline credentials a map must be provided.'')
           | None \<Rightarrow> Err (Plain ''unable to find a valid type of credentials'')))"

type_synonym endpoint = string

definition buildEndpoint :: "string \<Rightarrow> endpoint result" where
  "buildEndpoint uri =
     (if \<not> has_prefix uri ''https://'' \<and> \<not> has_prefix uri ''http://''
      then Err (Plain ''endpoint URIs must start with https:// or http://'') else Ok uri)"

definition GetHost :: "endpoint \<Rightarrow> string result" where
  "GetHost e = go_index (str_split ''://'' e) 1"

definition GetBaseURI :: "endpoint \<Rightarrow> string" where
  "GetBaseURI e = e"

record backendConfigEntry =
  be_credentials :: aws_Credentials
  be_endpoint :: endpoint
  be_capabilities :: "s3_capability list"

fun typed_capabilities :: "string list \<Rightarrow> s3_capability list result" where
  "typed_capabilities [] = Ok []"
| "typed_capabilities (capability # rest) =
     (case S3CapabilityLookup capability of
        None \<Rightarrow> Err (Plain (''unknown capability: '' @ capability))
      | Some c \<Rightarrow> go_bind (typed_capabilities rest) (\<lambda>cs. Ok (c # cs)))"

text \<open>The error of the credentials is returned last, after the capabilities were checked.\<close>

definition fromBackendConfigFileEntry ::
  "yaml_lib \<Rightarrow> (string \<rightharpoonup> string) \<Rightarrow> backendConfigFileEntry \<Rightarrow> string \<Rightarrow> backendConfigEntry result" where
  "fromBackendConfigFileEntry Y fs input relativepath =
     go_bind (buildEndpoint (bf_Endpoint input)) (\<lambda>endpoint.
       (case getCredentials Y fs input relativepath of
          Panic m \<Rightarrow> Panic m
        | creds \<Rightarrow>
            go_bind (typed_capabilities (bf_Capabilities input)) (\<lambda>caps.
            go_bind creds (\<lambda>awsCredentials.
              Ok \<lparr>be_credentials = awsCredentials, be_endpoint = endpoint, be_capabilities = caps\<rparr>))))"

record backendsConfig =
  backends :: "(string \<times> backendConfigEntry) list"
  defaultBackend :: string
  invalidRegionToDefaultRegion :: bool

fun load_backends ::
  "yaml_lib \<Rightarrow> (string \<rightharpoonup> string) \<Rightarrow> string \<Rightarrow> backendConfigFileEntry list \<Rightarrow>
   (string \<times> backendConfigEntry) list \<Rightarrow> (string \<times> backendConfigEntry) list result" where
  "load_backends Y fs relativepath [] acc = Ok acc"
| "load_backends Y fs relativepath (backendRawCfg # rest) acc =
     (case fromBackendConfigFileEntry Y fs backendRawCfg relativepath of
        Err e \<Rightarrow> Err (Plain (''invalid config resulted in '' @ err_Error e))
      | Panic m \<Rightarrow> Panic m
      | Ok backendCfg \<Rightarrow>
          load_backends Y fs relativepath rest (AList.update (bf_RegionName backendRawCfg) backendCfg acc))"

definition getBackendsConfigFromBytes ::
  "yaml_lib \<Rightarrow> (string \<rightharpoonup> string) \<Rightarrow> string \<Rightarrow> bool \<Rightarrow> string \<Rightarrow> backendsConfig result" where
  "getBackendsConfigFromBytes Y fs inputBytes legacyBehavior relativepath =
     go_bind (y_backends Y inputBytes) (\<lambda>c.
     go_bind (load_backends Y fs relativepath (bcf_Backends c) []) (\<lambda>result.
       if map_of result (bcf_Default c) = None then
         Err (Plain (''default backend '' @ bcf_Default c @ '' does not exist''))
       else Ok \<lparr>backends = result, defaultBackend = bcf_Default c, invalidRegionToDefaultRegion = legacyBehavior\<rparr>))"

definition getBackendsConfig ::
  "yaml_lib \<Rightarrow> (string \<rightharpoonup> string) \<Rightarrow> string \<Rightarrow> bool \<Rightarrow> backendsConfig result" where
  "getBackendsConfig Y fs filename legacyBehavior =
     go_bind (ReadFileFull fs filename) (\<lambda>buf.
       getBackendsConfigFromBytes Y fs buf legacyBehavior (snd (GetFilenameAndRelativePath filename)))"

section \<open>Looking a backend up\<close>

definition errInvalidBackendErr :: gerr where
  "errInvalidBackendErr = Sentinel ''invalid BackendId''"

definition effective_id :: "backendsConfig \<Rightarrow> string \<Rightarrow> string" where
  "effective_id cfg backendId = (if backendId = [] then defaultBackend cfg else backendId)"

text \<open>None is the nil configuration.\<close>

function getBackendConfig :: "backendsConfig option \<Rightarrow> string \<Rightarrow> backendConfigEntry result" where
  "getBackendConfig None backendId = Err (Plain ''backendsConfig not initialised'')"
| "getBackendConfig (Some cfg) backendId =
     (case map_of (backends cfg) (effective_id cfg backendId) of
        Some backendCfg \<Rightarrow> Ok backendCfg
      | None \<Rightarrow>
          if invalidRegionToDefaultRegion cfg \<and> effective_id cfg backendId \<noteq> defaultBackend cfg
          then getBackendConfig (Some cfg) (defaultBackend cfg)
          else Err errInvalidBackendErr)"
  by pat_completeness auto
termination
  by (relation "measure (\<lambda>(c, b). case c of None \<Rightarrow> 0 | Some cfg \<Rightarrow>
        if effective_id cfg b \<noteq> defaultBackend cfg then 1 else 0)")
    (auto simp: effective_id_def)

declare getBackendConfig.simps(2) [simp del]

definition HasCapability :: "backendsConfig option \<Rightarrow> string \<Rightarrow> s3_capability \<Rightarrow> bool" where
  "HasCapability cfg backendId capability =
     (case getBackendConfig cfg backendId of
        Ok backendCfg \<Rightarrow> capability \<in> set (be_capabilities backendCfg)
      | _ \<Rightarrow> False)"

definition GetBackendCredentials :: "backendsConfig option \<Rightarrow> string \<Rightarrow> aws_Credentials result" where
  "GetBackendCredentials cfg backendId =
     go_bind (getBackendConfig cfg backendId) (\<lambda>backendCfg. Ok (be_credentials backendCfg))"

definition GetBackendEndpoint :: "backendsConfig option \<Rightarrow> string \<Rightarrow> endpoint result" where
  "GetBackendEndpoint cfg backendId =
     go_bind (getBackendConfig cfg backendId) (\<lambda>backendCfg. Ok (be_endpoint backendCfg))"

definition GetDefaultBackend :: "backendsConfig \<Rightarrow> string" where
  "GetDefaultBackend cfg = defaultBackend cfg"

definition GetBackendCredentials_file ::
  "yaml_lib \<Rightarrow> (string \<rightharpoonup> string) \<Rightarrow> string \<Rightarrow> string \<Rightarrow> aws_Credentials result" where
  "GetBackendCredentials_file Y fs cfgFilePath backendId =
     go_bind (getBackendsConfig Y fs cfgFilePath True) (\<lambda>cfg. GetBackendCredentials (Some cfg) backendId)"

section \<open>The interface the proxy uses\<close>

text \<open>\<^verbatim>\<open>BackendManager\<close>: the endpoint and the credentials of a backend are known together,
  endpoints have a host, and only known backends have capabilities.\<close>

definition endpoint_ok :: "endpoint \<Rightarrow> bool" where
  "endpoint_ok ep = (has_prefix ep ''https://'' \<or> has_prefix ep ''http://'')"

locale backend_manager =
  fixes inv :: "'s \<Rightarrow> bool"
    and endpoint_of :: "'s \<Rightarrow> string \<Rightarrow> endpoint result"
    and credentials_of :: "'s \<Rightarrow> string \<Rightarrow> aws_Credentials result"
    and has_capability :: "'s \<Rightarrow> string \<Rightarrow> s3_capability \<Rightarrow> bool"
    and default_of :: "'s \<Rightarrow> string"
  assumes outcome: "inv s \<Longrightarrow> (\<exists>ep c. endpoint_of s b = Ok ep \<and> endpoint_ok ep \<and> credentials_of s b = Ok c) \<or>
      (endpoint_of s b = Err errInvalidBackendErr \<and> credentials_of s b = Err errInvalidBackendErr)"
    and default_known: "inv s \<Longrightarrow> is_ok (endpoint_of s (default_of s))"
    and capability_known: "inv s \<Longrightarrow> has_capability s b c \<Longrightarrow> is_ok (endpoint_of s b)"
begin

lemma credentials_after_endpoint:
  "inv s \<Longrightarrow> endpoint_of s b = Ok ep \<Longrightarrow> endpoint_ok ep \<and> (\<exists>c. credentials_of s b = Ok c)"
  using outcome [of s b] by auto

lemma endpoint_no_panic: "inv s \<Longrightarrow> endpoint_of s b \<noteq> Panic m"
  using outcome [of s b] by auto

end

text \<open>What the loader of the configuration establishes.\<close>

definition wf_backends :: "backendsConfig \<Rightarrow> bool" where
  "wf_backends cfg =
     (map_of (backends cfg) (defaultBackend cfg) \<noteq> None \<and>
      (\<forall>b \<in> set (backends cfg). endpoint_ok (be_endpoint (snd b))))"

lemma getBackendConfig_char:
  assumes "wf_backends cfg"
  shows "getBackendConfig (Some cfg) b =
    (case map_of (backends cfg) (effective_id cfg b) of
       Some e \<Rightarrow> Ok e
     | None \<Rightarrow> if invalidRegionToDefaultRegion cfg then Ok (the (map_of (backends cfg) (defaultBackend cfg)))
               else Err errInvalidBackendErr)"
proof -
  obtain d where d: "map_of (backends cfg) (defaultBackend cfg) = Some d"
    using assms by (auto simp: wf_backends_def)
  have "effective_id cfg (defaultBackend cfg) = defaultBackend cfg" by (simp add: effective_id_def)
  then have "getBackendConfig (Some cfg) (defaultBackend cfg) = Ok d"
    using d by (simp add: getBackendConfig.simps(2))
  then show ?thesis using d
    by (auto simp: getBackendConfig.simps(2) [of cfg b] split: option.split)
qed

lemma getBackendConfig_entry:
  assumes "wf_backends cfg" and "getBackendConfig (Some cfg) b = Ok e"
  shows "endpoint_ok (be_endpoint e)"
proof -
  have "\<exists>k. map_of (backends cfg) k = Some e"
    using assms by (auto simp: getBackendConfig_char wf_backends_def split: option.splits if_splits)
  then show ?thesis using assms(1) by (force simp: wf_backends_def dest: map_of_SomeD)
qed

interpretation cfg_backends: backend_manager wf_backends "\<lambda>cfg. GetBackendEndpoint (Some cfg)"
  "\<lambda>cfg. GetBackendCredentials (Some cfg)" "\<lambda>cfg. HasCapability (Some cfg)" GetDefaultBackend
proof unfold_locales
  fix cfg b assume wf: "wf_backends cfg"
  show "(\<exists>ep c. GetBackendEndpoint (Some cfg) b = Ok ep \<and> endpoint_ok ep \<and> GetBackendCredentials (Some cfg) b = Ok c) \<or>
      (GetBackendEndpoint (Some cfg) b = Err errInvalidBackendErr \<and> GetBackendCredentials (Some cfg) b = Err errInvalidBackendErr)"
  proof (cases "getBackendConfig (Some cfg) b")
    case (Ok e)
    then show ?thesis using getBackendConfig_entry [OF wf]
      by (simp add: GetBackendEndpoint_def GetBackendCredentials_def)
  qed (use wf in \<open>auto simp: GetBackendEndpoint_def GetBackendCredentials_def getBackendConfig_char
      split: option.splits if_splits\<close>)
next
  fix cfg assume wf: "wf_backends cfg"
  then show "is_ok (GetBackendEndpoint (Some cfg) (GetDefaultBackend cfg))"
    by (auto simp: GetBackendEndpoint_def GetDefaultBackend_def getBackendConfig_char effective_id_def wf_backends_def)
next
  fix cfg b c assume "HasCapability (Some cfg) b c"
  then show "is_ok (GetBackendEndpoint (Some cfg) b)"
    by (auto simp: HasCapability_def GetBackendEndpoint_def split: go.splits)
qed

lemma load_backends_endpoints:
  assumes "load_backends Y fs rel es acc = Ok result" and "\<forall>b \<in> set acc. endpoint_ok (be_endpoint (snd b))"
  shows "\<forall>b \<in> set result. endpoint_ok (be_endpoint (snd b))"
  using assms
proof (induction es arbitrary: acc)
  case (Cons e es)
  then obtain c where c: "fromBackendConfigFileEntry Y fs e rel = Ok c"
    "load_backends Y fs rel es (AList.update (bf_RegionName e) c acc) = Ok result"
    by (auto split: go.splits)
  have "endpoint_ok (be_endpoint c)"
    using c(1) by (cases "getCredentials Y fs e rel")
      (auto simp: fromBackendConfigFileEntry_def go_bind_Ok_iff buildEndpoint_def endpoint_ok_def split: if_splits)
  then have "\<forall>b \<in> set (AList.update (bf_RegionName e) c acc). endpoint_ok (be_endpoint (snd b))"
    using Cons.prems(2) set_update_subset [of "bf_RegionName e" c acc] by auto
  then show ?case by (rule Cons.IH [OF c(2)])
qed simp

lemma getBackendsConfig_wf:
  assumes "getBackendsConfigFromBytes Y fs bs legacy rel = Ok cfg"
  shows "wf_backends cfg \<and> invalidRegionToDefaultRegion cfg = legacy"
proof -
  from assms [unfolded getBackendsConfigFromBytes_def go_bind_Ok_iff]
  obtain c :: backendsConfigFile and result where c: "load_backends Y fs rel (bcf_Backends c) [] = Ok result"
    and r: "(if map_of result (bcf_Default c) = None then
         Err (Plain (''default backend '' @ bcf_Default c @ '' does not exist''))
       else Ok \<lparr>backends = result, defaultBackend = bcf_Default c, invalidRegionToDefaultRegion = legacy\<rparr>) = Ok cfg"
    by blast
  from r have "map_of result (bcf_Default c) \<noteq> None"
    "cfg = \<lparr>backends = result, defaultBackend = bcf_Default c, invalidRegionToDefaultRegion = legacy\<rparr>"
    by (simp_all split: if_splits)
  then show ?thesis using c load_backends_endpoints [of Y fs rel "bcf_Backends c" "[]" result]
    by (simp add: wf_backends_def)
qed

text \<open>The host of an accepted endpoint: what stands between the scheme and the next separator.\<close>

lemma GetHost_scheme:
  assumes "sch = ''http'' \<or> sch = ''https''"
  shows "GetHost (sch @ ''://'' @ h) = Ok (hd (str_split ''://'' h))"
proof -
  have "str_split ''://'' (sch @ ''://'' @ h) = sch # str_split ''://'' h"
    using assms by (elim disjE) (subst str_split.simps, simp)+
  moreover obtain x xs where "str_split ''://'' h = x # xs"
    using str_split_not_Nil [of "''://''" h] by (cases "str_split ''://'' h") simp_all
  ultimately show ?thesis by (simp add: GetHost_def go_index_def)
qed

lemma endpoint_okE:
  assumes "endpoint_ok ep"
  obtains sch h where "sch = ''http'' \<or> sch = ''https''" "ep = sch @ ''://'' @ h"
proof -
  obtain h where "ep = ''https'' @ ''://'' @ h \<or> ep = ''http'' @ ''://'' @ h"
    using assms by (auto simp: endpoint_ok_def has_prefix_def prefix_def)
  then show ?thesis using that [of "''https''" h] that [of "''http''" h] by blast
qed

lemma GetHost_ok:
  assumes "endpoint_ok ep"
  shows "\<exists>host. GetHost ep = Ok host"
proof -
  obtain sch h where "sch = ''http'' \<or> sch = ''https''" "ep = sch @ ''://'' @ h"
    using assms by (rule endpoint_okE)
  then show ?thesis using GetHost_scheme by blast
qed


text \<open>A concrete decoder and file system for the witness.\<close>

definition toy_entry :: backendConfigFileEntry where
  "toy_entry = \<lparr>bf_RegionName = ''eu'',
     bf_Credentials = [(''inline'', YMap [(''aws_access_key_id'', YStr ''ak''), (''aws_secret_access_key'', YStr ''sk'')])],
     bf_Endpoint = ''https://s3.eu'', bf_Capabilities = []\<rparr>"

definition toy_yaml :: yaml_lib where
  "toy_yaml = \<lparr>y_backends = \<lambda>_. Ok \<lparr>bcf_Backends = [toy_entry], bcf_Default = ''eu''\<rparr>,
     y_credentials = \<lambda>_. Err (Plain ''no''), y_buckets = \<lambda>_. Ok []\<rparr>"

definition toy_backends :: backendsConfig where
  "toy_backends = \<lparr>backends = [(''eu'', \<lparr>be_credentials = backend_credentials ''ak'' ''sk'' [] False,
     be_endpoint = ''https://s3.eu'', be_capabilities = []\<rparr>)],
     defaultBackend = ''eu'', invalidRegionToDefaultRegion = False\<rparr>"

lemma toy_backends_loaded: "getBackendsConfigFromBytes toy_yaml Map.empty [] False [] = Ok toy_backends"
  by (simp add: getBackendsConfigFromBytes_def toy_yaml_def toy_entry_def toy_backends_def
      fromBackendConfigFileEntry_def buildEndpoint_def has_prefix_def getCredentials_def lookupString_def)


end
