(* ===== verification/Middlewares.thy ===== *)
theory Middlewares
  imports Error_Responses
begin

text \<open>
  The generic handlers around a server: \<^verbatim>\<open>middleware/middleware.go\<close>,
  \<^verbatim>\<open>middleware/preroutinghandler.go\<close>, \<^verbatim>\<open>middleware/operation.go\<close>,
  \<^verbatim>\<open>middleware/healthcheck.go\<close> and \<^verbatim>\<open>middleware/observability.go\<close>. The metric vectors of the
  Prometheus client are maps from labels to values; sizes and durations are kept exact where the
  client library converts them to floating point.
\<close>

type_synonym handler = "hstate \<Rightarrow> hstate result"

section \<open>Chains\<close>

text \<open>The loop goes from the last middleware to the first.\<close>

definition Chain :: "('h \<Rightarrow> 'h) list \<Rightarrow> 'h \<Rightarrow> 'h" where
  "Chain mws h = (if length mws = 0 then h else fold (\<lambda>i h. (mws ! i) h) (rev [0..<length mws]) h)"

definition NewMiddlewarePrefixedHandler :: "('h \<Rightarrow> 'h) list \<Rightarrow> 'h \<Rightarrow> 'h" where
  "NewMiddlewarePrefixedHandler prefixMws h = fold (\<lambda>i h. (prefixMws ! i) h) (rev [0..<length prefixMws]) h"

lemma fold_rev_index: "fold (\<lambda>i h. (mws ! i) h) (rev [0..<length mws]) h = foldr (\<lambda>m h. m h) mws h"
proof -
  have "foldr (\<lambda>i h. (mws ! i) h) [0..<length mws] h = foldr (\<lambda>m h. m h) (map ((!) mws) [0..<length mws]) h"
    by (simp add: foldr_map o_def)
  then show ?thesis by (simp add: foldr_conv_fold map_nth)
qed

text \<open>The first middleware is the outermost: it runs first and decides whether the others do.\<close>

lemma Chain_foldr: "Chain mws h = foldr (\<lambda>m h. m h) mws h"
  unfolding Chain_def fold_rev_index by simp

lemma Chain_Nil: "Chain [] h = h"
  by (simp add: Chain_foldr)

lemma Chain_Cons: "Chain (m # mws) h = m (Chain mws h)"
  by (simp add: Chain_foldr)

lemma Chain_append: "Chain (a @ b) h = Chain a (Chain b h)"
  by (induction a) (simp_all add: Chain_Nil Chain_Cons)

lemma prefixed_Chain: "NewMiddlewarePrefixedHandler mws h = Chain mws h"
  unfolding NewMiddlewarePrefixedHandler_def Chain_foldr fold_rev_index by simp

definition mw_RegisterOperation :: "stringer \<Rightarrow> handler \<Rightarrow> handler" where
  "mw_RegisterOperation opr next_handler h = next_handler (SetOperation opr h)"

section \<open>Health checks\<close>

text \<open>A health check function: healthy or not, the body, an error if there was one.\<close>

record pathBasedHC =
  healthcheckPath :: string
  hc_method :: string
  healthCheckFunction :: "bool \<times> string \<times> gerr option"
  hc_lvl :: int

definition failHealthcheck :: "hstate \<Rightarrow> hstate result" where
  "failHealthcheck h = go_bind (w_WriteHeader 500 h) (\<lambda>h'. Ok (w_Write ''failed healthcheck'' h'))"

text \<open>There is no return after a failed check with an error: a second answer follows.\<close>

definition DoHealthcheckIfNeeded :: "pathBasedHC \<Rightarrow> hstate \<Rightarrow> (bool \<times> hstate) result" where
  "DoHealthcheckIfNeeded hc h =
     (if r_method (h_req h) \<noteq> hc_method hc then Ok (False, h)
      else if u_path (r_url (h_req h)) \<noteq> healthcheckPath hc then Ok (False, h)
      else let (isHealthy, okBody, err) = healthCheckFunction hc in
        go_bind (if err \<noteq> None then failHealthcheck h else Ok h) (\<lambda>h1.
        go_bind (if isHealthy then go_bind (w_WriteHeader 200 h1) (\<lambda>h2. Ok (w_Write okBody h2)) else failHealthcheck h1)
          (\<lambda>h2. Ok (True, h2))))"

definition NewPingPongHealthCheck :: "int \<Rightarrow> pathBasedHC" where
  "NewPingPongHealthCheck hcLogLevel = \<lparr>healthcheckPath = ''/ping'', hc_method = ''GET'',
     healthCheckFunction = (True, ''pong'', None), hc_lvl = hcLogLevel\<rparr>"

section \<open>Metrics\<close>

record metrics =
  requestsTotal :: "(string \<times> nat) list"
  requestDuration :: "(string \<times> int list) list"
  requestSize :: "(string \<times> nat) list"
  responseSize :: "(string \<times> nat) list"
  requestsFinished :: "((string \<times> string) \<times> nat) list"
  requestsFailed :: "(string \<times> nat) list"

definition counter :: "('l \<times> nat) list \<Rightarrow> 'l \<Rightarrow> nat" where
  "counter v l = (case map_of v l of None \<Rightarrow> 0 | Some n \<Rightarrow> n)"

definition counter_Add :: "'l \<Rightarrow> nat \<Rightarrow> ('l \<times> nat) list \<Rightarrow> ('l \<times> nat) list" where
  "counter_Add l n v = AList.update l (counter v l + n) v"

definition Observe :: "string \<Rightarrow> int \<Rightarrow> (string \<times> int list) list \<Rightarrow> (string \<times> int list) list" where
  "Observe l d v = AList.update l ((case map_of v l of None \<Rightarrow> [] | Some ds \<Rightarrow> ds) @ [d]) v"

definition UpdateMetricsStartRequest :: "string \<Rightarrow> metrics \<Rightarrow> metrics" where
  "UpdateMetricsStartRequest method v = v\<lparr>requestsTotal := counter_Add method 1 (requestsTotal v)\<rparr>"

text \<open>The error is a value of the interface \<^verbatim>\<open>fmt.Stringer\<close>: None is the nil interface.\<close>

definition UpdateMetricsEndRequest ::
  "string \<Rightarrow> string \<Rightarrow> nat \<Rightarrow> nat \<Rightarrow> int \<Rightarrow> stringer option \<Rightarrow> metrics \<Rightarrow> metrics" where
  "UpdateMetricsEndRequest method operation bytesReceived bytesSent duration err v =
     v\<lparr>requestDuration := Observe operation duration (requestDuration v),
       requestSize := counter_Add operation bytesReceived (requestSize v),
       responseSize := counter_Add operation bytesSent (responseSize v),
       requestsFinished := counter_Add (operation, method) 1 (requestsFinished v),
       requestsFailed := (case err of None \<Rightarrow> requestsFailed v
         | Some e \<Rightarrow> counter_Add (stringer_text e) 1 (requestsFailed v))\<rparr>"

section \<open>The metric vectors\<close>

text \<open>What \<^verbatim>\<open>GetPromVecs\<close> declares: a vector has a name and labels, and is nil when there is no
  registry. The instance is a package variable, made by the first call.\<close>

datatype prom_vec = CounterVec string "string list" | HistogramVec string "string list"

record promVecs =
  pv_requestsTotal :: "prom_vec option"
  pv_requestDuration :: "prom_vec option"
  pv_requestSize :: "prom_vec option"
  pv_responseSize :: "prom_vec option"
  pv_requestsFinished :: "prom_vec option"
  pv_requestsFailed :: "prom_vec option"

definition GetPromVecs :: "bool \<Rightarrow> promVecs option \<Rightarrow> promVecs \<times> promVecs option" where
  "GetPromVecs promReg promVecsInstance =
     (case promVecsInstance of
        Some inst \<Rightarrow> (inst, promVecsInstance)
      | None \<Rightarrow>
          (let vec = (\<lambda>x. if promReg then Some x else None);
               newInstance = \<lparr>pv_requestsTotal = vec (CounterVec ''http_requests_started_total'' [''method'']),
                 pv_requestDuration = vec (HistogramVec ''http_request_duration_seconds'' [''operation'']),
                 pv_requestSize = vec (CounterVec ''http_request_size_bytes'' [''operation'']),
                 pv_responseSize = vec (CounterVec ''http_response_size_bytes'' [''operation'']),
                 pv_requestsFinished = vec (CounterVec ''http_requests_finished_total'' [''method'', ''operation'']),
                 pv_requestsFailed = vec (CounterVec ''http_requests_failed_total'' [''code''])\<rparr> in
           (newInstance, Some newInstance)))"

text \<open>\<^verbatim>\<open>With\<close> panics on a nil vector and on labels other than the declared ones.\<close>

definition vec_With :: "prom_vec option \<Rightarrow> string list \<Rightarrow> unit result" where
  "vec_With vec labels =
     (case vec of None \<Rightarrow> Panic nil_deref
      | Some (CounterVec _ ls) \<Rightarrow> if set labels = set ls then Ok () else Panic ''inconsistent label cardinality''
      | Some (HistogramVec _ ls) \<Rightarrow> if set labels = set ls then Ok () else Panic ''inconsistent label cardinality'')"

text \<open>The vectors and labels that the two updates ask for.\<close>

definition start_vectors :: "promVecs \<Rightarrow> unit result" where
  "start_vectors v = vec_With (pv_requestsTotal v) [''method'']"

definition end_vectors :: "promVecs \<Rightarrow> bool \<Rightarrow> unit result" where
  "end_vectors v has_err =
     go_bind (vec_With (pv_requestDuration v) [''operation'']) (\<lambda>_.
     go_bind (vec_With (pv_requestSize v) [''operation'']) (\<lambda>_.
     go_bind (vec_With (pv_responseSize v) [''operation'']) (\<lambda>_.
     go_bind (vec_With (pv_requestsFinished v) [''operation'', ''method'']) (\<lambda>_.
       if has_err then vec_With (pv_requestsFailed v) [''code''] else Ok ()))))"

lemma vectors_declared:
  assumes "GetPromVecs True None = (v, inst)"
  shows "start_vectors v = Ok () \<and> end_vectors v e = Ok () \<and> GetPromVecs reg inst = (v, inst)"
  using assms by (auto simp: GetPromVecs_def start_vectors_def end_vectors_def vec_With_def Let_def)

text \<open>The first call decides: after one without a registry, one with a registry gets nil vectors.\<close>

lemma vectors_of_first_call: "start_vectors (fst (GetPromVecs True (snd (GetPromVecs False None)))) = Panic nil_deref"
  by (simp add: GetPromVecs_def start_vectors_def vec_With_def Let_def)

section \<open>The access log\<close>

datatype log_value = LString string | LInt int | LTime int | LUint "64 word" | LGroup log_attrs

type_synonym log_record = "(string \<times> log_value) list"

definition GetAccessLogInfo :: "RequestCtx \<Rightarrow> log_record" where
  "GetAccessLogInfo c = map (\<lambda>(groupName, groupAttrs). (groupName, LGroup groupAttrs)) (accessLogAttrs c)"

definition getRequestCtxLogAttrs :: "RequestCtx \<Rightarrow> log_record" where
  "getRequestCtxLogAttrs r =
     [(''StartTime'', LTime (Time r)), (''RemoteIP'', LString (RemoteIP r)), (''RequestURI'', LString (RequestURI r)),
      (''Referer'', LString (Referer r)), (''UserAgent'', LString (UserAgent r)), (''Host'', LString (Host r))]"

definition logFinalRequestDetails :: "int \<Rightarrow> int \<Rightarrow> RequestCtx \<Rightarrow> log_record" where
  "logFinalRequestDetails now startTime rCtx =
     getRequestCtxLogAttrs rCtx
     @ [(''Total ms'', LInt ((now - startTime) div 1000000)), (''Bytes sent'', LUint (BytesSent rCtx)),
        (''Bytes received'', LUint (BytesReceived rCtx)),
        (''Operation'', LString (case Operation rCtx of None \<Rightarrow> ''unknown'' | Some x \<Rightarrow> stringer_text x)),
        (''Error'', LString (stringer_text (Error rCtx))), (''HTTP status'', LInt (HTTPStatus rCtx)),
        (''Upstream HTTP status'', LInt (UpstreamHTTPStatus rCtx)),
        (''AuthType'', LString (AuthType_String (auth_iota (AuthType rCtx))))]
     @ GetAccessLogInfo rCtx"

text \<open>What one request leaves behind: the metrics, the level and the two records of the log, the
  final state. \<open>now\<close> is the time when the handler returns; \<open>reg\<close> says whether metrics are
  registered. Deferred functions that run while a panic passes through are not modelled.\<close>

record outcome =
  out_metrics :: metrics
  out_level :: int
  out_start :: log_record
  out_end :: log_record
  out_state :: hstate

definition LogMiddleware ::
  "(string \<Rightarrow> string) \<Rightarrow> string \<Rightarrow> int \<Rightarrow> int \<Rightarrow> int \<Rightarrow> pathBasedHC \<Rightarrow> bool \<Rightarrow> handler \<Rightarrow> metrics \<Rightarrow> request \<Rightarrow> response \<Rightarrow> outcome result" where
  "LogMiddleware up uuid startTime now requestLogLvl hc reg next_handler promVecs r w =
     (let rCtx = NewContextFromHttpRequestWithStartTime up uuid r startTime;
          h0 = \<lparr>h_req = r, h_ctx = Some rCtx, h_resp = w\<lparr>rs_tracked := True\<rparr>\<rparr> in
      go_bind (DoHealthcheckIfNeeded hc h0) (\<lambda>(wasHealthCheck, h1).
        let logLvl = (if wasHealthCheck then hc_lvl hc else requestLogLvl); start = getRequestCtxLogAttrs rCtx in
        if wasHealthCheck then
          Ok \<lparr>out_metrics = promVecs, out_level = logLvl, out_start = start,
              out_end = logFinalRequestDetails now startTime (the (h_ctx h1)), out_state = h1\<rparr>
        else let v1 = (if reg then UpdateMetricsStartRequest (r_method r) promVecs else promVecs) in
          go_bind (next_handler h1) (\<lambda>h2.
            let c = the (h_ctx h2);
                v2 = (if reg then UpdateMetricsEndRequest (r_method r)
                        (case Operation c of None \<Rightarrow> [] | Some x \<Rightarrow> stringer_text x)
                        (unat (BytesReceived c)) (unat (BytesSent c)) (now - startTime) (Some (Error c)) v1 else v1) in
            Ok \<lparr>out_metrics = v2, out_level = logLvl, out_start = start,
                out_end = logFinalRequestDetails now startTime c, out_state = h2\<rparr>)))"

section \<open>Properties\<close>

text \<open>A health check is answered by the log middleware alone: for a GET of the ping path no
  handler runs (the outcome is the same for all of them), the answer is 200 with the body pong, and
  no metric changes. In particular an S3 bucket of that name cannot be reached.\<close>

theorem health_check_isolated:
  assumes "r_method r = ''GET''" and "u_path (r_url r) = ''/ping''" and "rs_sent w = None"
  shows "\<exists>out. (\<forall>next_handler. LogMiddleware up uuid start now lvl (NewPingPongHealthCheck hclvl) reg next_handler v r w = Ok out)
    \<and> out_metrics out = v \<and> out_level out = hclvl \<and> rs_body (h_resp (out_state out)) = rs_body w @ ''pong''
    \<and> map_option fst (rs_sent (h_resp (out_state out))) = Some 200"
  using assms
  by (simp add: LogMiddleware_def DoHealthcheckIfNeeded_def NewPingPongHealthCheck_def w_WriteHeader_def http_WriteHeader_def
      valid_status_def informational_def w_Write_def http_Write_def Let_def)

lemma health_check_isolated_witness:
  "\<exists>out. LogMiddleware id toy_uuid 0 5 0 (NewPingPongHealthCheck 4) True (\<lambda>h. Panic ''handler'')
       \<lparr>requestsTotal = [], requestDuration = [], requestSize = [], responseSize = [], requestsFinished = [], requestsFailed = []\<rparr>
       (plain_request ''GET'' ''/ping'') (new_response False) = Ok out \<and> rs_body (h_resp (out_state out)) = ''pong''"
proof -
  have "r_method (plain_request ''GET'' ''/ping'') = ''GET''" "u_path (r_url (plain_request ''GET'' ''/ping'')) = ''/ping''"
    "rs_sent (new_response False) = None" "rs_body (new_response False) = []"
    by (simp_all add: plain_request_def new_response_def)
  then show ?thesis using health_check_isolated [of "plain_request ''GET'' ''/ping''" "new_response False"] by fastforce
qed

lemma health_check_not_taken:
  "\<not> (r_method (h_req h) = hc_method hc \<and> u_path (r_url (h_req h)) = healthcheckPath hc) \<Longrightarrow>
   DoHealthcheckIfNeeded hc h = Ok (False, h)"
  by (auto simp: DoHealthcheckIfNeeded_def)

definition counter_total :: "('l \<times> nat) list \<Rightarrow> nat" where
  "counter_total v = sum_list (map snd v)"

lemma counter_Add_total:
  assumes "distinct (map fst v)"
  shows "counter_total (counter_Add l n v) = counter_total v + n" and "distinct (map fst (counter_Add l n v))"
proof -
  show "distinct (map fst (counter_Add l n v))" using assms by (simp add: counter_Add_def distinct_update)
  have "sum_list (map snd (AList.update l ((case map_of v l of None \<Rightarrow> 0 | Some k \<Rightarrow> k) + n) v)) = sum_list (map snd v) + n"
    using assms
  proof (induction v)
    case (Cons a v)
    have "map_of v (fst a) = None" using Cons.prems by (simp add: map_of_eq_None_iff)
    then show ?case using Cons by (cases a) auto
  qed simp
  then show "counter_total (counter_Add l n v) = counter_total v + n"
    by (simp add: counter_total_def counter_Add_def counter_def)
qed

text \<open>The invariant of the metrics: every request that was started has finished, and has been
  counted as failed.\<close>

definition metrics_balanced :: "metrics \<Rightarrow> bool" where
  "metrics_balanced v =
     (distinct (map fst (requestsTotal v)) \<and> distinct (map fst (requestsFinished v)) \<and> distinct (map fst (requestsFailed v))
      \<and> counter_total (requestsFinished v) = counter_total (requestsTotal v)
      \<and> counter_total (requestsFailed v) = counter_total (requestsTotal v))"


definition no_metrics :: metrics where
  "no_metrics = \<lparr>requestsTotal = [], requestDuration = [], requestSize = [], responseSize = [],
     requestsFinished = [], requestsFailed = []\<rparr>"


end
