(* ===== verification/S3_Authz.thy ===== *)
theory S3_Authz
  imports AuthN S3_Actions Policy_Store Backends Middlewares
begin

text \<open>
  Authorisation and proxying of S3 requests: \<^verbatim>\<open>s3/mwauthorizes3.go\<close>,
  \<^verbatim>\<open>s3/handler-builder.go\<close>, \<^verbatim>\<open>s3/requesterpays.go\<close>, \<^verbatim>\<open>s3/response_header_logger.go\<close>,
  \<^verbatim>\<open>s3/cors_static.go\<close>. What the S3 server holds (\<^verbatim>\<open>S3Server\<close>) and what it reads from
  outside is the record \<open>s3_env\<close>; the upstream server is its field \<open>s3_requester\<close>.
\<close>

datatype upstream = UpstreamError gerr | UpstreamResponse (up_status: int) (up_header: mvals) (up_body: string)

record corsStatic =
  accessControlAllowOrigin :: string

record 'cv s3_env =
  s3_authn :: authn_env
  s3_options :: AuthenticationOptions
  s3_policies :: "'cv policy_lib"
  s3_get_policy :: "string \<Rightarrow> PolicySessionData \<Rightarrow> string result"
  s3_fqdns :: "string list"
  s3_mux :: mux_lib
  s3_not_found :: "hstate \<Rightarrow> hstate"
  s3_backends :: backendsConfig
  s3_cors :: corsStatic
  s3_requester :: "request \<Rightarrow> upstream"

abbreviation s3_svc :: "'cv s3_env \<Rightarrow> svc_lib" where
  "s3_svc E \<equiv> env_svc (s3_authn E)"

section \<open>Authorisation\<close>

definition refuse :: "'cv s3_env \<Rightarrow> s3_error_code \<Rightarrow> gerr option \<Rightarrow> hstate \<Rightarrow> (bool \<times> hstate) result" where
  "refuse E code err h = go_bind (writeS3ErrorResponse (s3_svc E) code err h) (\<lambda>h'. Ok (False, h'))"

text \<open>The upper bound for the expiry that the middleware computes is not used by the function it
  is passed to, and is left out. A GetObject or HeadObject token is not verified again.\<close>

definition authz_keyfunc :: "'cv s3_env \<Rightarrow> s3_operation \<Rightarrow> keyfunc option" where
  "authz_keyfunc E action =
     (if action = GetObject \<or> action = HeadObject then None else Some (GetJwtKeyFunc (env_keys (s3_authn E))))"

definition authorizeS3Action ::
  "'cv s3_env \<Rightarrow> string \<Rightarrow> string \<Rightarrow> s3_operation \<Rightarrow> hstate \<Rightarrow> (bool \<times> hstate) result" where
  "authorizeS3Action E sessionToken targetRegion action h =
     go_try (ExtractTokenClaims (env_jwt (s3_authn E)) (env_now (s3_authn E)) 0 sessionToken (authz_keyfunc E action))
       (\<lambda>e. refuse E ErrS3InvalidSecurity (Some (wrap_err ''could not get claims from session token'' e)) h)
       (\<lambda>sessionClaims.
     let policySessionData = (GetPolicySessionDataFromClaims sessionClaims)\<lparr>RequestedRegion := targetRegion\<rparr>;
         h1 = AddAccessLogInfo ''auth'' [(''sessionData'', OtherVal)] h in
     go_try (s3_get_policy E (RoleARN sessionClaims) policySessionData)
       (\<lambda>_. refuse E ErrS3InternalError None h1)
       (\<lambda>policyStr.
     go_try (NewPolicyEvaluatorFromStr (s3_policies E) policyStr)
       (\<lambda>_. refuse E ErrS3InternalError None h1)
       (\<lambda>pe.
     let h2 = log_bucket h1 in
     go_try (newIamActionsFromS3Request (s3_policies E) (s3_fqdns E) action (h_req h) (Some policySessionData))
       (\<lambda>_. refuse E ErrS3InternalError None h2)
       (\<lambda>iamActions.
     go_try (EvaluateAll (s3_policies E) pe iamActions)
       (\<lambda>_. refuse E ErrS3InternalError None h2)
       (\<lambda>(isAllowed, reason). if isAllowed then Ok (True, h2) else refuse E ErrS3AccessDenied None h2)))))"

definition authorize :: "'cv s3_env \<Rightarrow> hstate \<Rightarrow> (bool \<times> hstate) result" where
  "authorize E h =
     go_try (GetTargetRegion h)
       (\<lambda>_. refuse E ErrS3InternalError (Some (Plain ''could not get target region from requestctx'')) h)
       (\<lambda>targetRegion.
     go_try (GetSessionToken h)
       (\<lambda>_. refuse E ErrS3InternalError (Some (Plain ''could not get session token from requestctx'')) h)
       (\<lambda>sessionToken. authorizeS3Action E sessionToken targetRegion (getS3Action h) h))"

definition AWSAuthZS3 :: "'cv s3_env \<Rightarrow> handler \<Rightarrow> handler" where
  "AWSAuthZS3 E next_handler h =
     go_bind (authorize E h) (\<lambda>(allowed, h'). if allowed then next_handler h' else Ok h')"

section \<open>Retargeting\<close>

text \<open>The three headers are gone even when the target is not found.\<close>

definition strip_signature :: "request \<Rightarrow> request" where
  "strip_signature r = r\<lparr>r_header :=
     header_Del (header_Del (header_Del (r_header r) AuthorizationHeader) AmzSecurityTokenKey) ''Host''\<rparr>"

definition reTargetRequest :: "backendsConfig \<Rightarrow> string \<Rightarrow> request \<Rightarrow> (gerr option \<times> request) result" where
  "reTargetRequest cfg backendId r =
     (let r1 = strip_signature r in
      go_try (GetBackendEndpoint (Some cfg) backendId) (\<lambda>e. Ok (Some e, r1)) (\<lambda>endpoint.
      go_bind (GetHost endpoint) (\<lambda>host.
        let r2 = r1\<lparr>r_header := header_Add (r_header r1) ''Host'' host, r_host := host\<rparr> in
        go_try (parse_url (GetBaseURI endpoint @ r_uri r)) (\<lambda>e. Ok (Some e, r2)) (\<lambda>u.
          Ok (None, r2\<lparr>r_uri := [], r_remote := [], r_url := u\<lparr>u_rawquery := u_rawquery (r_url r)\<rparr>\<rparr>)))))"

section \<open>Proxying\<close>

definition SetHeaders :: "corsStatic \<Rightarrow> hstate \<Rightarrow> string \<Rightarrow> string \<Rightarrow> hstate" where
  "SetHeaders c h bucket targetRegion =
     (if accessControlAllowOrigin c \<noteq> [] then w_Header_Add ''Access-Control-Allow-Origin'' (accessControlAllowOrigin c) h
      else h)"

datatype corsStaticOpt = WithAllowedOrigin string

fun apply_cors_opt :: "corsStaticOpt \<Rightarrow> corsStatic \<Rightarrow> corsStatic" where
  "apply_cors_opt (WithAllowedOrigin allowedOrigin) c = c\<lparr>accessControlAllowOrigin := allowedOrigin\<rparr>"

definition NewCORSStatic :: "corsStaticOpt list \<Rightarrow> corsStatic" where
  "NewCORSStatic optFuncs = fold apply_cors_opt optFuncs \<lparr>accessControlAllowOrigin = []\<rparr>"

definition add_response_headers :: "mvals \<Rightarrow> hstate \<Rightarrow> hstate" where
  "add_response_headers hdr h = fold (\<lambda>(hk, hvs) h. fold (\<lambda>hv. w_Header_Add hk hv) hvs h) hdr h"

text \<open>What happens to the answer of the upstream server. An empty body is not written.\<close>

definition finish_proxy :: "'cv s3_env \<Rightarrow> string \<Rightarrow> upstream \<Rightarrow> hstate \<Rightarrow> hstate result" where
  "finish_proxy E targetBackendId resp h =
     (case resp of
        UpstreamError err \<Rightarrow>
          writeS3ErrorResponse (s3_svc E) ErrS3UpstreamError (Some err) (SetUpstreamHTTPStatus (-1) h)
      | UpstreamResponse status hdr body \<Rightarrow>
          let h1 = SetUpstreamHTTPStatus status h;
              h2 = (if status \<noteq> 403
                    then SetHeaders (s3_cors E) h1 (GetAccessLogStringInfo h1 ''s3'' ''Bucket'') targetBackendId else h1);
              h3 = add_response_headers hdr h2 in
          go_bind (w_WriteHeader status h3) (\<lambda>h4. Ok (if body = [] then h4 else w_Write body h4)))"

definition streaming_trailer :: string where
  "streaming_trailer = ''STREAMING-UNSIGNED-PAYLOAD-TRAILER''"

definition unsupported_trailer_err :: gerr where
  "unsupported_trailer_err =
     usererror_New (Some (Plain ''unsupported encryption to be implemented so giving internal error to user''))
       (''We do not support STREAMING-UNSIGNED-PAYLOAD-TRAILER yet.'' @ [CHR 0x0A, CHR 0x09, CHR 0x09, CHR 0x09, CHR 0x09, CHR 0x09]
        @ ''For details or to upvote see https://github.com/VITObelgium/fakes3pp/issues/27''
        @ [CHR 0x0A, CHR 0x09, CHR 0x09, CHR 0x09, CHR 0x09, CHR 0x09])"

text \<open>From the credentials of the backend to the request that is sent: the headers the client did
  not sign are put back after signing.\<close>

definition sign_upstream :: "'cv s3_env \<Rightarrow> string \<Rightarrow> aws_Credentials \<Rightarrow> hstate \<Rightarrow> (gerr option \<times> hstate) result" where
  "sign_upstream E targetBackendId creds h =
     go_try (TemporaryRemoveUntrustedHeaders h) (\<lambda>e. Ok (Some e, h)) (\<lambda>(removed, h1).
     go_try (SignWithCreds (env_signer (s3_authn E)) (env_now (s3_authn E)) (h_req h1) creds targetBackendId)
       (\<lambda>e. Ok (Some e, h1))
       (\<lambda>signed. Ok (None, h1\<lparr>h_req := reAddHeaders removed signed\<rparr>)))"

definition justProxy :: "'cv s3_env \<Rightarrow> string \<Rightarrow> handler" where
  "justProxy E targetBackendId h =
     go_bind (reTargetRequest (s3_backends E) targetBackendId (h_req h)) (\<lambda>(err, r).
     let h1 = h\<lparr>h_req := r\<rparr> in
     case err of
       Some e \<Rightarrow>
         if e = errInvalidBackendErr then writeS3ErrorResponse (s3_svc E) ErrS3InvalidRegion None h1
         else writeS3ErrorResponse (s3_svc E) ErrS3InternalError None h1
     | None \<Rightarrow>
     go_try (GetBackendCredentials (Some (s3_backends E)) targetBackendId)
       (\<lambda>_. writeS3ErrorResponse (s3_svc E) ErrS3InternalError None h1)
       (\<lambda>creds.
     if header_Get (r_header r) AmzContentSHAKey = streaming_trailer
        \<and> \<not> HasCapability (Some (s3_backends E)) targetBackendId S3CapabilityStreamingUnsignedPayloadTrailer
     then writeS3ErrorResponse (s3_svc E) ErrS3InternalError (Some unsupported_trailer_err) h1
     else go_bind (sign_upstream E targetBackendId creds h1) (\<lambda>(err, h2).
       case err of
         Some e \<Rightarrow> writeS3ErrorResponse (s3_svc E) ErrS3InternalError None h2
       | None \<Rightarrow> finish_proxy E targetBackendId (s3_requester E (h_req h2)) h2)))"

definition Build :: "'cv s3_env \<Rightarrow> handler" where
  "Build E h =
     go_try (GetTargetRegion h)
       (\<lambda>_. writeS3ErrorResponse (s3_svc E) ErrS3InternalError (Some (Plain ''could not get target region from requestctx'')) h)
       (\<lambda>targetRegion. justProxy E targetRegion h)"

section \<open>Optional middlewares\<close>

text \<open>\<^verbatim>\<open>strings.TrimSpace\<close>: the encodings of the white space characters of Unicode.\<close>

definition space_seqs :: "string list" where
  "space_seqs = [[CHR 0x09], [CHR 0x0A], [CHR 0x0B], [CHR 0x0C], [CHR 0x0D], [CHR 0x20], [CHR 0xC2, CHR 0x85],
     [CHR 0xC2, CHR 0xA0], [CHR 0xE1, CHR 0x9A, CHR 0x80]]
     @ map (\<lambda>n. [CHR 0xE2, CHR 0x80, char_of (n :: nat)]) ([128..<139] @ [168, 169, 175])
     @ [[CHR 0xE2, CHR 0x81, CHR 0x9F], [CHR 0xE3, CHR 0x80, CHR 0x80]]"

function trim_prefixes :: "string list \<Rightarrow> string \<Rightarrow> string" where
  "trim_prefixes ps s =
     (case List.find (\<lambda>p. p \<noteq> [] \<and> has_prefix s p) ps of
        None \<Rightarrow> s
      | Some p \<Rightarrow> trim_prefixes ps (drop (length p) s))"
  by pat_completeness auto
termination
  by (relation "measure (\<lambda>(ps, s). length s)") (auto simp: find_Some_iff has_prefix_def prefix_def)

declare trim_prefixes.simps [simp del]

definition TrimSpace :: "string \<Rightarrow> string" where
  "TrimSpace s = rev (trim_prefixes (map rev space_seqs) (rev (trim_prefixes space_seqs s)))"

type_synonym requesterPaysBuckets = "string list"

definition getRequesterPaysBucketsFromBytes :: "yaml_lib \<Rightarrow> string \<Rightarrow> requesterPaysBuckets result" where
  "getRequesterPaysBucketsFromBytes Y inputBytes =
     go_bind (y_buckets Y inputBytes) (\<lambda>buckets.
       Ok (fold (\<lambda>bucket result. let trimmedBucket = TrimSpace bucket in
             if trimmedBucket = [] then result else List.insert trimmedBucket result) buckets []))"

definition getRequesterPaysBuckets :: "yaml_lib \<Rightarrow> (string \<rightharpoonup> string) \<Rightarrow> string \<Rightarrow> requesterPaysBuckets result" where
  "getRequesterPaysBuckets Y fs filename =
     go_bind (ReadFileFull fs filename) (getRequesterPaysBucketsFromBytes Y)"

definition shouldForce :: "requesterPaysBuckets \<Rightarrow> string \<Rightarrow> bool" where
  "shouldForce rpb bucket = (if length rpb = 0 \<or> bucket = [] then False else bucket \<in> set rpb)"

definition requester_pays :: "requesterPaysBuckets \<Rightarrow> string list \<Rightarrow> request \<Rightarrow> request" where
  "requester_pays rpb fqdns r =
     (case getS3BucketFromRequest fqdns r of
        Ok bucket \<Rightarrow> if shouldForce rpb bucket
          then r\<lparr>r_header := header_Set (r_header r) AmzRequestPayerKey AmzRequestPayerRequesterValue\<rparr> else r
      | _ \<Rightarrow> r)"

definition ForceRequesterPays :: "requesterPaysBuckets \<Rightarrow> string list \<Rightarrow> handler \<Rightarrow> handler" where
  "ForceRequesterPays rpb fqdns next_handler h = next_handler (upd_req (requester_pays rpb fqdns) h)"

definition log_response_headers :: "string list \<Rightarrow> hstate \<Rightarrow> hstate" where
  "log_response_headers headers h =
     fold (\<lambda>name h. let value = header_Get (rs_header (h_resp h)) name in
        if value = [] then h else AddAccessLogInfo ''s3'' [(name, StrVal value)] h) headers h"

definition LogResponseHeaders :: "string list \<Rightarrow> handler \<Rightarrow> handler" where
  "LogResponseHeaders headers next_handler h =
     go_bind (next_handler h) (\<lambda>h'. Ok (log_response_headers headers h'))"

end
