(* ===== verification/Server_Runtime.thy ===== *)
theory Server_Runtime
  imports Middlewares Policy_Store
begin

text \<open>
  Starting and stopping servers: \<^verbatim>\<open>server/basicserver.go\<close>, \<^verbatim>\<open>server/server.go\<close> and
  \<^verbatim>\<open>server/tls_reloader.go\<close>. Listening itself is not modelled: a started listener is the record
  \<open>listener\<close> with the functions its server calls on shutdown, and a probe of the health check is
  an argument. The certificate reloader runs over the watched files of the policy store's model;
  the parser of key pairs is a parameter.
\<close>

section \<open>The basic server\<close>

record BasicServer =
  bs_port :: int
  bs_hostname :: string
  bs_tlsCertFilePath :: string
  bs_tlsKeyFilePath :: string
  bs_handlerFunc :: "handler option"
  bs_extraHttpPort :: int

definition NewBasicServer :: "int \<Rightarrow> string \<Rightarrow> string \<Rightarrow> string \<Rightarrow> handler option \<Rightarrow> int \<Rightarrow> BasicServer" where
  "NewBasicServer port hostname tlsCertFilePath tlsKeyFilePath handlerFunc extraHttpPort =
     \<lparr>bs_port = port, bs_hostname = hostname, bs_tlsCertFilePath = tlsCertFilePath,
      bs_tlsKeyFilePath = tlsKeyFilePath, bs_handlerFunc = handlerFunc, bs_extraHttpPort = extraHttpPort\<rparr>"

definition GetTLSPort :: "BasicServer \<Rightarrow> int" where
  "GetTLSPort s = bs_port s"

definition GetListenHost :: "BasicServer \<Rightarrow> string" where
  "GetListenHost s = bs_hostname s"

definition GetHTTPPort :: "BasicServer \<Rightarrow> int" where
  "GetHTTPPort s = bs_extraHttpPort s"

definition SetHandlerFunc :: "handler \<Rightarrow> BasicServer \<Rightarrow> BasicServer" where
  "SetHandlerFunc f s = s\<lparr>bs_handlerFunc := Some f\<rparr>"

definition GetTls :: "BasicServer \<Rightarrow> bool \<times> string \<times> string" where
  "GetTls s =
     (let enabled = (if bs_tlsCertFilePath s = [] then False
                     else if bs_tlsKeyFilePath s = [] then False
                     else if bs_port s = 0 then False else True) in
      (enabled, bs_tlsCertFilePath s, bs_tlsKeyFilePath s))"

definition ServeHTTP :: "BasicServer \<Rightarrow> handler" where
  "ServeHTTP s h = (case bs_handlerFunc s of None \<Rightarrow> Ok h | Some f \<Rightarrow> f h)"

section \<open>Listeners\<close>

datatype server_id = TLSServer | HTTPServer

datatype shutdown_hook = ShutdownMetrics | CloseReloader | ShutdownServer server_id

record listener =
  l_id :: server_id
  l_port :: int
  l_hooks :: "shutdown_hook list"

record running =
  run_listeners :: "listener list"
  run_waiting :: nat

text \<open>\<^verbatim>\<open>createAndStart\<close>: \<open>load\<close> is the error of creating the certificate reloader, if any. The
  wait group counts the server before that, which is undone when it fails.\<close>

definition createAndStart ::
  "bool \<Rightarrow> gerr option \<Rightarrow> server_id \<Rightarrow> int \<Rightarrow> bool \<Rightarrow> running \<Rightarrow> gerr option \<times> running" where
  "createAndStart has_metrics load ident port tlsEnabled s =
     (let s1 = s\<lparr>run_waiting := run_waiting s + 1\<rparr>;
          hooks = (if has_metrics then [ShutdownMetrics] else []);
          start = (\<lambda>hs. (None, s1\<lparr>run_listeners := run_listeners s1 @ [\<lparr>l_id = ident, l_port = port, l_hooks = hs\<rparr>]\<rparr>)) in
      if \<not> tlsEnabled then start hooks
      else case load of
        None \<Rightarrow> start (hooks @ [CloseReloader])
      | Some e \<Rightarrow> (Some (Wrapped (''failed to load TLS certificate: '' @ err_Error e) e),
                   s1\<lparr>run_waiting := run_waiting s1 - 1\<rparr>))"

definition RegisterOnShutdown :: "server_id \<Rightarrow> shutdown_hook \<Rightarrow> running \<Rightarrow> running" where
  "RegisterOnShutdown ident hook s = s\<lparr>run_listeners :=
     map (\<lambda>l. if l_id l = ident then l\<lparr>l_hooks := l_hooks l @ [hook]\<rparr> else l) (run_listeners s)\<rparr>"

definition nothing_running :: running where
  "nothing_running = \<lparr>run_listeners = [], run_waiting = 0\<rparr>"

text \<open>The server of the metrics: its address, the path it serves and the collectors registered with the
  new registry. Port 0 means there is none, and then no registry either.\<close>

record metrics_server =
  ms_addr :: string
  ms_path :: string
  ms_collectors :: "string list"

definition StartPrometheusMetricsServer :: "int \<Rightarrow> metrics_server option" where
  "StartPrometheusMetricsServer port =
     (if port = 0 then None
      else Some \<lparr>ms_addr = '':'' @ int_string port, ms_path = ''/metrics'', ms_collectors = [''go'', ''process'']\<rparr>)"

lemma StartPrometheusMetricsServer_None [simp]: "StartPrometheusMetricsServer port = None \<longleftrightarrow> port = 0"
  by (simp add: StartPrometheusMetricsServer_def)

definition CreateAndStart :: "int \<Rightarrow> gerr option \<Rightarrow> BasicServer \<Rightarrow> server_id result \<times> running" where
  "CreateAndStart metricsPort load s =
     (let has_metrics = (StartPrometheusMetricsServer metricsPort \<noteq> None); tlsEnabled = fst (GetTls s); http = (GetHTTPPort s \<noteq> 0);
          (err1, r1) = (if tlsEnabled then createAndStart has_metrics load TLSServer (GetTLSPort s) True nothing_running
                        else (None, nothing_running)) in
      case err1 of Some e \<Rightarrow> (Err e, r1) | None \<Rightarrow>
      let (err2, r2) = (if http then createAndStart has_metrics load HTTPServer (GetHTTPPort s) False r1 else (None, r1)) in
      case err2 of Some e \<Rightarrow> (Err e, r2) | None \<Rightarrow>
      let r3 = (if tlsEnabled \<and> http
                then RegisterOnShutdown HTTPServer (ShutdownServer TLSServer)
                       (RegisterOnShutdown TLSServer (ShutdownServer HTTPServer) r2) else r2) in
      if \<not> tlsEnabled \<and> \<not> http then (Err (Plain ''invalid config no actual server started''), r3)
      else (Ok (if tlsEnabled then TLSServer else HTTPServer), r3))"

text \<open>\<^verbatim>\<open>http.Server.Shutdown\<close> calls every registered function, each time it is called. The list
  holds the calls that are being made.\<close>

definition hooks_of :: "running \<Rightarrow> server_id \<Rightarrow> shutdown_hook list" where
  "hooks_of s ident = concat (map l_hooks (filter (\<lambda>l. l_id l = ident) (run_listeners s)))"

fun shutdown_step :: "running \<Rightarrow> shutdown_hook list \<Rightarrow> shutdown_hook list" where
  "shutdown_step s [] = []"
| "shutdown_step s (ShutdownServer ident # rest) = rest @ hooks_of s ident"
| "shutdown_step s (_ # rest) = rest"

section \<open>Waiting for a server\<close>

datatype probe = ProbeError gerr | ProbeStatus int

function await_loop :: "nat \<Rightarrow> (nat \<Rightarrow> probe) \<Rightarrow> nat \<Rightarrow> gerr option \<Rightarrow> (gerr option, unit) go" where
  "await_loop attempts probe i lastErr =
     (if i < attempts then
        (case probe i of
           ProbeStatus st \<Rightarrow> if st = 200 then Ok () else await_loop attempts probe (i + 1) None
         | ProbeError e \<Rightarrow> await_loop attempts probe (i + 1) (Some e))
      else Err lastErr)"
  by pat_completeness auto
termination
  by (relation "measure (\<lambda>(n, p, i, e). n - i)") auto

declare await_loop.simps [simp del]

definition awaitServerOnPort :: "(nat \<Rightarrow> probe) \<Rightarrow> unit result" where
  "awaitServerOnPort probe =
     go_try (await_loop 100 probe 0 None) (\<lambda>_. Err (Plain ''server not listening on port'')) Ok"

text \<open>The probes of both ports are arguments, and so is the error of the shutdown after a failed
  wait. A failed wait for one server shuts down the first one that was started.\<close>

definition CreateAndAwaitHealthy ::
  "int \<Rightarrow> gerr option \<Rightarrow> (server_id \<Rightarrow> nat \<Rightarrow> probe) \<Rightarrow> gerr option \<Rightarrow> BasicServer \<Rightarrow> server_id result" where
  "CreateAndAwaitHealthy metricsPort load probes shutdown_err s =
     (let await = (\<lambda>ident. go_try (awaitServerOnPort (probes ident))
            (\<lambda>e. Err (case shutdown_err of None \<Rightarrow> e
               | Some e2 \<Rightarrow> Wrapped ((case ident of TLSServer \<Rightarrow> ''error shutting down unhealthy TLS server: ''
                   | HTTPServer \<Rightarrow> ''error shutting down unhealthy HTTP server: '') @ err_Error e2) e2)) Ok) in
      go_bind (fst (CreateAndStart metricsPort load s)) (\<lambda>srv.
      go_bind (if fst (GetTls s) then await TLSServer else Ok ()) (\<lambda>_.
      go_bind (if GetHTTPPort s \<noteq> 0 then await HTTPServer else Ok ()) (\<lambda>_. Ok srv))))"

definition CreateAndStartSync ::
  "int \<Rightarrow> gerr option \<Rightarrow> (server_id \<Rightarrow> nat \<Rightarrow> probe) \<Rightarrow> gerr option \<Rightarrow> BasicServer \<Rightarrow> unit result" where
  "CreateAndStartSync metricsPort load probes shutdown_err s =
     go_try (CreateAndAwaitHealthy metricsPort load probes shutdown_err s) (\<lambda>e. Panic (err_Error e)) (\<lambda>_. Ok ())"

section \<open>The certificate reloader\<close>

type_synonym 'c key_pair_parser = "string \<Rightarrow> string \<Rightarrow> 'c result"

record 'c tls_reloader =
  rl_cert :: "'c option"
  rl_world :: local_files

definition LoadX509KeyPair :: "'c key_pair_parser \<Rightarrow> string \<Rightarrow> string \<Rightarrow> local_files \<Rightarrow> 'c result" where
  "LoadX509KeyPair X certFile keyFile w =
     go_bind (ReadFileFull (map_of (lf_files w)) certFile) (\<lambda>c.
     go_bind (ReadFileFull (map_of (lf_files w)) keyFile) (\<lambda>k. X c k))"

text \<open>\<^verbatim>\<open>loadLocked\<close>: the certificate only changes when both files give a valid pair.\<close>

definition loadLocked ::
  "'c key_pair_parser \<Rightarrow> string \<Rightarrow> string \<Rightarrow> 'c tls_reloader \<Rightarrow> unit result \<times> 'c tls_reloader" where
  "loadLocked X certFile keyFile r =
     (let loaded = LoadX509KeyPair X certFile keyFile (rl_world r) in
      (go_bind loaded (\<lambda>_. Ok ()), case loaded of Ok cert \<Rightarrow> r\<lparr>rl_cert := Some cert\<rparr> | _ \<Rightarrow> r))"

definition watcher_Add :: "string \<Rightarrow> local_files \<Rightarrow> local_files result" where
  "watcher_Add fileName w =
     (if map_of (lf_files w) fileName = None then Err (Plain ''no such file or directory'')
      else Ok (startWatching fileName w))"

definition newTLSCertificateReloader ::
  "'c key_pair_parser \<Rightarrow> string \<Rightarrow> string \<Rightarrow> local_files \<Rightarrow> 'c tls_reloader result" where
  "newTLSCertificateReloader X certFile keyFile w =
     go_bind (watcher_Add certFile w) (\<lambda>w1.
     go_bind (watcher_Add keyFile w1) (\<lambda>w2.
       let (err, r) = loadLocked X certFile keyFile \<lparr>rl_cert = None, rl_world = w2\<rparr> in
       go_bind err (\<lambda>_. Ok r)))"

definition GetCertificate :: "'c tls_reloader \<Rightarrow> 'c option" where
  "GetCertificate r = rl_cert r"

definition upd_files :: "(local_files \<Rightarrow> local_files) \<Rightarrow> 'c tls_reloader \<Rightarrow> 'c tls_reloader" where
  "upd_files f r = r\<lparr>rl_world := f (rl_world r)\<rparr>"

text \<open>\<^verbatim>\<open>rearmWatch\<close> is \<open>restartWatching\<close>: the watch is renewed when the file exists again.\<close>

definition rearmWatch :: "string \<Rightarrow> local_files \<Rightarrow> local_files" where
  "rearmWatch fileName w =
     (let w1 = w\<lparr>lf_watched := removeAll fileName (lf_watched w)\<rparr> in
      if map_of (lf_files w1) fileName \<noteq> None then startWatching fileName w1 else w1)"

text \<open>One round of the watch loop. A watch on a file never delivers a creation.\<close>

fun watch_event :: "'c key_pair_parser \<Rightarrow> string \<Rightarrow> string \<Rightarrow> fs_event \<Rightarrow> 'c tls_reloader \<Rightarrow> 'c tls_reloader" where
  "watch_event X certFile keyFile (EvWrite name) r = snd (loadLocked X certFile keyFile r)"
| "watch_event X certFile keyFile (EvRemove name) r = upd_files (rearmWatch name) r"
| "watch_event X certFile keyFile (EvRename name) r = r"

text \<open>Steps of the reloader and of those who change its files; \<open>replaced\<close> allows to remove and to
  replace them, otherwise they are only written in place.\<close>

inductive reload_step :: "'c key_pair_parser \<Rightarrow> string \<Rightarrow> string \<Rightarrow> bool \<Rightarrow> 'c tls_reloader \<Rightarrow> 'c tls_reloader \<Rightarrow> bool"
  for X :: "'c key_pair_parser" and certFile keyFile :: string and replaced :: bool
where
  written: "reload_step X certFile keyFile replaced r (upd_files (fs_write p c) r)"
| removed: "replaced \<Longrightarrow> reload_step X certFile keyFile replaced r (upd_files (fs_remove p) r)"
| renamed: "replaced \<Longrightarrow> map_of (lf_files (rl_world r)) p = Some c \<Longrightarrow> p \<noteq> q \<Longrightarrow>
    reload_step X certFile keyFile replaced r (upd_files (fs_rename p q c) r)"
| delivered: "lf_events (rl_world r) = e # es \<Longrightarrow>
    reload_step X certFile keyFile replaced r (watch_event X certFile keyFile e (upd_files (\<lambda>w. w\<lparr>lf_events := es\<rparr>) r))"

section \<open>Properties\<close>

subsection \<open>Starting and stopping\<close>

lemma CreateAndStart_both:
  assumes "fst (GetTls s)" and "GetHTTPPort s \<noteq> 0"
  shows "CreateAndStart mp None s = (Ok TLSServer, snd (CreateAndStart mp None s))"
    and "ShutdownServer HTTPServer \<in> set (hooks_of (snd (CreateAndStart mp None s)) TLSServer)"
    and "ShutdownServer TLSServer \<in> set (hooks_of (snd (CreateAndStart mp None s)) HTTPServer)"
  using assms
  by (simp_all add: CreateAndStart_def createAndStart_def RegisterOnShutdown_def nothing_running_def hooks_of_def Let_def)

lemma shutdown_step_persists:
  assumes "\<And>i. \<exists>j. ShutdownServer j \<in> set (hooks_of r i)" and "\<exists>i. ShutdownServer i \<in> set xs"
  shows "\<exists>i. ShutdownServer i \<in> set (shutdown_step r xs)"
proof (cases xs)
  case (Cons h rest)
  then show ?thesis using assms by (cases h) auto
qed (use assms(2) in simp)


definition two_ports :: BasicServer where
  "two_ports = NewBasicServer 8443 ''localhost'' ''c.pem'' ''k.pem'' None 8080"


lemma await_loop_iff: "await_loop n probe i e = Ok () \<longleftrightarrow> (\<exists>j. i \<le> j \<and> j < n \<and> probe j = ProbeStatus 200)"
proof (induction n probe i e rule: await_loop.induct)
  case (1 n probe i e)
  have split: "(\<exists>j. i \<le> j \<and> j < n \<and> probe j = ProbeStatus 200) \<longleftrightarrow>
      i < n \<and> (probe i = ProbeStatus 200 \<or> (\<exists>j. i + 1 \<le> j \<and> j < n \<and> probe j = ProbeStatus 200))"
  proof -
    have "i \<le> j \<longleftrightarrow> j = i \<or> i + 1 \<le> j" for j by arith
    then show ?thesis by fastforce
  qed
  show ?case
  proof (cases "i < n")
    case True
    then show ?thesis using 1 unfolding split
      by (subst await_loop.simps) (cases "probe i", auto)
  next
    case False
    then show ?thesis unfolding split by (subst await_loop.simps) simp
  qed
qed


subsection \<open>The certificate\<close>

lemma loadLocked_world: "rl_world (snd (loadLocked X cf kf r)) = rl_world r"
  by (simp add: loadLocked_def Let_def split: go.splits)

lemma loadLocked_cert: "rl_cert r \<noteq> None \<Longrightarrow> rl_cert (snd (loadLocked X cf kf r)) \<noteq> None"
  by (simp add: loadLocked_def Let_def split: go.splits)

lemma loadLocked_Ok:
  "LoadX509KeyPair X cf kf (rl_world r) = Ok c \<Longrightarrow> rl_cert (snd (loadLocked X cf kf r)) = Some c"
  by (simp add: loadLocked_def)

lemma upd_files_sel [simp]: "rl_cert (upd_files f r) = rl_cert r" "rl_world (upd_files f r) = f (rl_world r)"
  by (simp_all add: upd_files_def)

lemma LoadX509KeyPair_cong:
  "map_of (lf_files w') cf = map_of (lf_files w) cf \<Longrightarrow> map_of (lf_files w') kf = map_of (lf_files w) kf \<Longrightarrow>
   LoadX509KeyPair X cf kf w' = LoadX509KeyPair X cf kf w"
  by (simp add: LoadX509KeyPair_def ReadFileFull_def)

lemma newTLSCertificateReloader_Ok:
  assumes "newTLSCertificateReloader X cf kf w = Ok r0"
  obtains cert where "LoadX509KeyPair X cf kf (rl_world r0) = Ok cert" "rl_cert r0 = Some cert"
    "rl_world r0 = startWatching kf (startWatching cf w)" "map_of (lf_files w) cf \<noteq> None" "map_of (lf_files w) kf \<noteq> None"
proof (cases "LoadX509KeyPair X cf kf (startWatching kf (startWatching cf w))")
  case (Ok cert)
  then show ?thesis using assms that
    by (auto simp: newTLSCertificateReloader_def go_bind_Ok_iff loadLocked_def watcher_Add_def Let_def split: if_splits)
qed (use assms in \<open>auto simp: newTLSCertificateReloader_def go_bind_Ok_iff loadLocked_def watcher_Add_def Let_def
        split: if_splits\<close>)

lemma reload_step_cert:
  assumes "reload_step X cf kf b r r'" and "rl_cert r \<noteq> None"
  shows "rl_cert r' \<noteq> None"
  using assms(1)
proof cases
  case (delivered e es)
  then show ?thesis using assms(2) by (cases e) (simp_all add: loadLocked_cert)
qed (use assms(2) in simp_all)

text \<open>A server that started always has a certificate, whatever happens to its files.\<close>

lemma reachable_cert:
  assumes "newTLSCertificateReloader X cf kf w = Ok r0" and "(reload_step X cf kf b)\<^sup>*\<^sup>* r0 r"
  shows "GetCertificate r \<noteq> None"
proof -
  have "rl_cert r0 \<noteq> None"
    using assms(1) by (rule newTLSCertificateReloader_Ok) simp
  with assms(2) have "rl_cert r \<noteq> None" by (induction rule: rtranclp_induct) (auto dest: reload_step_cert)
  then show ?thesis by (simp add: GetCertificate_def)
qed

definition certificate_current :: "'c key_pair_parser \<Rightarrow> string \<Rightarrow> string \<Rightarrow> 'c tls_reloader \<Rightarrow> bool" where
  "certificate_current X cf kf r = (\<forall>c. LoadX509KeyPair X cf kf (rl_world r) = Ok c \<longrightarrow> rl_cert r = Some c)"

definition reload_inv :: "'c key_pair_parser \<Rightarrow> string \<Rightarrow> string \<Rightarrow> 'c tls_reloader \<Rightarrow> bool" where
  "reload_inv X cf kf r =
     (cf \<in> set (lf_watched (rl_world r)) \<and> kf \<in> set (lf_watched (rl_world r))
      \<and> set (lf_events (rl_world r)) \<subseteq> range EvWrite
      \<and> (lf_events (rl_world r) \<noteq> [] \<or> certificate_current X cf kf r))"

lemma reload_inv_step:
  assumes "reload_step X cf kf False r r'" and "reload_inv X cf kf r"
  shows "reload_inv X cf kf r'"
  using assms(1)
proof cases
  case (written p c)
  then show ?thesis
  proof (cases "p \<in> set (lf_watched (rl_world r))")
    case True
    then show ?thesis using written assms(2) by (auto simp: reload_inv_def fs_write_def)
  next
    case False
    then have "p \<noteq> cf" "p \<noteq> kf" using assms(2) by (auto simp: reload_inv_def)
    then have "LoadX509KeyPair X cf kf (rl_world r') = LoadX509KeyPair X cf kf (rl_world r)"
      using written by (intro LoadX509KeyPair_cong) (simp_all add: fs_write_def go_map)
    then show ?thesis using written assms(2) False by (auto simp: reload_inv_def certificate_current_def fs_write_def)
  qed
next
  case (delivered e es)
  obtain p where e: "e = EvWrite p" using delivered(2) assms(2) by (auto simp: reload_inv_def)
  have "certificate_current X cf kf r'"
    by (simp add: certificate_current_def delivered(1) e loadLocked_world loadLocked_Ok)
  then show ?thesis using delivered assms(2) e by (auto simp: reload_inv_def loadLocked_world)
qed simp_all

text \<open>C17. Certificate files that are written in place are picked up: when all events were delivered
  and the two files hold a valid pair, that pair is the one being served, however often the files
  were written and whatever invalid contents they had in between.\<close>

theorem certificate_follows_writes:
  assumes "newTLSCertificateReloader X cf kf (unwatched fs) = Ok r0" and "(reload_step X cf kf False)\<^sup>*\<^sup>* r0 r"
    and "lf_events (rl_world r) = []" and "LoadX509KeyPair X cf kf (rl_world r) = Ok c"
  shows "GetCertificate r = Some c"
proof -
  obtain cert where r0: "LoadX509KeyPair X cf kf (rl_world r0) = Ok cert" "rl_cert r0 = Some cert"
    "rl_world r0 = startWatching kf (startWatching cf (unwatched fs))" "map_of fs cf \<noteq> None" "map_of fs kf \<noteq> None"
    using newTLSCertificateReloader_Ok [OF assms(1)] by (metis unwatched_def local_files.select_convs(1))
  then have "reload_inv X cf kf r0"
    by (auto simp: reload_inv_def certificate_current_def startWatching_watched unwatched_def)
  with assms(2) have "reload_inv X cf kf r" by (induction rule: rtranclp_induct) (auto dest: reload_inv_step)
  then show ?thesis using assms(3,4) by (simp add: reload_inv_def certificate_current_def GetCertificate_def)
qed

text \<open>Key pairs that are the two texts, for the witnesses.\<close>

definition text_pair :: "(string \<times> string) key_pair_parser" where
  "text_pair c k = Ok (c, k)"

definition first_cert :: "(string \<times> string) tls_reloader" where
  "first_cert = \<lparr>rl_cert = Some (''c1'', ''k1''),
     rl_world = \<lparr>lf_files = [(''c.pem'', ''c1''), (''k.pem'', ''k1'')], lf_watched = [''k.pem'', ''c.pem''], lf_events = []\<rparr>\<rparr>"

lemma first_cert_started:
  "newTLSCertificateReloader text_pair ''c.pem'' ''k.pem'' (unwatched [(''c.pem'', ''c1''), (''k.pem'', ''k1'')]) = Ok first_cert"
  by (simp add: newTLSCertificateReloader_def watcher_Add_def unwatched_def startWatching_def loadLocked_def
      LoadX509KeyPair_def ReadFileFull_def text_pair_def first_cert_def Let_def)

definition second_cert :: "(string \<times> string) tls_reloader" where
  "second_cert = \<lparr>rl_cert = Some (''c2'', ''k1''),
     rl_world = \<lparr>lf_files = [(''c.pem'', ''c2''), (''k.pem'', ''k1'')], lf_watched = [''k.pem'', ''c.pem''], lf_events = []\<rparr>\<rparr>"

lemma second_cert_reached: "(reload_step text_pair ''c.pem'' ''k.pem'' False)\<^sup>*\<^sup>* first_cert second_cert"
proof -
  let ?S = "reload_step text_pair ''c.pem'' ''k.pem'' False"
  let ?w = "upd_files (fs_write ''c.pem'' ''c2'') first_cert"
  have w: "?S first_cert ?w" by (rule reload_step.written)
  have "lf_events (rl_world ?w) = EvWrite ''c.pem'' # []" by (simp add: first_cert_def upd_files_def fs_write_def)
  from reload_step.delivered [OF this]
  have "?S ?w (watch_event text_pair ''c.pem'' ''k.pem'' (EvWrite ''c.pem'') (upd_files (\<lambda>w. w\<lparr>lf_events := []\<rparr>) ?w))" .
  then have "?S ?w second_cert"
    by (simp add: first_cert_def second_cert_def upd_files_def fs_write_def loadLocked_def LoadX509KeyPair_def ReadFileFull_def
        text_pair_def)
  with w show ?thesis by (meson converse_rtranclp_into_rtranclp rtranclp.rtrancl_refl)
qed

lemma certificate_follows_writes_witness: "GetCertificate second_cert = Some (''c2'', ''k1'')"
proof -
  have "lf_events (rl_world second_cert) = []" "LoadX509KeyPair text_pair ''c.pem'' ''k.pem'' (rl_world second_cert) = Ok (''c2'', ''k1'')"
    by (simp_all add: second_cert_def LoadX509KeyPair_def ReadFileFull_def text_pair_def)
  with certificate_follows_writes [OF first_cert_started second_cert_reached] show ?thesis by blast
qed

text \<open>A certificate that is replaced, the way a rotated secret is, is not picked up: after a new
  file was moved over the old one the watch is renewed, but nothing loads the new content, so the
  old certificate is served while no event is left.\<close>

theorem replaced_certificate_not_loaded:
  "\<exists>r. (reload_step text_pair ''c.pem'' ''k.pem'' True)\<^sup>*\<^sup>* first_cert r \<and> lf_events (rl_world r) = []
     \<and> ''c.pem'' \<in> set (lf_watched (rl_world r))
     \<and> LoadX509KeyPair text_pair ''c.pem'' ''k.pem'' (rl_world r) = Ok (''new'', ''k1'')
     \<and> GetCertificate r = Some (''c1'', ''k1'')"
proof -
  let ?S = "reload_step text_pair ''c.pem'' ''k.pem'' True"
  let ?a = "upd_files (fs_write ''tmp'' ''new'') first_cert"
  let ?b = "upd_files (fs_rename ''tmp'' ''c.pem'' ''new'') ?a"
  let ?c = "watch_event text_pair ''c.pem'' ''k.pem'' (EvRemove ''c.pem'') (upd_files (\<lambda>w. w\<lparr>lf_events := []\<rparr>) ?b)"
  have a: "?S first_cert ?a" by (rule reload_step.written)
  have b: "?S ?a ?b" by (rule reload_step.renamed) (simp_all add: first_cert_def upd_files_def fs_write_def)
  have c: "?S ?b ?c"
    by (rule reload_step.delivered) (simp add: first_cert_def upd_files_def fs_write_def fs_rename_def fs_remove_def)
  from a b c have reach: "?S\<^sup>*\<^sup>* first_cert ?c" by (meson converse_rtranclp_into_rtranclp rtranclp.rtrancl_refl)
  have "?c = \<lparr>rl_cert = Some (''c1'', ''k1''),
     rl_world = \<lparr>lf_files = [(''k.pem'', ''k1''), (''c.pem'', ''new'')], lf_watched = [''c.pem'', ''k.pem''], lf_events = []\<rparr>\<rparr>"
    by (simp add: first_cert_def upd_files_def fs_write_def fs_rename_def fs_remove_def rearmWatch_def startWatching_def Let_def)
  with reach show ?thesis
    by (intro exI [of _ ?c]) (simp add: LoadX509KeyPair_def ReadFileFull_def text_pair_def GetCertificate_def)
qed

end
