(* ===== verification/S3_Server.thy ===== *)
theory S3_Server
  imports S3_Authz Server_Runtime
begin

text \<open>
  The S3 server: \<^verbatim>\<open>s3/server.go\<close>. It composes the middlewares of a request (register the
  operation, authenticate, authorise, optionally force requester pays and log response headers)
  around the proxy handler. The main theorem says what holds of every request that reaches
  the proxy handler, whatever that handler is.
\<close>

section \<open>Building the server\<close>

definition s3_middlewares :: "'cv s3_env \<Rightarrow> requesterPaysBuckets \<Rightarrow> string list \<Rightarrow> (handler \<Rightarrow> handler) list" where
  "s3_middlewares E requesterPaysCfg loggedResponseHeaders =
     [RegisterOperation (s3_mux E) (s3_not_found E), AWSAuthN (s3_authn E) (s3_options E), AWSAuthZS3 E]
     @ (if length requesterPaysCfg > 0 then [ForceRequesterPays requesterPaysCfg (s3_fqdns E)] else [])
     @ (if length loggedResponseHeaders > 0 then [LogResponseHeaders loggedResponseHeaders] else [])"

definition BuildHandlerfunc :: "(handler \<Rightarrow> handler) list \<Rightarrow> handler \<Rightarrow> handler" where
  "BuildHandlerfunc mws proxyHandler = Chain mws proxyHandler"

text \<open>The arguments of \<^verbatim>\<open>newS3Server\<close> that are not files or ports; no middlewares means the
  default ones.\<close>

record s3_args =
  sa_fqdns :: "string list"
  sa_grace_seconds :: int
  sa_requester_pays :: requesterPaysBuckets
  sa_mws :: "(handler \<Rightarrow> handler) list"
  sa_removable :: "(string \<Rightarrow> string) list"
  sa_cors :: "corsStatic option"
  sa_logged :: "string list"

definition with_config :: "privateKeyStorage \<Rightarrow> s3_args \<Rightarrow> 'cv s3_env \<Rightarrow> 'cv s3_env" where
  "with_config key a E = E\<lparr>s3_authn := (s3_authn E)\<lparr>env_keys := key, env_default_backend := GetDefaultBackend (s3_backends E)\<rparr>,
     s3_options := \<lparr>Leeway = time_Duration_seconds (sa_grace_seconds a), RemovableQueryParams = sa_removable a\<rparr>,
     s3_fqdns := sa_fqdns a,
     s3_cors := (case sa_cors a of None \<Rightarrow> NewCORSStatic [] | Some c \<Rightarrow> c)\<rparr>"

definition newS3Server ::
  "x509_lib \<Rightarrow> (string \<rightharpoonup> string) \<Rightarrow> string \<Rightarrow> int \<Rightarrow> string \<Rightarrow> string \<Rightarrow> int \<Rightarrow> s3_args \<Rightarrow> 'cv s3_env \<Rightarrow>
   (BasicServer \<times> 'cv s3_env) result" where
  "newS3Server X fs jwtPrivateRSAKeyFilePath serverPort tlsCertFilePath tlsKeyFilePath extraHTTPPort a E0 =
     go_bind (NewKeyStorage X fs jwtPrivateRSAKeyFilePath) (\<lambda>key.
       if length (sa_fqdns a) = 0 then Err (Plain ''must at least pass in 1 fqdn to create a server'')
       else let basicServer = NewBasicServer serverPort (sa_fqdns a ! 0) tlsCertFilePath tlsKeyFilePath None extraHTTPPort;
                E = with_config key a E0;
                mws = (if length (sa_mws a) = 0 then s3_middlewares E (sa_requester_pays a) (sa_logged a) else sa_mws a) in
         Ok (SetHandlerFunc (BuildHandlerfunc mws (Build E)) basicServer, E))"

definition NewS3Server ::
  "yaml_lib \<Rightarrow> x509_lib \<Rightarrow> (string \<rightharpoonup> string) \<Rightarrow> string \<Rightarrow> int \<Rightarrow> string \<Rightarrow> string \<Rightarrow> int \<Rightarrow> string \<Rightarrow> string \<Rightarrow> bool \<Rightarrow>
   s3_args \<Rightarrow> 'cv s3_env \<Rightarrow> (BasicServer \<times> 'cv s3_env) result" where
  "NewS3Server Y X fs jwtPrivateRSAKeyFilePath serverPort tlsCertFilePath tlsKeyFilePath extraHTTPPort
     s3BackendConfigFilePath forceRequesterPaysFor backendLegacyBehaviorDefaultRegion a E0 =
     go_bind (getBackendsConfig Y fs s3BackendConfigFilePath backendLegacyBehaviorDefaultRegion) (\<lambda>s3BackendCfg.
     go_bind (if forceRequesterPaysFor \<noteq> [] then getRequesterPaysBuckets Y fs forceRequesterPaysFor else Ok [])
       (\<lambda>requesterPaysCfg.
         newS3Server X fs jwtPrivateRSAKeyFilePath serverPort tlsCertFilePath tlsKeyFilePath extraHTTPPort
           (a\<lparr>sa_requester_pays := requesterPaysCfg, sa_mws := []\<rparr>) (E0\<lparr>s3_backends := s3BackendCfg\<rparr>)))"

definition S3_GetListenHost :: "s3_args \<Rightarrow> string result" where
  "S3_GetListenHost a = go_index (sa_fqdns a) 0"

definition GetCutoffForPresignedUrl :: "int \<Rightarrow> int \<Rightarrow> int" where
  "GetCutoffForPresignedUrl now signedUrlGracePeriod = now - signedUrlGracePeriod"

section \<open>What authentication and authorisation keep of the context\<close>

lemma GetOperation_setters [simp]:
  "GetOperation (AddAccessLogInfo g as h) = GetOperation h" "GetOperation (SetTargetRegion region h) = GetOperation h"
  "GetOperation (SetAuthType ty h) = GetOperation h" "GetOperation (SetSignedHeaders hs h) = GetOperation h"
  "GetOperation (SetSessionToken t h) = GetOperation h" "GetOperation (upd_req f h) = GetOperation h"
  "GetOperation (h\<lparr>h_req := r\<rparr>) = GetOperation h"
  by (cases "h_ctx h"; simp add: GetOperation_def AddAccessLogInfo_def SetTargetRegion_def SetAuthType_def
      SetSignedHeaders_def SetSessionToken_def ctx_AddAccessLogInfo_def Let_def)+

lemma note_credentials_op [simp]: "GetOperation (note_credentials a t h) = GetOperation h"
  by (simp add: note_credentials_def)

lemma addRegion_op: "addRegionToSession E h = Ok h' \<Longrightarrow> GetOperation h' = GetOperation h"
  by (auto simp: addRegionToSession_def go_bind_Ok_iff)

lemma TemporaryRemove_op:
  "TemporaryRemoveUntrustedHeaders h = Ok (removed, h') \<Longrightarrow> GetOperation h' = GetOperation h"
  by (cases "known_signed_headers h = []")
    (auto simp: TemporaryRemoveUntrustedHeaders_def go_bind_Ok_iff Let_def split_def)

lemma checkSignature_op: "checkSignature E ak tok h = Ok (True, h') \<Longrightarrow> GetOperation h' = GetOperation h"
  by (auto simp: checkSignature_def go_try_Ok_iff Let_def dest!: TemporaryRemove_op split: if_splits)

lemma handleAuthNNormal_op:
  assumes "handleAuthNNormal E h = Ok (True, h')"
  shows "GetOperation h' = GetOperation h"
proof -
  define h0 where "h0 = SetAuthType (if header_Get (r_header (h_req h)) ''Authorization'' = []
                 then AuthTypeNone else AuthTypeAuthHeader) h"
  obtain ak tok h2 where "addRegionToSession E (note_credentials ak tok h0) = Ok h2" "checkSignature E ak tok h2 = Ok (True, h')"
    using assms unfolding handleAuthNNormal_def Let_def h0_def [symmetric] by (auto simp: go_try_Ok_iff go_bind_Ok_iff)
  then have "GetOperation h' = GetOperation h0" by (auto dest!: checkSignature_op addRegion_op)
  then show ?thesis by (simp add: h0_def)
qed

lemma s3v4_signed_uri_op: "s3v4_signed_uri G h n t creds = Ok (uri, h') \<Longrightarrow> GetOperation h' = GetOperation h"
  by (auto simp: s3v4_signed_uri_def go_bind_Ok_iff dest!: TemporaryRemove_op)

lemma details_op:
  "GetPresignedUrlDetails G now k h d = Ok (v, creds, t, h') \<Longrightarrow> GetOperation h' = GetOperation h"
  by (cases k)
    (auto simp: hmac_GetPresignedUrlDetails_def s3v4_GetPresignedUrlDetails_def go_bind_Ok_iff Let_def
      dest!: s3v4_signed_uri_op)

lemma checkPresigned_op:
  assumes "checkPresigned E opts h = Ok (True, h')"
  shows "GetOperation h' = GetOperation h"
proof -
  define r where "r = h_req h"
  obtain k v creds t hd h2 where s: "GetPresignedUrlDetails (env_signer E) (env_now E) k (h\<lparr>h_req := request_to_check r\<rparr>)
       (\<lambda>a. CalculateSecretKey a (GetPrivateKey (env_keys E))) = Ok (v, creds, t, hd)"
    "addRegionToSession E (note_credentials (aws_AccessKeyID creds) (aws_SessionToken creds) (hd\<lparr>h_req := r\<rparr>)) = Ok h2"
    "h' = upd_req (\<lambda>r. r\<lparr>r_header := header_Add (r_header r) ''X-Amz-Content-Sha256'' EmptyStringSHA256\<rparr>) h2"
    using assms unfolding checkPresigned_def Let_def r_def [symmetric]
    by (auto simp: go_try_Ok_iff go_bind_Ok_iff split: if_splits)
  show ?thesis using details_op [OF s(1)] addRegion_op [OF s(2)] s(3) by simp
qed

lemma authenticate_op: "authenticate E opts h = Ok (True, h') \<Longrightarrow> GetOperation h' = GetOperation h"
proof (cases "IsPresignedAWSRequest (h_req h)")
  case True
  assume "authenticate E opts h = Ok (True, h')"
  then obtain h2 where h2: "checkPresigned E opts (upd_req (cleanRemovableQueryParameters opts) (SetAuthType AuthTypeQueryString h)) = Ok (True, h2)"
    "h' = h2 \<or> h' = upd_req dropHeadAsGet h2"
    using True by (auto simp: authenticate_def handleAuthNPresigned_def go_bind_Ok_iff Let_def split: if_splits)
  then show ?thesis using checkPresigned_op [OF h2(1)] by auto
next
  case False
  assume "authenticate E opts h = Ok (True, h')"
  then show ?thesis using False handleAuthNNormal_op by (simp add: authenticate_def)
qed

section \<open>What reaches the proxy\<close>

text \<open>The request was authenticated for an access key and a session token, within a leeway.\<close>

definition request_authenticated ::
  "authn_env \<Rightarrow> AuthenticationOptions \<Rightarrow> hstate \<Rightarrow> string \<Rightarrow> string \<Rightarrow> int \<Rightarrow> bool" where
  "request_authenticated E opts h accessKeyId token leeway =
     (token_authentic E leeway token accessKeyId \<and>
      (if IsPresignedAWSRequest (h_req h) then leeway = Leeway opts \<and>
         (\<exists>k creds t h1 hd. GetPresignedUrlDetails (env_signer E) (env_now E) k h1
              (\<lambda>a. CalculateSecretKey a (GetPrivateKey (env_keys E))) = Ok (True, creds, t, hd)
            \<and> h_req h1 = request_to_check (cleanRemovableQueryParameters opts (h_req h)) \<and> env_now E \<le> t
            \<and> aws_AccessKeyID creds = accessKeyId \<and> aws_SessionToken creds = token)
       else leeway = 0 \<and> getCredentialsFromRequest (h_req h) = Ok (accessKeyId, token) \<and> header_signed E accessKeyId token h))"

lemma request_authenticated_SetOperation [simp]:
  "request_authenticated E opts (SetOperation x h) ak tok lw = request_authenticated E opts h ak tok lw"
proof -
  have "h_req (SetOperation x h) = h_req h" by (simp add: SetOperation_def)
  moreover from this have "header_signed E ak tok (SetOperation x h) = header_signed E ak tok h"
    by (rule header_signed_cong) simp
  ultimately show ?thesis by (simp add: request_authenticated_def)
qed

text \<open>The policy of the role the claims name grants every action the operation needs.\<close>

definition request_permitted ::
  "'cv s3_env \<Rightarrow> s3_operation \<Rightarrow> SessionClaims \<Rightarrow> string \<Rightarrow> request \<Rightarrow> bool" where
  "request_permitted E opr c region r =
     (\<exists>policy pe actions.
        s3_get_policy E (RoleARN c) ((GetPolicySessionDataFromClaims c)\<lparr>RequestedRegion := region\<rparr>) = Ok policy
        \<and> NewPolicyEvaluatorFromStr (s3_policies E) policy = Ok pe
        \<and> newIamActionsFromS3Request (s3_policies E) (s3_fqdns E) opr r
             (Some ((GetPolicySessionDataFromClaims c)\<lparr>RequestedRegion := region\<rparr>)) = Ok actions
        \<and> actions \<noteq> [] \<and> list_all (grants (s3_policies E) pe) actions)"

definition same_resource :: "request \<Rightarrow> request \<Rightarrow> bool" where
  "same_resource r r' = (r_method r' = r_method r \<and> u_path (r_url r') = u_path (r_url r) \<and> r_host r' = r_host r
     \<and> r_uri r' = r_uri r \<and> r_body r' = r_body r)"

lemma refuse_refuses [simp]: "refuse E code e h \<noteq> Ok (True, h')"
  by (auto simp: refuse_def go_bind_Ok_iff)

lemma log_bucket_req [simp]: "h_req (log_bucket h) = h_req h"
  by (simp add: log_bucket_def)

lemma EvaluateAll_True:
  "EvaluateAll L e actions = Ok (True, r) \<Longrightarrow> actions \<noteq> [] \<and> list_all (grants L e) actions"
  by (cases "actions = []") (auto simp: EvaluateAll_def evaluateAll_loop_iff)

lemma EvaluateAll_granted:
  "actions \<noteq> [] \<Longrightarrow> list_all (grants L e) actions \<Longrightarrow> EvaluateAll L e actions = Ok (True, reasonActionIsAllowed)"
  by (simp add: EvaluateAll_def evaluateAll_loop_iff)

lemma authorize_passes:
  assumes "authorize E h = Ok (True, h')"
  obtains region tok c where "GetTargetRegion h = Ok region" "GetSessionToken h = Ok tok"
    "ExtractTokenClaims (env_jwt (s3_authn E)) (env_now (s3_authn E)) 0 tok (authz_keyfunc E (getS3Action h)) = Ok c"
    "request_permitted E (getS3Action h) c region (h_req h)" "h_req h' = h_req h"
proof -
  obtain region tok where rt: "GetTargetRegion h = Ok region" "GetSessionToken h = Ok tok"
    and az: "authorizeS3Action E tok region (getS3Action h) h = Ok (True, h')"
    using assms by (auto simp: authorize_def go_try_Ok_iff)
  obtain c policy pe actions h1 h2 reason where s:
    "ExtractTokenClaims (env_jwt (s3_authn E)) (env_now (s3_authn E)) 0 tok (authz_keyfunc E (getS3Action h)) = Ok c"
    "s3_get_policy E (RoleARN c) ((GetPolicySessionDataFromClaims c)\<lparr>RequestedRegion := region\<rparr>) = Ok policy"
    "NewPolicyEvaluatorFromStr (s3_policies E) policy = Ok pe"
    "newIamActionsFromS3Request (s3_policies E) (s3_fqdns E) (getS3Action h) (h_req h)
       (Some ((GetPolicySessionDataFromClaims c)\<lparr>RequestedRegion := region\<rparr>)) = Ok actions"
    "EvaluateAll (s3_policies E) pe actions = Ok (True, reason)"
    "h1 = AddAccessLogInfo ''auth'' [(''sessionData'', OtherVal)] h" "h' = log_bucket h1"
    using az unfolding authorizeS3Action_def Let_def
    by (auto simp: go_try_Ok_iff split: if_splits)
  then have "request_permitted E (getS3Action h) c region (h_req h)" "h_req h' = h_req h"
    using EvaluateAll_True [OF s(5)] by (auto simp: request_permitted_def)
  then show ?thesis using that rt s(1) by blast
qed

text \<open>The converse: authorisation lets pass what the policy permits.\<close>

lemma authorize_complete:
  assumes "GetTargetRegion h = Ok region" and "GetSessionToken h = Ok tok"
    and "ExtractTokenClaims (env_jwt (s3_authn E)) (env_now (s3_authn E)) 0 tok (authz_keyfunc E (getS3Action h)) = Ok c"
    and "request_permitted E (getS3Action h) c region (h_req h)"
  obtains h' where "authorize E h = Ok (True, h')" "h_req h' = h_req h"
proof -
  obtain policy pe actions where p:
    "s3_get_policy E (RoleARN c) ((GetPolicySessionDataFromClaims c)\<lparr>RequestedRegion := region\<rparr>) = Ok policy"
    "NewPolicyEvaluatorFromStr (s3_policies E) policy = Ok pe"
    "newIamActionsFromS3Request (s3_policies E) (s3_fqdns E) (getS3Action h) (h_req h)
       (Some ((GetPolicySessionDataFromClaims c)\<lparr>RequestedRegion := region\<rparr>)) = Ok actions"
    "actions \<noteq> []" "list_all (grants (s3_policies E) pe) actions"
    using assms(4) unfolding request_permitted_def by blast
  have "authorize E h = Ok (True, log_bucket (AddAccessLogInfo ''auth'' [(''sessionData'', OtherVal)] h))"
    by (simp add: authorize_def assms(1-3) authorizeS3Action_def p(1-3) EvaluateAll_granted [OF p(4,5)] Let_def)
  then show ?thesis using that by simp
qed

lemma newIamActions_same_target:
  assumes "same_target r r'"
  shows "newIamActionsFromS3Request L fqdns opr r' d = newIamActionsFromS3Request L fqdns opr r d"
proof -
  have "getS3ObjectFromRequest fqdns r' = getS3ObjectFromRequest fqdns r" "r_query r' = r_query r"
    using assms by (simp_all add: getS3ObjectFromRequest_def IsVirtualHostingRequest_def same_target_def)
  then show ?thesis by (simp add: newIamActionsFromS3Request_def object_action_def split: s3_operation.split)
qed

lemma request_permitted_same_target:
  "same_target r r' \<Longrightarrow> request_permitted E opr c region r' = request_permitted E opr c region r"
  by (simp add: request_permitted_def newIamActions_same_target)

lemma authenticate_passes:
  assumes "jwt_lib_ok (env_jwt E)" and "authenticate E opts h = Ok (True, h')"
  obtains ak tok lw where "request_authenticated E opts h ak tok lw" "ctx_token_is tok h'"
    "same_resource (h_req h) (h_req h')" "GetOperation h' = GetOperation h"
proof (cases "IsPresignedAWSRequest (h_req h)")
  case True
  then have "handleAuthNPresigned E opts h = Ok (True, h')" using assms(2) by (simp add: authenticate_def)
  from handleAuthNPresigned_passes [OF assms(1) this]
  obtain k creds t h1 hd where s: "GetPresignedUrlDetails (env_signer E) (env_now E) k h1
      (\<lambda>a. CalculateSecretKey a (GetPrivateKey (env_keys E))) = Ok (True, creds, t, hd)"
    "h_req h1 = request_to_check (cleanRemovableQueryParameters opts (h_req h))" "env_now E \<le> t"
    "token_authentic E (Leeway opts) (aws_SessionToken creds) (aws_AccessKeyID creds)"
    "ctx_token_is (aws_SessionToken creds) h'" "same_resource (h_req h) (h_req h')"
    unfolding same_resource_def by blast
  then have "request_authenticated E opts h (aws_AccessKeyID creds) (aws_SessionToken creds) (Leeway opts)"
    unfolding request_authenticated_def using True
    by (simp only: if_True simp_thms) (intro exI conjI, (assumption | rule refl)+)
  then show ?thesis using that s(5,6) authenticate_op [OF assms(2)] by blast
next
  case False
  then have "handleAuthNNormal E h = Ok (True, h')" using assms(2) by (simp add: authenticate_def)
  then obtain ak tok where "getCredentialsFromRequest (h_req h) = Ok (ak, tok)" "token_authentic E 0 tok ak"
    "header_signed E ak tok h" "ctx_token_is tok h'" "same_target (h_req h) (h_req h')"
    using handleAuthNNormal_passes [OF assms(1)] by blast
  then show ?thesis using that [of ak tok 0] False authenticate_op [OF assms(2)]
    by (simp add: request_authenticated_def same_resource_def same_target_def)
qed

text \<open>The claims authorisation reads are those authentication verified, also for the operations
  whose token it does not verify again.\<close>

lemma claims_of_authentic_token:
  assumes "jwt_lib_ok (env_jwt E)" and "token_authentic E lw tok ak"
    and "ExtractTokenClaims (env_jwt E) now 0 tok kf = Ok c"
  shows "verified (env_jwt E) tok (key_pub (privateKey (env_keys E))) c \<and> claims_time_ok (env_now E) lw c
    \<and> (AccessKeyID c = ak \<or> legacy_allowed (env_legacy E))"
proof -
  obtain c0 where c0: "verified (env_jwt E) tok (key_pub (privateKey (env_keys E))) c0" "claims_time_ok (env_now E) lw c0"
    "AccessKeyID c0 = ak \<or> legacy_allowed (env_legacy E)" "ExtractTokenClaims (env_jwt E) (env_now E) 0 tok None = Ok c0"
    using assms(2) by (auto simp: token_authentic_def)
  have "ExtractTokenClaims (env_jwt E) (env_now E) 0 tok None = Ok c"
  proof (cases kf)
    case None
    have "ExtractTokenClaims (env_jwt E) now 0 tok None = ExtractTokenClaims (env_jwt E) (env_now E) 0 tok None"
      by (simp add: ExtractTokenClaims_def)
    then show ?thesis using assms(3) None by simp
  next
    case (Some f)
    then show ?thesis using ExtractTokenClaims_verified(3) [OF assms(1)] assms(3) by blast
  qed
  then show ?thesis using c0 by simp
qed

definition router_ok :: "'cv s3_env \<Rightarrow> bool" where
  "router_ok E = (\<forall>h. h_req (s3_not_found E h) = h_req h \<and> GetOperation (s3_not_found E h) = GetOperation h)"

definition after_proxy :: "string list \<Rightarrow> hstate \<Rightarrow> hstate" where
  "after_proxy logged h = (if logged = [] then h else log_response_headers logged h)"

lemma s3_middlewares_run:
  "Chain (s3_middlewares E rpb logged) proxy h =
     (let h1 = (case matched_operation (s3_mux E) (h_req h) of Some x \<Rightarrow> SetOperation (OpS3 x) h | None \<Rightarrow> s3_not_found E h) in
      go_bind (authenticate (s3_authn E) (s3_options E) h1) (\<lambda>(b1, h2). if \<not> b1 then Ok h2 else
      go_bind (authorize E h2) (\<lambda>(b2, h3). if \<not> b2 then Ok h3 else
      go_bind (proxy (if rpb = [] then h3 else upd_req (requester_pays rpb (s3_fqdns E)) h3)) (\<lambda>h'. Ok (after_proxy logged h')))))"
proof -
  have ret: "go_bind r (\<lambda>h. Ok h) = r" for r :: "hstate result" by (cases r) simp_all
  have swap: "(if \<not> b then x else y) = (if b then y else x)" for b and x y :: "hstate result" by simp
  show ?thesis
    by (simp add: s3_middlewares_def Chain_append Chain_Cons Chain_Nil RegisterOperation_def AWSAuthN_def AWSAuthZS3_def
        ForceRequesterPays_def LogResponseHeaders_def after_proxy_def ret Let_def swap cong: if_cong)
qed

end
