(* ===== verification/Oidc.thy ===== *)
theory Oidc
  imports Credentials
begin

text \<open>
  The OpenID Connect providers the token service trusts: \<^verbatim>\<open>sts/oidc/oidc-config.go\<close>. The YAML
  and JSON decoders and the HTTP client are the parameter \<open>oidc_lib\<close>; the maps are association
  lists in the order a \<^verbatim>\<open>range\<close> loop visits them.
\<close>

record oidcProviderConfig =
  Realm :: string
  PublicKey :: string
  TokenService :: string
  AccountService :: string
  TokensNotBefore :: int
  Iss :: string

record oidcConfig =
  Providers :: "(string \<times> oidcProviderConfig) list"
  Issuers :: "(string \<times> string) list"

text \<open>A provider without a body in the YAML file is a nil pointer. An answer of the HTTP client
  is the status with what reading the body gives.\<close>

record oidc_lib =
  yaml_oidc :: "string \<Rightarrow> (string \<times> oidcProviderConfig option) list result"
  http_Get :: "string \<Rightarrow> (int \<times> string result) result"
  json_provider :: "string \<Rightarrow> oidcProviderConfig result"
  oidc_x509 :: x509_lib

definition pem_public_key :: "string \<Rightarrow> string" where
  "pem_public_key key = ''-----BEGIN PUBLIC KEY-----'' @ [CHR 0x0A] @ key @ [CHR 0x0A] @ ''-----END PUBLIC KEY-----''"

definition getPublicKey :: "oidc_lib \<Rightarrow> oidcProviderConfig \<Rightarrow> rsa_pub result" where
  "getPublicKey L c = PublicKeyFromPem (oidc_x509 L) (pem_public_key (PublicKey c))"

definition getProviderNames :: "(string \<times> 'p) list \<Rightarrow> string list" where
  "getProviderNames providers = map fst providers"

definition getOidcProviderConfigFromIss :: "oidc_lib \<Rightarrow> string \<Rightarrow> oidcProviderConfig result" where
  "getOidcProviderConfigFromIss L iss =
     go_bind (http_Get L iss) (\<lambda>(status, body).
       if status \<noteq> 200 then Err (Plain ''unsupported statuscode'')
       else go_bind body (json_provider L))"

text \<open>One round of the loop of \<^verbatim>\<open>loadOidcConfig\<close>, for the entry of the decoded file.\<close>

definition complete_provider :: "oidc_lib \<Rightarrow> string \<Rightarrow> oidcProviderConfig \<Rightarrow> oidcProviderConfig result" where
  "complete_provider L providerName providerCfg =
     (if PublicKey providerCfg = [] then
        (if Iss providerCfg = [] then
           Err (Plain (''not all required info available and no iss url invalid OIDC config for '' @ providerName))
         else go_bind (getOidcProviderConfigFromIss L (Iss providerCfg)) (\<lambda>issCfg.
           Ok (issCfg\<lparr>Iss := Iss providerCfg\<rparr>)))
      else Ok providerCfg)"

definition load_provider ::
  "oidc_lib \<Rightarrow> string \<times> oidcProviderConfig option \<Rightarrow> oidcConfig \<Rightarrow> oidcConfig result" where
  "load_provider L entry cfg =
     (case entry of
        (_, None) \<Rightarrow> Panic nil_deref
      | (providerName, Some providerCfg) \<Rightarrow>
          go_bind (complete_provider L providerName providerCfg) (\<lambda>c.
            go_try (getPublicKey L c)
              (\<lambda>_. Panic ''Let's not run when we know we cannot do our tasks'')
              (\<lambda>_. Ok (cfg\<lparr>Providers := AList.update providerName c (Providers cfg),
                     Issuers := AList.update (Iss providerCfg) providerName (Issuers cfg)\<rparr>))))"

fun load_providers ::
  "oidc_lib \<Rightarrow> (string \<times> oidcProviderConfig option) list \<Rightarrow> oidcConfig \<Rightarrow> oidcConfig result" where
  "load_providers L [] cfg = Ok cfg"
| "load_providers L (entry # rest) cfg = go_bind (load_provider L entry cfg) (load_providers L rest)"

definition loadOidcConfig :: "oidc_lib \<Rightarrow> string \<Rightarrow> oidcConfig result" where
  "loadOidcConfig L inCfg =
     go_bind (yaml_oidc L inCfg) (\<lambda>providers. load_providers L providers \<lparr>Providers = [], Issuers = []\<rparr>)"

definition loadOidcConfigFile :: "oidc_lib \<Rightarrow> (string \<rightharpoonup> string) \<Rightarrow> string \<Rightarrow> oidcConfig result" where
  "loadOidcConfigFile L fs configFile = go_bind (ReadFileFull fs configFile) (loadOidcConfig L)"

definition NewOIDCVerifierFromConfigFile :: "oidc_lib \<Rightarrow> (string \<rightharpoonup> string) \<Rightarrow> string \<Rightarrow> oidcConfig result" where
  "NewOIDCVerifierFromConfigFile L fs cfgFile = loadOidcConfigFile L fs cfgFile"

text \<open>The key function of the verifier: the issuer of a token is looked up among the issuers, and
  then, should that give no provider, among the provider names.\<close>

definition provider_by_name :: "oidc_lib \<Rightarrow> oidcConfig \<Rightarrow> string \<Rightarrow> rsa_pub result" where
  "provider_by_name L cfg issuer =
     (case map_of (Providers cfg) issuer of
        None \<Rightarrow> Err (Plain (''could not find issuer: '' @ issuer))
      | Some issuerConfig \<Rightarrow>
          go_try (getPublicKey L issuerConfig)
            (\<lambda>_. Err (Plain (''could not find public key config for issuer: '' @ issuer)))
            Ok)"

definition GetKeyFunc :: "oidc_lib \<Rightarrow> oidcConfig \<Rightarrow> keyfunc" where
  "GetKeyFunc L cfg t =
     (case map_of (Issuers cfg) (reg_Issuer t) of
        Some providerName \<Rightarrow>
          (case map_of (Providers cfg) providerName of
             Some issuerConfig \<Rightarrow> getPublicKey L issuerConfig
           | None \<Rightarrow> provider_by_name L cfg (reg_Issuer t))
      | None \<Rightarrow> provider_by_name L cfg (reg_Issuer t))"

section \<open>Properties\<close>

text \<open>The invariant of a loaded configuration: every provider has a readable key, every issuer
  names a provider with that issuer URL.\<close>

definition oidc_ok :: "oidc_lib \<Rightarrow> oidcConfig \<Rightarrow> bool" where
  "oidc_ok L cfg = ((\<forall>name c. map_of (Providers cfg) name = Some c \<longrightarrow> is_ok (getPublicKey L c)) \<and>
     (\<forall>iss name. map_of (Issuers cfg) iss = Some name \<longrightarrow>
        (\<exists>c. map_of (Providers cfg) name = Some c \<and> Iss c = iss)))"

lemma complete_provider_iss: "complete_provider L n c = Ok c' \<Longrightarrow> Iss c' = Iss c"
  by (auto simp: complete_provider_def go_bind_Ok_iff split: if_splits)

lemma load_provider_Ok:
  assumes "load_provider L (n, p) cfg = Ok cfg'"
  shows "\<exists>(c :: oidcProviderConfig) (c' :: oidcProviderConfig). p = Some c \<and> Iss c' = Iss c \<and> is_ok (getPublicKey L c') \<and>
    Providers cfg' = AList.update n c' (Providers cfg) \<and> Issuers cfg' = AList.update (Iss c) n (Issuers cfg)"
proof -
  obtain c where c: "p = Some c" using assms by (cases p) (auto simp: load_provider_def)
  then obtain c' pk where s: "complete_provider L n c = Ok c'" "getPublicKey L c' = Ok pk"
    "cfg' = cfg\<lparr>Providers := AList.update n c' (Providers cfg), Issuers := AList.update (Iss c) n (Issuers cfg)\<rparr>"
    using assms by (auto simp: load_provider_def go_bind_Ok_iff go_try_Ok_iff)
  show ?thesis
    by (rule exI [of _ c], rule exI [of _ c']) (simp add: c s complete_provider_iss [OF s(1)])
qed

lemma load_provider_inv:
  assumes "oidc_ok L cfg" and "load_provider L (n, p) cfg = Ok cfg'" and "map_of (Providers cfg) n = None"
  shows "oidc_ok L cfg'"
proof -
  obtain c c' :: oidcProviderConfig where s: "Iss c' = Iss c" "is_ok (getPublicKey L c')"
    "Providers cfg' = AList.update n c' (Providers cfg)" "Issuers cfg' = AList.update (Iss c) n (Issuers cfg)"
    using load_provider_Ok [OF assms(2)] by blast
  have "map_of (Issuers cfg) i \<noteq> Some n" for i using assms(1,3) unfolding oidc_ok_def by fastforce
  then show ?thesis using assms(1,3) s unfolding oidc_ok_def by (auto simp: update_conv')
qed

lemma load_providers_inv:
  assumes "oidc_ok L cfg" and "load_providers L ps cfg = Ok cfg'" and "distinct (map fst ps)"
    and "\<forall>n \<in> set (map fst ps). map_of (Providers cfg) n = None"
  shows "oidc_ok L cfg' \<and> (\<forall>iss. map_of (Issuers cfg) iss \<noteq> None \<or> iss \<in> set (map (Iss \<circ> the \<circ> snd) ps) \<longrightarrow> map_of (Issuers cfg') iss \<noteq> None)"
  using assms
proof (induction ps arbitrary: cfg)
  case Nil
  then show ?case by simp
next
  case (Cons e ps)
  obtain n p where e: "e = (n, p)" by force
  obtain cfg1 where c1: "load_provider L (n, p) cfg = Ok cfg1" "load_providers L ps cfg1 = Ok cfg'"
    using Cons.prems(2) by (auto simp: e go_bind_Ok_iff)
  obtain c c' :: oidcProviderConfig where s: "p = Some c" "Providers cfg1 = AList.update n c' (Providers cfg)" "Issuers cfg1 = AList.update (Iss c) n (Issuers cfg)"
    using load_provider_Ok [OF c1(1)] by blast
  have "oidc_ok L cfg1" by (rule load_provider_inv [OF Cons.prems(1) c1(1)]) (use Cons.prems(4) e in simp)
  moreover have "\<forall>n \<in> set (map fst ps). map_of (Providers cfg1) n = None"
    using Cons.prems(3,4) s(2) by (auto simp: e update_conv')
  ultimately have "oidc_ok L cfg' \<and> (\<forall>iss. map_of (Issuers cfg1) iss \<noteq> None \<or> iss \<in> set (map (Iss \<circ> the \<circ> snd) ps) \<longrightarrow> map_of (Issuers cfg') iss \<noteq> None)"
    using Cons.IH [OF _ c1(2)] Cons.prems(3) by (simp add: e)
  then show ?case using s by (auto simp: e update_conv')
qed

lemma provider_by_name_Ok:
  "provider_by_name L cfg n = Ok pk \<longleftrightarrow> (\<exists>c. map_of (Providers cfg) n = Some c \<and> getPublicKey L c = Ok pk)"
  by (auto simp: provider_by_name_def go_try_Ok_iff split: option.split)

text \<open>C18. The key a loaded configuration gives for a token is the key of a configured provider, and
  the issuer of the token is the URL of that provider or, as the code also accepts, its name; and
  for the issuer URL of every provider of the file there is a key.\<close>

theorem GetKeyFunc_configured:
  assumes "yaml_oidc L inCfg = Ok ps" and "distinct (map fst ps)" and "loadOidcConfig L inCfg = Ok cfg"
  shows "(\<forall>t pk. GetKeyFunc L cfg t = Ok pk \<longrightarrow> (\<exists>name c. map_of (Providers cfg) name = Some c
      \<and> getPublicKey L c = Ok pk \<and> (reg_Issuer t = Iss c \<or> reg_Issuer t = name)))
    \<and> (\<forall>t. reg_Issuer t \<in> set (map (Iss \<circ> the \<circ> snd) ps) \<longrightarrow> is_ok (GetKeyFunc L cfg t))"
proof -
  let ?e = "\<lparr>Providers = [], Issuers = []\<rparr> :: oidcConfig"
  have "load_providers L ps ?e = Ok cfg" using assms(1,3) by (simp add: loadOidcConfig_def)
  moreover have "oidc_ok L ?e" by (simp add: oidc_ok_def)
  ultimately have ok: "oidc_ok L cfg"
    and iss: "\<And>iss. iss \<in> set (map (Iss \<circ> the \<circ> snd) ps) \<Longrightarrow> map_of (Issuers cfg) iss \<noteq> None"
    using load_providers_inv [OF _ _ assms(2), of L ?e cfg] by simp_all
  have found: "\<exists>c. map_of (Providers cfg) n = Some c \<and> Iss c = i \<and> is_ok (getPublicKey L c)"
    if "map_of (Issuers cfg) i = Some n" for i n
    using ok that unfolding oidc_ok_def by blast
  have "\<exists>name c. map_of (Providers cfg) name = Some c \<and> getPublicKey L c = Ok pk
      \<and> (reg_Issuer t = Iss c \<or> reg_Issuer t = name)" if "GetKeyFunc L cfg t = Ok pk" for t pk
  proof (cases "map_of (Issuers cfg) (reg_Issuer t)")
    case None
    then show ?thesis using that by (auto simp: GetKeyFunc_def provider_by_name_Ok)
  next
    case (Some n)
    then obtain c where "map_of (Providers cfg) n = Some c" "Iss c = reg_Issuer t" using found by blast
    then show ?thesis using that Some by (intro exI [of _ n] exI [of _ c]) (simp add: GetKeyFunc_def)
  qed
  moreover have "is_ok (GetKeyFunc L cfg t)" if issuer: "reg_Issuer t \<in> set (map (Iss \<circ> the \<circ> snd) ps)" for t
  proof -
    obtain n where n: "map_of (Issuers cfg) (reg_Issuer t) = Some n" using iss [OF issuer] by auto
    then obtain c where "map_of (Providers cfg) n = Some c" "is_ok (getPublicKey L c)" using found by blast
    then show ?thesis using n by (simp add: GetKeyFunc_def)
  qed
  ultimately show ?thesis by blast
qed

text \<open>A concrete configuration with two providers; the key of the second one comes from its issuer URL.\<close>

definition toy_provider :: "string \<Rightarrow> string \<Rightarrow> oidcProviderConfig" where
  "toy_provider key iss = \<lparr>Realm = ''r'', PublicKey = key, TokenService = [], AccountService = [], TokensNotBefore = 0, Iss = iss\<rparr>"

definition toy_oidc :: oidc_lib where
  "toy_oidc = \<lparr>yaml_oidc = \<lambda>_. Ok [(''a'', Some (toy_provider ''k'' ''https://a'')), (''b'', Some (toy_provider [] ''https://b''))],
     http_Get = \<lambda>_. Ok (200, Ok ''{}''), json_provider = \<lambda>_. Ok (toy_provider ''k'' []),
     oidc_x509 = \<lparr>pem_Decode = Some, ParsePKCS1PrivateKey = \<lambda>_. Ok toy_key, ParsePKIXPublicKey = \<lambda>_. Ok (Some (key_pub toy_key)),
       ParsePKCS1PublicKey = \<lambda>_. Ok (key_pub toy_key)\<rparr>\<rparr>"

definition toy_oidc_cfg :: oidcConfig where
  "toy_oidc_cfg = \<lparr>Providers = [(''a'', toy_provider ''k'' ''https://a''), (''b'', toy_provider ''k'' ''https://b'')],
     Issuers = [(''https://a'', ''a''), (''https://b'', ''b'')]\<rparr>"

lemma toy_oidc_loads: "loadOidcConfig toy_oidc [] = Ok toy_oidc_cfg"
  by (simp add: loadOidcConfig_def toy_oidc_def load_provider_def complete_provider_def toy_provider_def
      getOidcProviderConfigFromIss_def getPublicKey_def PublicKeyFromPem_def toy_oidc_cfg_def)

lemma GetKeyFunc_configured_witness:
  "is_ok (GetKeyFunc toy_oidc toy_oidc_cfg (toy_claims\<lparr>reg_Issuer := ''https://b''\<rparr>))"
proof -
  let ?ps = "[(''a'', Some (toy_provider ''k'' ''https://a'')), (''b'', Some (toy_provider [] ''https://b''))]"
  have "yaml_oidc toy_oidc [] = Ok ?ps" by (simp add: toy_oidc_def)
  moreover have "distinct (map fst ?ps)" by simp
  ultimately show ?thesis
    using GetKeyFunc_configured [of toy_oidc "[]" ?ps toy_oidc_cfg] toy_oidc_loads by (simp add: toy_provider_def)
qed

text \<open>A token whose issuer is the name of a provider is checked with the key of that provider.\<close>

lemma provider_name_is_issuer:
  "is_ok (GetKeyFunc toy_oidc toy_oidc_cfg (toy_claims\<lparr>reg_Issuer := ''b''\<rparr>))"
  by (simp add: GetKeyFunc_def toy_oidc_cfg_def provider_by_name_def getPublicKey_def PublicKeyFromPem_def toy_oidc_def)

end
