(* ===== verification/Sts.thy ===== *)
theory Sts
  imports Oidc Error_Responses Server_Runtime
begin

text \<open>
  The security token service: \<^verbatim>\<open>sts/server.go\<close>. A request exchanges the token of an OpenID
  Connect provider for credentials of the proxy, whose session token the S3 server verifies.
  What the server holds and what it reads from outside is the record \<open>sts_env\<close>: the service
  library, the JWT library, the keys, the key function of the verifier, the policy manager as a
  test of role names, the clock, two generated identifiers, the media type of a content type
  header (package \<^verbatim>\<open>mime\<close>) and what the router does with a path it does not dispatch.
\<close>

section \<open>Durations as text\<close>

text \<open>\<^verbatim>\<open>Duration.String\<close>: a fraction is printed without its trailing zeros.\<close>

definition frac_digits :: "nat \<Rightarrow> nat \<Rightarrow> string" where
  "frac_digits v prec = concat (map (\<lambda>i. dec_string (v div 10 ^ i mod 10)) (rev [0..<prec]))"

definition frac_text :: "nat \<Rightarrow> nat \<Rightarrow> string" where
  "frac_text v prec =
     (let ds = rev (dropWhile (\<lambda>c. c = CHR ''0'') (rev (frac_digits v prec))) in if ds = [] then [] else ''.'' @ ds)"

definition seconds_text :: "nat \<Rightarrow> string" where
  "seconds_text u =
     (let s = u div 1000000000; m = s div 60; h = m div 60 in
      (if h > 0 then dec_string h @ ''h'' else []) @ (if m > 0 then dec_string (m mod 60) @ ''m'' else [])
      @ dec_string (s mod 60) @ frac_text (u mod 1000000000) 9 @ ''s'')"

definition Duration_String :: "int \<Rightarrow> string" where
  "Duration_String d =
     (let u = nat \<bar>d\<bar>; sign = (if d < 0 then ''-'' else []) in
      if u = 0 then ''0s''
      else if u < 1000 then sign @ dec_string u @ ''ns''
      else if u < 1000000 then sign @ dec_string (u div 1000) @ frac_text (u mod 1000) 3 @ [CHR 0xC2, CHR 0xB5] @ ''s''
      else if u < 1000000000 then sign @ dec_string (u div 1000000) @ frac_text (u mod 1000000) 6 @ ''ms''
      else sign @ seconds_text u)"

lemma Duration_String_examples:
  "Duration_String 3600000000000 = ''1h0m0s''" "Duration_String 90000000000 = ''1m30s''"
  "Duration_String (-1500000000) = ''-1.5s''" "Duration_String 1100000 = ''1.1ms''" "Duration_String 0 = ''0s''"
proof -
  have nine: "[0..<9] = [0, 1, 2, 3, 4, 5, 6, 7, 8 :: nat]" and six: "[0..<6] = [0, 1, 2, 3, 4, 5 :: nat]" by code_simp+
  have chars: "map char_of [48 :: nat, 49, 50, 51, 52, 53, 54, 55, 56, 57] = ''0123456789''" by code_simp
  note fmt = Duration_String_def seconds_text_def frac_text_def frac_digits_def nine six digit_char_def chars [simplified]
    dec_string.simps [of "numeral k" for k] dec_string.simps [of 0] dec_string.simps [of 1] dec_string.simps [of "Suc 0"]
  show "Duration_String 3600000000000 = ''1h0m0s''" by (simp add: fmt)
  show "Duration_String 90000000000 = ''1m30s''" by (simp add: fmt)
  show "Duration_String (-1500000000) = ''-1.5s''" by (simp add: fmt)
  show "Duration_String 1100000 = ''1.1ms''" by (simp add: fmt)
  show "Duration_String 0 = ''0s''" by (simp add: fmt)
qed

section \<open>The server\<close>

record sts_env =
  st_svc :: svc_lib
  st_jwt :: jwt_lib
  st_keys :: privateKeyStorage
  st_fqdns :: "string list"
  st_keyfunc :: keyfunc
  st_policy_exists :: "string \<Rightarrow> bool"
  maxAllowedDuration :: int
  minAllowedDuration :: int
  st_now :: int
  st_token_id :: string
  st_key_id :: string
  st_media_type :: "string \<Rightarrow> string"
  st_routed :: "request \<Rightarrow> bool"
  st_not_routed :: "hstate \<Rightarrow> hstate result"

definition GetIssuer :: "sts_env \<Rightarrow> string result" where
  "GetIssuer E = go_index (st_fqdns E) 0"

definition STS_GetListenHost :: "sts_env \<Rightarrow> string result" where
  "STS_GetListenHost E = go_index (st_fqdns E) 0"

subsection \<open>The form\<close>

text \<open>What \<^verbatim>\<open>ParseForm\<close> leaves in \<^verbatim>\<open>r.Form\<close>: the values of the body, of at most ten megabytes, if
  the method and the content type say there is a form, then those of the query. The loop of
  \<^verbatim>\<open>parseForm\<close> over \<^verbatim>\<open>r.PostForm\<close> finds every key there already.\<close>

definition post_form :: "(string \<Rightarrow> string) \<Rightarrow> request \<Rightarrow> mvals" where
  "post_form media r =
     (if r_method r \<in> {''POST'', ''PUT'', ''PATCH''}
         \<and> media (header_Get (r_header r) ''Content-Type'') = ''application/x-www-form-urlencoded''
         \<and> length (r_body r) \<le> 10485760
      then parse_query (r_body r) else [])"

definition form_Get :: "(string \<Rightarrow> string) \<Rightarrow> request \<Rightarrow> string \<Rightarrow> string" where
  "form_Get media r key =
     (case values_vals (post_form media r) key @ values_vals (r_query r) key of [] \<Rightarrow> [] | v # _ \<Rightarrow> v)"

subsection \<open>The lifetime of the credentials\<close>

definition calculateFinalDurationSeconds :: "sts_env \<Rightarrow> int \<Rightarrow> int option \<Rightarrow> int result" where
  "calculateFinalDurationSeconds E apiProvidedDuration jwtExpiry =
     (let now = st_now E; minimalExpiryTime = now + minAllowedDuration E in
      case jwtExpiry of
        None \<Rightarrow> Panic nil_deref
      | Some exp \<Rightarrow>
          if exp < now then Err (Plain ''provided OIDC token had already expired'')
          else let providedExpiryTime = now + time_Duration_seconds apiProvidedDuration in
            if providedExpiryTime < minimalExpiryTime
            then Err (Plain (''provided expiry time is before minimal time of '' @ Duration_String (minAllowedDuration E)))
            else let finalDuration = time_Duration_seconds apiProvidedDuration in
              if finalDuration > maxAllowedDuration E
              then Err (Plain (''provided duration seconds exceed the maximum of '' @ int_string (maxAllowedDuration E) @ '' seconds''))
              else Ok finalDuration)"

subsection \<open>Assuming a role\<close>

definition newProxyIssuedToken :: "sts_env \<Rightarrow> string \<Rightarrow> string \<Rightarrow> string \<Rightarrow> int \<Rightarrow> AWSSessionTags \<Rightarrow> SessionClaims result" where
  "newProxyIssuedToken E subject issuer roleARN expiry tags =
     go_bind (GetIssuer E) (\<lambda>iss.
       Ok (CreateRS256PolicyToken (st_now E) (st_token_id E) iss issuer subject roleARN expiry tags))"

text \<open>The checks of \<^verbatim>\<open>assumeRoleWithWebIdentity\<close> up to the duration. An error outcome is the code and
  the error that are written.\<close>

definition web_identity ::
  "sts_env \<Rightarrow> (string \<Rightarrow> string) \<Rightarrow> string \<Rightarrow> (sts_error_code \<times> gerr, SessionClaims \<times> int) go" where
  "web_identity E form requestId =
     go_try (ExtractOIDCTokenClaims (st_jwt E) (st_now E) (form stsWebIdentityToken) (st_keyfunc E))
       (\<lambda>_. Err (ErrSTSInvalidParameterValue,
              Plain (''invalid webidentity token. If issue persist and need support share ID '' @ requestId)))
       (\<lambda>claimsMap.
     if reg_Subject claimsMap = []
     then Err (ErrSTSInvalidParameterValue, Plain ''STS JWT Token has `sub` claim missing, `sub` claim is mandatory'')
     else if reg_Issuer claimsMap = []
     then Err (ErrSTSInvalidParameterValue, Plain ''STS JWT Token has `iss` claim missing, `iss` claim is mandatory'')
     else
     go_try (go_Atoi (if form stsDurationSeconds = [] then ''3600'' else form stsDurationSeconds))
       (\<lambda>_. Err (ErrSTSInvalidParameterValue, Plain ''invalid DurationSeconds''))
       (\<lambda>durationSecondsInt.
     go_try (calculateFinalDurationSeconds E durationSecondsInt (ExpiresAt claimsMap))
       (\<lambda>e. Err (ErrSTSInternalError, e))
       (\<lambda>duration. Ok (claimsMap, duration))))"

text \<open>The rest of it: the role, the new token and the credentials. The log entry reads the access key of the
  credentials before the error is looked at, so an error is a nil dereference.\<close>

definition issue_credentials ::
  "sts_env \<Rightarrow> string \<Rightarrow> SessionClaims \<Rightarrow> int \<Rightarrow> (sts_error_code \<times> gerr, AWSCredentials) go" where
  "issue_credentials E roleArn claimsMap duration =
     (if \<not> st_policy_exists E roleArn
      then Err (ErrSTSInvalidParameterValue, Plain (''invalid value for RoleArn: '' @ roleArn))
      else
      go_try (newProxyIssuedToken E (reg_Subject claimsMap) (reg_Issuer claimsMap) roleArn duration (Tags claimsMap))
        (\<lambda>e. Err (ErrSTSInternalError, e))
        (\<lambda>newToken.
      go_try (NewAWSCredentials (st_jwt E) (st_now E) (st_key_id E) (Some newToken) duration (GetPrivateKey (st_keys E)))
        (\<lambda>_. Panic nil_deref)
        Ok))"

definition success_document :: "AWSCredentials \<Rightarrow> string \<Rightarrow> string \<Rightarrow> AssumeRoleWithWebIdentityResponse" where
  "success_document cred subFromToken requestId =
     \<lparr>ar_Result = \<lparr>wi_AssumedRoleUser = \<lparr>aru_Arn = [], aru_AssumedRoleID = []\<rparr>, wi_Audience = [], wi_Credentials = cred,
        wi_PackedPolicySize = 0, wi_Provider = [], wi_SubjectFromWebIdentityToken = subFromToken\<rparr>,
      ar_RequestID = requestId\<rparr>"

definition answer_identity :: "sts_env \<Rightarrow> string \<Rightarrow> SessionClaims \<Rightarrow> AWSCredentials \<Rightarrow> hstate \<Rightarrow> hstate result" where
  "answer_identity E roleArn claimsMap cred h =
     (let subFromToken = reg_Issuer claimsMap @ '':'' @ reg_Subject claimsMap;
          h1 = AddAccessLogInfo ''sts'' [(''roleArn'', StrVal roleArn), (''AKID'', StrVal (AccessKey cred)),
                 (''subFromToken'', StrVal subFromToken), (''Tags'', OtherVal)] h in
      WriteSuccessResponseXML
        (EncodeResponse (st_svc E) (XmlWebIdentity (success_document cred subFromToken (GetRequestID h1)))) h1)"

definition assumeRoleWithWebIdentity :: "sts_env \<Rightarrow> hstate \<Rightarrow> hstate result" where
  "assumeRoleWithWebIdentity E h =
     (let h1 = SetOperation (OpSTS AssumeRoleWithWebIdentity) h; form = form_Get (st_media_type E) (h_req h);
          refused = (\<lambda>(code, e). writeSTSErrorResponse (st_svc E) code (Some e) h1) in
      go_try (web_identity E form (GetRequestID h1)) refused (\<lambda>(claimsMap, duration).
      go_try (issue_credentials E (form stsRoleArn) claimsMap duration) refused (\<lambda>cred.
        answer_identity E (form stsRoleArn) claimsMap cred h1)))"

definition processSTSPost :: "sts_env \<Rightarrow> hstate \<Rightarrow> hstate result" where
  "processSTSPost E h =
     (let form = form_Get (st_media_type E) (h_req h) in
      if form stsVersion \<noteq> stsAPIVersion
      then writeSTSErrorResponse (st_svc E) ErrSTSMissingParameter
             (Some (Plain (''invalid STS API version '' @ form stsVersion @ '', expecting 2011-06-15''))) h
      else if form stsAction = webIdentity then assumeRoleWithWebIdentity E h
      else writeSTSErrorResponse (st_svc E) ErrSTSInvalidParameterValue
             (Some (Plain (''unsupported action '' @ form stsAction))) h)"

definition justLog :: "hstate \<Rightarrow> hstate" where
  "justLog h = h"

definition CreateHandler :: "sts_env \<Rightarrow> hstate \<Rightarrow> hstate result" where
  "CreateHandler E h =
     (if \<not> st_routed E (h_req h) then st_not_routed E h
      else if r_method (h_req h) = ''POST'' then processSTSPost E h
      else Ok (justLog h))"

definition newSTSServer ::
  "x509_lib \<Rightarrow> oidc_lib \<Rightarrow> (string \<rightharpoonup> string) \<Rightarrow> string \<Rightarrow> int \<Rightarrow> string list \<Rightarrow> string \<Rightarrow> string \<Rightarrow> string \<Rightarrow>
   int \<Rightarrow> int \<Rightarrow> int \<Rightarrow> sts_env \<Rightarrow> (BasicServer \<times> sts_env) result" where
  "newSTSServer X L fs jwtPrivateRSAKeyFilePath serverPort fqdns tlsCertFilePath tlsKeyFilePath oidcConfigFilePath
     maxDurationSeconds minDurationSeconds extraHTTPPort E0 =
     go_bind (NewKeyStorage X fs jwtPrivateRSAKeyFilePath) (\<lambda>key.
     go_bind (NewOIDCVerifierFromConfigFile L fs oidcConfigFilePath) (\<lambda>oidcVerifier.
       if length fqdns = 0 then Err (Plain ''must pass at least 1 FQDN'')
       else let E = E0\<lparr>st_keys := key, st_fqdns := fqdns, st_keyfunc := GetKeyFunc L oidcVerifier,
                  maxAllowedDuration := time_Duration_seconds maxDurationSeconds,
                  minAllowedDuration := time_Duration_seconds minDurationSeconds\<rparr> in
         Ok (SetHandlerFunc (CreateHandler E)
               (NewBasicServer serverPort (fqdns ! 0) tlsCertFilePath tlsKeyFilePath None extraHTTPPort), E)))"

definition NewSTSServer ::
  "x509_lib \<Rightarrow> oidc_lib \<Rightarrow> (string \<rightharpoonup> string) \<Rightarrow> string \<Rightarrow> int \<Rightarrow> string list \<Rightarrow> string \<Rightarrow> string \<Rightarrow> string \<Rightarrow>
   int \<Rightarrow> int \<Rightarrow> int \<Rightarrow> sts_env \<Rightarrow> (BasicServer \<times> sts_env) result" where
  "NewSTSServer = newSTSServer"

section \<open>Properties\<close>

subsection \<open>The lifetime\<close>

text \<open>C19. A lifetime is granted exactly when the token of the provider has an expiration that has
  not passed and the requested seconds, as the 64-bit number of nanoseconds they become, lie
  between the minimum and the maximum of the server; what is granted is that number.\<close>

theorem calculateFinalDurationSeconds_iff:
  "calculateFinalDurationSeconds E d jwtExpiry = Ok x \<longleftrightarrow>
     (\<exists>e. jwtExpiry = Some e \<and> st_now E \<le> e) \<and> x = time_Duration_seconds d
     \<and> minAllowedDuration E \<le> x \<and> x \<le> maxAllowedDuration E"
  by (auto simp: calculateFinalDurationSeconds_def Let_def split: option.split)

text \<open>The conversion of the requested seconds wraps around: adding two to the power of 55 seconds
  (over a billion years) to a request does not change the answer.\<close>

theorem calculateFinalDurationSeconds_wraps:
  "calculateFinalDurationSeconds E (d + 2 ^ 55) jwtExpiry = calculateFinalDurationSeconds E d jwtExpiry"
proof -
  have "(d + 2 ^ 55) * time_Second + 2 ^ 63 = d * time_Second + 2 ^ 63 + 1953125 * 2 ^ 64"
    by (simp add: time_Second_def algebra_simps)
  then have "time_Duration_seconds (d + 2 ^ 55) = time_Duration_seconds d"
    unfolding time_Duration_seconds_def wrap64_eq by (simp only: mod_mult_self1)
  then show ?thesis by (simp only: calculateFinalDurationSeconds_def)
qed

subsection \<open>Issuing credentials\<close>

lemma WriteResponse_status:
  assumes "rs_sent (h_resp h) = None" and "\<not> informational (normal_status s)" and "WriteResponse s r m h = Ok h'"
  shows "map_option fst (rs_sent (h_resp h')) = Some (normal_status s)"
    and "r = Some b \<Longrightarrow> rs_body (h_resp h') = rs_body (h_resp h) @ b"
proof -
  define h2 where "h2 = w_Header_Set ''Content-Length'' (dec_string (case r of None \<Rightarrow> 0 | Some b \<Rightarrow> length b))
    (if m \<noteq> [] then w_Header_Set ''Content-Type'' m h else h)"
  have "rs_sent (h_resp h2) = None" "rs_body (h_resp h2) = rs_body (h_resp h)" using assms(1) by (simp_all add: h2_def)
  then obtain h3 where h3: "w_WriteHeader (normal_status s) h2 = Ok h3"
    "rs_sent (h_resp h3) = Some (normal_status s, rs_header (h_resp h2))" "rs_body (h_resp h3) = rs_body (h_resp h)"
    using w_WriteHeader_fresh [OF _ normal_status_valid assms(2)] by metis
  have "h' = (case r of None \<Rightarrow> h3 | Some b \<Rightarrow> w_Write b h3)"
    using assms(3) unfolding WriteResponse_def Let_def h2_def [symmetric] h3(1) by simp
  then show "map_option fst (rs_sent (h_resp h')) = Some (normal_status s)"
    and "r = Some b \<Longrightarrow> rs_body (h_resp h') = rs_body (h_resp h) @ b"
    using h3 by (cases r; simp)+
qed

lemma sts_error_status:
  assumes "rs_sent (h_resp h) = None" and "writeSTSErrorResponse S code e h = Ok h'"
  shows "map_option fst (rs_sent (h_resp h')) \<noteq> Some 200"
proof -
  let ?s = "ae_HTTPStatusCode (ToSTSErr code)"
  have s: "normal_status ?s = ?s" "\<not> informational (normal_status ?s)" "?s \<noteq> 200"
    using ToSTSErr_status [of code] final_status [of ?s] by auto
  have "rs_sent (h_resp (SetErrorCode (ErrorSTS code) h)) = None" using assms(1) by (simp add: SetErrorCode_def)
  then have "map_option fst (rs_sent (h_resp h')) = Some (normal_status ?s)"
    using WriteResponse_status(1) [OF _ s(2)] assms(2) unfolding writeSTSErrorResponse_def Let_def by blast
  then show ?thesis using s by auto
qed

lemma web_identity_Ok:
  assumes "jwt_lib_ok (st_jwt E)" and "web_identity E form reqid = Ok (c, d)"
  shows "(\<exists>pk. st_keyfunc E c = Ok pk \<and> verified (st_jwt E) (form ''WebIdentityToken'') pk c)
    \<and> claims_time_ok (st_now E) 0 c \<and> reg_Subject c \<noteq> [] \<and> reg_Issuer c \<noteq> []
    \<and> minAllowedDuration E \<le> d \<and> d \<le> maxAllowedDuration E \<and> (\<exists>e. ExpiresAt c = Some e \<and> st_now E \<le> e)"
proof -
  obtain n where "ExtractTokenClaims (st_jwt E) (st_now E) 0 (form ''WebIdentityToken'') (Some (st_keyfunc E)) = Ok c"
    "reg_Subject c \<noteq> []" "reg_Issuer c \<noteq> []" "calculateFinalDurationSeconds E n (ExpiresAt c) = Ok d"
    using assms(2) by (auto simp: web_identity_def ExtractOIDCTokenClaims_def go_try_Ok_iff split: if_splits)
  then show ?thesis
    using ExtractTokenClaims_verified(1,2) [OF assms(1)]
    by (auto simp: calculateFinalDurationSeconds_def Let_def split: option.splits if_splits)
qed

text \<open>The claims of the session token of issued credentials.\<close>

definition session_claims :: "sts_env \<Rightarrow> string \<Rightarrow> string \<Rightarrow> SessionClaims \<Rightarrow> int \<Rightarrow> SessionClaims" where
  "session_claims E iss roleArn c d =
     SetAccessKeyId (CreateRS256PolicyToken (st_now E) (st_token_id E) iss (reg_Issuer c) (reg_Subject c) roleArn d (Tags c))
       (NewAccessKey (st_key_id E))"

lemma issue_credentials_Ok:
  assumes "issue_credentials E roleArn c d = Ok cred"
  obtains iss where "st_policy_exists E roleArn" "GetIssuer E = Ok iss"
    "SignedString (st_jwt E) (session_claims E iss roleArn c d) (privateKey (st_keys E)) = Ok (SessionToken cred)"
    "CalculateSecretKey (AccessKey cred) (GetPrivateKey (st_keys E)) = Ok (SecretKey cred)"
    "AccessKey cred = NewAccessKey (st_key_id E)" "Expiration cred = st_now E + d"
proof -
  obtain iss where iss: "st_policy_exists E roleArn" "GetIssuer E = Ok iss"
    "NewAWSCredentials (st_jwt E) (st_now E) (st_key_id E)
       (Some (CreateRS256PolicyToken (st_now E) (st_token_id E) iss (reg_Issuer c) (reg_Subject c) roleArn d (Tags c)))
       d (Ok (privateKey (st_keys E))) = Ok cred"
    using assms by (auto simp: issue_credentials_def newProxyIssuedToken_def GetPrivateKey_def go_try_Ok_iff go_bind_Ok_iff
        split: if_splits)
  show ?thesis
    using that [OF iss(1,2)] iss(3) [unfolded NewAWSCredentials_Ok] by (simp add: session_claims_def GetPrivateKey_def)
qed

text \<open>C9. The service answers 200 only to a request that carries a token verified under the key its
  verifier gives for it, not expired and with a subject and an issuer, and that names a role
  with a policy. The answer holds credentials whose lifetime lies within the bounds of the
  server and whose session token is signed over the subject, issuer and tags of that token,
  the requested role and the new access key.\<close>

theorem sts_answers_verified_identity:
  assumes "jwt_lib_ok (st_jwt E)" and "rs_sent (h_resp h) = None" and "processSTSPost E h = Ok h'"
    and "map_option fst (rs_sent (h_resp h')) = Some 200"
    and "\<And>d. EncodeResponse (st_svc E) d = Some (enc d)"
  shows "\<exists>c pk d cred iss doc. st_keyfunc E c = Ok pk
    \<and> verified (st_jwt E) (form_Get (st_media_type E) (h_req h) ''WebIdentityToken'') pk c
    \<and> claims_time_ok (st_now E) 0 c \<and> reg_Subject c \<noteq> [] \<and> reg_Issuer c \<noteq> []
    \<and> st_policy_exists E (form_Get (st_media_type E) (h_req h) ''RoleArn'')
    \<and> minAllowedDuration E \<le> d \<and> d \<le> maxAllowedDuration E \<and> Expiration cred = st_now E + d
    \<and> SignedString (st_jwt E) (session_claims E iss (form_Get (st_media_type E) (h_req h) ''RoleArn'') c d)
        (privateKey (st_keys E)) = Ok (SessionToken cred)
    \<and> wi_Credentials (ar_Result doc) = cred \<and> rs_body (h_resp h') = rs_body (h_resp h) @ enc (XmlWebIdentity doc)"
proof -
  let ?form = "form_Get (st_media_type E) (h_req h)"
  define h1 where "h1 = SetOperation (OpSTS AssumeRoleWithWebIdentity) h"
  have h1: "rs_sent (h_resp h1) = None" "rs_body (h_resp h1) = rs_body (h_resp h)" using assms(2) by (simp_all add: h1_def SetOperation_def)
  note no = sts_error_status [OF assms(2)] sts_error_status [OF h1(1)]
  have "assumeRoleWithWebIdentity E h = Ok h'"
    using assms(3,4) no(1) by (auto simp: processSTSPost_def Let_def split: if_splits)
  then obtain c d cred where w: "web_identity E ?form (GetRequestID h1) = Ok (c, d)"
    and i: "issue_credentials E (?form ''RoleArn'') c d = Ok cred"
    and r: "answer_identity E (?form ''RoleArn'') c cred h1 = Ok h'"
    using assms(4) no(2) unfolding assumeRoleWithWebIdentity_def Let_def h1_def [symmetric]
    by (auto simp: go_try_Ok_iff split_def)
  obtain attrs sub doc where h2: "WriteResponse 200 (Some (enc (XmlWebIdentity doc))) MimeXML (AddAccessLogInfo ''sts'' attrs h1) = Ok h'"
    and doc: "doc = success_document cred sub (GetRequestID (AddAccessLogInfo ''sts'' attrs h1))"
    using r unfolding answer_identity_def WriteSuccessResponseXML_def Let_def assms(5) by blast
  have "\<not> informational (normal_status 200)" by (simp add: informational_def normal_status_def)
  then have "rs_body (h_resp h') = rs_body (h_resp h) @ enc (XmlWebIdentity doc)"
    using WriteResponse_status(2) [OF _ _ h2 refl] h1 by (simp add: AddAccessLogInfo_def)
  moreover obtain iss where "st_policy_exists E (?form ''RoleArn'')" "Expiration cred = st_now E + d"
    "SignedString (st_jwt E) (session_claims E iss (?form ''RoleArn'') c d) (privateKey (st_keys E)) = Ok (SessionToken cred)"
    using issue_credentials_Ok [OF i] by metis
  moreover have "wi_Credentials (ar_Result doc) = cred" by (simp add: doc success_document_def)
  ultimately show ?thesis using web_identity_Ok [OF assms(1) w] by blast
qed

subsection \<open>A concrete service\<close>

text \<open>A JWT library that knows two tokens, both signed with the same key.\<close>

definition known_token :: "SessionClaims \<Rightarrow> SessionClaims \<Rightarrow> string \<Rightarrow> SessionClaims option" where
  "known_token c0 c1 tok = (if tok = ''tok'' then Some c0 else if tok = ''session'' then Some c1 else None)"

definition two_token_jwt :: "SessionClaims \<Rightarrow> SessionClaims \<Rightarrow> jwt_lib" where
  "two_token_jwt c0 c1 = \<lparr>
     SignedString = \<lambda>c sk. if sk \<noteq> toy_key then Err (Plain ''key'') else if c = c0 then Ok ''tok''
       else if c = c1 then Ok ''session'' else Err (Plain ''claims''),
     ParseUnverified = \<lambda>tok. case known_token c0 c1 tok of Some c \<Rightarrow> Ok c | None \<Rightarrow> Err (Plain ''malformed''),
     ParseWithClaims = \<lambda>now lw tok kf. case known_token c0 c1 tok of
         Some c \<Rightarrow> if kf c = Ok (key_pub toy_key) \<and> claims_time_ok now lw c then Ok c else Err (Plain ''invalid'')
       | None \<Rightarrow> Err (Plain ''malformed''),
     verified = \<lambda>tok pk c. known_token c0 c1 tok = Some c \<and> pk = key_pub toy_key\<rparr>"

lemma two_token_jwt_ok: "jwt_lib_ok (two_token_jwt c0 c1)"
  by (auto simp: jwt_lib_ok_def two_token_jwt_def known_token_def split: option.splits if_splits)

definition toy_session :: SessionClaims where
  "toy_session = SetAccessKeyId (CreateRS256PolicyToken 5 ''id'' ''sts'' (reg_Issuer toy_claims) (reg_Subject toy_claims) ''role''
     (3600 * time_Second) (Tags toy_claims)) (NewAccessKey toy_uuid)"

definition toy_sts :: sts_env where
  "toy_sts = \<lparr>st_svc = toy_svc, st_jwt = two_token_jwt toy_claims toy_session, st_keys = \<lparr>privateKey = toy_key\<rparr>,
     st_fqdns = [''sts''], st_keyfunc = \<lambda>_. Ok (key_pub toy_key), st_policy_exists = \<lambda>_. True,
     maxAllowedDuration = 3600 * time_Second, minAllowedDuration = 900 * time_Second, st_now = 5, st_token_id = ''id'',
     st_key_id = toy_uuid, st_media_type = id, st_routed = \<lambda>_. True, st_not_routed = Ok\<rparr>"

definition toy_sts_request :: hstate where
  "toy_sts_request = toy_hstate ((plain_request ''POST'' ''/'')\<lparr>
     r_header := [(''Content-Type'', [''application/x-www-form-urlencoded''])],
     r_body := ''Version=2011-06-15&Action=AssumeRoleWithWebIdentity&WebIdentityToken=tok&RoleArn=role''\<rparr>)"

lemma toy_sts_jwt: "jwt_lib_ok (st_jwt toy_sts)"
  by (simp add: toy_sts_def two_token_jwt_ok)

lemma toy_form_values:
  "parse_query ''Version=2011-06-15&Action=AssumeRoleWithWebIdentity&WebIdentityToken=tok&RoleArn=role'' =
     [(''Version'', [''2011-06-15'']), (''Action'', [''AssumeRoleWithWebIdentity'']), (''WebIdentityToken'', [''tok'']), (''RoleArn'', [''role''])]"
  "r_query (h_req toy_sts_request) = []" "header_Get (r_header (h_req toy_sts_request)) ''Content-Type'' = ''application/x-www-form-urlencoded''"
  by code_simp+

lemma toy_post_form: "post_form id (h_req toy_sts_request) =
   [(''Version'', [''2011-06-15'']), (''Action'', [''AssumeRoleWithWebIdentity'']), (''WebIdentityToken'', [''tok'']), (''RoleArn'', [''role''])]"
  by (simp add: post_form_def toy_form_values) (simp add: toy_sts_request_def toy_hstate_def plain_request_def toy_form_values)

lemma toy_form: "form_Get id (h_req toy_sts_request) ''Version'' = ''2011-06-15''"
  "form_Get id (h_req toy_sts_request) ''Action'' = ''AssumeRoleWithWebIdentity''"
  "form_Get id (h_req toy_sts_request) ''WebIdentityToken'' = ''tok''" "form_Get id (h_req toy_sts_request) ''RoleArn'' = ''role''"
  "form_Get id (h_req toy_sts_request) ''DurationSeconds'' = []"
  by (simp_all add: form_Get_def toy_post_form toy_form_values(2) values_vals_def)

lemma toy_claims_facts: "claims_time_ok 5 0 toy_claims" "reg_Subject toy_claims = ''me''" "reg_Issuer toy_claims = ''sts''"
  "ExpiresAt toy_claims = Some (3600 * time_Second)"
  by (simp_all add: claims_time_ok_def toy_claims_def CreateRS256PolicyToken_def NewNumericDate_def time_Second_def)

lemma toy_web_identity: "web_identity toy_sts (form_Get id (h_req toy_sts_request)) reqid = Ok (toy_claims, 3600 * time_Second)"
proof -
  have "go_Atoi ''3600'' = Ok 3600" by code_simp
  then show ?thesis
    by (simp add: web_identity_def ExtractOIDCTokenClaims_def ExtractTokenClaims_def toy_form toy_claims_facts toy_sts_def
        two_token_jwt_def known_token_def calculateFinalDurationSeconds_def time_Duration_seconds_exact time_Second_def)
qed

lemma toy_issue: "\<exists>cred. issue_credentials toy_sts ''role'' toy_claims (3600 * time_Second) = Ok cred \<and> SessionToken cred = ''session''"
proof -
  have "11 \<le> length (NewAccessKey toy_uuid)" by code_simp
  then obtain sk where "CalculateSecretKey (NewAccessKey toy_uuid) (Ok toy_key) = Ok sk" using CalculateSecretKey_total by blast
  moreover have "toy_session \<noteq> toy_claims"
    by (simp add: toy_session_def toy_claims_def CreateRS256PolicyToken_def SetAccessKeyId_def NewNumericDate_def NewAccessKey_def
        toy_uuid_def remove_char_def)
  ultimately show ?thesis
    by (simp add: issue_credentials_def newProxyIssuedToken_def GetIssuer_def go_index_def NewAWSCredentials_def GetPrivateKey_def
        toy_sts_def two_token_jwt_def toy_session_def [symmetric] Let_def)
qed

lemma toy_sts_answers: "\<exists>h'. processSTSPost toy_sts toy_sts_request = Ok h' \<and> map_option fst (rs_sent (h_resp h')) = Some 200"
proof -
  obtain cred where cred: "issue_credentials toy_sts ''role'' toy_claims (3600 * time_Second) = Ok cred" using toy_issue by blast
  define h1 where "h1 = SetOperation (OpSTS AssumeRoleWithWebIdentity) toy_sts_request"
  have media: "st_media_type toy_sts = id" by (simp add: toy_sts_def)
  have run: "processSTSPost toy_sts toy_sts_request = answer_identity toy_sts ''role'' toy_claims cred h1"
    by (simp add: processSTSPost_def assumeRoleWithWebIdentity_def media toy_form toy_web_identity cred h1_def [symmetric])
  obtain attrs r where answer: "answer_identity toy_sts ''role'' toy_claims cred h1 = WriteResponse 200 r MimeXML (AddAccessLogInfo ''sts'' attrs h1)"
    unfolding answer_identity_def WriteSuccessResponseXML_def Let_def by blast
  obtain h' where h': "WriteResponse 200 r MimeXML (AddAccessLogInfo ''sts'' attrs h1) = Ok h'" using WriteResponse_total by blast
  have "rs_sent (h_resp (AddAccessLogInfo ''sts'' attrs h1)) = None"
    by (simp add: AddAccessLogInfo_def h1_def SetOperation_def toy_sts_request_def toy_hstate_def)
  then have "map_option fst (rs_sent (h_resp h')) = Some (normal_status 200)"
    by (rule WriteResponse_status(1) [OF _ _ h']) (simp add: informational_def normal_status_def)
  then show ?thesis using run answer h' by (simp add: normal_status_def)
qed

lemma sts_answers_verified_identity_witness:
  "\<exists>h' cred doc. processSTSPost toy_sts toy_sts_request = Ok h' \<and> wi_Credentials (ar_Result doc) = cred
     \<and> Expiration cred \<le> 5 + 3600 * time_Second
     \<and> rs_body (h_resp h') = rs_body (h_resp toy_sts_request) @ the (EncodeResponse toy_svc (XmlWebIdentity doc))"
proof -
  obtain h' where h': "processSTSPost toy_sts toy_sts_request = Ok h'" "map_option fst (rs_sent (h_resp h')) = Some 200"
    using toy_sts_answers by blast
  have sent: "rs_sent (h_resp toy_sts_request) = None" by (simp add: toy_sts_request_def toy_hstate_def)
  have enc: "EncodeResponse (st_svc toy_sts) d = Some ((\<lambda>d. the (EncodeResponse toy_svc d)) d)" for d
    by (simp add: toy_sts_def EncodeResponse_def toy_svc_def)
  obtain d and cred :: AWSCredentials and doc :: AssumeRoleWithWebIdentityResponse where
    "d \<le> maxAllowedDuration toy_sts" "Expiration cred = st_now toy_sts + d"
    "wi_Credentials (ar_Result doc) = cred" "rs_body (h_resp h') = rs_body (h_resp toy_sts_request) @ the (EncodeResponse toy_svc (XmlWebIdentity doc))"
    using sts_answers_verified_identity [OF toy_sts_jwt sent h' enc] by (elim exE conjE) (rule that)
  then show ?thesis using h'(1) by (intro exI [of _ h'] exI [of _ cred] exI [of _ doc]) (simp add: toy_sts_def)
qed

end
