(* ===== verification/Config.thy ===== *)
theory Config
  imports S3_Server Sts
begin

text \<open>
  Configuration and the commands: \<^verbatim>\<open>cmd/config.go\<close>, \<^verbatim>\<open>cmd/proxys3.go\<close>, \<^verbatim>\<open>cmd/proxysts.go\<close> and
  \<^verbatim>\<open>cmd/presign.go\<close>. The configuration store (package viper) is the parameter \<open>viper_lib\<close> over a
  state \<open>'v\<close>; leaving the process is an outcome of its own kind of panic. Theories Startup and
  Command_Line have the way from \<^verbatim>\<open>main\<close> to what is modelled here.
\<close>

section \<open>Environment variables\<close>

text \<open>The description of a variable is only printed and is left out.\<close>

record envVarDef =
  viperKey :: string
  envVarName :: string
  isCritical :: bool
  cmds :: "string list"

definition shouldBeSetFor :: "envVarDef \<Rightarrow> string \<Rightarrow> bool" where
  "shouldBeSetFor e cmd = list_ex (\<lambda>applicableCmd. applicableCmd = cmd) (cmds e)"

abbreviation env_var :: "string \<Rightarrow> string \<Rightarrow> bool \<Rightarrow> string list \<Rightarrow> envVarDef" where
  "env_var key name critical cs \<equiv> \<lparr>viperKey = key, envVarName = name, isCritical = critical, cmds = cs\<rparr>"

abbreviation (input) proxys3 :: string where "proxys3 \<equiv> ''proxys3''"
abbreviation (input) proxysts :: string where "proxysts \<equiv> ''proxysts''"

text \<open>The keys of the store, the names of the variables and the values of the strategy.\<close>

abbreviation (input) s3ProxyFQDN :: string where "s3ProxyFQDN \<equiv> ''s3ProxyFQDN''"
abbreviation (input) s3ProxyTlsPort :: string where "s3ProxyTlsPort \<equiv> ''s3ProxyPort''"
abbreviation (input) s3ProxyHTTPPort :: string where "s3ProxyHTTPPort \<equiv> ''s3ProxyHTTPPort''"
abbreviation (input) s3ProxyTlsCertFile :: string where "s3ProxyTlsCertFile \<equiv> ''s3ProxyCertFile''"
abbreviation (input) s3ProxyTlsKeyFile :: string where "s3ProxyTlsKeyFile \<equiv> ''s3ProxyKeyFile''"
abbreviation (input) proxyJwtPublicRSAKey :: string where "proxyJwtPublicRSAKey \<equiv> ''proxyJwtPublicRSAKey''"
abbreviation (input) proxyJwtPrivateRSAKey :: string where "proxyJwtPrivateRSAKey \<equiv> ''proxyJwtPrivateRSAKey''"
abbreviation (input) s3ProxyRemovableQueryParams :: string where "s3ProxyRemovableQueryParams \<equiv> ''s3ProxyRemovableQueryParams''"
abbreviation (input) stsProxyFQDN :: string where "stsProxyFQDN \<equiv> ''stsProxyFQDN''"
abbreviation (input) stsProxyTlsPort :: string where "stsProxyTlsPort \<equiv> ''stsProxyPort''"
abbreviation (input) stsProxyHTTPPort :: string where "stsProxyHTTPPort \<equiv> ''stsProxyHTTPPort''"
abbreviation (input) stsProxyTlsCertFile :: string where "stsProxyTlsCertFile \<equiv> ''stsProxyCertFile''"
abbreviation (input) stsProxyTlsKeyFile :: string where "stsProxyTlsKeyFile \<equiv> ''stsProxyKeyFile''"
abbreviation (input) stsMinimalDurationSeconds :: string where "stsMinimalDurationSeconds \<equiv> ''stsMinimalDurationSeconds''"
abbreviation (input) rolePolicyPath :: string where "rolePolicyPath \<equiv> ''rolePolicyPath''"
abbreviation (input) stsOIDCConfigFile :: string where "stsOIDCConfigFile \<equiv> ''stsOIDCConfigFile''"
abbreviation (input) s3BackendConfigFile :: string where "s3BackendConfigFile \<equiv> ''s3BackendConfigFile''"
abbreviation (input) s3ForceRequesterPaysFor :: string where "s3ForceRequesterPaysFor \<equiv> ''forceRequesterPaysFor''"
abbreviation (input) stsMaxDurationSeconds :: string where "stsMaxDurationSeconds \<equiv> ''stsMaxDurationSeconds''"
abbreviation (input) signedUrlGraceTimeSeconds :: string where "signedUrlGraceTimeSeconds \<equiv> ''signedUrlGraceTimeSeconds''"
abbreviation (input) enableLegacyBehaviorInvalidRegionToDefaultRegion :: string where "enableLegacyBehaviorInvalidRegionToDefaultRegion \<equiv> ''enableLegacyBehaviorInvalidRegionToDefaultRegion''"
abbreviation (input) logLevel :: string where "logLevel \<equiv> ''logLevel''"
abbreviation (input) metricsPort :: string where "metricsPort \<equiv> ''metricsPort''"
abbreviation (input) s3CorsStrategy :: string where "s3CorsStrategy \<equiv> ''corsStrategy''"
abbreviation (input) s3LoggedResponseHeaders :: string where "s3LoggedResponseHeaders \<equiv> ''s3LoggedResponseHeaders''"
abbreviation (input) FAKES3PP_S3_PROXY_FQDN :: string where "FAKES3PP_S3_PROXY_FQDN \<equiv> ''FAKES3PP_S3_PROXY_FQDN''"
abbreviation (input) FAKES3PP_S3_PROXY_TLS_PORT :: string where "FAKES3PP_S3_PROXY_TLS_PORT \<equiv> ''FAKES3PP_S3_PROXY_TLS_PORT''"
abbreviation (input) FAKES3PP_S3_PROXY_TLS_KEY_FILE :: string where "FAKES3PP_S3_PROXY_TLS_KEY_FILE \<equiv> ''FAKES3PP_S3_PROXY_TLS_KEY_FILE''"
abbreviation (input) FAKES3PP_S3_PROXY_TLS_CERT_FILE :: string where "FAKES3PP_S3_PROXY_TLS_CERT_FILE \<equiv> ''FAKES3PP_S3_PROXY_TLS_CERT_FILE''"
abbreviation (input) FAKES3PP_S3_PROXY_HTTP_PORT :: string where "FAKES3PP_S3_PROXY_HTTP_PORT \<equiv> ''FAKES3PP_S3_PROXY_HTTP_PORT''"
abbreviation (input) FAKES3PP_PROXY_JWT_PUBLIC_RSA_KEY :: string where "FAKES3PP_PROXY_JWT_PUBLIC_RSA_KEY \<equiv> ''FAKES3PP_PROXY_JWT_PUBLIC_RSA_KEY''"
abbreviation (input) FAKES3PP_PROXY_JWT_PRIVATE_RSA_KEY :: string where "FAKES3PP_PROXY_JWT_PRIVATE_RSA_KEY \<equiv> ''FAKES3PP_PROXY_JWT_PRIVATE_RSA_KEY''"
abbreviation (input) FAKES3PP_S3_PROXY_REMOVABLE_QUERY_PARAMS :: string where "FAKES3PP_S3_PROXY_REMOVABLE_QUERY_PARAMS \<equiv> ''FAKES3PP_S3_PROXY_REMOVABLE_QUERY_PARAMS''"
abbreviation (input) FAKES3PP_S3_CORS_STRATEGY :: string where "FAKES3PP_S3_CORS_STRATEGY \<equiv> ''FAKES3PP_S3_CORS_STRATEGY''"
abbreviation (input) FAKES3PP_S3_CORS_STATIC_ALLOWED_ORIGIN :: string where "FAKES3PP_S3_CORS_STATIC_ALLOWED_ORIGIN \<equiv> ''FAKES3PP_S3_CORS_STATIC_ALLOWED_ORIGIN''"
abbreviation (input) FAKES3PP_S3_FORCE_REQUESTER_PAYS_FOR :: string where "FAKES3PP_S3_FORCE_REQUESTER_PAYS_FOR \<equiv> ''FAKES3PP_S3_FORCE_REQUESTER_PAYS_FOR''"
abbreviation (input) FAKES3PP_S3_LOGGED_RESPONSE_HEADERS :: string where "FAKES3PP_S3_LOGGED_RESPONSE_HEADERS \<equiv> ''FAKES3PP_S3_LOGGED_RESPONSE_HEADERS''"
abbreviation (input) FAKES3PP_STS_PROXY_FQDN :: string where "FAKES3PP_STS_PROXY_FQDN \<equiv> ''FAKES3PP_STS_PROXY_FQDN''"
abbreviation (input) FAKES3PP_STS_PROXY_TLS_PORT :: string where "FAKES3PP_STS_PROXY_TLS_PORT \<equiv> ''FAKES3PP_STS_PROXY_TLS_PORT''"
abbreviation (input) FAKES3PP_STS_PROXY_TLS_CERT_FILE :: string where "FAKES3PP_STS_PROXY_TLS_CERT_FILE \<equiv> ''FAKES3PP_STS_PROXY_TLS_CERT_FILE''"
abbreviation (input) FAKES3PP_STS_PROXY_TLS_KEY_FILE :: string where "FAKES3PP_STS_PROXY_TLS_KEY_FILE \<equiv> ''FAKES3PP_STS_PROXY_TLS_KEY_FILE''"
abbreviation (input) FAKES3PP_STS_PROXY_HTTP_PORT :: string where "FAKES3PP_STS_PROXY_HTTP_PORT \<equiv> ''FAKES3PP_STS_PROXY_HTTP_PORT''"
abbreviation (input) FAKES3PP_STS_MINIMAL_DURATION_SECONDS :: string where "FAKES3PP_STS_MINIMAL_DURATION_SECONDS \<equiv> ''FAKES3PP_STS_MINIMAL_DURATION_SECONDS''"
abbreviation (input) FAKES3PP_SECURE :: string where "FAKES3PP_SECURE \<equiv> ''FAKES3PP_SECURE''"
abbreviation (input) FAKES3PP_STS_OIDC_CONFIG :: string where "FAKES3PP_STS_OIDC_CONFIG \<equiv> ''FAKES3PP_STS_OIDC_CONFIG''"
abbreviation (input) FAKES3PP_S3_BACKEND_CONFIG :: string where "FAKES3PP_S3_BACKEND_CONFIG \<equiv> ''FAKES3PP_S3_BACKEND_CONFIG''"
abbreviation (input) FAKES3PP_ROLE_POLICY_PATH :: string where "FAKES3PP_ROLE_POLICY_PATH \<equiv> ''FAKES3PP_ROLE_POLICY_PATH''"
abbreviation (input) FAKES3PP_STS_MAX_DURATION_SECONDS :: string where "FAKES3PP_STS_MAX_DURATION_SECONDS \<equiv> ''FAKES3PP_STS_MAX_DURATION_SECONDS''"
abbreviation (input) FAKES3PP_SIGNEDURL_GRACE_TIME_SECONDS :: string where "FAKES3PP_SIGNEDURL_GRACE_TIME_SECONDS \<equiv> ''FAKES3PP_SIGNEDURL_GRACE_TIME_SECONDS''"
abbreviation (input) ENABLE_LEGACY_BEHAVIOR_INVALID_REGION_TO_DEFAULT_REGION :: string where "ENABLE_LEGACY_BEHAVIOR_INVALID_REGION_TO_DEFAULT_REGION \<equiv> ''ENABLE_LEGACY_BEHAVIOR_INVALID_REGION_TO_DEFAULT_REGION''"
abbreviation (input) LOG_LEVEL :: string where "LOG_LEVEL \<equiv> ''LOG_LEVEL''"
abbreviation (input) FAKES3PP_METRICS_PORT :: string where "FAKES3PP_METRICS_PORT \<equiv> ''FAKES3PP_METRICS_PORT''"
abbreviation (input) valueStatic :: string where "valueStatic \<equiv> ''static''"
abbreviation (input) valueDenyAll :: string where "valueDenyAll \<equiv> ''deny-all''"

text \<open>The table, in two parts; these are the last entries.\<close>

definition tuning_defs :: "envVarDef list" where
  "tuning_defs =
     [env_var stsMaxDurationSeconds FAKES3PP_STS_MAX_DURATION_SECONDS False [proxysts],
      env_var signedUrlGraceTimeSeconds FAKES3PP_SIGNEDURL_GRACE_TIME_SECONDS False [proxys3],
      env_var enableLegacyBehaviorInvalidRegionToDefaultRegion
        ENABLE_LEGACY_BEHAVIOR_INVALID_REGION_TO_DEFAULT_REGION False [proxys3],
      env_var logLevel LOG_LEVEL False [proxys3, proxysts],
      env_var metricsPort FAKES3PP_METRICS_PORT False [proxys3, proxysts],
      env_var stsMinimalDurationSeconds FAKES3PP_STS_MINIMAL_DURATION_SECONDS False [proxysts]]"

definition envVarDefs :: "envVarDef list" where
  "envVarDefs =
     [env_var s3ProxyFQDN FAKES3PP_S3_PROXY_FQDN True [proxys3],
      env_var s3ProxyTlsPort FAKES3PP_S3_PROXY_TLS_PORT True [proxys3],
      env_var s3ProxyTlsCertFile FAKES3PP_S3_PROXY_TLS_CERT_FILE False [proxys3],
      env_var s3ProxyTlsKeyFile FAKES3PP_S3_PROXY_TLS_KEY_FILE False [proxys3],
      env_var s3ProxyHTTPPort FAKES3PP_S3_PROXY_HTTP_PORT False [proxys3],
      env_var proxyJwtPrivateRSAKey FAKES3PP_PROXY_JWT_PRIVATE_RSA_KEY True [proxys3, proxysts],
      env_var proxyJwtPublicRSAKey FAKES3PP_PROXY_JWT_PUBLIC_RSA_KEY True [proxys3, proxysts],
      env_var s3ProxyRemovableQueryParams FAKES3PP_S3_PROXY_REMOVABLE_QUERY_PARAMS False [proxys3],
      env_var stsProxyFQDN FAKES3PP_STS_PROXY_FQDN True [proxysts, proxys3],
      env_var stsProxyTlsPort FAKES3PP_STS_PROXY_TLS_PORT True [proxysts],
      env_var stsProxyHTTPPort FAKES3PP_STS_PROXY_HTTP_PORT False [proxysts],
      env_var stsProxyTlsCertFile FAKES3PP_STS_PROXY_TLS_CERT_FILE False [proxysts],
      env_var stsProxyTlsKeyFile FAKES3PP_STS_PROXY_TLS_KEY_FILE False [proxysts],
      env_var stsOIDCConfigFile FAKES3PP_STS_OIDC_CONFIG True [proxysts],
      env_var s3BackendConfigFile FAKES3PP_S3_BACKEND_CONFIG True [proxys3],
      env_var s3CorsStrategy FAKES3PP_S3_CORS_STRATEGY False [proxys3],
      env_var s3ForceRequesterPaysFor FAKES3PP_S3_FORCE_REQUESTER_PAYS_FOR False [proxys3],
      env_var s3LoggedResponseHeaders FAKES3PP_S3_LOGGED_RESPONSE_HEADERS False [proxys3],
      env_var rolePolicyPath FAKES3PP_ROLE_POLICY_PATH True [proxysts, proxys3]] @ tuning_defs"

text \<open>\<open>viper_is_set\<close> says that \<^verbatim>\<open>Get\<close> does not return nil.\<close>

record 'v viper_lib =
  BindEnv :: "string \<Rightarrow> string \<Rightarrow> 'v \<Rightarrow> 'v result"
  viper_is_set :: "'v \<Rightarrow> string \<Rightarrow> bool"
  GetInt :: "'v \<Rightarrow> string \<Rightarrow> int"
  GetString :: "'v \<Rightarrow> string \<Rightarrow> string"
  GetBool :: "'v \<Rightarrow> string \<Rightarrow> bool"
  GetStringSlice :: "'v \<Rightarrow> string \<Rightarrow> string list"
  UnmarshalKey :: "'v \<Rightarrow> string \<Rightarrow> string list result"

definition os_exit :: string where
  "os_exit = ''exit status 1''"

definition checkViperVarNotEmpty :: "'v viper_lib \<Rightarrow> envVarDef \<Rightarrow> 'v \<Rightarrow> unit result" where
  "checkViperVarNotEmpty L evd v = (if \<not> viper_is_set L v (viperKey evd) \<and> isCritical evd then Panic os_exit else Ok ())"

fun bind_loop :: "'v viper_lib \<Rightarrow> string \<Rightarrow> envVarDef list \<Rightarrow> 'v \<Rightarrow> 'v result" where
  "bind_loop L cmd [] v = Ok v"
| "bind_loop L cmd (evd # rest) v =
     (if shouldBeSetFor evd cmd then
        go_try (BindEnv L (viperKey evd) (envVarName evd) v) (\<lambda>err. Panic (err_Error err)) (\<lambda>v'.
          go_bind (checkViperVarNotEmpty L evd v') (\<lambda>_. bind_loop L cmd rest v'))
      else bind_loop L cmd rest v)"

definition BindEnvVariables :: "'v viper_lib \<Rightarrow> string \<Rightarrow> 'v \<Rightarrow> 'v result" where
  "BindEnvVariables L cmd v = bind_loop L cmd envVarDefs v"

section \<open>Values\<close>

definition getMinStsDurationSeconds :: "'v viper_lib \<Rightarrow> 'v \<Rightarrow> int" where
  "getMinStsDurationSeconds L v =
     (let minDurationSeconds = GetInt L v stsMinimalDurationSeconds in
      if minDurationSeconds = 0 then 15 * 60 else minDurationSeconds)"

definition getMaxStsDurationSeconds :: "'v viper_lib \<Rightarrow> 'v \<Rightarrow> int" where
  "getMaxStsDurationSeconds L v =
     (let maxDurationSeconds = GetInt L v stsMaxDurationSeconds in
      if maxDurationSeconds = 0 then 12 * 3600 else maxDurationSeconds)"

definition getMaxStsDuration :: "'v viper_lib \<Rightarrow> 'v \<Rightarrow> int" where
  "getMaxStsDuration L v = wrap64 (time_Second * getMaxStsDurationSeconds L v)"

definition getStsProxyFQDNs :: "'v viper_lib \<Rightarrow> 'v \<Rightarrow> string list result" where
  "getStsProxyFQDNs L v = UnmarshalKey L v stsProxyFQDN"

definition getStsProxyHTTPPort :: "'v viper_lib \<Rightarrow> 'v \<Rightarrow> int" where
  "getStsProxyHTTPPort L v = GetInt L v stsProxyHTTPPort"

definition getS3ProxyHTTPPort :: "'v viper_lib \<Rightarrow> 'v \<Rightarrow> int" where
  "getS3ProxyHTTPPort L v = GetInt L v s3ProxyHTTPPort"

definition getS3ProxyFQDNs :: "'v viper_lib \<Rightarrow> 'v \<Rightarrow> string list result" where
  "getS3ProxyFQDNs L v = UnmarshalKey L v s3ProxyFQDN"

text \<open>A compiled regular expression is the function \<^verbatim>\<open>FindString\<close>; the compiler is a parameter.\<close>

fun compile_all :: "(string \<Rightarrow> (string \<Rightarrow> string) result) \<Rightarrow> string list \<Rightarrow> (string \<Rightarrow> string) list result" where
  "compile_all compile [] = Ok []"
| "compile_all compile (queryParamName # rest) =
     go_try (compile queryParamName)
       (\<lambda>err. Err (Wrapped (''got '' @ err_Error err @ '' when processing removable query param '' @ queryParamName) err))
       (\<lambda>candidate. go_bind (compile_all compile rest) (\<lambda>cs. Ok (candidate # cs)))"

definition getS3RemovableQueryParamRegexes ::
  "'v viper_lib \<Rightarrow> (string \<Rightarrow> (string \<Rightarrow> string) result) \<Rightarrow> 'v \<Rightarrow> (string \<Rightarrow> string) list result" where
  "getS3RemovableQueryParamRegexes L compile v =
     go_bind (UnmarshalKey L v s3ProxyRemovableQueryParams) (compile_all compile)"

text \<open>The package variable \<^verbatim>\<open>s3ProxyFQDNs\<close> is a cache, nil at first.\<close>

definition getS3ProxyLCFQDNs :: "'v viper_lib \<Rightarrow> 'v \<Rightarrow> string list option \<Rightarrow> string list result \<times> string list option" where
  "getS3ProxyLCFQDNs L v s3ProxyFQDNs =
     (case s3ProxyFQDNs of
        Some fqdns \<Rightarrow> (Ok fqdns, s3ProxyFQDNs)
      | None \<Rightarrow> (case getS3ProxyFQDNs L v of
            Ok tmp \<Rightarrow> (Ok (map to_lower tmp), Some (map to_lower tmp))
          | r \<Rightarrow> (r, None)))"

definition getMainS3ProxyFQDN :: "'v viper_lib \<Rightarrow> 'v \<Rightarrow> string list option \<Rightarrow> string result \<times> string list option" where
  "getMainS3ProxyFQDN L v cache =
     (let (r, cache') = getS3ProxyLCFQDNs L v cache in
      (go_bind r (\<lambda>fqdns. if length fqdns = 0 then Err (Plain ''no S3ProxyFQDN available'') else Ok (fqdns ! 0)), cache'))"

text \<open>An unknown strategy gives the nil handler, for which the server takes its default.\<close>

definition getS3CORSHandler :: "'v viper_lib \<Rightarrow> (string \<Rightarrow> string) \<Rightarrow> 'v \<Rightarrow> corsStatic option" where
  "getS3CORSHandler L getenv v =
     (let strategy = to_lower (GetString L v s3CorsStrategy) in
      if strategy = valueStatic then Some (NewCORSStatic [WithAllowedOrigin (getenv FAKES3PP_S3_CORS_STATIC_ALLOWED_ORIGIN)])
      else if strategy = valueDenyAll \<or> strategy = [] then Some (NewCORSStatic [])
      else None)"

definition getServerOptsFromViper :: "'v viper_lib \<Rightarrow> 'v \<Rightarrow> int" where
  "getServerOptsFromViper L v = GetInt L v metricsPort"

section \<open>Building the servers\<close>

text \<open>What a command reads from outside, with the store; the policy functions of the servers are
  those of the policy manager as it is after it has been initialised.\<close>

record ('v, 't) cmd_env =
  ce_viper :: "'v viper_lib"
  ce_getenv :: "string \<Rightarrow> string"
  ce_compile :: "string \<Rightarrow> (string \<Rightarrow> string) result"
  ce_templates :: "'t tmpl_lib"
  ce_yaml :: yaml_lib
  ce_x509 :: x509_lib
  ce_oidc :: oidc_lib
  ce_signer :: signer_lib
  ce_fs :: "string \<rightharpoonup> string"
  ce_policies :: local_files

definition initializePolicyManager :: "('v, 't) cmd_env \<Rightarrow> 'v \<Rightarrow> ('t, local_files) policy_manager result" where
  "initializePolicyManager C v =
     NewPolicyManagerForLocalPolicies (ce_templates C) (GetString (ce_viper C) v rolePolicyPath) (ce_policies C)"

definition or_panic :: "string \<Rightarrow> 'a result \<Rightarrow> ('a \<Rightarrow> 'b result) \<Rightarrow> 'b result" where
  "or_panic msg r k = go_try r (\<lambda>err. Panic (msg @ err_Error err)) k"

definition buildS3Server :: "('v, 't) cmd_env \<Rightarrow> 'cv s3_env \<Rightarrow> 'v \<Rightarrow> (BasicServer \<times> 'cv s3_env) result" where
  "buildS3Server C E0 v0 =
     (let L = ce_viper C in
      go_bind (BindEnvVariables L ''proxys3'' v0) (\<lambda>v.
      or_panic ''Clould not initialize PolicyManager '' (initializePolicyManager C v) (\<lambda>pm.
      or_panic ''Could not get sts proxy fqdns: '' (getS3ProxyFQDNs L v) (\<lambda>fqdns.
      or_panic ''Could not get removable query param regexess: '' (getS3RemovableQueryParamRegexes L (ce_compile C) v)
        (\<lambda>removableQueryParams.
      or_panic ''Could not create S3 server: ''
        (NewS3Server (ce_yaml C) (ce_x509 C) (ce_fs C) (GetString L v proxyJwtPrivateRSAKey) (GetInt L v s3ProxyTlsPort)
           (GetString L v s3ProxyTlsCertFile) (GetString L v s3ProxyTlsKeyFile) (getS3ProxyHTTPPort L v)
           (GetString L v s3BackendConfigFile) (GetString L v s3ForceRequesterPaysFor)
           (GetBool L v enableLegacyBehaviorInvalidRegionToDefaultRegion)
           \<lparr>sa_fqdns = fqdns, sa_grace_seconds = GetInt L v signedUrlGraceTimeSeconds, sa_requester_pays = [], sa_mws = [],
             sa_removable = removableQueryParams, sa_cors = getS3CORSHandler L (ce_getenv C) v,
             sa_logged = GetStringSlice L v s3LoggedResponseHeaders\<rparr>
           (E0\<lparr>s3_get_policy := \<lambda>arn d. fst (GetPolicy (ce_templates C)
                (retrievePolicyStr (GetString L v rolePolicyPath)) arn d pm)\<rparr>)) Ok)))))"

definition buildSTSServer :: "('v, 't) cmd_env \<Rightarrow> sts_env \<Rightarrow> 'v \<Rightarrow> (BasicServer \<times> sts_env) result" where
  "buildSTSServer C E0 v0 =
     (let L = ce_viper C in
      go_bind (BindEnvVariables L ''proxysts'' v0) (\<lambda>v.
      or_panic ''Clould not initialize PolicyManager '' (initializePolicyManager C v) (\<lambda>pm.
      or_panic ''Could not get sts proxy fqdns: '' (getStsProxyFQDNs L v) (\<lambda>fqdns.
      or_panic ''Could not create STS server: ''
        (NewSTSServer (ce_x509 C) (ce_oidc C) (ce_fs C) (GetString L v proxyJwtPrivateRSAKey) (GetInt L v stsProxyTlsPort)
           fqdns (GetString L v stsProxyTlsCertFile) (GetString L v stsProxyTlsKeyFile) (GetString L v stsOIDCConfigFile)
           (getMaxStsDurationSeconds L v) (getMinStsDurationSeconds L v) (getStsProxyHTTPPort L v)
           (E0\<lparr>st_policy_exists := \<lambda>arn. fst (DoesPolicyExist (ce_templates C)
                (retrievePolicyStr (GetString L v rolePolicyPath)) arn pm)\<rparr>)) Ok))))"

text \<open>The bodies of the two commands: what \<^verbatim>\<open>CreateAndStartSync\<close> makes of the server. The options are
  read from the store after building has bound the variables.\<close>

definition proxys3_run ::
  "('v, 't) cmd_env \<Rightarrow> 'cv s3_env \<Rightarrow> gerr option \<Rightarrow> (server_id \<Rightarrow> nat \<Rightarrow> probe) \<Rightarrow> gerr option \<Rightarrow> 'v \<Rightarrow> unit result" where
  "proxys3_run C E0 load probes shutdown_err v =
     go_bind (buildS3Server C E0 v) (\<lambda>(s, _).
     go_bind (BindEnvVariables (ce_viper C) ''proxys3'' v) (\<lambda>v'.
       CreateAndStartSync (getServerOptsFromViper (ce_viper C) v') load probes shutdown_err s))"

definition proxysts_run ::
  "('v, 't) cmd_env \<Rightarrow> sts_env \<Rightarrow> gerr option \<Rightarrow> (server_id \<Rightarrow> nat \<Rightarrow> probe) \<Rightarrow> gerr option \<Rightarrow> 'v \<Rightarrow> unit result" where
  "proxysts_run C E0 load probes shutdown_err v =
     go_bind (buildSTSServer C E0 v) (\<lambda>(s, _).
     go_bind (BindEnvVariables (ce_viper C) ''proxysts'' v) (\<lambda>v'.
       CreateAndStartSync (getServerOptsFromViper (ce_viper C) v') load probes shutdown_err s))"

section \<open>Presigning from the command line\<close>

text \<open>\<^verbatim>\<open>http.NewRequest\<close> without a body, for a valid method: a host that ends in a colon loses it.\<close>

definition removeEmptyPort :: "string \<Rightarrow> string" where
  "removeEmptyPort host =
     (if CHR '':'' \<in> set (takeWhile (\<lambda>c. c \<noteq> CHR '']'') (rev host)) then trim_suffix host '':'' else host)"

definition http_NewRequest :: "string \<Rightarrow> string \<Rightarrow> request result" where
  "http_NewRequest method u =
     go_bind (parse_url u) (\<lambda>p.
       let p' = p\<lparr>u_host := removeEmptyPort (u_host p)\<rparr> in
       Ok \<lparr>r_method = method, r_url = p', r_host = u_host p', r_header = [], r_uri = [], r_remote = [], r_length = 0, r_body = []\<rparr>)"

text \<open>\<^verbatim>\<open>IsPresignedUrlWithValidSignature\<close> of \<^verbatim>\<open>presign/factory.go\<close>: whether the URL is signed with these
  credentials and whether it is expired. With an error the two are not used.\<close>

definition IsPresignedUrlWithValidSignature :: "signer_lib \<Rightarrow> int \<Rightarrow> string \<Rightarrow> aws_Credentials \<Rightarrow> (bool \<times> bool) result" where
  "IsPresignedUrlWithValidSignature G now url creds =
     go_bind (http_NewRequest ''GET'' url) (\<lambda>req.
     go_bind (MakePresignedUrl req) (\<lambda>purl.
     go_bind (GetPresignedUrlDetails G now purl \<lparr>h_req = req, h_ctx = None, h_resp = new_response False\<rparr>
         (\<lambda>accessKeyId. if aws_AccessKeyID creds \<noteq> accessKeyId
            then Err (Plain (''mismatch between provided credential '' @ aws_AccessKeyID creds @ '' and url credential '' @ accessKeyId))
            else Ok (aws_SecretAccessKey creds))) (\<lambda>(isValid, _, expires, _).
       Ok (isValid, now > expires))))"

definition preSignRequestWithServerCreds ::
  "('v, 't) cmd_env \<Rightarrow> request \<Rightarrow> int \<Rightarrow> int \<Rightarrow> string \<Rightarrow> string \<Rightarrow> string result" where
  "preSignRequestWithServerCreds C req exiryInSeconds signingTime defaultRegion backendCfgFile =
     go_bind (GetRegionFromRequest req defaultRegion) (\<lambda>region.
     go_bind (GetBackendCredentials_file (ce_yaml C) (ce_fs C) backendCfgFile region) (\<lambda>creds.
       PreSignRequestWithCreds (ce_signer C) req exiryInSeconds signingTime creds region))"

definition preSignRequestForGet ::
  "('v, 't) cmd_env \<Rightarrow> 'v \<Rightarrow> string list option \<Rightarrow> string \<Rightarrow> string \<Rightarrow> string \<Rightarrow> string \<Rightarrow> int \<Rightarrow> int \<Rightarrow>
   string result \<times> string list option" where
  "preSignRequestForGet C v cache bucket key region backendCfgFile signingTime expirySeconds =
     (let L = ce_viper C; (fqdn, cache') = getMainS3ProxyFQDN L v cache in
      (go_try fqdn (\<lambda>err. Err (Plain (''could not get main S3ProxyFQDN: '' @ err_Error err))) (\<lambda>mainS3ProxyFQDN.
         let url = ''https://'' @ mainS3ProxyFQDN @ '':'' @ int_string (GetInt L v s3ProxyTlsPort) @ ''/'' @ bucket @ ''/'' @ key in
         go_try (http_NewRequest ''GET'' url)
           (\<lambda>err. Err (Plain (''error when creating a request context for url: '' @ err_Error err)))
           (\<lambda>req. preSignRequestWithServerCreds C req expirySeconds signingTime region backendCfgFile)),
       cache'))"

section \<open>Properties\<close>

text \<open>Documented behaviour of the store: binding a key to an environment variable does not fail, and
  makes the key (whose case does not matter) set when that variable is.\<close>

definition viper_ok :: "'v viper_lib \<Rightarrow> (string \<Rightarrow> bool) \<Rightarrow> bool" where
  "viper_ok L env = (\<forall>key name v. \<exists>v'. BindEnv L key name v = Ok v' \<and>
     (\<forall>k. viper_is_set L v' k = (viper_is_set L v k \<or> to_lower k = to_lower key \<and> env name)))"

definition mandatory :: "string \<Rightarrow> envVarDef list" where
  "mandatory cmd = filter (\<lambda>d. isCritical d \<and> shouldBeSetFor d cmd) envVarDefs"

lemma mandatory_names:
  "map envVarName (mandatory ''proxys3'') = [''FAKES3PP_S3_PROXY_FQDN'', ''FAKES3PP_S3_PROXY_TLS_PORT'',
     ''FAKES3PP_PROXY_JWT_PRIVATE_RSA_KEY'', ''FAKES3PP_PROXY_JWT_PUBLIC_RSA_KEY'', ''FAKES3PP_STS_PROXY_FQDN'',
     ''FAKES3PP_S3_BACKEND_CONFIG'', ''FAKES3PP_ROLE_POLICY_PATH'']"
  "map envVarName (mandatory ''proxysts'') = [''FAKES3PP_PROXY_JWT_PRIVATE_RSA_KEY'', ''FAKES3PP_PROXY_JWT_PUBLIC_RSA_KEY'',
     ''FAKES3PP_STS_PROXY_FQDN'', ''FAKES3PP_STS_PROXY_TLS_PORT'', ''FAKES3PP_STS_OIDC_CONFIG'', ''FAKES3PP_ROLE_POLICY_PATH'']"
  by code_simp+

lemma envVarDefs_distinct: "distinct (map (\<lambda>d. to_lower (viperKey d)) envVarDefs)"
  by code_simp

lemma bind_loop_iff:
  assumes "viper_ok L env" and "distinct (map (\<lambda>d. to_lower (viperKey d)) ds)"
  shows "(\<exists>v'. bind_loop L cmd ds v = Ok v') \<longleftrightarrow>
    (\<forall>d \<in> set ds. isCritical d \<and> shouldBeSetFor d cmd \<longrightarrow> viper_is_set L v (viperKey d) \<or> env (envVarName d))"
  using assms(2)
proof (induction ds arbitrary: v)
  case Nil
  then show ?case by simp
next
  case (Cons d ds)
  show ?case
  proof (cases "shouldBeSetFor d cmd")
    case False
    then show ?thesis using Cons by simp
  next
    case True
    obtain v1 where v1: "BindEnv L (viperKey d) (envVarName d) v = Ok v1"
      "\<And>k. viper_is_set L v1 k = (viper_is_set L v k \<or> to_lower k = to_lower (viperKey d) \<and> env (envVarName d))"
      using assms(1) unfolding viper_ok_def by blast
    have "viper_is_set L v1 (viperKey e) = viper_is_set L v (viperKey e)" if "e \<in> set ds" for e
    proof -
      have "to_lower (viperKey d) \<notin> (\<lambda>d. to_lower (viperKey d)) ` set ds" using Cons.prems by simp
      then have "to_lower (viperKey e) \<noteq> to_lower (viperKey d)" using imageI [OF that, of "\<lambda>d. to_lower (viperKey d)"] by metis
      then show ?thesis by (simp add: v1(2))
    qed
    then have "(\<exists>v'. bind_loop L cmd ds v1 = Ok v') \<longleftrightarrow>
      (\<forall>d \<in> set ds. isCritical d \<and> shouldBeSetFor d cmd \<longrightarrow> viper_is_set L v (viperKey d) \<or> env (envVarName d))"
      using Cons.IH [of v1] Cons.prems by simp
    then show ?thesis using True v1 by (auto simp: checkViperVarNotEmpty_def)
  qed
qed

lemma BindEnvVariables_Ok:
  assumes "viper_ok L env"
  shows "(\<exists>v'. BindEnvVariables L cmd v = Ok v') \<longleftrightarrow>
    (\<forall>d \<in> set (mandatory cmd). viper_is_set L v (viperKey d) \<or> env (envVarName d))"
  using bind_loop_iff [OF assms envVarDefs_distinct] by (auto simp: BindEnvVariables_def mandatory_def)

text \<open>C21. A command gets past its configuration check exactly when each of its mandatory variables
  is set, in the environment or in the configuration file; otherwise the process leaves with
  an exit status, and optional variables never stop it.\<close>

theorem BindEnvVariables_iff:
  assumes "viper_ok L env"
  shows "(case BindEnvVariables L cmd v of
       Ok v' \<Rightarrow> \<forall>d \<in> set (mandatory cmd). viper_is_set L v (viperKey d) \<or> env (envVarName d)
     | Err e \<Rightarrow> False
     | Panic m \<Rightarrow> m = os_exit \<and> (\<exists>d \<in> set (mandatory cmd). \<not> viper_is_set L v (viperKey d) \<and> \<not> env (envVarName d)))"
proof -
  have out: "(\<exists>v'. bind_loop L cmd ds v = Ok v') \<or> bind_loop L cmd ds v = Panic os_exit" for ds v
  proof (induction ds arbitrary: v)
    case (Cons d ds)
    obtain v1 where "BindEnv L (viperKey d) (envVarName d) v = Ok v1" using assms unfolding viper_ok_def by blast
    then show ?case using Cons.IH by (simp add: checkViperVarNotEmpty_def)
  qed simp
  show ?thesis
    using BindEnvVariables_Ok [OF assms, of cmd v] out [of envVarDefs v]
    by (cases "BindEnvVariables L cmd v") (auto simp: BindEnvVariables_def)
qed

lemma or_panic_Ok [simp]: "or_panic m r k = Ok x \<longleftrightarrow> (\<exists>a. r = Ok a \<and> k a = Ok x)"
  by (auto simp: or_panic_def go_try_Ok_iff)

lemma NewS3Server_Ok:
  assumes "NewS3Server Y X fs kf port cert key http bf rf legacy a E0 = Ok (s, E)"
  obtains cfg rp where "wf_backends cfg" "s3_backends E = cfg" "sa_fqdns a \<noteq> []" "s3_fqdns E = sa_fqdns a"
    "env_default_backend (s3_authn E) = defaultBackend cfg" "bs_hostname s = hd (sa_fqdns a)"
    "bs_handlerFunc s = Some (Chain (s3_middlewares E rp (sa_logged a)) (Build E))"
    "s3_cors E = (case sa_cors a of None \<Rightarrow> NewCORSStatic [] | Some c \<Rightarrow> c)"
    "Leeway (s3_options E) = time_Duration_seconds (sa_grace_seconds a)"
proof -
  obtain cfg rp keys where s: "getBackendsConfig Y fs bf legacy = Ok cfg" "sa_fqdns a \<noteq> []"
    "E = with_config keys (a\<lparr>sa_requester_pays := rp, sa_mws := []\<rparr>) (E0\<lparr>s3_backends := cfg\<rparr>)"
    "s = SetHandlerFunc (BuildHandlerfunc (s3_middlewares E rp (sa_logged a)) (Build E))
           (NewBasicServer port (sa_fqdns a ! 0) cert key None http)"
    using assms by (auto simp: NewS3Server_def newS3Server_def go_bind_Ok_iff Let_def split: if_splits)
  obtain bs where "getBackendsConfigFromBytes Y fs bs legacy (snd (GetFilenameAndRelativePath bf)) = Ok cfg"
    using s(1) by (auto simp: getBackendsConfig_def go_bind_Ok_iff split_def)
  then have wf: "wf_backends cfg" using getBackendsConfig_wf by blast
  show ?thesis
    by (rule that [OF wf, of rp])
      (use s(2) in \<open>simp_all add: s(3,4) with_config_def BuildHandlerfunc_def SetHandlerFunc_def NewBasicServer_def
        GetDefaultBackend_def hd_conv_nth\<close>)
qed

lemma cors_origin:
  "accessControlAllowOrigin (case getS3CORSHandler L getenv v of None \<Rightarrow> NewCORSStatic [] | Some c \<Rightarrow> c) =
     (if to_lower (GetString L v ''corsStrategy'') = ''static'' then getenv ''FAKES3PP_S3_CORS_STATIC_ALLOWED_ORIGIN'' else [])"
  by (simp add: getS3CORSHandler_def NewCORSStatic_def Let_def)

lemma default_backend_answers:
  assumes "wf_backends cfg"
  shows "\<exists>ep host. GetBackendEndpoint (Some cfg) (defaultBackend cfg) = Ok ep \<and> GetHost ep = Ok host"
proof -
  obtain e where e: "getBackendConfig (Some cfg) (defaultBackend cfg) = Ok e"
    using assms by (auto simp: getBackendConfig_char effective_id_def wf_backends_def split: option.split)
  then show ?thesis
    using GetHost_ok [OF getBackendConfig_entry [OF assms e]] by (simp add: GetBackendEndpoint_def)
qed


lemma buildSTSServer_bounds:
  assumes "buildSTSServer C E0 v0 = Ok (s, E)" and "BindEnvVariables (ce_viper C) ''proxysts'' v0 = Ok v"
  shows "maxAllowedDuration E = time_Duration_seconds (getMaxStsDurationSeconds (ce_viper C) v)"
    and "minAllowedDuration E = time_Duration_seconds (getMinStsDurationSeconds (ce_viper C) v)"
  using assms by (auto simp: buildSTSServer_def NewSTSServer_def newSTSServer_def Let_def go_bind_Ok_iff split: if_splits)

text \<open>C20. On a token service built from the configuration, a request is granted a lifetime exactly
  when it asks for a number of seconds between the configured minimum (15 minutes unless set)
  and the configured maximum (12 hours unless set) and the token of the provider has not
  expired; all three numbers of seconds must fit the 64-bit duration.\<close>

theorem sts_lifetime_configured:
  assumes "buildSTSServer C E0 v0 = Ok (s, E)" and "BindEnvVariables (ce_viper C) ''proxysts'' v0 = Ok v"
    and "\<bar>getMaxStsDurationSeconds (ce_viper C) v\<bar> \<le> 9223372036" and "\<bar>getMinStsDurationSeconds (ce_viper C) v\<bar> \<le> 9223372036"
    and "\<bar>d\<bar> \<le> 9223372036"
  shows "calculateFinalDurationSeconds E d (Some e) = Ok x \<longleftrightarrow>
    st_now E \<le> e \<and> getMinStsDurationSeconds (ce_viper C) v \<le> d \<and> d \<le> getMaxStsDurationSeconds (ce_viper C) v
    \<and> x = d * time_Second"
proof -
  have cmp: "a * time_Second \<le> b * time_Second \<longleftrightarrow> a \<le> b" "a * time_Second < b * time_Second \<longleftrightarrow> a < b" for a b
    by (simp_all add: time_Second_def)
  show ?thesis
    using buildSTSServer_bounds [OF assms(1,2)] assms(3-5)
    by (auto simp: calculateFinalDurationSeconds_def Let_def time_Duration_seconds_exact not_less cmp)
qed

subsection \<open>A concrete configuration\<close>

definition toy_viper :: "unit viper_lib" where
  "toy_viper = \<lparr>BindEnv = \<lambda>_ _ v. Ok v, viper_is_set = \<lambda>_ _. True, GetInt = \<lambda>_ _. 0,
     GetString = \<lambda>_ k. if k = ''corsStrategy'' then ''Static'' else ''f'', GetBool = \<lambda>_ _. False, GetStringSlice = \<lambda>_ _. [],
     UnmarshalKey = \<lambda>_ k. Ok (if k = ''s3ProxyRemovableQueryParams'' then [] else [''s3.test''])\<rparr>"

definition toy_cmd :: "(unit, string) cmd_env" where
  "toy_cmd = \<lparr>ce_viper = toy_viper, ce_getenv = \<lambda>_. ''https://app'', ce_compile = \<lambda>_. Ok id, ce_templates = text_templates,
     ce_yaml = toy_yaml, ce_x509 = oidc_x509 toy_oidc, ce_oidc = toy_oidc, ce_signer = toy_signer,
     ce_fs = \<lambda>_. Some ''x'', ce_policies = \<lparr>lf_files = [], lf_watched = [], lf_events = []\<rparr>\<rparr>"

lemma toy_viper_ok: "viper_ok toy_viper (\<lambda>_. True)"
  by (simp add: viper_ok_def toy_viper_def)

lemma toy_bound: "BindEnvVariables toy_viper cmd () = Ok ()"
  using BindEnvVariables_Ok [OF toy_viper_ok, of cmd "()"] by (simp add: toy_viper_def)

lemma toy_policy_manager: "\<exists>pm. initializePolicyManager toy_cmd () = Ok pm"
  by (simp add: initializePolicyManager_def NewPolicyManagerForLocalPolicies_def toy_cmd_def PreWarm_def NewPolicyManager_def
      retrieveAllIdentifiers_def glob_policies_def)

lemma toy_keys: "NewKeyStorage (oidc_x509 toy_oidc) (\<lambda>_. Some ''x'') p = Ok \<lparr>privateKey = toy_key\<rparr>"
  by (simp add: NewKeyStorage_def PrivateKeyFromPemFile_def ReadFileFull_def PrivateKeyFromPem_def toy_oidc_def)

lemma toy_backends_file: "getBackendsConfig toy_yaml (\<lambda>_. Some ''x'') ''f'' False = Ok toy_backends"
  using toy_backends_loaded
  by (simp add: getBackendsConfig_def ReadFileFull_def getBackendsConfigFromBytes_def toy_yaml_def toy_entry_def
      toy_backends_def fromBackendConfigFileEntry_def buildEndpoint_def has_prefix_def getCredentials_def lookupString_def)

lemma toy_new_server:
  assumes "sa_fqdns a \<noteq> []"
  shows "\<exists>s E. NewS3Server toy_yaml (oidc_x509 toy_oidc) (\<lambda>_. Some ''x'') kf port cert key http ''f'' ''f'' False a E0 = Ok (s, E)"
proof -
  have "getRequesterPaysBuckets toy_yaml (\<lambda>_. Some ''x'') ''f'' = Ok []"
    by (simp add: getRequesterPaysBuckets_def ReadFileFull_def getRequesterPaysBucketsFromBytes_def toy_yaml_def)
  then show ?thesis using assms
    by (simp add: NewS3Server_def newS3Server_def toy_backends_file toy_keys Let_def)
qed

lemma toy_cmd_sel [simp]:
  "ce_viper toy_cmd = toy_viper" "ce_yaml toy_cmd = toy_yaml" "ce_x509 toy_cmd = oidc_x509 toy_oidc" "ce_oidc toy_cmd = toy_oidc"
  "ce_fs toy_cmd = (\<lambda>_. Some ''x'')" "ce_getenv toy_cmd = (\<lambda>_. ''https://app'')"
  by (simp_all add: toy_cmd_def)

lemma toy_viper_sel [simp]:
  "GetString toy_viper v k = (if k = ''corsStrategy'' then ''Static'' else ''f'')" "GetBool toy_viper v k = False"
  "UnmarshalKey toy_viper v k = Ok (if k = ''s3ProxyRemovableQueryParams'' then [] else [''s3.test''])"
  by (simp_all add: toy_viper_def)

lemma toy_s3_built: "\<exists>s E. buildS3Server toy_cmd E0 () = Ok (s, E)"
proof -
  obtain pm where "initializePolicyManager toy_cmd () = Ok pm" using toy_policy_manager by blast
  then show ?thesis
    by (simp add: buildS3Server_def Let_def toy_bound getS3ProxyFQDNs_def getS3RemovableQueryParamRegexes_def go_bind_Ok_iff
        toy_new_server)
qed


lemma toy_sts_built: "\<exists>s E. buildSTSServer toy_cmd E0 () = Ok (s, E)"
proof -
  obtain pm where "initializePolicyManager toy_cmd () = Ok pm" using toy_policy_manager by blast
  moreover have "loadOidcConfig toy_oidc ''x'' = Ok toy_oidc_cfg"
    using toy_oidc_loads by (simp add: loadOidcConfig_def toy_oidc_def)
  ultimately show ?thesis
    by (simp add: buildSTSServer_def Let_def toy_bound getStsProxyFQDNs_def NewSTSServer_def newSTSServer_def toy_keys
        NewOIDCVerifierFromConfigFile_def loadOidcConfigFile_def ReadFileFull_def)
qed

lemma BindEnvVariables_iff_witness: "BindEnvVariables toy_viper ''proxys3'' () = Ok ()"
  using BindEnvVariables_iff [OF toy_viper_ok, of "''proxys3''" "()"]
  by (cases "BindEnvVariables toy_viper ''proxys3'' ()") (simp_all add: toy_viper_def)

lemma sts_lifetime_configured_witness:
  "\<exists>(E0 :: sts_env) s E. buildSTSServer toy_cmd E0 () = Ok (s, E)
     \<and> (calculateFinalDurationSeconds E 900 (Some (st_now E)) = Ok (900 * time_Second))
     \<and> calculateFinalDurationSeconds E 899 (Some (st_now E)) \<noteq> Ok (899 * time_Second)"
proof -
  obtain s E where b: "buildSTSServer toy_cmd toy_sts () = Ok (s, E)" using toy_sts_built by blast
  have v: "BindEnvVariables (ce_viper toy_cmd) ''proxysts'' () = Ok ()" by (simp add: toy_bound)
  have d: "getMaxStsDurationSeconds (ce_viper toy_cmd) () = 43200" "getMinStsDurationSeconds (ce_viper toy_cmd) () = 900"
    by (simp_all add: getMaxStsDurationSeconds_def getMinStsDurationSeconds_def toy_viper_def)
  show ?thesis
    using b sts_lifetime_configured [OF b v, of 900 "st_now E"] sts_lifetime_configured [OF b v, of 899 "st_now E"] d
    by (intro exI [of _ toy_sts] exI [of _ s] exI [of _ E]) simp
qed

end
