(* ===== verification/Logging.thy ===== *)
theory Logging
  imports Request_Ctx
begin

text \<open>
  Logging: \<^verbatim>\<open>logging/enabler.go\<close>, \<^verbatim>\<open>logging/handler.go\<close> and \<^verbatim>\<open>logging/general.go\<close>. The JSON handler of
  \<^verbatim>\<open>log/slog\<close> that is wrapped is the record of its minimal level and of the attributes and groups added
  to it; what it writes is the list of records in the order they are handled, before they are printed
  as JSON. The interface \<^verbatim>\<open>ForceEnabler\<close> is the locale \<open>force_enabler\<close>.
\<close>

section \<open>Forcing records to be logged\<close>

datatype forceEnabler = NeverForce | ForceForRequestIdPrefix string

fun IsForceEnabled :: "forceEnabler \<Rightarrow> RequestCtx option \<Rightarrow> int \<Rightarrow> bool" where
  "IsForceEnabled NeverForce ctx level = False"
| "IsForceEnabled (ForceForRequestIdPrefix p) ctx level =
     (case ctx of Some reqCtx \<Rightarrow> has_prefix (RequestID reqCtx) p | None \<Rightarrow> False)"

definition NewForceForRequestIdPrefix :: "string \<Rightarrow> forceEnabler" where
  "NewForceForRequestIdPrefix p = ForceForRequestIdPrefix p"

definition getDefaultForceEnableLoggingStrategy :: "(string \<rightharpoonup> string) \<Rightarrow> forceEnabler" where
  "getDefaultForceEnableLoggingStrategy env =
     (case env ''FORCE_LOGGING_FOR_REQUEST_ID_PREFIX'' of
        Some p \<Rightarrow> if p \<noteq> [] then NewForceForRequestIdPrefix p else NeverForce
      | None \<Rightarrow> NeverForce)"

section \<open>The handler\<close>

text \<open>What \<^verbatim>\<open>With\<close> and \<^verbatim>\<open>WithGroup\<close> left in a logger, in order.\<close>

datatype scope = Attrs log_attrs | Group string

record slog_record =
  rec_level :: int
  rec_message :: string
  rec_attrs :: log_attrs

record jsonHandler =
  jh_level :: int
  jh_scopes :: "scope list"

record JSONRequestCtxHandler =
  wrappedHandler :: jsonHandler
  force_enabler_of :: forceEnabler

definition json_Enabled :: "jsonHandler \<Rightarrow> int \<Rightarrow> bool" where
  "json_Enabled h level = (jh_level h \<le> level)"

text \<open>Without attributes \<^verbatim>\<open>slog\<close> returns the handler as it is; a group has a name.\<close>

definition json_WithAttrs :: "log_attrs \<Rightarrow> jsonHandler \<Rightarrow> jsonHandler" where
  "json_WithAttrs attrs h = (if attrs = [] then h else h\<lparr>jh_scopes := jh_scopes h @ [Attrs attrs]\<rparr>)"

definition json_WithGroup :: "string \<Rightarrow> jsonHandler \<Rightarrow> jsonHandler" where
  "json_WithGroup name h = h\<lparr>jh_scopes := jh_scopes h @ [Group name]\<rparr>"

type_synonym log_sink = "(scope list \<times> slog_record) list"

definition json_Handle :: "jsonHandler \<Rightarrow> slog_record \<Rightarrow> log_sink \<Rightarrow> log_sink" where
  "json_Handle h r out = out @ [(jh_scopes h, r)]"

definition NewJSONRequestCtxHandler :: "int \<Rightarrow> forceEnabler option \<Rightarrow> (string \<rightharpoonup> string) \<Rightarrow> JSONRequestCtxHandler" where
  "NewJSONRequestCtxHandler level forceEnabler env =
     \<lparr>wrappedHandler = \<lparr>jh_level = level, jh_scopes = []\<rparr>,
      force_enabler_of = (case forceEnabler of None \<Rightarrow> getDefaultForceEnableLoggingStrategy env | Some f \<Rightarrow> f)\<rparr>"

definition log_Enabled :: "JSONRequestCtxHandler \<Rightarrow> RequestCtx option \<Rightarrow> int \<Rightarrow> bool" where
  "log_Enabled h ctx level =
     (if IsForceEnabled (force_enabler_of h) ctx level then True else json_Enabled (wrappedHandler h) level)"

definition log_WithAttrs :: "log_attrs \<Rightarrow> JSONRequestCtxHandler \<Rightarrow> JSONRequestCtxHandler" where
  "log_WithAttrs attrs h =
     \<lparr>wrappedHandler = json_WithAttrs attrs (wrappedHandler h), force_enabler_of = force_enabler_of h\<rparr>"

definition log_WithGroup :: "string \<Rightarrow> JSONRequestCtxHandler \<Rightarrow> JSONRequestCtxHandler" where
  "log_WithGroup name h =
     \<lparr>wrappedHandler = json_WithGroup name (wrappedHandler h), force_enabler_of = force_enabler_of h\<rparr>"

definition log_Handle :: "JSONRequestCtxHandler \<Rightarrow> RequestCtx option \<Rightarrow> slog_record \<Rightarrow> log_sink \<Rightarrow> log_sink" where
  "log_Handle h ctx r out =
     (let r' = (case ctx of
          Some rCtx \<Rightarrow> if RequestID rCtx \<noteq> [] then r\<lparr>rec_attrs := rec_attrs r @ [(''RequestId'', StrVal (RequestID rCtx))]\<rparr> else r
        | None \<Rightarrow> r) in
      json_Handle (wrappedHandler h) r' out)"

text \<open>A \<^verbatim>\<open>Logger\<close> of \<^verbatim>\<open>log/slog\<close> asks whether a level is enabled before it hands over a record.\<close>

definition slog_Log :: "JSONRequestCtxHandler \<Rightarrow> RequestCtx option \<Rightarrow> slog_record \<Rightarrow> log_sink \<Rightarrow> log_sink" where
  "slog_Log h ctx r out = (if log_Enabled h ctx (rec_level r) then log_Handle h ctx r out else out)"

section \<open>The level of the environment\<close>

text \<open>\<^verbatim>\<open>Level.UnmarshalText\<close>: a name in any case with an optional signed offset.\<close>

definition level_of_name :: "string \<Rightarrow> int result" where
  "level_of_name name =
     (let n = to_upper name in
      if n = ''DEBUG'' then Ok (- 4) else if n = ''INFO'' then Ok 0
      else if n = ''WARN'' then Ok 4 else if n = ''ERROR'' then Ok 8
      else Err (Plain ''unknown name''))"

definition level_parse :: "string \<Rightarrow> int result" where
  "level_parse s =
     (let name = takeWhile (\<lambda>c. c \<noteq> CHR ''+'' \<and> c \<noteq> CHR ''-'') s; rest = drop (length name) s in
      if rest = [] then level_of_name name
      else go_bind (go_Atoi rest) (\<lambda>offset. go_bind (level_of_name name) (\<lambda>l. Ok (wrap64 (l + offset)))))"

text \<open>An invalid level is only reported, and the level stays that of INFO.\<close>

definition getLogLevel :: "(string \<rightharpoonup> string) \<Rightarrow> int" where
  "getLogLevel env =
     (case env ''LOG_LEVEL'' of None \<Rightarrow> 0
      | Some logLevelOS \<Rightarrow> (case level_parse logLevelOS of Ok l \<Rightarrow> l | _ \<Rightarrow> 0))"

definition EnvironmentLvl :: int where
  "EnvironmentLvl = - 2147483648"

definition placeholder_warning :: slog_record where
  "placeholder_warning = \<lparr>rec_level = 4, rec_message = ''LOG_LEVEL environment variable not set! Using sentinel logLvl'',
     rec_attrs = [(''logLvl'', OtherVal)]\<rparr>"

text \<open>The default logger and what it wrote so far.\<close>

definition InitializeLogging ::
  "int \<Rightarrow> forceEnabler option \<Rightarrow> (string \<rightharpoonup> string) \<Rightarrow> log_sink \<Rightarrow> JSONRequestCtxHandler \<times> log_sink" where
  "InitializeLogging lvl forceEnabler env out =
     (let lvl' = (if lvl = EnvironmentLvl then getLogLevel env else lvl);
          logger = NewJSONRequestCtxHandler lvl' forceEnabler env in
      (logger, if lvl' = EnvironmentLvl then slog_Log logger None placeholder_warning out else out))"

section \<open>Properties\<close>

text \<open>What the handler relies on: forcing does not depend on the level, and there is none outside a
  request.\<close>

locale force_enabler =
  fixes forced :: "'f \<Rightarrow> RequestCtx option \<Rightarrow> int \<Rightarrow> bool"
  assumes level_free: "forced f ctx l = forced f ctx l'"
    and no_context: "\<not> forced f None l"
begin

lemma enabled_mono:
  "l \<le> l' \<Longrightarrow> forced f ctx l \<or> json_Enabled h l \<Longrightarrow> forced f ctx l' \<or> json_Enabled h l'"
  using level_free [of f ctx l l'] by (auto simp: json_Enabled_def)

lemma enabled_outside: "forced f None l \<or> json_Enabled h l \<longleftrightarrow> jh_level h \<le> l"
  by (simp add: no_context json_Enabled_def)

end

lemma IsForceEnabled_level: "IsForceEnabled f ctx l = IsForceEnabled f ctx l'"
  by (cases f) simp_all

interpretation fe: force_enabler IsForceEnabled
proof
  show "IsForceEnabled f ctx l = IsForceEnabled f ctx l'" for f ctx l l'
    by (rule IsForceEnabled_level)
  show "\<not> IsForceEnabled f None l" for f l
    by (cases f) simp_all
qed

lemma log_Enabled_iff:
  "log_Enabled h ctx l \<longleftrightarrow> IsForceEnabled (force_enabler_of h) ctx l \<or> json_Enabled (wrappedHandler h) l"
  by (simp add: log_Enabled_def)

lemma log_Enabled_mono: "l \<le> l' \<Longrightarrow> log_Enabled h ctx l \<Longrightarrow> log_Enabled h ctx l'"
  unfolding log_Enabled_iff by (rule fe.enabled_mono)

lemma log_Enabled_outside: "log_Enabled h None l \<longleftrightarrow> jh_level (wrappedHandler h) \<le> l"
  unfolding log_Enabled_iff by (rule fe.enabled_outside)

text \<open>The handlers made from one by \<^verbatim>\<open>With\<close> and \<^verbatim>\<open>WithGroup\<close>.\<close>

inductive derived :: "JSONRequestCtxHandler \<Rightarrow> JSONRequestCtxHandler \<Rightarrow> bool" for h where
  derived_self: "derived h h"
| derived_attrs: "derived h h' \<Longrightarrow> derived h (log_WithAttrs attrs h')"
| derived_group: "derived h h' \<Longrightarrow> derived h (log_WithGroup name h')"

lemma derived_same:
  "derived h h' \<Longrightarrow> force_enabler_of h' = force_enabler_of h
     \<and> jh_level (wrappedHandler h') = jh_level (wrappedHandler h)
     \<and> prefix (jh_scopes (wrappedHandler h)) (jh_scopes (wrappedHandler h'))"
  by (induction rule: derived.induct)
    (auto simp: log_WithAttrs_def log_WithGroup_def json_WithAttrs_def json_WithGroup_def prefix_def)

lemma derived_Enabled: "derived h h' \<Longrightarrow> log_Enabled h' ctx l = log_Enabled h ctx l"
  using derived_same [of h h'] by (simp add: log_Enabled_iff json_Enabled_def)

text \<open>With the prefix set in the environment, every record of a request whose identifier starts with
  it is written at any level, by the handler and everything derived from it, and carries the
  identifier.\<close>

theorem forced_request_logged:
  assumes "env ''FORCE_LOGGING_FOR_REQUEST_ID_PREFIX'' = Some p" and "p \<noteq> []" and "has_prefix (RequestID c) p"
    and "derived (NewJSONRequestCtxHandler lvl None env) h"
  shows "slog_Log h (Some c) r out =
    out @ [(jh_scopes (wrappedHandler h), r\<lparr>rec_attrs := rec_attrs r @ [(''RequestId'', StrVal (RequestID c))]\<rparr>)]"
proof -
  have "force_enabler_of h = ForceForRequestIdPrefix p"
    using derived_same [OF assms(4)] assms(1,2)
    by (simp add: NewJSONRequestCtxHandler_def getDefaultForceEnableLoggingStrategy_def NewForceForRequestIdPrefix_def)
  moreover have "RequestID c \<noteq> []" using assms(2,3) by (auto simp: has_prefix_def)
  ultimately show ?thesis
    using assms(3) by (simp add: slog_Log_def log_Enabled_iff log_Handle_def json_Handle_def Let_def)
qed

text \<open>The warning that the variable for the level is not set cannot appear when it is not set.\<close>

theorem unset_level_no_warning:
  assumes "env ''LOG_LEVEL'' = None"
  shows "InitializeLogging EnvironmentLvl f env out = (NewJSONRequestCtxHandler 0 f env, out)"
  using assms by (simp add: InitializeLogging_def getLogLevel_def EnvironmentLvl_def)

lemma level_parse_examples:
  "level_parse ''warn'' = Ok 4" "level_parse ''DEBUG-2'' = Ok (- 6)" "level_parse ''Info+1'' = Ok 1"
  "is_ok (level_parse ''verbose'') = False"
  by code_simp+

end
