(* ===== verification/Startup.thy ===== *)
theory Startup
  imports Config Logging
begin

text \<open>
  Start of the program: \<^verbatim>\<open>cmd/root.go\<close> and \<^verbatim>\<open>main.go\<close>. The environment of the process is a map that loading
  \<^verbatim>\<open>.env\<close> files extends. The packages cobra, viper and godotenv are parameters; a command is what cobra
  runs after the functions registered with \<^verbatim>\<open>OnInitialize\<close>.
\<close>

type_synonym environ = "string \<rightharpoonup> string"

section \<open>Files of environment variables\<close>

text \<open>The loop over the names in the flag; an error ends the process.\<close>

fun load_dotenvs :: "(string \<Rightarrow> environ \<Rightarrow> environ result) \<Rightarrow> string list \<Rightarrow> environ \<Rightarrow> environ result" where
  "load_dotenvs Load [] env = Ok env"
| "load_dotenvs Load (dotEnv # rest) env =
     (if dotEnv = ''skip'' then Ok env
      else if dotEnv = [] then load_dotenvs Load rest env
      else go_try (Load dotEnv env) (\<lambda>_. Panic os_exit) (load_dotenvs Load rest))"

definition loadEnvVarsFromDotEnv ::
  "(string \<Rightarrow> environ \<Rightarrow> environ result) \<Rightarrow> string \<Rightarrow> environ \<Rightarrow> environ result" where
  "loadEnvVarsFromDotEnv Load envFiles env = load_dotenvs Load (str_split envFiles '','') env"

section \<open>Reading the configuration\<close>

text \<open>What \<^verbatim>\<open>initConfig\<close> calls of the configuration store; reading the file may see the environment.\<close>

record 'v viper_init =
  SetConfigFile :: "string \<Rightarrow> 'v \<Rightarrow> 'v"
  AddConfigPath :: "string \<Rightarrow> 'v \<Rightarrow> 'v"
  SetConfigType :: "string \<Rightarrow> 'v \<Rightarrow> 'v"
  SetConfigName :: "string \<Rightarrow> 'v \<Rightarrow> 'v"
  SetEnvPrefix :: "string \<Rightarrow> 'v \<Rightarrow> 'v"
  AutomaticEnv :: "'v \<Rightarrow> 'v"
  ReadInConfig :: "environ \<Rightarrow> 'v \<Rightarrow> 'v result"

record startup_flags =
  cfgFile :: string
  envFiles :: string

definition initConfig ::
  "'v viper_init \<Rightarrow> (string \<Rightarrow> environ \<Rightarrow> environ result) \<Rightarrow> string result \<Rightarrow> startup_flags \<Rightarrow> 'v \<Rightarrow> environ
   \<Rightarrow> ('v \<times> environ) result" where
  "initConfig V Load UserHomeDir flags v env =
     go_bind (if cfgFile flags \<noteq> [] then Ok (SetConfigFile V (cfgFile flags) v)
              else go_try UserHomeDir (\<lambda>_. Panic os_exit) (\<lambda>home.
                Ok (SetConfigName V ''.fakes3pp'' (SetConfigType V ''yaml'' (AddConfigPath V home v))))) (\<lambda>v1.
     let v2 = AutomaticEnv V (SetEnvPrefix V ''FAKES3PP'' v1) in
     go_bind (case ReadInConfig V env v2 of Ok v3 \<Rightarrow> Ok v3 | Err _ \<Rightarrow> Ok v2 | Panic m \<Rightarrow> Panic m) (\<lambda>v3.
     go_bind (loadEnvVarsFromDotEnv Load (envFiles flags) env) (\<lambda>env'. Ok (v3, env'))))"

text \<open>\<^verbatim>\<open>init\<close> of the package, before flags are parsed and files are read, sets up the logger; \<^verbatim>\<open>Execute\<close> runs
  the command, whose error is the exit status.\<close>

definition program ::
  "'v viper_init \<Rightarrow> (string \<Rightarrow> environ \<Rightarrow> environ result) \<Rightarrow> string result \<Rightarrow> startup_flags
   \<Rightarrow> (JSONRequestCtxHandler \<Rightarrow> 'v \<Rightarrow> environ \<Rightarrow> unit result) \<Rightarrow> 'v \<Rightarrow> environ \<Rightarrow> unit result" where
  "program V Load UserHomeDir flags command v env =
     (let logger = fst (InitializeLogging EnvironmentLvl None env []) in
      go_try (go_bind (initConfig V Load UserHomeDir flags v env) (\<lambda>(v', env'). command logger v' env'))
        (\<lambda>_. Panic os_exit) Ok)"

section \<open>Properties\<close>

text \<open>Documented behaviour of \<^verbatim>\<open>godotenv.Load\<close>: a variable that exists is not overridden.\<close>

definition dotenv_ok :: "(string \<Rightarrow> environ \<Rightarrow> environ result) \<Rightarrow> bool" where
  "dotenv_ok Load = (\<forall>f env env'. Load f env = Ok env' \<longrightarrow> env \<subseteq>\<^sub>m env')"

lemma load_dotenvs_extends: "dotenv_ok Load \<Longrightarrow> load_dotenvs Load fs env = Ok env' \<Longrightarrow> env \<subseteq>\<^sub>m env'"
proof (induction fs arbitrary: env)
  case (Cons f fs)
  show ?case
  proof (cases "f = ''skip'' \<or> f = []")
    case True
    then show ?thesis using Cons by auto
  next
    case False
    then obtain e where e: "Load f env = Ok e" "load_dotenvs Load fs e = Ok env'"
      using Cons.prems(2) by (auto simp: go_try_Ok_iff)
    then show ?thesis using Cons.IH [OF Cons.prems(1) e(2)] Cons.prems(1) map_le_trans [of env e env']
      unfolding dotenv_ok_def by blast
  qed
qed simp

lemma initConfig_extends:
  assumes "dotenv_ok Load" and "initConfig V Load H flags v env = Ok (v', env')"
  shows "env \<subseteq>\<^sub>m env' \<and> load_dotenvs Load (str_split (envFiles flags) '','') env = Ok env'"
  using assms(2) load_dotenvs_extends [OF assms(1)]
  by (auto simp: initConfig_def loadEnvVarsFromDotEnv_def go_bind_Ok_iff Let_def)

text \<open>What is set before the program starts stays, names after \<open>skip\<close> are not read, and variables from
  the files count for the mandatory ones: when they are all there, the command gets past its check.\<close>

lemma load_dotenvs_skip: "load_dotenvs Load (fs @ ''skip'' # gs) env = load_dotenvs Load fs env"
proof (induction fs arbitrary: env)
  case (Cons f fs)
  then show ?case by (cases "Load f env") auto
qed simp

theorem mandatory_from_dotenv:
  assumes "initConfig V Load H flags v env = Ok (v', env')" and "dotenv_ok Load"
    and "viper_ok L (\<lambda>n. env' n \<noteq> None)" and "\<And>d. d \<in> set (mandatory cmd) \<Longrightarrow> env' (envVarName d) \<noteq> None"
  shows "env \<subseteq>\<^sub>m env' \<and> (\<exists>v2. BindEnvVariables L cmd v' = Ok v2)"
  using initConfig_extends [OF assms(2,1)] BindEnvVariables_Ok [OF assms(3), of cmd v'] assms(4) by blast

text \<open>The logger is made before the files are read: a level in a \<^verbatim>\<open>.env\<close> file has no effect.\<close>

theorem level_in_dotenv_ignored:
  assumes "env ''LOG_LEVEL'' = None"
  shows "program V Load H flags command v env =
    program V Load H flags (\<lambda>_. command (NewJSONRequestCtxHandler 0 None env)) v env"
  using unset_level_no_warning [of env None "[]"] assms by (simp add: program_def)

end
