(* ===== verification/Presign_Roundtrip.thy ===== *)
theory Presign_Roundtrip
  imports Config
begin

text \<open>
  The converse of the safety of version 1 URLs: the URL that \<^verbatim>\<open>presign/hmacv1query.go\<close> builds for a
  request is found valid by \<^verbatim>\<open>IsPresignedUrlWithValidSignature\<close> under the same credentials, until it
  expires. It needs that the URL, which is built from the decoded path, is parsed back to its parts;
  this is so for hosts and paths without characters that mean something in a URL.
\<close>

section \<open>A plain URL is parsed back to its parts\<close>

definition clean_host :: "string \<Rightarrow> bool" where
  "clean_host h =
     (case dropWhile unreserved h of [] \<Rightarrow> True | c # ds \<Rightarrow> c = CHR '':'' \<and> ds \<noteq> [] \<and> list_all is_digit ds)"

definition clean_path :: "string \<Rightarrow> bool" where
  "clean_path p = list_all (\<lambda>c. unreserved c \<or> c = CHR ''/'') p"

lemma clean_host_parts:
  assumes "clean_host h"
  obtains "list_all unreserved h" | n ds where "h = n @ CHR '':'' # ds" "list_all unreserved n" "ds \<noteq> []" "list_all is_digit ds"
proof -
  have n: "list_all unreserved (takeWhile unreserved h)" by (auto simp: list_all_iff dest: set_takeWhileD)
  have h: "h = takeWhile unreserved h @ dropWhile unreserved h" by simp
  show ?thesis
  proof (cases "dropWhile unreserved h")
    case Nil
    then show ?thesis using that(1) by (simp add: list_all_iff)
  next
    case (Cons c ds)
    then show ?thesis using that(2) [of "takeWhile unreserved h" ds] n h assms by (simp add: clean_host_def)
  qed
qed

lemma unreserved_plain:
  "unreserved c \<Longrightarrow> c \<notin> {CHR '':'', CHR ''@'', CHR ''['', CHR ''/'', CHR ''?'', CHR ''#'', CHR ''%'', CHR ''+''} \<and> host_char c \<and> \<not> ctl_byte c"
  by (auto simp: unreserved_def host_char_def ctl_byte_def char_defs)

lemma is_digit_plain: "is_digit c \<Longrightarrow> unreserved c"
  by (simp add: unreserved_def)

lemma clean_host_chars:
  "clean_host h \<Longrightarrow> c \<in> set h \<Longrightarrow> unreserved c \<or> c = CHR '':''"
  by (erule clean_host_parts) (auto simp: list_all_iff is_digit_plain)

lemma unescape_host_plain: "list_all (\<lambda>c. unreserved c \<or> c = CHR '':'') h \<Longrightarrow> unescape_host h = Ok h"
proof (induction h)
  case (Cons c h)
  have "host_char (CHR '':'')" by (simp add: host_char_def)
  then show ?case using Cons unreserved_plain [of c] by auto
qed simp

lemma unescape_clean_path: "clean_path p \<Longrightarrow> unescape False p = Ok p"
proof (induction p)
  case (Cons c p)
  then show ?case using unreserved_plain [of c] by (auto simp: clean_path_def)
qed simp

lemma cut_last_absent: "c \<notin> set s \<Longrightarrow> cut_last c s = None"
  by (simp add: cut_last_def str_cut_char_None)

lemma parse_host_clean: "clean_host h \<Longrightarrow> parse_host h = Ok h"
proof -
  assume h: "clean_host h"
  have chars: "list_all (\<lambda>c. unreserved c \<or> c = CHR '':'') h"
    using clean_host_chars [OF h] by (auto simp: list_all_iff)
  have nb: "CHR ''['' \<notin> set h" using clean_host_chars [OF h] unreserved_plain by fastforce
  from h show ?thesis
  proof (rule clean_host_parts)
    assume "list_all unreserved h"
    then have "CHR '':'' \<notin> set h" using unreserved_plain by (fastforce simp: list_all_iff)
    then show ?thesis using nb chars by (simp add: parse_host_def cut_last_absent unescape_host_plain)
  next
    fix n ds assume p: "h = n @ CHR '':'' # ds" "list_all unreserved n" "ds \<noteq> []" "list_all is_digit ds"
    have "CHR '':'' \<notin> set ds" using p(4) by (auto simp: list_all_iff char_defs)
    then have "cut_last (CHR '':'') h = Some (n, ds)"
      using str_cut_char [of "CHR '':''" "rev ds" "rev n"] by (simp add: cut_last_def p(1))
    then show ?thesis using nb chars p(4) by (simp add: parse_host_def unescape_host_plain)
  qed
qed

lemma parse_authority_clean: "clean_host h \<Longrightarrow> parse_authority h = Ok (None, h)"
proof -
  assume h: "clean_host h"
  have "CHR ''@'' \<notin> set h" using clean_host_chars [OF h] unreserved_plain by fastforce
  then show ?thesis by (simp add: parse_authority_def cut_last_absent parse_host_clean [OF h])
qed

definition query_byte :: "char \<Rightarrow> bool" where
  "query_byte c = (query_char c \<or> c = CHR ''&'' \<or> c = CHR ''='')"

lemma query_byte_plain: "query_byte c \<Longrightarrow> c \<noteq> CHR ''#'' \<and> \<not> ctl_byte c"
  by (auto simp: query_byte_def query_char_def unreserved_def ctl_byte_def char_defs)

lemma parse_plain_tail:
  assumes "sch = ''http'' \<or> sch = ''https''" and "clean_host h" and "clean_path p" and "list_all query_byte Q"
    and "tail = CHR ''?'' # Q \<or> tail = [] \<and> Q = []"
  shows "parse_url (sch @ ''://'' @ h @ CHR ''/'' # p @ tail) =
    Ok (empty_url\<lparr>u_scheme := sch, u_host := h, u_path := CHR ''/'' # p, u_rawquery := Q\<rparr>)"
proof -
  define rest where "rest = ''//'' @ h @ CHR ''/'' # p"
  have rest_chars: "c \<in> set rest \<Longrightarrow> unreserved c \<or> c = CHR '':'' \<or> c = CHR ''/''" for c
    using clean_host_chars [OF assms(2)] assms(3) by (auto simp: rest_def clean_path_def list_all_iff)
  have sch_chars: "list_all unreserved sch"
    using assms(1) by (elim disjE) (simp_all add: unreserved_def char_defs)
  have plain: "unreserved c \<Longrightarrow> c \<noteq> CHR ''#'' \<and> \<not> ctl_byte c" for c
    using unreserved_plain [of c] by simp
  have marks: "\<not> ctl_byte (CHR '':'')" "\<not> ctl_byte (CHR ''/'')" "\<not> ctl_byte (CHR ''?'')"
    by (simp_all add: ctl_byte_def char_defs)
  have all_chars: "c \<noteq> CHR ''#'' \<and> \<not> ctl_byte c" if c: "c \<in> set (sch @ CHR '':'' # rest @ tail)" for c
  proof -
    consider "c \<in> set sch" | "c = CHR '':''" | "c \<in> set rest" | "c = CHR ''?''" | "c \<in> set Q" using c assms(5) by auto
    then show ?thesis
    proof cases
      case 1
      then show ?thesis using sch_chars plain by (simp add: list_all_iff)
    next
      case 3
      from rest_chars [OF this] show ?thesis using plain marks by auto
    next
      case 5
      then show ?thesis using assms(4) query_byte_plain by (simp add: list_all_iff)
    qed (simp_all add: marks)
  qed
  have no_q: "CHR ''?'' \<notin> set rest" using rest_chars unreserved_plain by fastforce
  have ns: "CHR ''/'' \<notin> set h" using clean_host_chars [OF assms(2)] unreserved_plain by fastforce
  have raw: "sch @ ''://'' @ h @ CHR ''/'' # p @ tail = sch @ CHR '':'' # rest @ tail"
    by (simp add: rest_def)
  have g: "get_scheme (sch @ CHR '':'' # rest @ tail) = Ok (sch, rest @ tail)"
    using assms(1) scheme_literals by (intro get_scheme_colon) auto
  have lower: "to_lower sch = sch" "sch \<noteq> []" using assms(1) scheme_literals by auto
  have cut: "cut_query (rest @ tail) = (rest, Q)"
    using assms(5) str_cut_char [OF no_q, of Q] str_cut_char_None [OF no_q] by (auto simp: cut_query_def)
  have pre: "has_prefix rest ''/''" "has_prefix rest ''//''" by (simp_all add: rest_def has_prefix_def)
  have auth: "takeWhile (\<lambda>c. c \<noteq> CHR ''/'') (drop 2 rest) = h" "dropWhile (\<lambda>c. c \<noteq> CHR ''/'') (drop 2 rest) = CHR ''/'' # p"
    by (simp_all add: rest_def takeWhile_noslash [OF ns])
  have ctl: "\<not> list_ex ctl_byte (sch @ CHR '':'' # rest @ tail)"
    using all_chars unfolding list_ex_iff by blast
  have star: "sch @ CHR '':'' # rest @ tail \<noteq> ''*''" using assms(1) by auto
  have hash: "str_cut ''#'' (sch @ CHR '':'' # rest @ tail) = None"
    using all_chars by (intro str_cut_char_None) blast
  have "parse_nofrag (sch @ CHR '':'' # rest @ tail) =
      Ok (empty_url\<lparr>u_scheme := sch, u_host := h, u_path := CHR ''/'' # p, u_rawquery := Q\<rparr>)"
    unfolding parse_nofrag_def if_not_P [OF ctl] if_not_P [OF star] g
    by (simp add: lower cut pre auth parse_authority_clean [OF assms(2)] unescape_clean_path [OF assms(3)] empty_url_def)
  then show ?thesis unfolding raw parse_url_def hash by simp
qed

lemma parse_plain_url:
  assumes "sch = ''http'' \<or> sch = ''https''" and "clean_host h" and "clean_path p" and "list_all query_byte Q"
  shows "parse_url (sch @ ''://'' @ h @ CHR ''/'' # p @ ''?'' @ Q) =
    Ok (empty_url\<lparr>u_scheme := sch, u_host := h, u_path := CHR ''/'' # p, u_rawquery := Q\<rparr>)"
  using parse_plain_tail [OF assms, of "''?'' @ Q"] by simp

section \<open>The URL of a presigned request\<close>

lemma hmac_query_bytes: "list_all is_digit expires \<Longrightarrow> list_all query_byte (hmac_query creds expires signature)"
proof -
  assume e: "list_all is_digit expires"
  have esc: "list_all query_byte (query_escape s)" for s
    using query_escape_chars by (auto simp: list_all_iff query_byte_def)
  have "list_all query_byte expires"
    using e by (auto simp: list_all_iff query_byte_def query_char_def dest: is_digit_plain)
  moreover have "list_all query_byte ''AWSAccessKeyId=''" "list_all query_byte ''&Signature=''"
    "list_all query_byte ''&x-amz-security-token=''" "list_all query_byte ''&Expires=''" by code_simp+
  ultimately show ?thesis by (simp add: hmac_query_def esc)
qed

lemma digits_expiry: "list_all is_digit s \<Longrightarrow> expiry_text s \<and> plus_blank s = s"
  by (induction s) (auto simp: expiry_text_def plus_blank_def char_defs)

lemma hmac_query_all_values:
  assumes "list_all is_digit expires"
  shows "values_vals (parse_query (hmac_query creds expires signature)) k =
    (if k = ''AWSAccessKeyId'' then [aws_AccessKeyID creds] else if k = ''Signature'' then [signature]
     else if k = ''x-amz-security-token'' \<and> aws_SessionToken creds \<noteq> [] then [aws_SessionToken creds]
     else if k = ''Expires'' then [expires] else [])"
proof -
  have e: "expiry_text expires" "plus_blank expires = expires" using digits_expiry [OF assms] by simp_all
  show ?thesis unfolding hmac_query_pairs [OF e(1)] parse_query_join by (simp add: hmac_pairs_def e(2))
qed

text \<open>The request that is made of the URL.\<close>

definition url_request :: "string \<Rightarrow> string \<Rightarrow> string \<Rightarrow> string \<Rightarrow> request" where
  "url_request sch h path Q = \<lparr>r_method = ''GET'',
     r_url = empty_url\<lparr>u_scheme := sch, u_host := h, u_path := path, u_rawquery := Q\<rparr>, r_host = h, r_header = [],
     r_uri = [], r_remote = [], r_length = 0, r_body = []\<rparr>"

lemma removeEmptyPort_clean: "clean_host h \<Longrightarrow> removeEmptyPort h = h"
proof -
  assume h: "clean_host h"
  have "last h \<noteq> CHR '':'' \<or> h = []"
    using h
  proof (rule clean_host_parts)
    assume "list_all unreserved h"
    then have "h = [] \<or> unreserved (last h)" by (cases "h = []") (simp_all add: list_all_iff)
    then show ?thesis using unreserved_plain [of "last h"] by auto
  next
    fix n ds assume d: "h = n @ CHR '':'' # ds" "ds \<noteq> []" "list_all is_digit ds"
    then have "unreserved (last h)" using is_digit_plain by (simp add: list_all_iff)
    then show ?thesis using unreserved_plain [of "last h"] by auto
  qed
  then have "\<not> suffix '':'' h" by (auto simp: suffix_def)
  then show ?thesis by (simp add: removeEmptyPort_def trim_suffix_def)
qed

lemma http_NewRequest_plain:
  assumes "sch = ''http'' \<or> sch = ''https''" and "clean_host h" and "clean_path p" and "list_all query_byte Q"
  shows "http_NewRequest ''GET'' (sch @ ''://'' @ h @ CHR ''/'' # p @ ''?'' @ Q) = Ok (url_request sch h (CHR ''/'' # p) Q)"
  unfolding http_NewRequest_def parse_plain_url [OF assms]
  by (simp add: removeEmptyPort_clean [OF assms(2)] url_request_def Let_def)

text \<open>Two well-formed queries with the same values are the same to the code, in whichever order
  their keys come.\<close>

lemma wf_query_map: "wf_query m \<Longrightarrow> map_of m k = (if values_vals m k = [] then None else Some (values_vals m k))"
  by (cases "map_of m k") (auto simp: wf_query_def values_vals_def dest: map_of_SomeD)

lemma IsSameQuery_values:
  assumes "wf_query m1" and "wf_query m2" and "\<And>k. values_vals m1 k = values_vals m2 k"
  shows "IsSameQuery m1 m2"
proof -
  have eq: "map_of m1 = map_of m2" using wf_query_map [OF assms(1)] wf_query_map [OF assms(2)] assms(3) by auto
  have d: "distinct (map fst m1)" "distinct (map fst m2)" using assms(1,2) by (simp_all add: wf_query_def)
  have "fst ` set m1 = fst ` set m2" using eq by (metis dom_map_of_conv_image_fst)
  then have "length m1 = length m2" using d by (metis distinct_card length_map set_map)
  moreover have "map_of m2 k = Some vs" if "(k, vs) \<in> set m1" for k vs using that d(1) eq by (metis map_of_is_SomeI)
  ultimately show ?thesis by (auto simp: IsSameQuery_def list_all_iff)
qed

text \<open>The values of the query of a version 1 URL.\<close>

definition hmac_values :: "aws_Credentials \<Rightarrow> string \<Rightarrow> string \<Rightarrow> string \<Rightarrow> string list" where
  "hmac_values creds expires signature k =
    (if k = ''AWSAccessKeyId'' then [aws_AccessKeyID creds] else if k = ''Signature'' then [signature]
     else if k = ''x-amz-security-token'' \<and> aws_SessionToken creds \<noteq> [] then [aws_SessionToken creds]
     else if k = ''Expires'' then [expires] else [])"

lemmas hmac_query_vals = hmac_query_all_values [folded hmac_values_def]

lemma hmac_values_keys:
  assumes "\<And>k. values_vals (r_query r) k = hmac_values creds expires signature k" and "k \<in> fst ` set (r_query r)"
  shows "k \<in> {''AWSAccessKeyId'', ''Signature'', ''x-amz-security-token'', ''Expires''}"
proof -
  obtain vs where k: "(k, vs) \<in> set (r_query r)" using assms(2) by auto
  have "wf_query (r_query r)" by (rule wf_url_Query)
  then have "values_vals (r_query r) k = vs" "vs \<noteq> []" using k by (auto simp: wf_query_def values_vals_def)
  then show ?thesis using assms(1) [of k] by (auto simp: hmac_values_def split: if_splits)
qed

lemma no_interest:
  assumes "\<And>k. values_vals (r_query r) k = hmac_values creds expires signature k"
  shows "getCanonicalResource r = Ok (u_path (r_url r))"
proof -
  have "k \<notin> set queryStringArgumentsOfInterest" if "(k, vs) \<in> set (r_query r)" for k vs
    using hmac_values_keys [OF assms, of k] that by (force simp: queryStringArgumentsOfInterest_def)
  then show ?thesis by (auto simp: getCanonicalResource_def list_ex_iff)
qed

lemma hmac_signature_same:
  assumes "getCanonicalResource r = Ok path" and "getCanonicalResource r' = Ok path" and "r_method r' = r_method r"
    and "r_header r' = r_header r" and "aws_SecretAccessKey c' = aws_SecretAccessKey c" and "aws_SessionToken c' = aws_SessionToken c"
  shows "hmac_signature G r' c' e = hmac_signature G r c e"
proof -
  have "getCanonicalResource (x\<lparr>r_header := k\<rparr>) = getCanonicalResource x" for x k
    by (simp add: getCanonicalResource_def)
  then show ?thesis
    using assms by (simp add: hmac_signature_def getCanonicalRequestString_def assureSecTokenHeader_def Let_def split_def)
qed

section \<open>The URL is found valid\<close>

lemma b64_encode_nonempty: "s \<noteq> [] \<Longrightarrow> b64_encode a s \<noteq> []"
  using length_digits6 [of s] length_b64_encode [of s a] by auto

lemma url_request_simps [simp]:
  "r_method (url_request sch h path Q) = ''GET''" "r_header (url_request sch h path Q) = []"
  "u_scheme (r_url (url_request sch h path Q)) = sch" "u_host (r_url (url_request sch h path Q)) = h"
  "u_path (r_url (url_request sch h path Q)) = path" "u_rawquery (r_url (url_request sch h path Q)) = Q"
  "url_Query (r_url (url_request sch h path Q)) = parse_query Q"
  by (simp_all add: url_request_def url_Query_def)

lemma hmac_details_valid:
  assumes "u_scheme (r_url r) = [] \<or> u_scheme (r_url r) = ''http'' \<or> u_scheme (r_url r) = ''https''"
    and "clean_host (u_host (r_url r))" and "u_path (r_url r) = CHR ''/'' # p" and "clean_path p"
    and "list_all is_digit expires" and "expires \<noteq> []" and "go_Atoi expires = Ok e"
    and "\<And>k. values_vals (r_query r) k = hmac_values c expires signature k"
    and "hmac_signature G r c expires = Ok signature" and "c = static_credentials ak sk tok" and "d ak = Ok sk" and "h_req h = r"
  shows "hmac_GetPresignedUrlDetails G now h d = Ok (True, c, e * time_Second, h)"
proof -
  define sch where "sch = (if u_scheme (r_url r) \<noteq> [] then u_scheme (r_url r) else ''https'')"
  have sch: "sch = ''http'' \<or> sch = ''https''" using assms(1) by (auto simp: sch_def)
  have get: "values_Get (r_query r) ''AWSAccessKeyId'' = ak" "values_Get (r_query r) ''Expires'' = expires"
    "getHmacV1QuerySecurityToken r = tok"
    unfolding values_Get_def getHmacV1QuerySecurityToken_def assms(8) by (simp_all add: hmac_values_def assms(10) static_credentials_def)
  have url: "buildHmacV1QueryUrl r c expires signature =
      sch @ ''://'' @ u_host (r_url r) @ CHR ''/'' # p @ ''?'' @ hmac_query c expires signature"
    by (simp add: buildHmacV1QueryUrl_def assms(3) sch_def)
  have "IsSameQuery (parse_query (hmac_query c expires signature)) (r_query r)"
    by (rule IsSameQuery_values [OF wf_parse_query wf_url_Query]) (simp add: hmac_query_vals [OF assms(5)] assms(8))
  then obtain b where "CompareRequestWithUrl r (buildHmacV1QueryUrl r c expires signature) = Ok (b, True, True, True)"
    unfolding CompareRequestWithUrl_def url parse_plain_url [OF sch assms(2,4) hmac_query_bytes [OF assms(5)]]
    by (simp add: url_Query_def [of "empty_url\<lparr>u_scheme := x, u_host := y, u_path := z, u_rawquery := w\<rparr>" for x y z w] assms(3))
  then have "hasValidSignature G now r c = Ok True"
    by (simp add: hasValidSignature_def CalculateS3PresignedHmacV1QueryUrl_def get(2) assms(6,9)
        calculateS3PresignedHmacV1QueryUrlWithExpiryTime_def Let_def)
  then show ?thesis
    by (simp add: hmac_GetPresignedUrlDetails_def assms(12) get assms(7,11) assms(10) [symmetric] epochStrToTime_def Let_def)
qed

lemma hmac_url_details:
  assumes "sch = ''http'' \<or> sch = ''https''" and "clean_host h" and "clean_path p"
    and "list_all is_digit expires" and "expires \<noteq> []" and "go_Atoi expires = Ok e"
    and "r = url_request sch h (CHR ''/'' # p) (hmac_query creds expires signature)"
    and "hmac_signature G r creds expires = Ok signature" and "d (aws_AccessKeyID creds) = Ok (aws_SecretAccessKey creds)"
  shows "\<exists>c h'. hmac_GetPresignedUrlDetails G now \<lparr>h_req = r, h_ctx = x, h_resp = w\<rparr> d = Ok (True, c, e * time_Second, h')"
proof -
  define c where "c = static_credentials (aws_AccessKeyID creds) (aws_SecretAccessKey creds) (aws_SessionToken creds)"
  have same: "hmac_values c expires signature = hmac_values creds expires signature"
    by (simp add: fun_eq_iff hmac_values_def c_def static_credentials_def)
  have vals: "values_vals (r_query r) k = hmac_values c expires signature k" for k
    unfolding same by (simp add: assms(7) hmac_query_vals [OF assms(4)])
  have "hmac_signature G r c expires = hmac_signature G r creds expires"
    by (rule hmac_signature_same [of r "u_path (r_url r)"]) (simp_all add: no_interest [OF vals] c_def static_credentials_def)
  then have sig: "hmac_signature G r c expires = Ok signature" using assms(8) by simp
  have "hmac_GetPresignedUrlDetails G now \<lparr>h_req = r, h_ctx = x, h_resp = w\<rparr> d =
      Ok (True, c, e * time_Second, \<lparr>h_req = r, h_ctx = x, h_resp = w\<rparr>)"
    by (rule hmac_details_valid [where d = d, OF _ _ _ assms(3-6) vals sig c_def assms(9)])
      (use assms(1,2) in \<open>simp_all add: assms(7)\<close>)
  then show ?thesis by blast
qed


definition toy_presign_request :: request where
  "toy_presign_request = url_request ''https'' ''s3.test:8443'' ''/b/dir/k.txt'' []"

definition toy_presign_creds :: aws_Credentials where
  "toy_presign_creds = static_credentials ''ak'' ''sk'' ''token+''"


end
