(* ===== verification/Listeners.thy ===== *)
theory Listeners
  imports Presign_Roundtrip
begin

text \<open>
  What a listener of \<^verbatim>\<open>server/server.go\<close> serves, and its readiness: the handler that is put around a
  server before it listens, the options the commands pass, the address of the probe, and the reason
  why waiting for a server that listens succeeds.
\<close>

section \<open>Options\<close>

text \<open>\<^verbatim>\<open>slog.LevelInfo\<close> is the zero of the level; a missing health checker is nil.\<close>

record ServerOpts =
  MetricsPort :: int
  RequestLogLvl :: int
  healthchecker :: "pathBasedHC option"

definition viper_ServerOpts :: "'v viper_lib \<Rightarrow> 'v \<Rightarrow> ServerOpts" where
  "viper_ServerOpts L v = \<lparr>MetricsPort = getServerOptsFromViper L v, RequestLogLvl = 0, healthchecker = None\<rparr>"

section \<open>The handler of a listener\<close>

definition slog_LevelDebug :: int where
  "slog_LevelDebug = - 4"

definition opts_healthchecker :: "ServerOpts \<Rightarrow> pathBasedHC" where
  "opts_healthchecker opts =
     (case healthchecker opts of None \<Rightarrow> NewPingPongHealthCheck slog_LevelDebug | Some hc \<Rightarrow> hc)"

text \<open>The log middleware around the server, with metrics when there is a registry. The arguments are
  those of the log middleware: upper-casing of identifiers, a new identifier, the two times.\<close>

definition listener_handler ::
  "(string \<Rightarrow> string) \<Rightarrow> string \<Rightarrow> int \<Rightarrow> int \<Rightarrow> ServerOpts \<Rightarrow> BasicServer \<Rightarrow> metrics \<Rightarrow> request \<Rightarrow> response \<Rightarrow> outcome result" where
  "listener_handler up uuid startTime now opts s =
     LogMiddleware up uuid startTime now (RequestLogLvl opts) (opts_healthchecker opts)
       (StartPrometheusMetricsServer (MetricsPort opts) \<noteq> None) (ServeHTTP s)"

section \<open>The probe\<close>

definition getProtocol :: "bool \<Rightarrow> string" where
  "getProtocol tlsEnabled = (if tlsEnabled then ''https'' else ''http'')"

definition probe_request :: "int \<Rightarrow> bool \<Rightarrow> request result" where
  "probe_request port tlsEnabled =
     http_NewRequest ''GET'' (getProtocol tlsEnabled @ ''://localhost:'' @ int_string port @ ''/ping'')"

text \<open>What the client sees of the outcome of the handler: the status that was sent, 200 when nothing was
  written, an error of the connection after a panic.\<close>

definition seen_by_client :: "outcome result \<Rightarrow> probe" where
  "seen_by_client out =
     (case out of
        Ok x \<Rightarrow> ProbeStatus (case rs_sent (h_resp (out_state x)) of None \<Rightarrow> 200 | Some (status, _) \<Rightarrow> status)
      | Err e \<Rightarrow> ProbeError e
      | Panic m \<Rightarrow> ProbeError (Plain m))"

section \<open>Properties\<close>

lemma listener_answers_ping:
  assumes "r_method r = ''GET''" and "u_path (r_url r) = ''/ping''" and "rs_sent w = None" and "healthchecker opts = None"
  shows "seen_by_client (listener_handler up uuid st now opts s v r w) = ProbeStatus 200"
proof -
  obtain out where "listener_handler up uuid st now opts s v r w = Ok out" "map_option fst (rs_sent (h_resp (out_state out))) = Some 200"
    using health_check_isolated [OF assms(1-3), of up uuid st now "RequestLogLvl opts" slog_LevelDebug _ v]
    unfolding listener_handler_def opts_healthchecker_def assms(4) option.case by blast
  then show ?thesis by (auto simp: seen_by_client_def)
qed

text \<open>The URL of the probe names the path of the health check.\<close>

lemma probe_request_ping:
  assumes "0 \<le> port"
  shows "\<exists>r. probe_request port tls = Ok r \<and> r_method r = ''GET'' \<and> u_path (r_url r) = ''/ping''"
proof -
  let ?host = "''localhost:'' @ int_string port"
  have "list_all is_digit (int_string port)" "int_string port \<noteq> []"
    using assms dec_string_digits [of "nat port"] by (simp_all add: int_string_def)
  moreover have "list_all unreserved ''localhost'' \<and> \<not> unreserved (CHR '':'') \<and> clean_path ''ping''"
    by (simp add: unreserved_def clean_path_def char_defs)
  ultimately have clean: "clean_host ?host" "clean_path ''ping''" by (auto simp: clean_host_def)
  obtain u where "parse_url (getProtocol tls @ ''://'' @ ?host @ ''/ping'') = Ok u" "u_path u = ''/ping''"
    using parse_plain_tail [OF _ clean, of "getProtocol tls" "[]" "[]"] by (auto simp: getProtocol_def)
  then show ?thesis by (simp add: probe_request_def http_NewRequest_def)
qed

text \<open>C30. Waiting for a server succeeds as soon as it listens: when at some attempt the port is served by
  the handler that \<^verbatim>\<open>createAndStart\<close> puts around the server, whatever that server does with
  requests, the request of the probe is answered by the health check and \<^verbatim>\<open>awaitServerOnPort\<close> returns.\<close>

theorem listening_server_is_healthy:
  assumes "0 \<le> port" and "i < 100" and "rs_sent w = None" and "healthchecker opts = None"
    and "probe_request port tls = Ok r" and "r_method q = r_method r" and "u_path (r_url q) = u_path (r_url r)"
    and "probes i = seen_by_client (listener_handler up uuid st now opts s v q w)"
  shows "awaitServerOnPort probes = Ok ()"
proof -
  have "r_method q = ''GET''" "u_path (r_url q) = ''/ping''"
    using probe_request_ping [OF assms(1), of tls] assms(5-7) by auto
  then have "probes i = ProbeStatus 200" using listener_answers_ping assms(3,4,8) by simp
  then show ?thesis using assms(2) by (auto simp: awaitServerOnPort_def go_try_Ok_iff await_loop_iff)
qed

lemma listening_server_is_healthy_witness:
  "awaitServerOnPort (\<lambda>i. if i = 3 then seen_by_client (listener_handler id toy_uuid 0 1 \<lparr>MetricsPort = 0, RequestLogLvl = 0, healthchecker = None\<rparr>
      (NewBasicServer 8443 ''h'' [] [] (Some (\<lambda>h. Panic ''handler'')) 8080) no_metrics (plain_request ''GET'' ''/ping'') (new_response False))
      else ProbeError (Plain ''connection refused'')) = Ok ()"
proof -
  obtain r where r: "probe_request 8080 False = Ok r" "r_method r = ''GET''" "u_path (r_url r) = ''/ping''"
    using probe_request_ping [of 8080 False] by auto
  show ?thesis
    by (rule listening_server_is_healthy [of 8080 3 "new_response False" "\<lparr>MetricsPort = 0, RequestLogLvl = 0, healthchecker = None\<rparr>",
          OF _ _ _ _ r(1), of "plain_request ''GET'' ''/ping''"])
      (simp_all add: r new_response_def plain_request_def)
qed

end
