(* ===== verification/Policy_Functions.thy ===== *)
theory Policy_Functions
  imports Aws_Time
begin

text \<open>
  The functions a policy template may call: \<^verbatim>\<open>aws/service/iam/policy-tpl-functions.go\<close>
  (the one left, \<^verbatim>\<open>Sha1sum\<close>, is in theory Sha1). A time has an instant, in nanoseconds since the epoch, and the offset of its
  zone in seconds, since \<^verbatim>\<open>time.Now\<close> is local and \<^verbatim>\<open>Format\<close> prints the local date. The calendar of
  \<^verbatim>\<open>time.Date\<close> is written out.
\<close>

section \<open>The date of an instant\<close>

record go_time =
  instant :: int
  zone_offset :: int

text \<open>Days are counted from the first of January of the year 1. The estimate of the year is the
  right one or the one before.\<close>

definition year_of_day :: "int \<Rightarrow> int" where
  "year_of_day n = (let y = 400 * n div 146097 + 1 in if days_before_year (y + 1) \<le> n then y + 1 else y)"

function month_from :: "int \<Rightarrow> int \<Rightarrow> int \<Rightarrow> int \<times> int" where
  "month_from y m d = (if 12 \<le> m \<or> d < days_in m y then (m, d + 1) else month_from y (m + 1) (d - days_in m y))"
  by pat_completeness auto
termination
  by (relation "measure (\<lambda>(y, m, d). nat (12 - m))") auto

declare month_from.simps [simp del]

definition civil_of_day :: "int \<Rightarrow> int \<times> int \<times> int" where
  "civil_of_day n = (let y = year_of_day n in (y, month_from y 1 (n - days_before_year y)))"

definition local_day :: "go_time \<Rightarrow> int" where
  "local_day t = (instant t + zone_offset t * time_Second) div (24 * 3600 * time_Second)"

definition time_Date :: "go_time \<Rightarrow> int \<times> int \<times> int" where
  "time_Date t = civil_of_day (local_day t + days_before_year 1970)"

section \<open>The functions\<close>

text \<open>A year is printed with at least four digits and its sign.\<close>

definition format_year :: "int \<Rightarrow> string" where
  "format_year y =
     (let s = dec_string (nat \<bar>y\<bar>) in (if y < 0 then ''-'' else []) @ replicate (4 - length s) (CHR ''0'') @ s)"

definition YYYYmmdd :: "go_time \<Rightarrow> string" where
  "YYYYmmdd t = (let (y, m, d) = time_Date t in format_year y @ two_digits (nat m) @ two_digits (nat d))"

definition YYYYmmddSlashed :: "go_time \<Rightarrow> string" where
  "YYYYmmddSlashed t =
     (let (y, m, d) = time_Date t in format_year y @ ''/'' @ two_digits (nat m) @ ''/'' @ two_digits (nat d))"

text \<open>The clock and the zone are arguments.\<close>

definition Now :: "int \<Rightarrow> int \<Rightarrow> go_time" where
  "Now clock zone = \<lparr>instant = clock, zone_offset = zone\<rparr>"

definition Add1Day :: "go_time \<Rightarrow> go_time" where
  "Add1Day t = t\<lparr>instant := instant t + 3600 * time_Second * 24\<rparr>"

section \<open>The calendar\<close>

lemma days_before_year_400:
  "400 * days_before_year (k + 1) = 146097 * k - 100 * (k mod 4) + 4 * (k mod 100) - k mod 400"
proof -
  have k: "k + 1 - 1 = k" by simp
  have "4 * (k div 4) + k mod 4 = k" "100 * (k div 100) + k mod 100 = k" "400 * (k div 400) + k mod 400 = k"
    by (rule mult_div_mod_eq)+
  then show ?thesis unfolding days_before_year_def k by (simp only: distrib_left right_diff_distrib)
qed

lemma year_of_day: "days_before_year (year_of_day n) \<le> n \<and> n < days_before_year (year_of_day n + 1)"
proof -
  define k where "k = 400 * n div 146097"
  have "146097 * k + 400 * n mod 146097 = 400 * n" unfolding k_def by (rule mult_div_mod_eq)
  moreover have "0 \<le> 400 * n mod 146097" "400 * n mod 146097 < 146097" by simp_all
  ultimately have k: "146097 * k \<le> 400 * n" "400 * n < 146097 * (k + 1)" by (simp_all add: distrib_left)
  have r: "0 \<le> j mod 4 \<and> j mod 4 \<le> 3" "0 \<le> j mod 100 \<and> j mod 100 \<le> 99" "0 \<le> j mod 400 \<and> j mod 400 \<le> 399" for j :: int
    by (simp_all add: zle_diff1_eq [symmetric])
  have lo: "days_before_year (k + 1) \<le> n"
    using days_before_year_400 [of k] r [of k] k by linarith
  have hi: "n < days_before_year (k + 1 + 1 + 1)"
    using days_before_year_400 [of "k + 2"] r [of "k + 2"] k by (simp add: add.assoc)
  show ?thesis using lo hi by (simp add: year_of_day_def k_def [symmetric] Let_def)
qed

lemma div_pred:
  fixes y n :: int
  assumes "0 < n"
  shows "y div n - (y - 1) div n = (if y mod n = 0 then 1 else 0)"
proof -
  have y: "y = n * (y div n) + y mod n" by simp
  have m: "0 \<le> y mod n" "y mod n < n" using assms by simp_all
  show ?thesis
  proof (cases "y mod n = 0")
    case True
    then have "y - 1 = n * (y div n - 1) + (n - 1)" using y by (simp add: algebra_simps)
    then have "(y - 1) div n = y div n - 1" by (rule int_div_pos_eq) (use assms in simp_all)
    then show ?thesis using True by simp
  next
    case False
    have "y - 1 = n * (y div n) + (y mod n - 1)" using y by simp
    then have "(y - 1) div n = y div n" by (rule int_div_pos_eq) (use m False in simp_all)
    then show ?thesis using False by simp
  qed
qed

lemma twelve_months: "[1..12] = [1, 2, 3, 4, 5, 6, 7, 8, 9, 10, 11, 12 :: int]"
  by (simp add: upto_rec1 [of 1 12])

lemma month_days: "sum_list (map (\<lambda>i. days_in i y) [1..12]) = (if leap_year y then 366 else 365)"
  unfolding twelve_months by (simp add: days_in_def)

lemma leap_year_dvd: "leap_year y \<longleftrightarrow> 4 dvd y \<and> (\<not> 100 dvd y \<or> 400 dvd y)"
  by (simp add: leap_year_def mod_eq_0_iff_dvd)

lemma leap_count:
  "(q \<longrightarrow> p) \<Longrightarrow> (r \<longrightarrow> q) \<Longrightarrow>
   365 + (if p then 1 else 0) - (if q then 1 else 0) + (if r then 1 else 0) = (if p \<and> (\<not> q \<or> r) then 366 else 365 :: int)"
  by (cases p; cases q; cases r; simp)

lemma days_in_year: "days_before_year (y + 1) - days_before_year y = sum_list (map (\<lambda>i. days_in i y) [1..12])"
proof -
  have m: "100 dvd y \<Longrightarrow> 4 dvd y" "400 dvd y \<Longrightarrow> 100 dvd y"
    using dvd_trans [of 4 100 y] dvd_trans [of 100 400 y] by simp_all
  have k: "y + 1 - 1 = y" by simp
  have sum: "365 * y + a - b + c - (365 * (y - 1) + a' - b' + c') = 365 + (a - a') - (b - b') + (c - c')"
    for a b c a' b' c' by simp
  have "days_before_year (y + 1) - days_before_year y =
      365 + (y div 4 - (y - 1) div 4) - (y div 100 - (y - 1) div 100) + (y div 400 - (y - 1) div 400)"
    unfolding days_before_year_def k by (rule sum)
  also have "\<dots> = 365 + (if 4 dvd y then 1 else 0) - (if 100 dvd y then 1 else 0) + (if 400 dvd y then 1 else 0)"
    using div_pred [of 4 y] div_pred [of 100 y] div_pred [of 400 y] by (simp only: mod_eq_0_iff_dvd)
  also have "\<dots> = (if leap_year y then 366 else 365)"
    unfolding leap_year_dvd using m by (intro leap_count) blast+
  finally show ?thesis by (simp only: month_days)
qed

lemma month_from:
  assumes "month_from y m d = (m', d')" and "1 \<le> m" and "m \<le> 12" and "0 \<le> d"
    and "d < sum_list (map (\<lambda>i. days_in i y) [m..12])"
  shows "m \<le> m' \<and> m' \<le> 12 \<and> 1 \<le> d' \<and> d' \<le> days_in m' y
    \<and> sum_list (map (\<lambda>i. days_in i y) [m..m' - 1]) + d' - 1 = d"
  using assms
proof (induction y m d rule: month_from.induct)
  case (1 y m d)
  show ?case
  proof (cases "12 \<le> m \<or> d < days_in m y")
    case True
    then have "m' = m" "d' = d + 1" using "1.prems"(1) by (simp_all add: month_from.simps [of y m d])
    then show ?thesis using True "1.prems" by (auto simp: upto.simps [of 12])
  next
    case False
    have split: "[m..12] = m # [m + 1..12]" using False by (simp add: upto_rec1)
    have rec: "month_from y (m + 1) (d - days_in m y) = (m', d')"
      using "1.prems"(1) False by (simp add: month_from.simps [of y m d])
    have "m + 1 \<le> m' \<and> m' \<le> 12 \<and> 1 \<le> d' \<and> d' \<le> days_in m' y
        \<and> sum_list (map (\<lambda>i. days_in i y) [m + 1..m' - 1]) + d' - 1 = d - days_in m y"
      using "1.prems" False split by (intro "1.IH" [OF False rec]) auto
    then show ?thesis by (auto simp: upto_rec1 [of m "m' - 1"])
  qed
qed

lemma civil_of_day:
  assumes "civil_of_day n = (y, m, d)"
  shows "1 \<le> m \<and> m \<le> 12 \<and> 1 \<le> d \<and> d \<le> days_in m y \<and> epoch_day y m d = n - days_before_year 1970"
proof -
  have y: "y = year_of_day n" and md: "month_from y 1 (n - days_before_year y) = (m, d)"
    using assms by (auto simp: civil_of_day_def Let_def)
  have "n - days_before_year y < sum_list (map (\<lambda>i. days_in i y) [1..12])"
    using year_of_day [of n] days_in_year [of y] by (simp add: y)
  then show ?thesis using month_from [OF md] year_of_day [of n] by (simp add: y epoch_day_def)
qed

lemma time_Date:
  assumes "time_Date t = (y, m, d)"
  shows "1 \<le> m \<and> m \<le> 12 \<and> 1 \<le> d \<and> d \<le> days_in m y \<and> epoch_day y m d = local_day t"
  using civil_of_day [of "local_day t + days_before_year 1970" y m d] assms by (simp add: time_Date_def)

section \<open>Printed dates\<close>

lemma digit_char_0: "CHR ''0'' = digit_char 0"
  by code_simp

lemma replicate_small: "replicate 3 z = [z, z, z]" "replicate 2 z = [z, z]"
  by (simp_all add: numeral_eq_Suc)

lemma digits_four:
  assumes "y < 10000"
  shows "replicate (4 - length (dec_string y)) (CHR ''0'') @ dec_string y = four_digits y"
proof -
  have e: "y div 10 div 10 = y div 100" "y mod 100 div 10 = y div 10 mod 10" "y mod 100 mod 10 = y mod 10"
    using mod_mult2_eq [of y 10 10] by (simp_all add: div_mult2_eq [symmetric] mod_mod_cancel)
  consider "y < 10" | "10 \<le> y" "y < 100" | "100 \<le> y" "y < 1000" | "1000 \<le> y" by linarith
  then show ?thesis
  proof cases
    case 1
    then show ?thesis by (simp add: dec_string.simps [of y] four_digits_def two_digits_def digit_char_0 replicate_small e)
  next
    case 2
    moreover have "y div 10 < 10" using 2 by linarith
    ultimately show ?thesis
      by (simp add: dec_string.simps [of y] dec_string.simps [of "y div 10"] four_digits_def two_digits_def
          digit_char_0 replicate_small e)
  next
    case 3
    moreover have "\<not> y div 10 < 10" "y div 100 < 10" using 3 by linarith+
    ultimately show ?thesis
      by (simp add: dec_string.simps [of y] dec_string.simps [of "y div 10"] dec_string.simps [of "y div 100"]
          four_digits_def two_digits_def digit_char_0 replicate_small e)
  next
    case 4
    moreover have "\<not> y div 10 < 10" "\<not> y div 100 < 10" "y div 100 div 10 < 10"
      using 4 assms by linarith+
    ultimately show ?thesis using assms
      by (simp add: dec_string.simps [of y] dec_string.simps [of "y div 10"] dec_string.simps [of "y div 100"]
          dec_string.simps [of "y div 100 div 10"] four_digits_def two_digits_def e)
  qed
qed

lemma format_year: "0 \<le> y \<Longrightarrow> y < 10000 \<Longrightarrow> format_year y = four_digits (nat y)"
  using digits_four [of "nat y"] by (simp add: format_year_def Let_def)

definition in_four_digit_year :: "go_time \<Rightarrow> bool" where
  "in_four_digit_year t = (0 \<le> fst (time_Date t) \<and> fst (time_Date t) < 10000)"

text \<open>What a template prints for a time is read back as the midnight before it, and the day after
  is the next one in the calendar.\<close>

theorem YYYYmmdd_midnight:
  assumes "in_four_digit_year t"
  shows "XAmzDateToTime (YYYYmmdd t @ ''T000000Z'') = Ok (local_day t * (24 * 3600 * time_Second))"
proof -
  obtain y m d where t: "time_Date t = (y, m, d)" by (cases "time_Date t") auto
  note date = time_Date [OF t]
  have y: "0 \<le> y" "y < 10000" using assms by (simp_all add: in_four_digit_year_def t)
  have "YYYYmmdd t @ ''T000000Z'' = amz_format (nat y) (nat m) (nat d) 0 0 0"
    by (simp add: YYYYmmdd_def t format_year [OF y] amz_format_def two_digits_def digit_char_0)
  moreover have "XAmzDateToTime (amz_format (nat y) (nat m) (nat d) 0 0 0) =
      Ok ((((epoch_day (int (nat y)) (int (nat m)) (int (nat d)) * 24 + int 0) * 60 + int 0) * 60 + int 0) * time_Second)"
    using y date by (intro parse_amz_format) auto
  ultimately show ?thesis using y date by simp
qed

lemma local_day_Add1Day: "local_day (Add1Day t) = local_day t + 1"
proof -
  have "instant t + 3600 * time_Second * 24 + zone_offset t * time_Second
      = (instant t + zone_offset t * time_Second) + 1 * (24 * 3600 * time_Second)" by simp
  then show ?thesis by (simp add: local_day_def Add1Day_def div_mult_self1 time_Second_def del: mult_1)
qed

end
