(* ===== verification/S3_Retarget.thy ===== *)
theory S3_Retarget
  imports S3_Authz
begin

text \<open>
  Where the proxy sends a request: properties of \<^verbatim>\<open>reTargetRequest\<close> and \<^verbatim>\<open>justProxy\<close> of
  \<^verbatim>\<open>s3/handler-builder.go\<close>. The target is the text of the endpoint followed by the request URI,
  parsed again; the properties say for which request URIs that is the configured backend and the
  path that was authorised.
\<close>

lemma str_cut_absent: "c \<in> set sep \<Longrightarrow> c \<notin> set s \<Longrightarrow> str_cut sep s = None"
proof -
  assume c: "c \<in> set sep" "c \<notin> set s"
  have "str_cut sep s \<noteq> Some (a, b)" for a b
    using str_cut_Some [of sep s a b] c by auto
  then show ?thesis by (cases "str_cut sep s") auto
qed

lemma str_split_absent: "c \<in> set sep \<Longrightarrow> c \<notin> set s \<Longrightarrow> str_split sep s = [s]"
  by (subst str_split.simps) (simp add: str_cut_absent)

lemma parse_url_no_fragment: "CHR ''#'' \<notin> set raw \<Longrightarrow> parse_url raw = parse_nofrag raw"
  by (cases "parse_nofrag raw") (simp_all add: parse_url_def str_cut_char_None)

lemma plain_authority_no_fragment: "plain_authority h \<Longrightarrow> CHR ''#'' \<notin> set h"
  by (auto simp: plain_authority_def list_all_iff)

lemma reTargetRequest_Ok:
  assumes "GetBackendEndpoint (Some cfg) b = Ok ep" and "GetHost ep = Ok host" and "reTargetRequest cfg b r = Ok (None, r')"
  shows "\<exists>u. parse_url (ep @ r_uri r) = Ok u
    \<and> r' = (strip_signature r)\<lparr>r_header := header_Add (r_header (strip_signature r)) ''Host'' host, r_host := host,
         r_uri := [], r_remote := [], r_url := u\<lparr>u_rawquery := u_rawquery (r_url r)\<rparr>\<rparr>"
  using assms by (cases "parse_url (ep @ r_uri r)") (auto simp: reTargetRequest_def GetBaseURI_def Let_def)


text \<open>What is observed of a retargeted request of the toy backend, for a request URI.\<close>

definition retargeted :: "string \<Rightarrow> (string \<times> string \<times> string \<times> string) option" where
  "retargeted uri =
     (case reTargetRequest toy_backends ''eu'' (plain_request ''GET'' uri) of
        Ok (None, r) \<Rightarrow> Some (r_host r, u_host (r_url r), u_path (r_url r), r_uri r)
      | _ \<Rightarrow> None)"

lemma retargeted_SomeE:
  assumes "retargeted uri = Some x"
  obtains r' :: request where "reTargetRequest toy_backends ''eu'' (plain_request ''GET'' uri) = Ok (None, r')"
    "x = (r_host r', u_host (r_url r'), u_path (r_url r'), r_uri r')"
  using assms by (auto simp: retargeted_def split: go.splits option.splits prod.splits)

lemma toy_endpoint: "GetBackendEndpoint (Some toy_backends) ''eu'' = Ok ''https://s3.eu''"
  by code_simp


text \<open>A request URI with a fragment is split once more on its way to the backend: the object
  key of the request contains the number sign, the request that is sent names a shorter key.\<close>

theorem fragment_changes_key: "retargeted ''/b/k#x'' = Some (''s3.eu'', ''s3.eu'', ''/b/k'', [])"
  by code_simp

text \<open>A request URI in absolute form is appended to the text of the endpoint, so that the client
  chooses the tail of the host name the request, signed with the credentials of the backend, is sent to.\<close>

theorem absolute_uri_changes_host:
  "retargeted ''a.evil.com://s3.test/b/k'' = Some (''s3.eu'', ''s3.eua.evil.com:'', ''//s3.test/b/k'', [])"
  by code_simp

end
