(* ===== verification/Gateway.thy ===== *)
theory Gateway
  imports S3_Server Sts
begin

text \<open>
  The parts of the program together: the S3 server around its proxy handler, the credentials the
  token service issues to it, and the policy store it reads. The lemmas say when a request is
  handed to the proxy and when it is answered before; the properties rest on them.
\<close>

section \<open>The S3 server around its proxy handler\<close>

lemma getS3Action_SetOperation:
  assumes "GetOperation h = None" and "getS3Action (SetOperation (OpS3 x) h) \<noteq> UnknownOperation"
  shows "getS3Action (SetOperation (OpS3 x) h) = x"
  using assms by (cases "h_ctx h") (auto simp: getS3Action_def GetOperation_def SetOperation_def)

lemma permitted_known:
  assumes "request_permitted E opr c region r"
  shows "opr \<noteq> UnknownOperation"
proof
  assume opr: "opr = UnknownOperation"
  obtain actions where "newIamActionsFromS3Request (s3_policies E) (s3_fqdns E) opr r
      (Some ((GetPolicySessionDataFromClaims c)\<lparr>RequestedRegion := region\<rparr>)) = Ok actions"
    using assms unfolding request_permitted_def by blast
  then show False
    using newIamActions_unsupported [OF disjI1 [OF opr], of "s3_policies E" "s3_fqdns E" r
      "Some ((GetPolicySessionDataFromClaims c)\<lparr>RequestedRegion := region\<rparr>)"] by simp
qed

lemma same_resource_trans:
  "same_resource r1 r2 \<Longrightarrow> same_resource r2 r3 \<Longrightarrow> same_resource r1 r3"
  by (simp add: same_resource_def)

lemma same_resource_requester_pays [simp]: "same_resource r (requester_pays rpb fqdns r)"
  by (simp add: same_resource_def requester_pays_def split: go.split)

text \<open>The state in which the operation is registered, and what is known of the operation once the
  action has been authorised.\<close>

definition registered :: "'cv s3_env \<Rightarrow> hstate \<Rightarrow> hstate" where
  "registered E h = (case matched_operation (s3_mux E) (h_req h) of
     Some x \<Rightarrow> SetOperation (OpS3 x) h | None \<Rightarrow> s3_not_found E h)"

lemma registered_operation:
  assumes "router_ok E" and "GetOperation h = None" and "GetOperation h2 = GetOperation (registered E h)"
    and "getS3Action h2 \<noteq> UnknownOperation"
  shows "matched_operation (s3_mux E) (h_req h) = Some (getS3Action h2)"
proof (cases "matched_operation (s3_mux E) (h_req h)")
  case None
  then show ?thesis using assms by (simp add: registered_def router_ok_def getS3Action_def)
next
  case (Some x)
  have "getS3Action h2 = getS3Action (SetOperation (OpS3 x) h)"
    using assms(3) Some by (simp add: registered_def getS3Action_def)
  moreover have "getS3Action (SetOperation (OpS3 x) h) = x"
    using assms(4) calculation by (intro getS3Action_SetOperation [OF assms(2)]) simp
  ultimately show ?thesis using Some by simp
qed

lemma registered_request: "router_ok E \<Longrightarrow> h_req (registered E h) = h_req h"
  by (simp add: registered_def router_ok_def SetOperation_def split: option.split)

lemma s3_middlewares_answer:
  assumes "\<forall>h2. authenticate (s3_authn E) (s3_options E) (registered E h) = Ok (True, h2) \<longrightarrow>
      (\<forall>h3. authorize E h2 \<noteq> Ok (True, h3))"
  shows "\<exists>res. \<forall>proxy. Chain (s3_middlewares E rpb logged) proxy h = res"
proof (cases "\<exists>h2. authenticate (s3_authn E) (s3_options E) (registered E h) = Ok (True, h2)")
  case True
  then obtain h2 where h2: "authenticate (s3_authn E) (s3_options E) (registered E h) = Ok (True, h2)" ..
  then have "\<forall>h3. authorize E h2 \<noteq> Ok (True, h3)" using assms by blast
  then show ?thesis
    by (cases "authorize E h2")
      (auto simp: s3_middlewares_run Let_def registered_def [symmetric] h2)
next
  case False
  then show ?thesis
    by (cases "authenticate (s3_authn E) (s3_options E) (registered E h)")
      (auto simp: s3_middlewares_run Let_def registered_def [symmetric])
qed

lemma s3_middlewares_pass:
  assumes "authenticate (s3_authn E) (s3_options E) (registered E h) = Ok (True, h2)" and "authorize E h2 = Ok (True, h3)"
  shows "Chain (s3_middlewares E rpb logged) proxy h =
    go_bind (proxy (if rpb = [] then h3 else upd_req (requester_pays rpb (s3_fqdns E)) h3)) (\<lambda>h'. Ok (after_proxy logged h'))"
  by (simp add: s3_middlewares_run Let_def registered_def [symmetric] assms cong: if_cong)

text \<open>Every request is answered before the proxy or was authenticated and permitted.\<close>

lemma gateway_safe:
  assumes "jwt_lib_ok (env_jwt (s3_authn E))" and "router_ok E" and "GetOperation h = None"
  shows "(\<exists>res. \<forall>proxy. Chain (s3_middlewares E rpb logged) proxy h = res) \<or>
    (\<exists>h1 opr ak tok lw c region r.
       (\<forall>proxy. Chain (s3_middlewares E rpb logged) proxy h = go_bind (proxy h1) (\<lambda>h'. Ok (after_proxy logged h')))
       \<and> matched_operation (s3_mux E) (h_req h) = Some opr
       \<and> request_authenticated (s3_authn E) (s3_options E) h ak tok lw
       \<and> verified (env_jwt (s3_authn E)) tok (key_pub (privateKey (env_keys (s3_authn E)))) c
       \<and> claims_time_ok (env_now (s3_authn E)) lw c
       \<and> (AccessKeyID c = ak \<or> legacy_allowed (env_legacy (s3_authn E)))
       \<and> request_permitted E opr c region r \<and> same_resource (h_req h) r \<and> same_resource (h_req h) (h_req h1))"
proof (cases "\<exists>h2 h3. authenticate (s3_authn E) (s3_options E) (registered E h) = Ok (True, h2) \<and> authorize E h2 = Ok (True, h3)")
  case False
  then show ?thesis by (intro disjI1 s3_middlewares_answer) blast
next
  case True
  then obtain h2 h3 where an: "authenticate (s3_authn E) (s3_options E) (registered E h) = Ok (True, h2)"
    and az: "authorize E h2 = Ok (True, h3)" by blast
  obtain ak tok lw where n: "request_authenticated (s3_authn E) (s3_options E) (registered E h) ak tok lw" "ctx_token_is tok h2"
    "same_resource (h_req h) (h_req h2)" "GetOperation h2 = GetOperation (registered E h)"
    using authenticate_passes [OF assms(1) an] unfolding registered_request [OF assms(2)] .
  obtain region tok' c where z: "GetSessionToken h2 = Ok tok'"
    "ExtractTokenClaims (env_jwt (s3_authn E)) (env_now (s3_authn E)) 0 tok' (authz_keyfunc E (getS3Action h2)) = Ok c"
    "request_permitted E (getS3Action h2) c region (h_req h2)" "h_req h3 = h_req h2"
    using authorize_passes [OF az] .
  have "tok' = tok" using n(2) z(1) by (auto simp: ctx_token_is_def GetSessionToken_def split: option.splits)
  moreover have "token_authentic (s3_authn E) lw tok ak" using n(1) by (simp add: request_authenticated_def)
  ultimately have v: "verified (env_jwt (s3_authn E)) tok (key_pub (privateKey (env_keys (s3_authn E)))) c
    \<and> claims_time_ok (env_now (s3_authn E)) lw c \<and> (AccessKeyID c = ak \<or> legacy_allowed (env_legacy (s3_authn E)))"
    using claims_of_authentic_token [OF assms(1)] z(2) by blast
  define h1 where "h1 = (if rpb = [] then h3 else upd_req (requester_pays rpb (s3_fqdns E)) h3)"
  have "same_resource (h_req h) (h_req h1)"
    using n(3) z(4) same_resource_trans by (simp add: h1_def)
  moreover have opr: "matched_operation (s3_mux E) (h_req h) = Some (getS3Action h2)"
    by (rule registered_operation [OF assms(2,3) n(4) permitted_known [OF z(3)]])
  moreover have "request_authenticated (s3_authn E) (s3_options E) h ak tok lw"
    using n(1) by (simp add: registered_def opr)
  moreover have "\<forall>proxy. Chain (s3_middlewares E rpb logged) proxy h = go_bind (proxy h1) (\<lambda>h'. Ok (after_proxy logged h'))"
    using s3_middlewares_pass [OF an az] by (simp add: h1_def)
  ultimately show ?thesis using n(3) z(3) v by blast
qed

section \<open>Credentials of the token service\<close>

text \<open>Issued credentials at a server with the same key, from the second they are issued to the
  second before they expire, give or take the leeway.\<close>

lemma issued_token_accepted:
  assumes "jwt_lib_ok (st_jwt S)" and "issue_credentials S roleArn c d = Ok cred" and "SessionToken cred \<noteq> []"
    and "env_jwt A = st_jwt S" and "env_keys A = st_keys S"
    and "NewNumericDate (st_now S) \<le> env_now A + GetParserOptions opts"
    and "env_now A < NewNumericDate (st_now S + d) + GetParserOptions opts"
  obtains c' where "makeSureSessionTokenIsForAccessKey A (SessionToken cred) (AccessKey cred) opts = Ok ()"
    "CalculateSecretKey (AccessKey cred) (GetPrivateKey (env_keys A)) = Ok (SecretKey cred)"
    "ExtractTokenClaims (env_jwt A) (env_now A) (GetParserOptions opts) (SessionToken cred) (Some (GetJwtKeyFunc (env_keys A))) = Ok c'"
    "ExtractTokenClaims (env_jwt A) (env_now A) 0 (SessionToken cred) None = Ok c'"
    "RoleARN c' = roleArn" "reg_Subject c' = reg_Subject c" "IIssuer c' = reg_Issuer c" "Tags c' = Tags c"
proof -
  obtain iss where s: "SignedString (st_jwt S) (session_claims S iss roleArn c d) (privateKey (st_keys S)) = Ok (SessionToken cred)"
    "CalculateSecretKey (AccessKey cred) (GetPrivateKey (st_keys S)) = Ok (SecretKey cred)" "AccessKey cred = NewAccessKey (st_key_id S)"
    using issue_credentials_Ok [OF assms(2)] by metis
  let ?c = "session_claims S iss roleArn c d"
  have "claims_time_ok (env_now A) (GetParserOptions opts) ?c"
    using assms(6,7) by (simp add: session_claims_def) (simp add: claims_time_ok_def CreateRS256PolicyToken_def)
  then have x: "ExtractTokenClaims (env_jwt A) (env_now A) (GetParserOptions opts) (SessionToken cred)
      (Some (GetJwtKeyFunc (env_keys A))) = Ok ?c"
    using keeper.own_token_accepted [OF assms(1) _ s(1) assms(3), of "st_keys S"] by (simp add: assms(4,5) GetPrivateKey_def)
  have "ExtractTokenClaims (env_jwt A) (env_now A) 0 (SessionToken cred) None = Ok ?c"
    using x ExtractTokenClaims_verified(3) assms(1,4) by metis
  moreover have "AccessKeyID ?c = AccessKey cred" using s(3) by (simp add: session_claims_def SetAccessKeyId_def)
  moreover have "RoleARN ?c = roleArn" "reg_Subject ?c = reg_Subject c" "IIssuer ?c = reg_Issuer c" "Tags ?c = Tags c"
    by (simp_all add: session_claims_def SetAccessKeyId_def CreateRS256PolicyToken_def)
  ultimately show ?thesis
    using that [of ?c] x s(2) by (simp add: makeSureSessionTokenIsForAccessKey_def assms(5))
qed

lemmas issued_token_in_time = issued_token_accepted [of S roleArn c d cred A None for S roleArn c d cred A,
  unfolded GetParserOptions_def option.case add_0_right]

text \<open>A request a client signed with its credentials: the authorization header names the access
  key, the token header holds the session token, and the signature is the one the signer gives
  under the secret of the credentials for the request without the headers that were not signed.\<close>

definition signed_with :: "authn_env \<Rightarrow> AWSCredentials \<Rightarrow> hstate \<Rightarrow> bool" where
  "signed_with A cred h =
     (\<not> IsPresignedAWSRequest (h_req h) \<and>
      getCredentialsFromRequest (h_req h) = Ok (AccessKey cred, SessionToken cred) \<and>
      (\<exists>r signed. request_to_sign h = Ok r \<and>
         SignWithCreds (env_signer A) (env_now A) r (static_credentials (AccessKey cred) (SecretKey cred) (SessionToken cred))
           ''ThisShouldNotBeUsedForSigv4Requests258'' = Ok signed \<and>
         same_signature (header_Get (r_header signed) ''Authorization'') (header_Get (r_header (h_req h)) ''Authorization'')))"

text \<open>What the server does with such a request is decided by the policy alone.\<close>

lemma signed_request_authenticated:
  assumes "jwt_lib_ok (st_jwt S)" and "issue_credentials S roleArn c d = Ok cred" and "SessionToken cred \<noteq> []"
    and "env_jwt A = st_jwt S" and "env_keys A = st_keys S"
    and "NewNumericDate (st_now S) \<le> env_now A" and "env_now A < NewNumericDate (st_now S + d)"
    and "h_ctx h \<noteq> None" and "signed_with A cred h"
    and "GetRegionFromRequest (h_req h) (env_default_backend A) = Ok region"
  obtains h' where "authenticate A opts h = Ok (True, h')" "GetTargetRegion h' = Ok region"
    "GetSessionToken h' = Ok (SessionToken cred)" "same_target (h_req h) (h_req h')"
proof -
  obtain c' where t: "makeSureSessionTokenIsForAccessKey A (SessionToken cred) (AccessKey cred) None = Ok ()"
    "CalculateSecretKey (AccessKey cred) (GetPrivateKey (env_keys A)) = Ok (SecretKey cred)"
    using issued_token_in_time [OF assms(1-7)] by metis
  have "header_signed A (AccessKey cred) (SessionToken cred) h"
    using assms(9) t(2) unfolding signed_with_def header_signed_def by blast
  moreover have "getCredentialsFromRequest (h_req h) = Ok (AccessKey cred, SessionToken cred)" "\<not> IsPresignedAWSRequest (h_req h)"
    using assms(9) by (simp_all add: signed_with_def)
  ultimately show ?thesis
    using handleAuthNNormal_complete [OF assms(8) _ t(1) assms(10)] that by (simp add: authenticate_def) metis
qed

text \<open>Once a request is authenticated, the policy alone decides.\<close>

definition decided_by :: "bool \<Rightarrow> 'cv s3_env \<Rightarrow> requesterPaysBuckets \<Rightarrow> string list \<Rightarrow> hstate \<Rightarrow> bool" where
  "decided_by permitted E rpb logged h =
     (if permitted
      then \<exists>h1. same_resource (h_req h) (h_req h1) \<and>
        (\<forall>proxy. Chain (s3_middlewares E rpb logged) proxy h = go_bind (proxy h1) (\<lambda>h'. Ok (after_proxy logged h')))
      else \<exists>res. \<forall>proxy. Chain (s3_middlewares E rpb logged) proxy h = res)"

lemma authenticated_request_decided:
  assumes "authenticate (s3_authn E) (s3_options E) (registered E h) = Ok (True, h2)" and "GetTargetRegion h2 = Ok region"
    and "GetSessionToken h2 = Ok tok" and "getS3Action h2 = opr"
    and "ExtractTokenClaims (env_jwt (s3_authn E)) (env_now (s3_authn E)) 0 tok (authz_keyfunc E opr) = Ok c"
    and "same_resource (h_req h) (h_req h2)"
    and "request_permitted E opr c region (h_req h2) = request_permitted E opr c region (h_req h)"
  shows "decided_by (request_permitted E opr c region (h_req h)) E rpb logged h"
proof (cases "request_permitted E opr c region (h_req h)")
  case True
  obtain h3 where h3: "authorize E h2 = Ok (True, h3)" "h_req h3 = h_req h2"
    using authorize_complete [OF assms(2,3)] assms(4,5,7) True by metis
  define h1 where "h1 = (if rpb = [] then h3 else upd_req (requester_pays rpb (s3_fqdns E)) h3)"
  have "same_resource (h_req h) (h_req h1)"
    using assms(6) h3(2) same_resource_trans by (simp add: h1_def)
  moreover have "\<forall>proxy. Chain (s3_middlewares E rpb logged) proxy h = go_bind (proxy h1) (\<lambda>h'. Ok (after_proxy logged h'))"
    using s3_middlewares_pass [OF assms(1) h3(1)] by (simp add: h1_def)
  ultimately show ?thesis using True by (auto simp: decided_by_def)
next
  case False
  have "authorize E h2 \<noteq> Ok (True, h3)" for h3
  proof
    assume "authorize E h2 = Ok (True, h3)"
    then obtain region' tok' c'' where z: "GetTargetRegion h2 = Ok region'" "GetSessionToken h2 = Ok tok'"
      "ExtractTokenClaims (env_jwt (s3_authn E)) (env_now (s3_authn E)) 0 tok' (authz_keyfunc E (getS3Action h2)) = Ok c''"
      "request_permitted E (getS3Action h2) c'' region' (h_req h2)"
      by (rule authorize_passes)
    have "region' = region" "tok' = tok" using z(1,2) assms(2,3) by simp_all
    moreover from this have "c'' = c" using z(3) assms(4,5) by simp
    ultimately show False using z(4) assms(4,7) False by simp
  qed
  then show ?thesis using False s3_middlewares_answer [of E h] assms(1) by (simp add: decided_by_def)
qed

lemma registered_context:
  assumes "h_ctx h \<noteq> None" and "matched_operation (s3_mux E) (h_req h) = Some opr"
  shows "h_ctx (registered E h) \<noteq> None" "GetOperation (registered E h) = Some (OpS3 opr)" "h_req (registered E h) = h_req h"
    "known_signed_headers (registered E h) = known_signed_headers h"
  using assms by (auto simp: registered_def SetOperation_def GetOperation_def known_signed_headers_def GetSignedHeaders_def)

lemma issued_request_decided:
  assumes "jwt_lib_ok (st_jwt S)" and "issue_credentials S roleArn c d = Ok cred" and "SessionToken cred \<noteq> []"
    and "env_jwt (s3_authn E) = st_jwt S" and "env_keys (s3_authn E) = st_keys S"
    and "NewNumericDate (st_now S) \<le> env_now (s3_authn E)" and "env_now (s3_authn E) < NewNumericDate (st_now S + d)"
    and "h_ctx h \<noteq> None" and "signed_with (s3_authn E) cred h"
    and "GetRegionFromRequest (h_req h) (env_default_backend (s3_authn E)) = Ok region"
    and "matched_operation (s3_mux E) (h_req h) = Some opr"
  obtains c' where "RoleARN c' = roleArn" "reg_Subject c' = reg_Subject c" "IIssuer c' = reg_Issuer c" "Tags c' = Tags c"
    "decided_by (request_permitted E opr c' region (h_req h)) E rpb logged h"
proof -
  define h0 where "h0 = registered E h"
  note h0 = registered_context [OF assms(8,11), folded h0_def]
  have "request_to_sign h0 = request_to_sign h" using h0(3,4) by (simp add: request_to_sign_def trusted_headers_def)
  then have signed: "signed_with (s3_authn E) cred h0" using assms(9) h0(3) by (simp add: signed_with_def)
  obtain c' where c': "RoleARN c' = roleArn" "reg_Subject c' = reg_Subject c" "IIssuer c' = reg_Issuer c" "Tags c' = Tags c"
    "ExtractTokenClaims (env_jwt (s3_authn E)) (env_now (s3_authn E)) 0 (SessionToken cred) (Some (GetJwtKeyFunc (env_keys (s3_authn E)))) = Ok c'"
    "ExtractTokenClaims (env_jwt (s3_authn E)) (env_now (s3_authn E)) 0 (SessionToken cred) None = Ok c'"
    using issued_token_in_time [OF assms(1-7)] by metis
  have x: "ExtractTokenClaims (env_jwt (s3_authn E)) (env_now (s3_authn E)) 0 (SessionToken cred) (authz_keyfunc E opr) = Ok c'"
    using c'(5,6) by (simp add: authz_keyfunc_def)
  obtain h2 where h2: "authenticate (s3_authn E) (s3_options E) h0 = Ok (True, h2)" "GetTargetRegion h2 = Ok region"
    "GetSessionToken h2 = Ok (SessionToken cred)" "same_target (h_req h0) (h_req h2)"
    using signed_request_authenticated [OF assms(1-7) h0(1) signed] assms(10) h0(3) by auto
  have "getS3Action h2 = opr" using authenticate_op [OF h2(1)] h0(2) by (simp add: getS3Action_def)
  moreover have "same_resource (h_req h) (h_req h2)" using h2(4) h0(3) by (simp add: same_resource_def same_target_def)
  moreover have "request_permitted E opr c' region (h_req h2) = request_permitted E opr c' region (h_req h)"
    using request_permitted_same_target [OF h2(4)] h0(3) by simp
  ultimately show ?thesis
    using that [OF c'(1-4)] authenticated_request_decided [OF h2(1) [unfolded h0_def] h2(2,3) _ x] by blast
qed

section \<open>The policy store behind the server\<close>

text \<open>The server asks the policy manager, whose state is that of the store.\<close>

definition live_policies :: "'t tmpl_lib \<Rightarrow> string \<Rightarrow> 't local_manager \<Rightarrow> 'cv s3_env \<Rightarrow> 'cv s3_env" where
  "live_policies T dir m E = E\<lparr>s3_get_policy := \<lambda>arn d. fst (GetPolicy T (retrievePolicyStr dir) arn d m)\<rparr>"

text \<open>What the files say: the present file of the role, rendered for the session, grants every
  action of the operation.\<close>

definition file_permits ::
  "'cv s3_env \<Rightarrow> 't tmpl_lib \<Rightarrow> string \<Rightarrow> local_files \<Rightarrow> s3_operation \<Rightarrow> SessionClaims \<Rightarrow> string \<Rightarrow> request \<Rightarrow> bool" where
  "file_permits E T dir w opr c region r =
     (let d = (GetPolicySessionDataFromClaims c)\<lparr>RequestedRegion := region\<rparr> in
      \<exists>s t policy pe actions.
        local_content dir w (RoleARN c) = Some s \<and> tmpl_Parse T (RoleARN c) s = Ok t \<and> tmpl_Execute T t d = Ok policy
        \<and> NewPolicyEvaluatorFromStr (s3_policies E) policy = Ok pe
        \<and> newIamActionsFromS3Request (s3_policies E) (s3_fqdns E) opr r (Some d) = Ok actions
        \<and> actions \<noteq> [] \<and> list_all (grants (s3_policies E) pe) actions)"

lemma live_permitted_iff:
  assumes "(store_step T dir False)\<^sup>*\<^sup>* (NewPolicyManager (unwatched fs)) m"
    and "\<not> event_pending (getPolicyPath dir (RoleARN c)) (pm_world m)"
  shows "request_permitted (live_policies T dir m E) opr c region r \<longleftrightarrow> file_permits E T dir (pm_world m) opr c region r"
  unfolding request_permitted_def file_permits_def live_policies_def Let_def
  by (simp add: GetPolicy_current [OF assms]) blast

lemma live_policies_simps [simp]:
  "s3_authn (live_policies T dir m E) = s3_authn E" "s3_options (live_policies T dir m E) = s3_options E"
  "s3_mux (live_policies T dir m E) = s3_mux E" "s3_not_found (live_policies T dir m E) = s3_not_found E"
  "s3_fqdns (live_policies T dir m E) = s3_fqdns E" "router_ok (live_policies T dir m E) = router_ok E"
  by (simp_all add: live_policies_def router_ok_def)

text \<open>The three together: the files decide what issued credentials may do.\<close>

lemma decided_by_file:
  assumes "(store_step T dir False)\<^sup>*\<^sup>* (NewPolicyManager (unwatched fs)) m"
    and "\<not> event_pending (getPolicyPath dir (RoleARN c)) (pm_world m)"
    and "decided_by (request_permitted (live_policies T dir m E) opr c region (h_req h)) (live_policies T dir m E) rpb logged h"
  shows "decided_by (file_permits E T dir (pm_world m) opr c region (h_req h)) (live_policies T dir m E) rpb logged h"
  using assms(3) live_permitted_iff [OF assms(1,2), of E opr region "h_req h"] by simp

lemma files_decide:
  assumes "jwt_lib_ok (st_jwt S)" and "issue_credentials S roleArn c d = Ok cred" and "SessionToken cred \<noteq> []"
    and "env_jwt (s3_authn E) = st_jwt S" and "env_keys (s3_authn E) = st_keys S"
    and "NewNumericDate (st_now S) \<le> env_now (s3_authn E)" and "env_now (s3_authn E) < NewNumericDate (st_now S + d)"
    and "h_ctx h \<noteq> None" and "signed_with (s3_authn E) cred h"
    and "GetRegionFromRequest (h_req h) (env_default_backend (s3_authn E)) = Ok region"
    and "matched_operation (s3_mux E) (h_req h) = Some opr"
    and "(store_step T dir False)\<^sup>*\<^sup>* (NewPolicyManager (unwatched fs)) m"
    and "\<not> event_pending (getPolicyPath dir roleArn) (pm_world m)"
  shows "\<exists>c'. RoleARN c' = roleArn \<and> reg_Subject c' = reg_Subject c \<and> IIssuer c' = reg_Issuer c \<and> Tags c' = Tags c
    \<and> decided_by (file_permits E T dir (pm_world m) opr c' region (h_req h)) (live_policies T dir m E) rpb logged h"
proof -
  obtain c' where c': "RoleARN c' = roleArn" "reg_Subject c' = reg_Subject c" "IIssuer c' = reg_Issuer c" "Tags c' = Tags c"
    "decided_by (request_permitted (live_policies T dir m E) opr c' region (h_req h)) (live_policies T dir m E) rpb logged h"
    using issued_request_decided [of S roleArn c d cred "live_policies T dir m E" h region opr rpb logged] assms(1-11)
    unfolding live_policies_simps by metis
  then show ?thesis using decided_by_file [OF assms(12)] assms(13) by metis
qed

end
