(* ===== verification/Presign_Gateway.thy ===== *)
theory Presign_Gateway
  imports Gateway Presign_Roundtrip
begin

text \<open>
  Presigned links at the S3 server. A link built with issued credentials passes authentication until
  it expires, whoever follows it, and then the policy decides as it does for a signed request. The
  session token is given the leeway of the options; authorisation of a GET of an object does not
  check it again.
\<close>

section \<open>A request that follows a link\<close>

text \<open>The request a server receives for a link: scheme and host are not part of its URL. None of
  the four parameters of the link is removable.\<close>

definition link_parameters :: "string list" where
  "link_parameters = [''AWSAccessKeyId'', ''Signature'', ''x-amz-security-token'', ''Expires'']"

definition follows_link :: "authn_env \<Rightarrow> AuthenticationOptions \<Rightarrow> AWSCredentials \<Rightarrow> int \<Rightarrow> hstate \<Rightarrow> bool" where
  "follows_link A opts cred e h =
     (let r = h_req h; expires = dec_string (nat e);
          c = static_credentials (AccessKey cred) (SecretKey cred) (SessionToken cred) in
      r_method r = ''GET'' \<and> u_scheme (r_url r) = [] \<and> u_host (r_url r) = []
      \<and> has_prefix (u_path (r_url r)) ''/'' \<and> clean_path (u_path (r_url r))
      \<and> header_Get (r_header r) ''Authorization'' = [] \<and> 0 \<le> e \<and> int64_range e
      \<and> list_all (\<lambda>re. list_all (\<lambda>k. re k = []) link_parameters) (RemovableQueryParams opts)
      \<and> (\<exists>signature. signature \<noteq> [] \<and> hmac_signature (env_signer A) r c expires = Ok signature
           \<and> u_rawquery (r_url r) = hmac_query c expires signature))"

lemma fold_keep: "\<forall>k \<in> set ks. \<not> P k \<Longrightarrow> fold (\<lambda>k m. if P k then D m k else m) ks m = m"
  by (induction ks) simp_all

lemma cleaned_query:
  assumes "\<And>k. values_vals (r_query r) k = hmac_values c expires signature k"
    and "list_all (\<lambda>re. list_all (\<lambda>k. re k = []) link_parameters) (RemovableQueryParams opts)"
  shows "values_vals (r_query (cleanRemovableQueryParameters opts r)) k = hmac_values c expires signature k"
proof -
  have "\<not> list_ex (\<lambda>re. re k \<noteq> []) (RemovableQueryParams opts)" if "k \<in> set (map fst (r_query r))" for k
    using hmac_values_keys [OF assms(1), of k] that assms(2)
    by (auto simp: list_ex_iff list_all_iff link_parameters_def)
  then have "cleanRemovableQueryParameters opts r = set_rawquery r (values_Encode (r_query r))"
    by (simp add: cleanRemovableQueryParameters_def fold_keep Let_def)
  moreover have "distinct (map fst (r_query r))" by (rule distinct_url_Query)
  ultimately show ?thesis using assms(1) by (simp only: r_query_set_Encode)
qed

lemma set_rawquery_rest:
  "u_scheme (r_url (cleanRemovableQueryParameters opts r)) = u_scheme (r_url r)"
  "u_host (r_url (cleanRemovableQueryParameters opts r)) = u_host (r_url r)"
  "r_header (cleanRemovableQueryParameters opts r) = r_header r"
  by (simp_all add: cleanRemovableQueryParameters_def set_rawquery_def Let_def)

text \<open>What the steps of the check find in the link.\<close>

lemma link_facts:
  assumes "follows_link A opts cred e h" and "SessionToken cred \<noteq> []" and "AccessKey cred \<noteq> []"
    and "d (AccessKey cred) = Ok (SecretKey cred)"
  defines "r \<equiv> cleanRemovableQueryParameters opts (h_req h)"
    and "c \<equiv> static_credentials (AccessKey cred) (SecretKey cred) (SessionToken cred)"
  shows "IsPresignedAWSRequest (h_req h)" and "values_Get (r_query r) HeadAsGet = []" and "request_to_check r = r"
    and "MakePresignedUrl r = Ok HmacV1Url" and "GetRegionFromRequest r backend = Ok backend"
    and "h_req h1 = r \<Longrightarrow> hmac_GetPresignedUrlDetails (env_signer A) now h1 d = Ok (True, c, e * time_Second, h1)"
proof -
  define expires where "expires = dec_string (nat e)"
  note l = assms(1) [unfolded follows_link_def Let_def, folded expires_def c_def]
  then have digits: "list_all is_digit expires" "expires \<noteq> []" "go_Atoi expires = Ok e"
    using dec_string_digits [of "nat e"] go_Atoi_dec_string [of "nat e"] by (simp_all add: expires_def)
  obtain signature where s: "signature \<noteq> []" "hmac_signature (env_signer A) (h_req h) c expires = Ok signature"
    "u_rawquery (r_url (h_req h)) = hmac_query c expires signature"
    using l by blast
  have v0: "values_vals (r_query (h_req h)) k = hmac_values c expires signature k" for k
    by (simp add: url_Query_def s(3) hmac_query_vals [OF digits(1)])
  have v: "values_vals (r_query r) k = hmac_values c expires signature k" for k
    unfolding r_def using l by (intro cleaned_query [OF v0]) simp
  have key: "aws_AccessKeyID c = AccessKey cred" "aws_SessionToken c = SessionToken cred"
    by (simp_all add: c_def static_credentials_def)
  have has: "values_Has (r_query (h_req h)) k \<longleftrightarrow> hmac_values c expires signature k \<noteq> []" for k
    by (simp add: wf_query_Has [OF wf_url_Query] v0)
  show "IsPresignedAWSRequest (h_req h)"
    unfolding IsPresignedAWSRequest_def Let_def has by (simp add: hmac_values_def key assms(2))
  have get: "values_Get (r_query r) k = (case hmac_values c expires signature k of [] \<Rightarrow> [] | x # xs \<Rightarrow> x)" for k
    unfolding values_Get_def v ..
  show h: "values_Get (r_query r) HeadAsGet = []" by (simp add: get hmac_values_def HeadAsGet_def)
  then show "request_to_check r = r" by (simp add: request_to_check_def)
  show "MakePresignedUrl r = Ok HmacV1Url"
    by (simp add: MakePresignedUrl_def isHmacV1Query_def get) (simp add: hmac_values_def key s(1) assms(3))
  have "header_Get (r_header r) ''Authorization'' = []" using l by (simp add: r_def set_rawquery_rest)
  then show "GetRegionFromRequest r backend = Ok backend"
    by (simp add: GetRegionFromRequest_def GetSignatureCredentialPartFromRequest_def
        getSignatureCredentialStringFromRequestQParams_def get) (simp add: hmac_values_def signAlgorithm_def)
  have path: "u_path (r_url r) = u_path (r_url (h_req h))" "r_method r = r_method (h_req h)"
    by (simp_all add: r_def authn_query_changes)
  then have "getCanonicalResource r = getCanonicalResource (h_req h)" using no_interest [OF v] no_interest [OF v0] by simp
  then have sig: "hmac_signature (env_signer A) r c expires = Ok signature"
    using s(2) hmac_signature_same [OF no_interest [OF v0], of r c c "env_signer A" expires] no_interest [OF v0] path(2)
    by (simp add: r_def set_rawquery_rest)
  obtain p where p: "u_path (r_url r) = CHR ''/'' # p" "clean_path p"
    using l path(1) by (auto simp: has_prefix_def prefix_def clean_path_def)
  show "hmac_GetPresignedUrlDetails (env_signer A) now h1 d = Ok (True, c, e * time_Second, h1)" if "h_req h1 = r"
    by (rule hmac_details_valid [where d = d, OF _ _ p digits v sig c_def [THEN meta_eq_to_obj_eq] assms(4) that])
      (use l in \<open>simp_all add: r_def set_rawquery_rest clean_host_def\<close>)
qed

section \<open>Authentication and decision\<close>

lemma link_authenticated:
  assumes "jwt_lib_ok (st_jwt S)" and "issue_credentials S roleArn c d = Ok cred" and "SessionToken cred \<noteq> []"
    and "env_jwt A = st_jwt S" and "env_keys A = st_keys S"
    and "NewNumericDate (st_now S) \<le> env_now A + Leeway opts" and "env_now A < NewNumericDate (st_now S + d) + Leeway opts"
    and "h_ctx h \<noteq> None" and "follows_link A opts cred e h" and "AccessKey cred \<noteq> []" and "env_now A \<le> e * time_Second"
  obtains h' where "authenticate A opts h = Ok (True, h')" "GetTargetRegion h' = Ok (env_default_backend A)"
    "GetSessionToken h' = Ok (SessionToken cred)" "same_resource (h_req h) (h_req h')"
proof -
  define r where "r = cleanRemovableQueryParameters opts (h_req h)"
  define h1 where "h1 = upd_req (cleanRemovableQueryParameters opts) (SetAuthType AuthTypeQueryString h)"
  define creds where "creds = static_credentials (AccessKey cred) (SecretKey cred) (SessionToken cred)"
  have key: "aws_AccessKeyID creds = AccessKey cred" "aws_SessionToken creds = SessionToken cred"
    by (simp_all add: creds_def static_credentials_def)
  have h1: "h_req h1 = r" "h_ctx h1 \<noteq> None" using assms(8) by (auto simp: h1_def r_def SetAuthType_def)
  have lw: "GetParserOptions (Some opts) = Leeway opts" by (simp add: GetParserOptions_def)
  obtain c' where t: "makeSureSessionTokenIsForAccessKey A (SessionToken cred) (AccessKey cred) (Some opts) = Ok ()"
    "CalculateSecretKey (AccessKey cred) (GetPrivateKey (env_keys A)) = Ok (SecretKey cred)"
    using issued_token_accepted [OF assms(1-5), of "Some opts", unfolded lw, OF assms(6,7)] by metis
  note l = link_facts [OF assms(9,3,10), of "\<lambda>a. CalculateSecretKey a (GetPrivateKey (env_keys A))", OF t(2), folded r_def creds_def]
  have upd: "h1\<lparr>h_req := r\<rparr> = h1" using h1(1) by simp
  obtain h2 where h2: "addRegionToSession A (note_credentials (AccessKey cred) (SessionToken cred) h1) = Ok h2"
    by (simp add: addRegionToSession_def h1(1) l(5))
  define h3 where "h3 = upd_req (\<lambda>r. r\<lparr>r_header := header_Add (r_header r) ''X-Amz-Content-Sha256'' EmptyStringSHA256\<rparr>) h2"
  have "checkPresigned A opts h1 = Ok (True, h3)"
    using assms(11) h2
    by (simp add: checkPresigned_def h1(1) l(3,4) l(6) [OF h1(1)] key t(1) h3_def upd)
  then have "authenticate A opts h = Ok (True, h3)"
    by (simp add: authenticate_def l(1) handleAuthNPresigned_def Let_def h1_def [symmetric] h1(1) l(2))
  moreover have "GetTargetRegion h3 = Ok (env_default_backend A)" "GetSessionToken h3 = Ok (SessionToken cred)"
    using addRegion_reads [OF h1(2) _ h2, of "env_default_backend A"] h1(1) l(5) by (simp_all add: h3_def)
  moreover have "same_resource (h_req h) (h_req h3)"
    using ctx_token_region(1) [OF h2] h1(1) by (simp add: h3_def same_resource_def r_def authn_query_changes)
  ultimately show ?thesis using that by blast
qed

lemma newIamActions_same_resource:
  assumes "same_resource r r'"
  shows "newIamActionsFromS3Request L fqdns GetObject r' d = newIamActionsFromS3Request L fqdns GetObject r d"
proof -
  have "getS3ObjectFromRequest fqdns r' = getS3ObjectFromRequest fqdns r"
    using assms by (simp add: getS3ObjectFromRequest_def IsVirtualHostingRequest_def same_resource_def)
  then show ?thesis by (simp add: newIamActionsFromS3Request_def object_action_def)
qed

lemma link_decided:
  assumes "jwt_lib_ok (st_jwt S)" and "issue_credentials S roleArn c d = Ok cred" and "SessionToken cred \<noteq> []"
    and "env_jwt (s3_authn E) = st_jwt S" and "env_keys (s3_authn E) = st_keys S"
    and "NewNumericDate (st_now S) \<le> env_now (s3_authn E) + Leeway (s3_options E)"
    and "env_now (s3_authn E) < NewNumericDate (st_now S + d) + Leeway (s3_options E)"
    and "h_ctx h \<noteq> None" and "follows_link (s3_authn E) (s3_options E) cred e h" and "AccessKey cred \<noteq> []"
    and "env_now (s3_authn E) \<le> e * time_Second" and "matched_operation (s3_mux E) (h_req h) = Some GetObject"
  obtains c' where "RoleARN c' = roleArn" "reg_Subject c' = reg_Subject c" "IIssuer c' = reg_Issuer c" "Tags c' = Tags c"
    "decided_by (request_permitted E GetObject c' (env_default_backend (s3_authn E)) (h_req h)) E rpb logged h"
proof -
  define h0 where "h0 = registered E h"
  note h0 = registered_context [OF assms(8,12), folded h0_def]
  have link: "follows_link (s3_authn E) (s3_options E) cred e h0" using assms(9) h0(3) by (simp add: follows_link_def)
  have lw: "GetParserOptions (Some (s3_options E)) = Leeway (s3_options E)" by (simp add: GetParserOptions_def)
  obtain c' where c': "RoleARN c' = roleArn" "reg_Subject c' = reg_Subject c" "IIssuer c' = reg_Issuer c" "Tags c' = Tags c"
    "ExtractTokenClaims (env_jwt (s3_authn E)) (env_now (s3_authn E)) 0 (SessionToken cred) None = Ok c'"
    using issued_token_accepted [OF assms(1-5), of "Some (s3_options E)", unfolded lw, OF assms(6,7)] by metis
  have x: "ExtractTokenClaims (env_jwt (s3_authn E)) (env_now (s3_authn E)) 0 (SessionToken cred) (authz_keyfunc E GetObject) = Ok c'"
    using c'(5) by (simp add: authz_keyfunc_def)
  obtain h2 where h2: "authenticate (s3_authn E) (s3_options E) h0 = Ok (True, h2)"
    "GetTargetRegion h2 = Ok (env_default_backend (s3_authn E))" "GetSessionToken h2 = Ok (SessionToken cred)"
    "same_resource (h_req h0) (h_req h2)"
    by (rule link_authenticated [OF assms(1-7) h0(1) link assms(10,11)])
  have "getS3Action h2 = GetObject" using authenticate_op [OF h2(1)] h0(2) by (simp add: getS3Action_def)
  moreover have "same_resource (h_req h) (h_req h2)" using h2(4) h0(3) by simp
  moreover from this have "request_permitted E GetObject c' region (h_req h2) = request_permitted E GetObject c' region (h_req h)" for region
    by (simp add: request_permitted_def newIamActions_same_resource)
  ultimately show ?thesis
    using that [OF c'(1-4)] authenticated_request_decided [OF h2(1) [unfolded h0_def] h2(2,3) _ x] by blast
qed

lemma files_decide_links:
  assumes "jwt_lib_ok (st_jwt S)" and "issue_credentials S roleArn c d = Ok cred" and "SessionToken cred \<noteq> []"
    and "env_jwt (s3_authn E) = st_jwt S" and "env_keys (s3_authn E) = st_keys S"
    and "NewNumericDate (st_now S) \<le> env_now (s3_authn E) + Leeway (s3_options E)"
    and "env_now (s3_authn E) < NewNumericDate (st_now S + d) + Leeway (s3_options E)"
    and "h_ctx h \<noteq> None" and "follows_link (s3_authn E) (s3_options E) cred e h" and "AccessKey cred \<noteq> []"
    and "env_now (s3_authn E) \<le> e * time_Second" and "matched_operation (s3_mux E) (h_req h) = Some GetObject"
    and "(store_step T dir False)\<^sup>*\<^sup>* (NewPolicyManager (unwatched fs)) m"
    and "\<not> event_pending (getPolicyPath dir roleArn) (pm_world m)"
  shows "\<exists>c'. RoleARN c' = roleArn \<and> reg_Subject c' = reg_Subject c \<and> IIssuer c' = reg_Issuer c \<and> Tags c' = Tags c
    \<and> decided_by (file_permits E T dir (pm_world m) GetObject c' (env_default_backend (s3_authn E)) (h_req h))
        (live_policies T dir m E) rpb logged h"
proof -
  obtain c' where c': "RoleARN c' = roleArn" "reg_Subject c' = reg_Subject c" "IIssuer c' = reg_Issuer c" "Tags c' = Tags c"
    "decided_by (request_permitted (live_policies T dir m E) GetObject c' (env_default_backend (s3_authn E)) (h_req h))
       (live_policies T dir m E) rpb logged h"
    using link_decided [of S roleArn c d cred "live_policies T dir m E" h e rpb logged] assms(1-12)
    unfolding live_policies_simps by metis
  then show ?thesis using decided_by_file [OF assms(13)] assms(14) by metis
qed

end
