(* ===== verification/Presign_V4.thy ===== *)
theory Presign_V4
  imports Presign_Gateway
begin

text \<open>
  Version 4 links at the S3 server. The server signs the request it received again: with its query
  encoded anew, with the host as a header and without the headers that were not signed. Here that
  request is stated in terms of the one the client sent, and the outcome is what the policy files
  decide, for every operation.
\<close>

section \<open>Encoded queries\<close>

text \<open>\<^verbatim>\<open>Values.Encode\<close> sorts the keys, so that it depends only on the values.\<close>

lemma wf_query_same_set:
  assumes "wf_query m1" and "wf_query m2" and "\<And>k. values_vals m1 k = values_vals m2 k"
  shows "set m1 = set m2"
proof -
  have "distinct (map fst m1)" "distinct (map fst m2)" "map_of m1 = map_of m2"
    using assms by (auto simp: fun_eq_iff wf_query_map) (simp_all add: wf_query_def)
  then show ?thesis by (metis map_of_inject_set)
qed

lemma values_Encode_same:
  assumes "wf_query m1" and "wf_query m2" and "\<And>k. values_vals m1 k = values_vals m2 k"
  shows "values_Encode m1 = values_Encode m2"
proof -
  have "set m1 = set m2" by (rule wf_query_same_set [OF assms])
  moreover have d: "distinct (map fst m1)" "distinct (map fst m2)" using assms by (simp_all add: wf_query_def)
  moreover have "distinct (map fst (sort_key fst m))" if "distinct (map fst m)" for m :: mvals
    using that by (metis distinct_map distinct_sort inj_on_def set_sort)
  moreover have "inj_on fst (set m1)" using d(1) by (simp add: distinct_map)
  ultimately have "sort_key fst m1 = sort_key fst m2"
    by (intro map_sorted_distinct_set_unique [of fst]) (simp_all add: sorted_sort_key)
  then show ?thesis by (simp add: values_Encode_def)
qed

lemma wf_query_Set: "wf_query m \<Longrightarrow> wf_query (values_Set m k v)"
  using qv.distinct_set [of m k v] set_update_subset [of k "[v]" m] by (fastforce simp: wf_query_def values_Set_def)

lemma sign_query_wf: "wf_query q \<Longrightarrow> wf_query (sign_query n q)"
proof -
  have "wf_query (fold (\<lambda>k m. values_Del m k) ks m)" if "wf_query m" for ks m
    using that by (induction ks arbitrary: m) (simp_all add: wf_query_Del)
  then show "wf_query q \<Longrightarrow> wf_query (sign_query n q)"
    by (simp add: sign_query_def Let_def wf_query_Set del: fold.simps)
qed

lemma sign_query_vals:
  assumes "\<And>k. values_vals q1 k = values_vals q2 k"
  shows "values_vals (sign_query n q1) k = values_vals (sign_query n q2) k"
proof -
  have "values_vals (fold (\<lambda>k m. values_Del m k) ks m1) k' = values_vals (fold (\<lambda>k m. values_Del m k) ks m2) k'"
    if "\<And>k. values_vals m1 k = values_vals m2 k" for ks m1 m2 k'
    using that by (induction ks arbitrary: m1 m2) (simp_all add: qv.vals_del)
  from this [OF assms, of signatureQueryParamNamesToRemove] show ?thesis
    by (simp add: sign_query_def Let_def qv.vals_set del: fold.simps)
qed

section \<open>The query encoded anew\<close>

text \<open>Two requests that differ in the text of the query only, not in its values.\<close>

definition same_values :: "request \<Rightarrow> request \<Rightarrow> bool" where
  "same_values r r' = (\<exists>q. r' = set_rawquery r q \<and> (\<forall>k. values_vals (r_query r') k = values_vals (r_query r) k))"

lemma same_values_simps:
  assumes "same_values r r'"
  shows "values_Get (r_query r') k = values_Get (r_query r) k" "values_Has (r_query r') k = values_Has (r_query r) k"
    "r_method r' = r_method r" "r_header r' = r_header r" "r_host r' = r_host r" "u_path (r_url r') = u_path (r_url r)"
    "same_resource r r'" "isHmacV1Query r' = isHmacV1Query r" "isS3V4Query r' = isS3V4Query r"
proof -
  have v: "values_vals (r_query r') k = values_vals (r_query r) k" for k using assms by (auto simp: same_values_def)
  show g: "values_Get (r_query r') k = values_Get (r_query r) k" for k by (simp add: values_Get_def v)
  show "values_Has (r_query r') k = values_Has (r_query r) k" by (simp add: wf_query_Has [OF wf_url_Query] v)
  show "r_method r' = r_method r" "r_header r' = r_header r" "r_host r' = r_host r" "u_path (r_url r') = u_path (r_url r)"
    "same_resource r r'" using assms by (auto simp: same_values_def same_resource_def)
  show "isHmacV1Query r' = isHmacV1Query r" "isS3V4Query r' = isS3V4Query r"
    by (simp_all add: isHmacV1Query_def isS3V4Query_def g)
qed

lemma same_values_reads:
  assumes "same_values r r'"
  shows "GetRegionFromRequest r' backend = GetRegionFromRequest r backend"
    and "getSignedHeadersFromRequest r' = getSignedHeadersFromRequest r"
    and "newIamActionsFromS3Request L fqdns opr r' d = newIamActionsFromS3Request L fqdns opr r d"
proof -
  note [simp] = same_values_simps(1-4) [OF assms]
  show "GetRegionFromRequest r' backend = GetRegionFromRequest r backend"
    by (simp add: GetRegionFromRequest_def GetSignatureCredentialPartFromRequest_def getSignatureCredentialStringFromRequestQParams_def Let_def)
  show "getSignedHeadersFromRequest r' = getSignedHeadersFromRequest r"
    by (simp add: getSignedHeadersFromRequest_def signed_headers_of_query_def Let_def)
  have "getS3ObjectFromRequest fqdns r' = getS3ObjectFromRequest fqdns r"
    using same_values_simps(7) [OF assms] by (simp add: getS3ObjectFromRequest_def IsVirtualHostingRequest_def same_resource_def)
  then show "newIamActionsFromS3Request L fqdns opr r' d = newIamActionsFromS3Request L fqdns opr r d"
    by (simp add: newIamActionsFromS3Request_def object_action_def split: s3_operation.split)
qed

lemma same_values_sign_params:
  assumes "same_values r r'"
  shows "GetS3SignRequestParams r' n backend = GetS3SignRequestParams r n backend"
proof -
  have "values_Encode (sign_query n (r_query r')) = values_Encode (sign_query n (r_query r))"
    using assms by (intro values_Encode_same sign_query_wf sign_query_vals wf_url_Query) (auto simp: same_values_def)
  moreover have "set_rawquery r' q = set_rawquery r q" for q
    using assms by (auto simp: same_values_def set_rawquery_def)
  ultimately show ?thesis
    using same_values_reads(1) [OF assms] same_values_simps(4) [OF assms] by (simp add: GetS3SignRequestParams_def Let_def)
qed

lemma PreSign_same_values:
  "same_values r r' \<Longrightarrow> PreSignRequestWithCreds G r' n t c backend = PreSignRequestWithCreds G r n t c backend"
  by (simp add: PreSignRequestWithCreds_def same_values_sign_params)

lemma same_values_header: "same_values r r' \<Longrightarrow> same_values (r\<lparr>r_header := x\<rparr>) (r'\<lparr>r_header := x\<rparr>)"
proof -
  assume "same_values r r'"
  then obtain q where "r' = set_rawquery r q" "\<forall>k. values_vals (r_query r') k = values_vals (r_query r) k"
    unfolding same_values_def by blast
  then show ?thesis unfolding same_values_def by (intro exI [of _ q]) (simp add: set_rawquery_def)
qed

lemma cleaned_same_values:
  assumes "list_all (\<lambda>re. list_all (\<lambda>k. re k = []) (map fst (r_query r))) (RemovableQueryParams opts)"
  shows "same_values r (cleanRemovableQueryParameters opts r)"
proof -
  have "\<not> list_ex (\<lambda>re. re k \<noteq> []) (RemovableQueryParams opts)" if "k \<in> set (map fst (r_query r))" for k
    using assms that by (auto simp: list_ex_iff list_all_iff)
  then have "cleanRemovableQueryParameters opts r = set_rawquery r (values_Encode (r_query r))"
    by (simp add: cleanRemovableQueryParameters_def fold_keep Let_def)
  then show ?thesis using r_query_set_Encode [OF distinct_url_Query] unfolding same_values_def by metis
qed

section \<open>The request that is signed again\<close>

definition link_to_sign :: "hstate \<Rightarrow> request result" where
  "link_to_sign h = (let r = with_host_header (h_req h) in
     go_bind (trusted_headers (h\<lparr>h_req := r\<rparr>)) (\<lambda>hs. Ok (snd (temporaryRemoveHeaders r (hs @ alwaysSignHeaders)))))"

text \<open>A version 4 link of issued credentials: the credential names the access key, the token is that
  of the session, and the signature is the one the signer gives under the secret for the request,
  its date and the seconds it is valid. None of the parameters is removable.\<close>

definition presigned_v4 :: "authn_env \<Rightarrow> AuthenticationOptions \<Rightarrow> AWSCredentials \<Rightarrow> int \<Rightarrow> hstate \<Rightarrow> bool" where
  "presigned_v4 A opts cred expires h =
     (let q = r_query (h_req h); c = static_credentials (AccessKey cred) (SecretKey cred) (SessionToken cred) in
      isS3V4Query (h_req h) \<and> \<not> isHmacV1Query (h_req h) \<and> values_Get q HeadAsGet = []
      \<and> list_all (\<lambda>re. list_all (\<lambda>k. re k = []) (map fst q)) (RemovableQueryParams opts)
      \<and> GetCredentialPart (values_Get q ''X-Amz-Credential'') CredentialPartAccessKeyId = Ok (AccessKey cred)
      \<and> values_Get q ''X-Amz-Security-Token'' = SessionToken cred
      \<and> (\<exists>t n r uri. XAmzDateToTime (values_Get q ''X-Amz-Date'') = Ok t \<and> go_Atoi (values_Get q ''X-Amz-Expires'') = Ok n
           \<and> expires = t + time_Duration_seconds n \<and> link_to_sign h = Ok r
           \<and> PreSignRequestWithCreds (env_signer A) r n t c [] = Ok uri
           \<and> getSignatureFromV4QueryUrl uri = Ok (values_Get q ''X-Amz-Signature'')))"

lemma known_signed_headers_req [simp]: "known_signed_headers (h\<lparr>h_req := x\<rparr>) = known_signed_headers h"
  by (simp add: known_signed_headers_def GetSignedHeaders_def)

text \<open>The check of the request with the cleaned query comes to the same.\<close>

lemma s3v4_signed_uri_of_link:
  assumes "link_to_sign h = Ok r" and "PreSignRequestWithCreds G r n t c [] = Ok uri"
    and "same_values (h_req h) (h_req h')" and "known_signed_headers h' = known_signed_headers h"
  obtains h2 where "s3v4_signed_uri G h' n t c = Ok (uri, h2)" "h_ctx h' \<noteq> None \<longrightarrow> h_ctx h2 \<noteq> None"
proof -
  let ?r = "with_host_header (h_req h)" and ?r' = "with_host_header (h_req h')"
  have v: "same_values ?r ?r'"
    using same_values_header [OF assms(3)] assms(3) same_values_simps(4,5) [OF assms(3)]
    by (simp add: with_host_header_def)
  obtain hs where hs: "trusted_headers (h\<lparr>h_req := ?r\<rparr>) = Ok hs" "r = snd (temporaryRemoveHeaders ?r (hs @ alwaysSignHeaders))"
    using assms(1) by (auto simp: link_to_sign_def Let_def go_bind_Ok_iff)
  let ?x = "snd (temporaryRemoveHeaders ?r' (hs @ alwaysSignHeaders))"
  have x: "same_values r ?x"
    using same_values_header [OF v] same_values_simps(4) [OF v] by (simp add: hs(2) temporaryRemoveHeaders_def split_def Let_def)
  obtain removed h2 where h2: "TemporaryRemoveUntrustedHeaders (upd_req with_host_header h') = Ok (removed, h2)"
    "h_req h2 = ?x" "h_ctx h' \<noteq> None \<longrightarrow> h_ctx h2 \<noteq> None"
  proof (cases "known_signed_headers h = []")
    case True
    then have "getSignedHeadersFromRequest ?r' = Ok hs"
      using hs(1) same_values_reads(2) [OF v] by (simp add: trusted_headers_def)
    then show ?thesis using that True assms(4)
      by (auto simp: TemporaryRemoveUntrustedHeaders_def upd_req_def split_def Let_def SetSignedHeaders_def)
  next
    case False
    then have "hs = known_signed_headers h" using hs(1) by (simp add: trusted_headers_def)
    then show ?thesis using that False assms(4)
      by (auto simp: TemporaryRemoveUntrustedHeaders_def upd_req_def split_def Let_def)
  qed
  show ?thesis
    using that [of "h2\<lparr>h_req := h_req h'\<rparr>"] h2 PreSign_same_values [OF x] assms(2) by (simp add: s3v4_signed_uri_def)
qed

section \<open>Authentication and decision\<close>

lemma v4_details:
  assumes "presigned_v4 A opts cred e h" and "d (AccessKey cred) = Ok (SecretKey cred)"
    and "same_values (h_req h) (h_req h')" and "known_signed_headers h' = known_signed_headers h"
  obtains h2 where "s3v4_GetPresignedUrlDetails (env_signer A) h' d =
      Ok (True, static_credentials (AccessKey cred) (SecretKey cred) (SessionToken cred), e, h2)"
    "h_ctx h' \<noteq> None \<longrightarrow> h_ctx h2 \<noteq> None"
proof -
  let ?q = "r_query (h_req h)" and ?c = "static_credentials (AccessKey cred) (SecretKey cred) (SessionToken cred)"
  note p = assms(1) [unfolded presigned_v4_def Let_def]
  obtain t n r uri where s: "XAmzDateToTime (values_Get ?q ''X-Amz-Date'') = Ok t"
    "go_Atoi (values_Get ?q ''X-Amz-Expires'') = Ok n" "e = t + time_Duration_seconds n" "link_to_sign h = Ok r"
    "PreSignRequestWithCreds (env_signer A) r n t ?c [] = Ok uri"
    "getSignatureFromV4QueryUrl uri = Ok (values_Get ?q ''X-Amz-Signature'')"
    using p by blast
  obtain h2 where h2: "s3v4_signed_uri (env_signer A) h' n t ?c = Ok (uri, h2)" "h_ctx h' \<noteq> None \<longrightarrow> h_ctx h2 \<noteq> None"
    by (rule s3v4_signed_uri_of_link [OF s(4,5) assms(3,4)])
  have "s3v4_GetPresignedUrlDetails (env_signer A) h' d = Ok (True, ?c, e, h2)"
    using p h2(1) s(1-3,6) assms(2)
    by (simp add: s3v4_GetPresignedUrlDetails_def same_values_simps(1) [OF assms(3)])
  then show ?thesis using that h2(2) by blast
qed

lemma v4_authenticated:
  assumes "makeSureSessionTokenIsForAccessKey A (SessionToken cred) (AccessKey cred) (Some opts) = Ok ()"
    and "CalculateSecretKey (AccessKey cred) (GetPrivateKey (env_keys A)) = Ok (SecretKey cred)"
    and "h_ctx h \<noteq> None" and "presigned_v4 A opts cred e h" and "env_now A \<le> e"
    and "GetRegionFromRequest (h_req h) (env_default_backend A) = Ok region"
  obtains h' where "authenticate A opts h = Ok (True, h')" "GetTargetRegion h' = Ok region"
    "GetSessionToken h' = Ok (SessionToken cred)" "same_values (h_req h) (cleanRemovableQueryParameters opts (h_req h))"
    "same_target (cleanRemovableQueryParameters opts (h_req h)) (h_req h')"
proof -
  define r where "r = cleanRemovableQueryParameters opts (h_req h)"
  define h1 where "h1 = upd_req (cleanRemovableQueryParameters opts) (SetAuthType AuthTypeQueryString h)"
  note p = assms(4) [unfolded presigned_v4_def Let_def]
  let ?c = "static_credentials (AccessKey cred) (SecretKey cred) (SessionToken cred)"
  let ?d = "\<lambda>a. CalculateSecretKey a (GetPrivateKey (env_keys A))"
  have v: "same_values (h_req h) r" using p cleaned_same_values by (simp add: r_def)
  have h1: "h_req h1 = r" "h_ctx h1 \<noteq> None" "known_signed_headers h1 = known_signed_headers h"
    using assms(3) by (auto simp: h1_def r_def SetAuthType_def known_signed_headers_def GetSignedHeaders_def)
  have kind: "request_to_check r = r" "MakePresignedUrl r = Ok S3V4Url" "values_Get (r_query r) HeadAsGet = []"
    using p same_values_simps(1,8,9) [OF v] by (simp_all add: request_to_check_def MakePresignedUrl_def)
  have presigned: "IsPresignedAWSRequest (h_req h)"
    using p values_Get_Has by (simp add: IsPresignedAWSRequest_def isS3V4Query_def Let_def)
  obtain hd where hd: "s3v4_GetPresignedUrlDetails (env_signer A) h1 ?d = Ok (True, ?c, e, hd)" "h_ctx hd \<noteq> None"
    using v4_details [OF assms(4), of ?d h1] assms(2) v h1 by auto
  have key: "aws_AccessKeyID ?c = AccessKey cred" "aws_SessionToken ?c = SessionToken cred" by (simp_all add: static_credentials_def)
  let ?hd = "hd\<lparr>h_req := r\<rparr>"
  have region: "GetRegionFromRequest (h_req ?hd) (env_default_backend A) = Ok region"
    using assms(6) same_values_reads(1) [OF v] by simp
  obtain h2 where h2: "addRegionToSession A (note_credentials (AccessKey cred) (SessionToken cred) ?hd) = Ok h2"
    using region by (simp add: addRegionToSession_def)
  define h3 where "h3 = upd_req (\<lambda>r. r\<lparr>r_header := header_Add (r_header r) ''X-Amz-Content-Sha256'' EmptyStringSHA256\<rparr>) h2"
  have upd: "h1\<lparr>h_req := r\<rparr> = h1" using h1(1) by simp
  have "checkPresigned A opts h1 = Ok (True, h3)"
    using assms(5) h2 by (simp add: checkPresigned_def h1(1) kind(1,2) upd hd(1) key assms(1) h3_def)
  then have "authenticate A opts h = Ok (True, h3)"
    by (simp add: authenticate_def presigned handleAuthNPresigned_def Let_def h1_def [symmetric] h1(1) kind(3))
  moreover have "GetTargetRegion h3 = Ok region" "GetSessionToken h3 = Ok (SessionToken cred)"
    using addRegion_reads [OF _ region h2] hd(2) by (simp_all add: h3_def)
  moreover have "same_target r (h_req h3)"
    using ctx_token_region(1) [OF h2] by (simp add: h3_def same_target_def)
  ultimately show ?thesis using that v by (simp add: r_def)
qed

lemma same_values_permitted:
  "same_values r r' \<Longrightarrow> request_permitted E opr c region r' = request_permitted E opr c region r"
  by (simp add: request_permitted_def same_values_reads(3))

lemma v4_decided:
  assumes "jwt_lib_ok (st_jwt S)" and "issue_credentials S roleArn c d = Ok cred" and "SessionToken cred \<noteq> []"
    and "env_jwt (s3_authn E) = st_jwt S" and "env_keys (s3_authn E) = st_keys S" and "0 \<le> Leeway (s3_options E)"
    and "NewNumericDate (st_now S) \<le> env_now (s3_authn E)" and "env_now (s3_authn E) < NewNumericDate (st_now S + d)"
    and "h_ctx h \<noteq> None" and "presigned_v4 (s3_authn E) (s3_options E) cred e h" and "env_now (s3_authn E) \<le> e"
    and "GetRegionFromRequest (h_req h) (env_default_backend (s3_authn E)) = Ok region"
    and "matched_operation (s3_mux E) (h_req h) = Some opr"
  obtains c' where "RoleARN c' = roleArn" "reg_Subject c' = reg_Subject c" "IIssuer c' = reg_Issuer c" "Tags c' = Tags c"
    "decided_by (request_permitted E opr c' region (h_req h)) E rpb logged h"
proof -
  define h0 where "h0 = registered E h"
  note h0 = registered_context [OF assms(9,13), folded h0_def]
  have "link_to_sign h0 = link_to_sign h"
    using h0(3,4) by (simp add: link_to_sign_def trusted_headers_def Let_def)
  then have signed: "presigned_v4 (s3_authn E) (s3_options E) cred e h0" using assms(10) h0(3) by (simp add: presigned_v4_def)
  have lw: "GetParserOptions (Some (s3_options E)) = Leeway (s3_options E)" by (simp add: GetParserOptions_def)
  have late: "NewNumericDate (st_now S) \<le> env_now (s3_authn E) + Leeway (s3_options E)"
    "env_now (s3_authn E) < NewNumericDate (st_now S + d) + Leeway (s3_options E)" using assms(6-8) by linarith+
  have t: "makeSureSessionTokenIsForAccessKey (s3_authn E) (SessionToken cred) (AccessKey cred) (Some (s3_options E)) = Ok ()"
    by (rule issued_token_accepted [OF assms(1-5), of "Some (s3_options E)", unfolded lw, OF late])
  obtain c' where c': "CalculateSecretKey (AccessKey cred) (GetPrivateKey (env_keys (s3_authn E))) = Ok (SecretKey cred)"
    "RoleARN c' = roleArn" "reg_Subject c' = reg_Subject c" "IIssuer c' = reg_Issuer c" "Tags c' = Tags c"
    "ExtractTokenClaims (env_jwt (s3_authn E)) (env_now (s3_authn E)) 0 (SessionToken cred) (Some (GetJwtKeyFunc (env_keys (s3_authn E)))) = Ok c'"
    "ExtractTokenClaims (env_jwt (s3_authn E)) (env_now (s3_authn E)) 0 (SessionToken cred) None = Ok c'"
    by (rule issued_token_in_time [OF assms(1-5,7,8)])
  have x: "ExtractTokenClaims (env_jwt (s3_authn E)) (env_now (s3_authn E)) 0 (SessionToken cred) (authz_keyfunc E opr) = Ok c'"
    using c'(6,7) by (simp add: authz_keyfunc_def)
  have r0: "GetRegionFromRequest (h_req h0) (env_default_backend (s3_authn E)) = Ok region" using assms(12) h0(3) by simp
  obtain h2 where h2: "authenticate (s3_authn E) (s3_options E) h0 = Ok (True, h2)" "GetTargetRegion h2 = Ok region"
    "GetSessionToken h2 = Ok (SessionToken cred)" "same_values (h_req h0) (cleanRemovableQueryParameters (s3_options E) (h_req h0))"
    "same_target (cleanRemovableQueryParameters (s3_options E) (h_req h0)) (h_req h2)"
    by (rule v4_authenticated [OF t c'(1) h0(1) signed assms(11) r0])
  have "getS3Action h2 = opr" using authenticate_op [OF h2(1)] h0(2) by (simp add: getS3Action_def)
  moreover have "same_resource (h_req h) (h_req h2)"
    using same_values_simps(7) [OF h2(4)] h2(5) h0(3) by (simp add: same_resource_def same_target_def)
  moreover have "request_permitted E opr c' region (h_req h2) = request_permitted E opr c' region (h_req h)"
    by (simp add: request_permitted_same_target [OF h2(5)] same_values_permitted [OF h2(4)]) (simp add: h0(3))
  ultimately show ?thesis
    using that [OF c'(2-5)] authenticated_request_decided [OF h2(1) [unfolded h0_def] h2(2,3) _ x] by blast
qed

lemma files_decide_v4:
  assumes "jwt_lib_ok (st_jwt S)" and "issue_credentials S roleArn c d = Ok cred" and "SessionToken cred \<noteq> []"
    and "env_jwt (s3_authn E) = st_jwt S" and "env_keys (s3_authn E) = st_keys S" and "0 \<le> Leeway (s3_options E)"
    and "NewNumericDate (st_now S) \<le> env_now (s3_authn E)" and "env_now (s3_authn E) < NewNumericDate (st_now S + d)"
    and "h_ctx h \<noteq> None" and "presigned_v4 (s3_authn E) (s3_options E) cred e h" and "env_now (s3_authn E) \<le> e"
    and "GetRegionFromRequest (h_req h) (env_default_backend (s3_authn E)) = Ok region"
    and "matched_operation (s3_mux E) (h_req h) = Some opr"
    and "(store_step T dir False)\<^sup>*\<^sup>* (NewPolicyManager (unwatched fs)) m"
    and "\<not> event_pending (getPolicyPath dir roleArn) (pm_world m)"
  shows "\<exists>c'. RoleARN c' = roleArn \<and> reg_Subject c' = reg_Subject c \<and> IIssuer c' = reg_Issuer c \<and> Tags c' = Tags c
    \<and> decided_by (file_permits E T dir (pm_world m) opr c' region (h_req h)) (live_policies T dir m E) rpb logged h"
proof -
  obtain c' where c': "RoleARN c' = roleArn" "reg_Subject c' = reg_Subject c" "IIssuer c' = reg_Issuer c" "Tags c' = Tags c"
    "decided_by (request_permitted (live_policies T dir m E) opr c' region (h_req h)) (live_policies T dir m E) rpb logged h"
    using v4_decided [of S roleArn c d cred "live_policies T dir m E" h e region opr rpb logged] assms(1-13)
    unfolding live_policies_simps by metis
  then show ?thesis using decided_by_file [OF assms(14)] assms(15) by metis
qed

end
