(* ===== verification/Policy_Race.thy ===== *)
theory Policy_Race
  imports Policy_Store
begin

text \<open>
  The policy cache under concurrency: \<^verbatim>\<open>aws/service/iam/policy-retrieval.go\<close> again, now with the
  goroutines inside \<^verbatim>\<open>getPolicyTemplate\<close>. A lookup, the start of the watch, the reading of the file
  and the storing of the template are separate steps, between which other requests, the goroutine of
  the file watcher and other processes may run; the mutex covers only the lookup, the store and the
  removal of an entry. Retrievers are kept per directory and the last manager that registers with one
  gets its events.
\<close>

section \<open>Goroutines\<close>

text \<open>Where a call of \<^verbatim>\<open>getPolicyTemplate\<close> of manager \<open>i\<close> stands: before the lookup, after a miss,
  after the watch was started, after the template was parsed.\<close>

datatype 't fetch = Asked nat string | Missed nat string | Reading nat string | Storing nat string 't

fun fetch_manager :: "'t fetch \<Rightarrow> nat" where
  "fetch_manager (Asked i arn) = i"
| "fetch_manager (Missed i arn) = i"
| "fetch_manager (Reading i arn) = i"
| "fetch_manager (Storing i arn t) = i"

fun fetch_role :: "'t fetch \<Rightarrow> string" where
  "fetch_role (Asked i arn) = arn"
| "fetch_role (Missed i arn) = arn"
| "fetch_role (Reading i arn) = arn"
| "fetch_role (Storing i arn t) = arn"

text \<open>The managers of one retriever by the order of their registration, the index of the field
  \<^verbatim>\<open>pm\<close> of the retriever, the calls in flight, the call the watcher's goroutine makes, and the
  directory.\<close>

record 't shared =
  sh_managers :: "(string \<times> 't) list list"
  sh_registered :: nat
  sh_fetches :: "'t fetch list"
  sh_watcher :: "'t fetch option"
  sh_files :: local_files

definition shared_start :: "(string \<times> string) list \<Rightarrow> 't shared" where
  "shared_start fs = \<lparr>sh_managers = [[]], sh_registered = 0, sh_fetches = [], sh_watcher = None, sh_files = unwatched fs\<rparr>"

text \<open>\<^verbatim>\<open>NewLocalPolicyRetriever\<close> gives the retriever that exists for the directory; \<^verbatim>\<open>NewPolicyManager\<close> makes a
  manager with an empty cache and registers it there in place of the one before.\<close>

definition registerPolicyManager :: "'t shared \<Rightarrow> 't shared" where
  "registerPolicyManager s = s\<lparr>sh_managers := sh_managers s @ [[]], sh_registered := length (sh_managers s)\<rparr>"

text \<open>One step of a call: what is left of it, and the state without its place in it.\<close>

fun advance :: "'t tmpl_lib \<Rightarrow> string \<Rightarrow> 't fetch \<Rightarrow> 't shared \<Rightarrow> 't fetch option \<times> 't shared" where
  "advance T dir (Asked i arn) s = (if map_of (sh_managers s ! i) arn = None then Some (Missed i arn) else None, s)"
| "advance T dir (Missed i arn) s = (Some (Reading i arn), s\<lparr>sh_files := startWatching (getPolicyPath dir arn) (sh_files s)\<rparr>)"
| "advance T dir (Reading i arn) s =
     (case go_bind (ReadFileFull (map_of (lf_files (sh_files s))) (getPolicyPath dir arn)) (tmpl_Parse T arn) of
        Ok t \<Rightarrow> Some (Storing i arn t) | _ \<Rightarrow> None, s)"
| "advance T dir (Storing i arn t) s =
     (None, s\<lparr>sh_managers := (sh_managers s)[i := AList.update arn t (sh_managers s ! i)]\<rparr>)"

definition forget :: "string \<Rightarrow> 't shared \<Rightarrow> 't shared" where
  "forget arn s = (let i = sh_registered s in
     s\<lparr>sh_managers := (sh_managers s)[i := AList.delete arn (sh_managers s ! i)]\<rparr>)"

text \<open>The watcher's goroutine takes an event: the entry is removed, and after a write the policy is
  asked for again. The removal and the choice of the manager are one step.\<close>

fun take_event :: "string \<Rightarrow> fs_event \<Rightarrow> 't shared \<Rightarrow> 't shared result" where
  "take_event dir (EvWrite p) s =
     go_bind (callback_arn dir p) (\<lambda>arn. Ok ((forget arn s)\<lparr>sh_watcher := Some (Asked (sh_registered s) arn)\<rparr>))"
| "take_event dir (EvRemove p) s =
     go_bind (callback_arn dir p) (\<lambda>arn. Ok ((forget arn s)\<lparr>sh_files := restartWatching p (sh_files s)\<rparr>))"
| "take_event dir (EvRename p) s = Ok s"

definition upd_files :: "(local_files \<Rightarrow> local_files) \<Rightarrow> 't shared \<Rightarrow> 't shared" where
  "upd_files f s = s\<lparr>sh_files := f (sh_files s)\<rparr>"

definition in_flight :: "'t shared \<Rightarrow> 't fetch set" where
  "in_flight s = set (sh_fetches s) \<union> set_option (sh_watcher s)"

text \<open>Nobody is retrieving from this path.\<close>

definition quiet :: "string \<Rightarrow> string \<Rightarrow> 't shared \<Rightarrow> bool" where
  "quiet dir p s = (\<forall>f \<in> in_flight s. getPolicyPath dir (fetch_role f) \<noteq> p)"

definition absent :: "string \<Rightarrow> 't shared \<Rightarrow> bool" where
  "absent p s = (map_of (lf_files (sh_files s)) p = None)"

text \<open>The steps. With \<open>calm\<close>, a policy file is neither created nor are its events delivered while the
  policy of its role is being retrieved. As before no file the program watches is moved away.\<close>

inductive shared_step :: "'t tmpl_lib \<Rightarrow> string \<Rightarrow> bool \<Rightarrow> 't shared \<Rightarrow> 't shared \<Rightarrow> bool"
  for T :: "'t tmpl_lib" and dir :: string and calm :: bool
where
  register: "shared_step T dir calm s (registerPolicyManager s)"
| ask: "i < length (sh_managers s) \<Longrightarrow> shared_step T dir calm s (s\<lparr>sh_fetches := sh_fetches s @ [Asked i arn]\<rparr>)"
| go: "sh_fetches s = xs @ f # ys \<Longrightarrow> advance T dir f s = (rest, s') \<Longrightarrow>
    shared_step T dir calm s (s'\<lparr>sh_fetches := xs @ (case rest of None \<Rightarrow> ys | Some f' \<Rightarrow> f' # ys)\<rparr>)"
| reload: "sh_watcher s = Some f \<Longrightarrow> advance T dir f s = (rest, s') \<Longrightarrow> shared_step T dir calm s (s'\<lparr>sh_watcher := rest\<rparr>)"
| event: "sh_watcher s = None \<Longrightarrow> lf_events (sh_files s) = e # es \<Longrightarrow> calm \<longrightarrow> quiet dir (event_path e) s \<Longrightarrow>
    take_event dir e (upd_files (\<lambda>w. w\<lparr>lf_events := es\<rparr>) s) = Ok s' \<Longrightarrow> shared_step T dir calm s s'"
| written: "calm \<and> absent p s \<longrightarrow> quiet dir p s \<Longrightarrow> shared_step T dir calm s (upd_files (fs_write p c) s)"
| removed: "shared_step T dir calm s (upd_files (fs_remove p) s)"
| renamed: "map_of (lf_files (sh_files s)) p = Some c \<Longrightarrow> p \<noteq> q \<Longrightarrow> p \<notin> set (lf_watched (sh_files s)) \<Longrightarrow>
    calm \<and> absent q s \<longrightarrow> quiet dir q s \<Longrightarrow> shared_step T dir calm s (upd_files (fs_rename p q c) s)"

section \<open>The invariant of calm runs\<close>

fun fetch_ok :: "'t tmpl_lib \<Rightarrow> string \<Rightarrow> nat \<Rightarrow> local_files \<Rightarrow> 't fetch \<Rightarrow> bool" where
  "fetch_ok T dir j w (Storing i arn t) = (i = j \<longrightarrow> cache_ok T dir [(arn, t)] w)"
| "fetch_ok T dir j w (Reading i arn) =
     (local_content dir w arn \<noteq> None \<longrightarrow> getPolicyPath dir arn \<in> set (lf_watched w) \<or> event_pending (getPolicyPath dir arn) w)"
| "fetch_ok T dir j w f = True"

definition shared_inv :: "'t tmpl_lib \<Rightarrow> string \<Rightarrow> 't shared \<Rightarrow> bool" where
  "shared_inv T dir s =
     (sh_registered s < length (sh_managers s) \<and> only_policies dir (sh_files s)
      \<and> cache_ok T dir (sh_managers s ! sh_registered s) (sh_files s)
      \<and> (\<forall>f \<in> in_flight s. fetch_manager f < length (sh_managers s) \<and> fetch_ok T dir (sh_registered s) (sh_files s) f))"

text \<open>What a change of the directory keeps, from the lemmas on the atomic store.\<close>

lemma store_inv_pair: "store_inv T dir \<lparr>pm_templates = ts, pm_world = w\<rparr> = (cache_ok T dir ts w \<and> only_policies dir w)"
  by (simp add: store_inv_def)

lemma cache_ok_change:
  assumes "cache_ok T dir ts w" and "only_policies dir w"
  shows "cache_ok T dir ts (fs_write p c w)" "only_policies dir (fs_write p c w)"
    "cache_ok T dir ts (fs_remove p w)" "only_policies dir (fs_remove p w)"
    "p \<notin> set (lf_watched w) \<Longrightarrow> cache_ok T dir ts (fs_rename p q c w) \<and> only_policies dir (fs_rename p q c w)"
  using store_inv_write [of T dir "\<lparr>pm_templates = ts, pm_world = w\<rparr>" p c]
    store_inv_remove [of T dir "\<lparr>pm_templates = ts, pm_world = w\<rparr>" p]
    store_inv_rename [of T dir "\<lparr>pm_templates = ts, pm_world = w\<rparr>" p q c] assms
  by (simp_all add: upd_world_def store_inv_pair)

lemma shared_inv_files:
  assumes "shared_inv T dir s" and "only_policies dir w" and "\<And>ts. cache_ok T dir ts (sh_files s) \<Longrightarrow> cache_ok T dir ts w"
    and "\<And>i arn. Reading i arn \<in> in_flight s \<Longrightarrow> fetch_ok T dir j (sh_files s) (Reading i arn) \<Longrightarrow> fetch_ok T dir j w (Reading i arn)"
    and "j = sh_registered s"
  shows "shared_inv T dir (s\<lparr>sh_files := w\<rparr>)"
proof -
  have "fetch_ok T dir j w f" if "f \<in> in_flight s" for f
  proof -
    have "fetch_ok T dir j (sh_files s) f" using assms(1,5) that by (simp add: shared_inv_def)
    then show ?thesis using assms(3,4) that by (cases f) auto
  qed
  then show ?thesis using assms(1-3,5) by (simp add: shared_inv_def in_flight_def)
qed

lemma shared_inv_flight:
  assumes "shared_inv T dir s" and "in_flight s' \<subseteq> in_flight s \<union> R" and "sh_managers s' = sh_managers s"
    and "sh_registered s' = sh_registered s" and "sh_files s' = sh_files s"
    and "\<forall>f \<in> R. fetch_manager f < length (sh_managers s) \<and> fetch_ok T dir (sh_registered s) (sh_files s) f"
  shows "shared_inv T dir s'"
  using assms by (auto simp: shared_inv_def)

lemma advance_inv:
  assumes inv: "shared_inv T dir s" and f: "f \<in> in_flight s" and adv: "advance T dir f s = (rest, s')"
  shows "shared_inv T dir s' \<and> sh_fetches s' = sh_fetches s \<and> sh_watcher s' = sh_watcher s
    \<and> (\<forall>f' \<in> set_option rest. fetch_manager f' < length (sh_managers s') \<and> fetch_ok T dir (sh_registered s') (sh_files s') f')"
proof -
  have i: "fetch_manager f < length (sh_managers s)" "fetch_ok T dir (sh_registered s) (sh_files s) f"
    using inv f by (simp_all add: shared_inv_def)
  show ?thesis
  proof (cases f)
    case (Asked i arn)
    then show ?thesis using adv inv i(1) by (auto split: if_splits)
  next
    case (Missed i arn)
    let ?w = "startWatching (getPolicyPath dir arn) (sh_files s)"
    have "shared_inv T dir (s\<lparr>sh_files := ?w\<rparr>)"
      by (rule shared_inv_files [OF inv _ cache_ok_startWatching _ refl])
        (use inv in \<open>auto simp: shared_inv_def only_policies_def startWatching_watched local_content_def event_pending_def\<close>)
    then show ?thesis using Missed adv i(1)
      by (auto simp: startWatching_watched local_content_def)
  next
    case (Reading i arn)
    then have s': "s' = s" using adv by auto
    have "fetch_manager f' < length (sh_managers s) \<and> fetch_ok T dir (sh_registered s) (sh_files s) f'" if r: "rest = Some f'" for f'
    proof -
      obtain t c where t: "f' = Storing i arn t" "local_content dir (sh_files s) arn = Some c" "tmpl_Parse T arn c = Ok t"
        using Reading adv r
        by (auto simp: ReadFileFull_def local_content_def go_bind_Ok_iff split: go.splits option.splits)
      then show ?thesis using i Reading by (auto simp: cache_ok_def template_of_file_def)
    qed
    then show ?thesis using inv s' by simp
  next
    case (Storing i arn t)
    let ?m = "(sh_managers s)[i := AList.update arn t (sh_managers s ! i)]"
    have "cache_ok T dir (?m ! sh_registered s) (sh_files s)"
      using inv i Storing by (cases "i = sh_registered s") (auto simp: shared_inv_def cache_ok_def go_map split: if_splits)
    then show ?thesis using Storing adv inv by (auto simp: shared_inv_def in_flight_def)
  qed
qed

lemma shared_inv_env:
  assumes "shared_inv T dir s"
  shows "absent p s \<longrightarrow> quiet dir p s \<Longrightarrow> shared_inv T dir (upd_files (fs_write p c) s)"
    and "shared_inv T dir (upd_files (fs_remove p) s)"
    and "p \<notin> set (lf_watched (sh_files s)) \<Longrightarrow> p \<noteq> q \<Longrightarrow> absent q s \<longrightarrow> quiet dir q s \<Longrightarrow>
      shared_inv T dir (upd_files (fs_rename p q c) s)"
proof -
  have only: "only_policies dir (sh_files s)" using assms by (simp add: shared_inv_def)
  note change = cache_ok_change [OF _ only]
  have any: "cache_ok T dir [] (sh_files s)" by (simp add: cache_ok_def)
  show "shared_inv T dir (upd_files (fs_write p c) s)" if "absent p s \<longrightarrow> quiet dir p s"
    unfolding upd_files_def using that
    by (intro shared_inv_files [OF assms change(2) [OF any] change(1) _ refl])
      (auto simp: absent_def quiet_def fs_write_def local_content_def event_pending_def go_map split: if_splits)
  show "shared_inv T dir (upd_files (fs_remove p) s)"
    unfolding upd_files_def
    by (intro shared_inv_files [OF assms change(4) [OF any] change(3) _ refl])
      (auto simp: fs_remove_def local_content_def event_pending_def go_map split: if_splits)
  show "shared_inv T dir (upd_files (fs_rename p q c) s)"
    if "p \<notin> set (lf_watched (sh_files s))" "p \<noteq> q" "absent q s \<longrightarrow> quiet dir q s"
    unfolding upd_files_def
  proof (rule shared_inv_files [OF assms _ _ _ refl])
    show "only_policies dir (fs_rename p q c (sh_files s))" using change(5) [OF any] that(1) by blast
    show "cache_ok T dir ts (sh_files s) \<Longrightarrow> cache_ok T dir ts (fs_rename p q c (sh_files s))" for ts
      using change(5) that(1) by blast
    show "fetch_ok T dir (sh_registered s) (sh_files s) (Reading i arn) \<Longrightarrow>
        fetch_ok T dir (sh_registered s) (fs_rename p q c (sh_files s)) (Reading i arn)" if "Reading i arn \<in> in_flight s" for i arn
      using that \<open>p \<notin> set (lf_watched (sh_files s))\<close> \<open>p \<noteq> q\<close> \<open>absent q s \<longrightarrow> quiet dir q s\<close>
      by (auto simp: absent_def quiet_def fs_rename_def fs_remove_def local_content_def event_pending_def go_map Let_def split: if_splits)
  qed
qed

lemma other_role_event:
  assumes "lf_events w = e # es" and "event_path e \<noteq> getPolicyPath dir a"
  shows "event_pending (getPolicyPath dir a) (w\<lparr>lf_events := es\<rparr>) = event_pending (getPolicyPath dir a) w"
  using assms by (cases e) (auto simp: event_pending_def)

text \<open>Taking an event for the file of a role that nobody is retrieving.\<close>

lemma shared_inv_taken:
  assumes inv: "shared_inv T dir s" and ev: "lf_events (sh_files s) = e # es" and e: "event_path e = getPolicyPath dir arn"
    and q: "quiet dir (event_path e) s"
  shows "shared_inv T dir (upd_files (\<lambda>w. w\<lparr>lf_events := es\<rparr>) (forget arn s))"
proof -
  let ?w = "(sh_files s)\<lparr>lf_events := es\<rparr>" and ?j = "sh_registered s"
  have templates: "template_of_file T dir a ?w t = template_of_file T dir a (sh_files s) t" for a t
    by (simp add: template_of_file_def local_content_def)
  have "cache_ok T dir (AList.delete arn (sh_managers s ! ?j)) ?w"
    unfolding cache_ok_def
  proof (intro allI impI)
    fix a t
    assume "map_of (AList.delete arn (sh_managers s ! ?j)) a = Some t"
    then have a: "map_of (sh_managers s ! ?j) a = Some t" "a \<noteq> arn" by (simp_all add: go_map split: if_splits)
    have "event_path e \<noteq> getPolicyPath dir a" using a(2) e getPolicyPath_inj by metis
    from other_role_event [OF ev this]
    show "getPolicyPath dir a \<in> set (lf_watched ?w) \<and> template_of_file T dir a ?w t \<or> event_pending (getPolicyPath dir a) ?w"
      using inv a(1) by (simp add: shared_inv_def cache_ok_def templates)
  qed
  moreover have "fetch_ok T dir ?j ?w f" if f: "f \<in> in_flight s" for f
  proof -
    have "event_path e \<noteq> getPolicyPath dir (fetch_role f)" using q f by (auto simp: quiet_def)
    note o = other_role_event [OF ev this]
    have "fetch_ok T dir ?j (sh_files s) f" using inv f by (simp add: shared_inv_def)
    then show ?thesis using o
      by (cases f) (auto simp: cache_ok_def templates local_content_def)
  qed
  moreover have "only_policies dir ?w" using inv ev by (auto simp: shared_inv_def only_policies_def)
  ultimately show ?thesis
    using inv by (auto simp: shared_inv_def forget_def upd_files_def in_flight_def Let_def)
qed

lemma shared_inv_event:
  assumes inv: "shared_inv T dir s" and w: "sh_watcher s = None" and ev: "lf_events (sh_files s) = e # es"
    and q: "quiet dir (event_path e) s" and t: "take_event dir e (upd_files (\<lambda>w. w\<lparr>lf_events := es\<rparr>) s) = Ok s'"
  shows "shared_inv T dir s'"
proof -
  obtain arn where arn: "event_path e = getPolicyPath dir arn"
    using inv ev by (auto simp: shared_inv_def only_policies_def)
  define s1 where "s1 = upd_files (\<lambda>w. w\<lparr>lf_events := es\<rparr>) (forget arn s)"
  have s1: "shared_inv T dir s1" unfolding s1_def by (rule shared_inv_taken [OF inv ev arn q])
  have swap: "forget arn (upd_files (\<lambda>w. w\<lparr>lf_events := es\<rparr>) s) = s1"
    by (simp add: s1_def forget_def upd_files_def Let_def)
  have gone: "map_of (sh_managers s1 ! sh_registered s1) arn = None"
    using inv by (simp add: s1_def forget_def upd_files_def shared_inv_def go_map Let_def)
  show ?thesis
  proof (cases e)
    case (EvWrite p)
    then have "s' = s1\<lparr>sh_watcher := Some (Asked (sh_registered s1) arn)\<rparr>"
      using t arn by (simp add: callback_arn_path swap) (simp add: s1_def forget_def upd_files_def Let_def)
    then show ?thesis using s1 by (auto simp: shared_inv_def in_flight_def)
  next
    case (EvRemove p)
    have s': "s' = s1\<lparr>sh_files := restartWatching (getPolicyPath dir arn) (sh_files s1)\<rparr>"
      using EvRemove t arn by (simp add: callback_arn_path swap) (simp add: s1_def forget_def upd_files_def Let_def)
    have role: "fetch_role f \<noteq> arn" if "f \<in> in_flight s1" for f
      using q arn that by (auto simp: quiet_def s1_def in_flight_def forget_def upd_files_def Let_def)
    have others: "cache_ok T dir ts (sh_files s1) \<Longrightarrow> map_of ts arn = None \<Longrightarrow>
        cache_ok T dir ts (restartWatching (getPolicyPath dir arn) (sh_files s1))" for ts
      by (rule cache_ok_restart)
    have "fetch_ok T dir (sh_registered s1) (restartWatching (getPolicyPath dir arn) (sh_files s1)) f" if f: "f \<in> in_flight s1" for f
    proof -
      have "getPolicyPath dir (fetch_role f) \<noteq> getPolicyPath dir arn" using role [OF f] getPolicyPath_inj by blast
      moreover have "fetch_ok T dir (sh_registered s1) (sh_files s1) f" using s1 f by (simp add: shared_inv_def)
      ultimately show ?thesis using role [OF f]
        by (cases f) (auto simp: others restartWatching_facts local_content_def event_pending_def)
    qed
    moreover have "only_policies dir (restartWatching (getPolicyPath dir arn) (sh_files s1))"
      using s1 by (auto simp: shared_inv_def only_policies_def restartWatching_facts)
    ultimately show ?thesis
      using s1 gone others by (simp add: s' shared_inv_def in_flight_def)
  next
    case (EvRename p)
    then have s': "s' = upd_files (\<lambda>w. w\<lparr>lf_events := es\<rparr>) s" using t by simp
    have "event_pending p' ((sh_files s)\<lparr>lf_events := es\<rparr>) = event_pending p' (sh_files s)" for p'
      using ev EvRename by (simp add: event_pending_def)
    then show ?thesis unfolding s' upd_files_def
      using inv ev by (intro shared_inv_files [OF inv _ _ _ refl])
        (auto simp: shared_inv_def only_policies_def cache_ok_def template_of_file_def local_content_def)
  qed
qed

lemma shared_inv_step: "shared_step T dir True s s' \<Longrightarrow> shared_inv T dir s \<Longrightarrow> shared_inv T dir s'"
proof (induction rule: shared_step.induct)
  case (register s)
  have "fetch_manager f \<noteq> length (sh_managers s)" if "f \<in> in_flight s" for f using register that by (auto simp: shared_inv_def)
  then have "fetch_ok T dir (length (sh_managers s)) (sh_files s) f" if "f \<in> in_flight s" for f
    using register that by (cases f) (force simp: shared_inv_def)+
  then show ?case using register
    by (auto simp: shared_inv_def registerPolicyManager_def in_flight_def cache_ok_def less_Suc_eq)
next
  case (ask i s arn)
  then show ?case by (auto simp: shared_inv_def in_flight_def)
next
  case (go s xs f ys rest s')
  have f: "f \<in> in_flight s" using go(1) by (simp add: in_flight_def)
  note a = advance_inv [OF go(3) f go(2)]
  show ?case
    by (rule shared_inv_flight [where R = "set_option rest" and s = s'])
      (use a go(1) in \<open>auto simp: in_flight_def split: option.splits\<close>)
next
  case (reload s f rest s')
  have f: "f \<in> in_flight s" using reload(1) by (simp add: in_flight_def)
  note a = advance_inv [OF reload(3) f reload(2)]
  show ?case
    by (rule shared_inv_flight [where R = "set_option rest" and s = s'])
      (use a in \<open>auto simp: in_flight_def\<close>)
next
  case (event s e es s')
  then show ?case using shared_inv_event by blast
next
  case (written p s c)
  then show ?case using shared_inv_env(1) by blast
next
  case (removed s p)
  then show ?case using shared_inv_env(2) by blast
next
  case (renamed s p c q)
  then show ?case using shared_inv_env(3) by blast
qed

lemma shared_inv_reachable: "(shared_step T dir True)\<^sup>*\<^sup>* (shared_start fs) s \<Longrightarrow> shared_inv T dir s"
proof (induction rule: rtranclp_induct)
  case base
  show ?case by (simp add: shared_inv_def shared_start_def only_policies_def unwatched_def cache_ok_def in_flight_def)
qed (rule shared_inv_step)

section \<open>What every interleaving keeps\<close>

inductive shared_run :: "'t tmpl_lib \<Rightarrow> string \<Rightarrow> bool \<Rightarrow> 't shared list \<Rightarrow> bool"
  for T :: "'t tmpl_lib" and dir :: string and calm :: bool
where
  start: "shared_run T dir calm [shared_start fs]"
| more: "shared_run T dir calm ss \<Longrightarrow> shared_step T dir calm (last ss) s \<Longrightarrow> shared_run T dir calm (ss @ [s])"

text \<open>A template in a cache or on its way into one is that of a content the role's own file had.\<close>

definition had_template :: "'t tmpl_lib \<Rightarrow> string \<Rightarrow> 't shared set \<Rightarrow> string \<Rightarrow> 't \<Rightarrow> bool" where
  "had_template T dir H arn t = (\<exists>s \<in> H. template_of_file T dir arn (sh_files s) t)"

definition cache_from :: "'t tmpl_lib \<Rightarrow> string \<Rightarrow> 't shared set \<Rightarrow> (string \<times> 't) list \<Rightarrow> bool" where
  "cache_from T dir H ts = (\<forall>arn t. map_of ts arn = Some t \<longrightarrow> had_template T dir H arn t)"

fun fetch_from :: "'t tmpl_lib \<Rightarrow> string \<Rightarrow> 't shared set \<Rightarrow> 't fetch \<Rightarrow> bool" where
  "fetch_from T dir H (Storing i arn t) = had_template T dir H arn t"
| "fetch_from T dir H f = True"

definition from_history :: "'t tmpl_lib \<Rightarrow> string \<Rightarrow> 't shared set \<Rightarrow> 't shared \<Rightarrow> bool" where
  "from_history T dir H s =
     ((\<forall>ts \<in> set (sh_managers s). cache_from T dir H ts) \<and> (\<forall>f \<in> in_flight s. fetch_from T dir H f))"

lemma had_template_mono: "had_template T dir H arn t \<Longrightarrow> H \<subseteq> H' \<Longrightarrow> had_template T dir H' arn t"
  unfolding had_template_def by blast

lemma from_history_mono: "from_history T dir H s \<Longrightarrow> H \<subseteq> H' \<Longrightarrow> from_history T dir H' s"
proof -
  assume h: "from_history T dir H s" "H \<subseteq> H'"
  have "fetch_from T dir H f \<Longrightarrow> fetch_from T dir H' f" for f
    using h(2) by (cases f) (auto intro: had_template_mono)
  moreover have "cache_from T dir H ts \<Longrightarrow> cache_from T dir H' ts" for ts
    by (auto simp: cache_from_def intro: had_template_mono [OF _ h(2)])
  ultimately show ?thesis using h(1) by (simp add: from_history_def)
qed

lemma from_history_parts:
  assumes "from_history T dir H s" and "sh_managers s' = sh_managers s" and "in_flight s' \<subseteq> in_flight s \<union> R"
    and "\<forall>f \<in> R. fetch_from T dir H f"
  shows "from_history T dir H s'"
  using assms unfolding from_history_def by auto

lemma in_list_update: "x \<in> set (xs[i := v]) \<Longrightarrow> x \<in> set xs \<or> i < length xs \<and> x = v"
  by (cases "i < length xs") (auto simp: in_set_conv_nth nth_list_update split: if_splits)

lemma from_history_update:
  assumes "from_history T dir H s" and "i < length (sh_managers s) \<Longrightarrow> cache_from T dir H ts"
    and "sh_managers s' = (sh_managers s)[i := ts]" and "in_flight s' = in_flight s"
  shows "from_history T dir H s'"
  using assms by (auto simp: from_history_def dest!: in_list_update)

lemma from_history_nth: "from_history T dir H s \<Longrightarrow> i < length (sh_managers s) \<Longrightarrow> cache_from T dir H (sh_managers s ! i)"
  by (simp add: from_history_def)

lemma from_history_forget:
  assumes "from_history T dir H s"
  shows "from_history T dir H (forget arn s)"
  by (rule from_history_update [OF assms, of "sh_registered s" "AList.delete arn (sh_managers s ! sh_registered s)"])
    (auto simp: forget_def in_flight_def cache_from_def go_map Let_def split: if_splits
      dest: from_history_nth [OF assms, unfolded cache_from_def, rule_format])

lemma advance_frame:
  assumes "advance T dir f s = (rest, s')"
  shows "sh_fetches s' = sh_fetches s" and "sh_watcher s' = sh_watcher s"
  using assms by (cases f; auto)+

lemma from_history_advance:
  assumes "from_history T dir H s" and "s \<in> H" and "f \<in> in_flight s" and "advance T dir f s = (rest, s')"
  shows "from_history T dir H s' \<and> (\<forall>f' \<in> set_option rest. fetch_from T dir H f')"
proof -
  have same: "from_history T dir H s'" if "sh_managers s' = sh_managers s"
    using assms(1) that advance_frame [OF assms(4)] by (simp add: from_history_def in_flight_def)
  show ?thesis
  proof (cases f)
    case (Asked i arn)
    then show ?thesis using assms(4) same by (auto split: if_splits)
  next
    case (Missed i arn)
    then show ?thesis using assms(4) same by auto
  next
    case (Reading i arn)
    then have "fetch_from T dir H f'" if r: "rest = Some f'" for f'
      using assms(2,4) r
      by (auto simp: ReadFileFull_def had_template_def template_of_file_def local_content_def intro!: bexI [OF _ assms(2)]
          split: go.splits option.splits)
    then show ?thesis using assms(4) same Reading by auto
  next
    case (Storing i arn t)
    have "had_template T dir H arn t" using assms(1,3) Storing by (auto simp: from_history_def)
    then have "cache_from T dir H (AList.update arn t (sh_managers s ! i))" if "i < length (sh_managers s)"
      using from_history_nth [OF assms(1) that] by (simp add: cache_from_def go_map)
    then show ?thesis
      using from_history_update [OF assms(1), of i "AList.update arn t (sh_managers s ! i)" s'] Storing assms(4)
        advance_frame [OF assms(4)] by (auto simp: in_flight_def)
  qed
qed

lemma from_history_step:
  "shared_step T dir calm s s' \<Longrightarrow> from_history T dir H s \<Longrightarrow> s \<in> H \<Longrightarrow> from_history T dir H s'"
proof (induction rule: shared_step.induct)
  case (register s)
  then show ?case by (auto simp: from_history_def registerPolicyManager_def in_flight_def cache_from_def)
next
  case (ask i s arn)
  show ?case by (rule from_history_parts [OF ask(2), where R = "{Asked i arn}"]) (auto simp: in_flight_def)
next
  case (go s xs f ys rest s')
  have f: "f \<in> in_flight s" using go(1) by (simp add: in_flight_def)
  note a = from_history_advance [OF go(3,4) f go(2)] and fr = advance_frame [OF go(2)]
  show ?case
    by (rule from_history_parts [OF conjunct1 [OF a], where R = "set_option rest"])
      (use a fr go(1) in \<open>auto simp: in_flight_def split: option.splits\<close>)
next
  case (reload s f rest s')
  have f: "f \<in> in_flight s" using reload(1) by (simp add: in_flight_def)
  note a = from_history_advance [OF reload(3,4) f reload(2)]
  show ?case
    by (rule from_history_parts [OF conjunct1 [OF a], where R = "set_option rest"])
      (use a in \<open>auto simp: in_flight_def\<close>)
next
  case (event s e es s')
  let ?s = "upd_files (\<lambda>w. w\<lparr>lf_events := es\<rparr>) s"
  have s: "from_history T dir H ?s" using event(5) by (simp add: from_history_def upd_files_def in_flight_def)
  show ?case
  proof (cases e)
    case (EvWrite p)
    then obtain arn where "s' = (forget arn ?s)\<lparr>sh_watcher := Some (Asked (sh_registered ?s) arn)\<rparr>"
      using event(4) by (auto simp: go_bind_Ok_iff)
    then show ?thesis using from_history_forget [OF s, of arn] by (auto simp: from_history_def in_flight_def)
  next
    case (EvRemove p)
    then obtain arn where "s' = (forget arn ?s)\<lparr>sh_files := restartWatching p (sh_files ?s)\<rparr>"
      using event(4) by (auto simp: go_bind_Ok_iff)
    then show ?thesis using from_history_forget [OF s, of arn] by (simp add: from_history_def in_flight_def)
  next
    case (EvRename p)
    then show ?thesis using event(4) s by simp
  qed
qed (simp_all add: from_history_def upd_files_def in_flight_def)

lemma from_history_run:
  "shared_run T dir calm ss \<Longrightarrow> ss \<noteq> [] \<and> from_history T dir (set ss) (last ss)"
proof (induction rule: shared_run.induct)
  case (start fs)
  show ?case by (simp add: from_history_def shared_start_def in_flight_def cache_from_def)
next
  case (more ss s)
  then have "from_history T dir (set ss) s" using from_history_step [OF more(2), of "set ss"] by simp
  then have "from_history T dir (set (ss @ [s])) s" by (rule from_history_mono) auto
  then show ?case by simp
qed

section \<open>Properties\<close>


text \<open>C13. Whatever the interleaving, roles are never mixed up: every template in the cache of any
  manager was made from a content that the role's own file had at some time since the start.\<close>

theorem cached_from_own_file:
  assumes "shared_run T dir calm ss" and "ts \<in> set (sh_managers (last ss))" and "map_of ts arn = Some t"
  shows "\<exists>s \<in> set ss. template_of_file T dir arn (sh_files s) t"
  using from_history_run [OF assms(1)] assms(2,3) by (simp add: from_history_def cache_from_def had_template_def)

subsection \<open>Runs with one role\<close>

definition shared_at ::
  "(string \<times> string) list list \<Rightarrow> string fetch list \<Rightarrow> string fetch option \<Rightarrow> string \<Rightarrow> string list \<Rightarrow> fs_event list \<Rightarrow> string shared"
where
  "shared_at ms fs w c ws es = \<lparr>sh_managers = ms, sh_registered = length ms - 1, sh_fetches = fs, sh_watcher = w,
     sh_files = \<lparr>lf_files = [(role_file, c)], lf_watched = ws, lf_events = es\<rparr>\<rparr>"

abbreviation text_step :: "bool \<Rightarrow> string shared \<Rightarrow> string shared \<Rightarrow> bool" where
  "text_step calm \<equiv> shared_step text_templates ''policies'' calm"

lemma shared_at_start: "shared_start [(role_file, c)] = shared_at [[]] [] None c [] []"
  by (simp add: shared_start_def shared_at_def unwatched_def)

lemma step_go:
  assumes "advance text_templates ''policies'' f (shared_at ms [f] w c ws es) = (rest, shared_at ms' [f] w c ws' es)"
  shows "text_step calm (shared_at ms [f] w c ws es) (shared_at ms' (case rest of None \<Rightarrow> [] | Some f' \<Rightarrow> [f']) w c ws' es)"
  using shared_step.go [of "shared_at ms [f] w c ws es" "[]" f "[]", OF _ assms] by (simp add: shared_at_def split: option.splits)

lemma step_reload:
  assumes "advance text_templates ''policies'' f (shared_at ms fs (Some f) c ws es) = (rest, shared_at ms' fs (Some f) c ws' es)"
  shows "text_step calm (shared_at ms fs (Some f) c ws es) (shared_at ms' fs rest c ws' es)"
  using shared_step.reload [of "shared_at ms fs (Some f) c ws es" f, OF _ assms] by (simp add: shared_at_def)

lemmas shared_at_simps = shared_at_def startWatching_def ReadFileFull_def text_templates_def

lemma step_ask: "ms \<noteq> [] \<Longrightarrow> text_step calm (shared_at ms [] w c ws es) (shared_at ms [Asked 0 ''r''] w c ws es)"
  using shared_step.ask [of 0 "shared_at ms [] w c ws es" text_templates "''policies''" calm "''r''"] by (simp add: shared_at_def)

lemma step_written:
  "text_step calm (shared_at ms fs w c [role_file] []) (shared_at ms fs w c' [role_file] [EvWrite role_file])"
  using shared_step.written [of calm role_file "shared_at ms fs w c [role_file] []" "''policies''" text_templates c']
  by (simp add: shared_at_def absent_def upd_files_def fs_write_def)

lemma step_event:
  assumes "ms \<noteq> []" and "calm \<longrightarrow> fs = []"
  shows "text_step calm (shared_at ms fs None c [role_file] [EvWrite role_file])
    (shared_at (ms[length ms - 1 := AList.delete ''r'' (last ms)]) fs (Some (Asked (length ms - 1) ''r'')) c [role_file] [])"
  by (rule shared_step.event [where e = "EvWrite role_file" and es = "[]"])
    (use assms in \<open>auto simp: shared_at_def quiet_def in_flight_def upd_files_def callback_arn_path forget_def last_conv_nth Let_def\<close>)

lemma text_run_step: "(text_step calm)\<^sup>*\<^sup>* s1 s2 \<Longrightarrow> text_step calm s2 s3 \<Longrightarrow> (text_step calm)\<^sup>*\<^sup>* s1 s3"
  by (rule rtranclp.rtrancl_into_rtrancl)

lemma text_run_append: "(text_step calm)\<^sup>*\<^sup>* s1 s2 \<Longrightarrow> (text_step calm)\<^sup>*\<^sup>* s2 s3 \<Longrightarrow> (text_step calm)\<^sup>*\<^sup>* s1 s3"
  by (rule rtranclp_trans)

text \<open>A request reads the file; the watcher reloads it.\<close>

lemma run_read:
  "(text_step calm)\<^sup>*\<^sup>* (shared_at [[]] [] None c [] []) (shared_at [[]] [Storing 0 ''r'' c] None c [role_file] [])"
proof -
  have "text_step calm (shared_at [[]] [] None c [] []) (shared_at [[]] [Asked 0 ''r''] None c [] [])" by (rule step_ask) simp
  moreover have "text_step calm (shared_at [[]] [Asked 0 ''r''] None c [] []) (shared_at [[]] [Missed 0 ''r''] None c [] [])"
    using step_go [of "Asked 0 ''r''" "[[]]" None c "[]" "[]" "Some (Missed 0 ''r'')" "[[]]" "[]"] by (simp add: shared_at_simps)
  moreover have "text_step calm (shared_at [[]] [Missed 0 ''r''] None c [] []) (shared_at [[]] [Reading 0 ''r''] None c [role_file] [])"
    using step_go [of "Missed 0 ''r''" "[[]]" None c "[]" "[]" "Some (Reading 0 ''r'')" "[[]]" "[role_file]"] by (simp add: shared_at_simps)
  moreover have "text_step calm (shared_at [[]] [Reading 0 ''r''] None c [role_file] []) (shared_at [[]] [Storing 0 ''r'' c] None c [role_file] [])"
    using step_go [of "Reading 0 ''r''" "[[]]" None c "[role_file]" "[]" "Some (Storing 0 ''r'' c)" "[[]]" "[role_file]"] by (simp add: shared_at_simps)
  ultimately show ?thesis by (meson converse_rtranclp_into_rtranclp rtranclp.rtrancl_refl)
qed

lemma run_reload:
  assumes "i < length ms" and "map_of (ms ! i) ''r'' = None"
  shows "(text_step calm)\<^sup>*\<^sup>* (shared_at ms fs (Some (Asked i ''r'')) c [role_file] [])
    (shared_at (ms[i := AList.update ''r'' c (ms ! i)]) fs None c [role_file] [])"
proof -
  let ?s = "\<lambda>f. shared_at ms fs (Some f) c [role_file] []"
  have "text_step calm (?s (Asked i ''r'')) (?s (Missed i ''r''))"
    using step_reload [of "Asked i ''r''" ms fs c "[role_file]" "[]" "Some (Missed i ''r'')" ms "[role_file]"] assms by (simp add: shared_at_simps)
  moreover have "text_step calm (?s (Missed i ''r'')) (?s (Reading i ''r''))"
    using step_reload [of "Missed i ''r''" ms fs c "[role_file]" "[]" "Some (Reading i ''r'')" ms "[role_file]"] by (simp add: shared_at_simps)
  moreover have "text_step calm (?s (Reading i ''r'')) (?s (Storing i ''r'' c))"
    using step_reload [of "Reading i ''r''" ms fs c "[role_file]" "[]" "Some (Storing i ''r'' c)" ms "[role_file]"] by (simp add: shared_at_simps)
  moreover have "text_step calm (?s (Storing i ''r'' c)) (shared_at (ms[i := AList.update ''r'' c (ms ! i)]) fs None c [role_file] [])"
    using step_reload [of "Storing i ''r'' c" ms fs c "[role_file]" "[]" None "ms[i := AList.update ''r'' c (ms ! i)]" "[role_file]"]
    by (simp add: shared_at_simps)
  ultimately show ?thesis by (meson converse_rtranclp_into_rtranclp rtranclp.rtrancl_refl)
qed

lemma run_cached:
  "(text_step calm)\<^sup>*\<^sup>* (shared_start [(role_file, c)]) (shared_at [[(''r'', c)]] [] None c [role_file] [])"
proof -
  have "text_step calm (shared_at [[]] [Storing 0 ''r'' c] None c [role_file] []) (shared_at [[(''r'', c)]] [] None c [role_file] [])"
    using step_go [of "Storing 0 ''r'' c" "[[]]" None c "[role_file]" "[]" None "[[(''r'', c)]]" "[role_file]"] by (simp add: shared_at_simps)
  then show ?thesis using run_read [of calm c] unfolding shared_at_start by (rule text_run_step [rotated])
qed


lemma run_of_reachable: "(shared_step T dir calm)\<^sup>*\<^sup>* (shared_start fs) s \<Longrightarrow> \<exists>ss. shared_run T dir calm ss \<and> last ss = s"
proof (induction rule: rtranclp_induct)
  case base
  show ?case by (intro exI [of _ "[shared_start fs]"]) (simp add: shared_run.start)
next
  case (step s s')
  then obtain ss where "shared_run T dir calm ss" "last ss = s" by blast
  then show ?case using shared_run.more [of T dir calm ss s'] step(2) by (intro exI [of _ "ss @ [s']"]) simp
qed

lemma cached_from_own_file_witness:
  "\<exists>ss. shared_run text_templates ''policies'' False ss \<and> map_of (sh_managers (last ss) ! 0) ''r'' = Some ''old''
     \<and> (\<exists>s \<in> set ss. template_of_file text_templates ''policies'' ''r'' (sh_files s) ''old'')"
proof -
  obtain ss where ss: "shared_run text_templates ''policies'' False ss" "last ss = shared_at [[(''r'', ''old'')]] [] None ''old'' [role_file] []"
    using run_of_reachable [OF run_cached] by blast
  have "\<exists>s \<in> set ss. template_of_file text_templates ''policies'' ''r'' (sh_files s) ''old''"
    by (rule cached_from_own_file [OF ss(1), of "[(''r'', ''old'')]"]) (simp_all add: ss(2) shared_at_def)
  then show ?thesis using ss by (intro exI [of _ ss]) (simp add: shared_at_def)
qed

text \<open>C34. Without that condition the cache can be left with a revoked policy for good: a request
  reads the file, the file is rewritten and the watcher reloads it, and only then the request
  stores what it had read. Nothing is in flight and no event is left, but the cache has the old
  policy and the file the new one.\<close>

theorem stale_policy_after_race:
  "\<exists>s. (shared_step text_templates ''policies'' False)\<^sup>*\<^sup>* (shared_start [(role_file, ''old'')]) s
     \<and> in_flight s = {} \<and> lf_events (sh_files s) = [] \<and> map_of (sh_managers s ! sh_registered s) ''r'' = Some ''old''
     \<and> local_content ''policies'' (sh_files s) ''r'' = Some ''new''"
proof -
  let ?f = "[Storing 0 ''r'' ''old'']" and ?final = "shared_at [[(''r'', ''old'')]] [] None ''new'' [role_file] []"
  let ?pending = "shared_at [[]] ?f None ''new'' [role_file] [EvWrite role_file]"
  let ?reloading = "shared_at [[]] ?f (Some (Asked 0 ''r'')) ''new'' [role_file] []"
  let ?reloaded = "shared_at [[(''r'', ''new'')]] ?f None ''new'' [role_file] []"
  have 1: "(text_step False)\<^sup>*\<^sup>* (shared_start [(role_file, ''old'')]) ?pending"
    unfolding shared_at_start by (rule text_run_step [OF run_read step_written])
  have 2: "text_step False ?pending ?reloading" using step_event [of "[[]]" False ?f "''new''"] by simp
  have 3: "(text_step False)\<^sup>*\<^sup>* ?reloading ?reloaded" using run_reload [of 0 "[[]]" False ?f "''new''"] by simp
  have 4: "text_step False ?reloaded ?final"
    using step_go [of "Storing 0 ''r'' ''old''" "[[(''r'', ''new'')]]" None "''new''" "[role_file]" "[]" None "[[(''r'', ''old'')]]" "[role_file]"]
    by (simp add: shared_at_simps)
  have run: "(text_step False)\<^sup>*\<^sup>* (shared_start [(role_file, ''old'')]) ?final"
    by (rule text_run_step [OF text_run_append [OF text_run_step [OF 1 2] 3] 4])
  have final: "in_flight ?final = {}" "lf_events (sh_files ?final) = []"
    "map_of (sh_managers ?final ! sh_registered ?final) ''r'' = Some ''old''"
    "local_content ''policies'' (sh_files ?final) ''r'' = Some ''new''"
    by (simp_all add: shared_at_def in_flight_def local_content_def)
  show ?thesis by (intro exI [of _ ?final] conjI run final)
qed

text \<open>A second manager for the same directory takes the events away from the first, which keeps its
  old template although nothing races.\<close>

theorem second_manager_takes_events:
  "\<exists>s. (shared_step text_templates ''policies'' True)\<^sup>*\<^sup>* (shared_start [(role_file, ''old'')]) s
     \<and> in_flight s = {} \<and> lf_events (sh_files s) = [] \<and> map_of (sh_managers s ! 0) ''r'' = Some ''old''
     \<and> map_of (sh_managers s ! 1) ''r'' = Some ''new'' \<and> local_content ''policies'' (sh_files s) ''r'' = Some ''new''"
proof -
  let ?m = "[[(''r'', ''old'')], []]" and ?final = "shared_at [[(''r'', ''old'')], [(''r'', ''new'')]] [] None ''new'' [role_file] []"
  let ?registered = "shared_at ?m [] None ''old'' [role_file] []"
  let ?pending = "shared_at ?m [] None ''new'' [role_file] [EvWrite role_file]"
  let ?reloading = "shared_at ?m [] (Some (Asked 1 ''r'')) ''new'' [role_file] []"
  have 1: "text_step True (shared_at [[(''r'', ''old'')]] [] None ''old'' [role_file] []) ?registered"
    using shared_step.register [of text_templates "''policies''" True "shared_at [[(''r'', ''old'')]] [] None ''old'' [role_file] []"]
    by (simp add: shared_at_def registerPolicyManager_def)
  have 2: "(text_step True)\<^sup>*\<^sup>* (shared_start [(role_file, ''old'')]) ?pending"
    by (rule text_run_step [OF text_run_step [OF run_cached 1] step_written])
  have 3: "text_step True ?pending ?reloading" using step_event [of ?m True "[]" "''new''"] by simp
  have 4: "(text_step True)\<^sup>*\<^sup>* ?reloading ?final" using run_reload [of 1 ?m True "[]" "''new''"] by simp
  have run: "(text_step True)\<^sup>*\<^sup>* (shared_start [(role_file, ''old'')]) ?final"
    by (rule text_run_append [OF text_run_step [OF 2 3] 4])
  have final: "in_flight ?final = {}" "lf_events (sh_files ?final) = []" "map_of (sh_managers ?final ! 0) ''r'' = Some ''old''"
    "map_of (sh_managers ?final ! 1) ''r'' = Some ''new''" "local_content ''policies'' (sh_files ?final) ''r'' = Some ''new''"
    by (simp_all add: shared_at_def in_flight_def local_content_def)
  show ?thesis by (intro exI [of _ ?final] conjI run final)
qed

end
