(* ===== verification/Sts_Service.thy ===== *)
theory Sts_Service
  imports Sts
begin

text \<open>
  The token service from the side of its clients: a request with a valid token of a configured
  provider is answered with credentials. Together with what theory Sts shows of every answer, this
  says which requests get credentials.
\<close>

section \<open>The parts\<close>

lemma web_identity_complete:
  assumes "jwt_lib_ok (st_jwt E)" and "SignedString (st_jwt E) c sk = Ok (form ''WebIdentityToken'')"
    and "form ''WebIdentityToken'' \<noteq> []" and "st_keyfunc E c = Ok (key_pub sk)" and "claims_time_ok (st_now E) 0 c"
    and "reg_Subject c \<noteq> []" and "reg_Issuer c \<noteq> []" and "ExpiresAt c = Some e" and "st_now E \<le> e"
    and "go_Atoi (if form ''DurationSeconds'' = [] then ''3600'' else form ''DurationSeconds'') = Ok n"
    and "minAllowedDuration E \<le> time_Duration_seconds n" and "time_Duration_seconds n \<le> maxAllowedDuration E"
  shows "web_identity E form reqid = Ok (c, time_Duration_seconds n)"
proof -
  have "ParseWithClaims (st_jwt E) (st_now E) 0 (form ''WebIdentityToken'') (st_keyfunc E) = Ok c"
    using assms by (intro jwt_accepts)
  then have "ExtractOIDCTokenClaims (st_jwt E) (st_now E) (form ''WebIdentityToken'') (st_keyfunc E) = Ok c"
    using assms(3) by (simp add: ExtractOIDCTokenClaims_def ExtractTokenClaims_def)
  moreover have "calculateFinalDurationSeconds E n (ExpiresAt c) = Ok (time_Duration_seconds n)"
    using assms(8,9,11,12) by (simp add: calculateFinalDurationSeconds_def Let_def)
  ultimately show ?thesis using assms(6,7,10) by (simp add: web_identity_def)
qed

lemma issue_credentials_complete:
  assumes "st_policy_exists E roleArn" and "st_fqdns E = iss # rest" and "11 \<le> length (NewAccessKey (st_key_id E))"
    and "SignedString (st_jwt E) (session_claims E iss roleArn c d) (privateKey (st_keys E)) = Ok tok"
  obtains cred where "issue_credentials E roleArn c d = Ok cred"
proof -
  have iss: "GetIssuer E = Ok iss" using assms(2) by (simp add: GetIssuer_def go_index_def)
  obtain s where "CalculateSecretKey (NewAccessKey (st_key_id E)) (Ok (privateKey (st_keys E))) = Ok s"
    using CalculateSecretKey_total [OF assms(3)] by blast
  then have "issue_credentials E roleArn c d = Ok \<lparr>AccessKey = NewAccessKey (st_key_id E), SecretKey = s, SessionToken = tok,
      Expiration = st_now E + d\<rparr>"
    using assms(1,4) iss unfolding session_claims_def
    by (simp add: issue_credentials_def newProxyIssuedToken_def NewAWSCredentials_def GetPrivateKey_def Let_def)
  then show ?thesis by (rule that)
qed

lemma answer_identity_complete:
  assumes "rs_sent (h_resp h) = None" and "\<And>d. EncodeResponse (st_svc E) d = Some (enc d)"
  obtains h' doc where "answer_identity E roleArn c cred h = Ok h'" "map_option fst (rs_sent (h_resp h')) = Some 200"
    "rs_body (h_resp h') = rs_body (h_resp h) @ enc (XmlWebIdentity doc)" "wi_Credentials (ar_Result doc) = cred"
proof -
  obtain attrs sub doc where a: "answer_identity E roleArn c cred h =
      WriteResponse 200 (Some (enc (XmlWebIdentity doc))) MimeXML (AddAccessLogInfo ''sts'' attrs h)"
    and doc: "doc = success_document cred sub (GetRequestID (AddAccessLogInfo ''sts'' attrs h))"
    unfolding answer_identity_def WriteSuccessResponseXML_def Let_def assms(2) by blast
  obtain h' where h': "WriteResponse 200 (Some (enc (XmlWebIdentity doc))) MimeXML (AddAccessLogInfo ''sts'' attrs h) = Ok h'"
    using WriteResponse_total by blast
  have "rs_sent (h_resp (AddAccessLogInfo ''sts'' attrs h)) = None" "rs_body (h_resp (AddAccessLogInfo ''sts'' attrs h)) = rs_body (h_resp h)"
    using assms(1) by (simp_all add: AddAccessLogInfo_def)
  moreover have "\<not> informational (normal_status 200)" "normal_status 200 = 200" by (simp_all add: informational_def normal_status_def)
  ultimately have "map_option fst (rs_sent (h_resp h')) = Some 200" "rs_body (h_resp h') = rs_body (h_resp h) @ enc (XmlWebIdentity doc)"
    using WriteResponse_status [OF _ _ h'] by auto
  then show ?thesis using that a h' doc by (simp add: success_document_def)
qed

section \<open>The service\<close>

lemma processSTSPost_complete:
  assumes "rs_sent (h_resp h) = None" and "\<And>d. EncodeResponse (st_svc E) d = Some (enc d)"
    and "form_Get (st_media_type E) (h_req h) ''Version'' = ''2011-06-15''"
    and "form_Get (st_media_type E) (h_req h) ''Action'' = ''AssumeRoleWithWebIdentity''"
    and "\<And>reqid. web_identity E (form_Get (st_media_type E) (h_req h)) reqid = Ok (c, d)"
    and "issue_credentials E (form_Get (st_media_type E) (h_req h) ''RoleArn'') c d = Ok cred"
  obtains h' doc where "processSTSPost E h = Ok h'" "map_option fst (rs_sent (h_resp h')) = Some 200"
    "rs_body (h_resp h') = rs_body (h_resp h) @ enc (XmlWebIdentity doc)" "wi_Credentials (ar_Result doc) = cred"
proof -
  define h1 where "h1 = SetOperation (OpSTS AssumeRoleWithWebIdentity) h"
  have h1: "rs_sent (h_resp h1) = None" "rs_body (h_resp h1) = rs_body (h_resp h)" using assms(1) by (simp_all add: h1_def SetOperation_def)
  have "processSTSPost E h = answer_identity E (form_Get (st_media_type E) (h_req h) ''RoleArn'') c cred h1"
    by (simp add: processSTSPost_def assumeRoleWithWebIdentity_def assms(3-6) h1_def [symmetric] Let_def)
  then show ?thesis
    using answer_identity_complete [OF h1(1) assms(2)] that h1(2) by metis
qed

text \<open>C37. Whoever has a valid token gets credentials: a request of the supported version and action
  with a token signed by a provider the verifier knows, valid now, with a subject and an issuer, for
  a duration within the bounds and a role that has a policy, is answered 200 with a document
  that holds the credentials issued for that role and identity.\<close>

theorem valid_identity_served:
  assumes "form = form_Get (st_media_type E) (h_req h)" and "jwt_lib_ok (st_jwt E)" and "rs_sent (h_resp h) = None" and "\<And>d. EncodeResponse (st_svc E) d = Some (enc d)"
    and "form ''Version'' = ''2011-06-15''" and "form ''Action'' = ''AssumeRoleWithWebIdentity''"
    and "SignedString (st_jwt E) c sk = Ok (form ''WebIdentityToken'')" and "form ''WebIdentityToken'' \<noteq> []"
    and "st_keyfunc E c = Ok (key_pub sk)" and "claims_time_ok (st_now E) 0 c" and "reg_Subject c \<noteq> []" and "reg_Issuer c \<noteq> []"
    and "ExpiresAt c = Some e" and "st_now E \<le> e"
    and "go_Atoi (if form ''DurationSeconds'' = [] then ''3600'' else form ''DurationSeconds'') = Ok n"
    and "minAllowedDuration E \<le> time_Duration_seconds n" and "time_Duration_seconds n \<le> maxAllowedDuration E"
    and "st_policy_exists E (form ''RoleArn'')" and "st_fqdns E = iss # rest" and "11 \<le> length (NewAccessKey (st_key_id E))"
    and "SignedString (st_jwt E) (session_claims E iss (form ''RoleArn'') c (time_Duration_seconds n)) (privateKey (st_keys E)) = Ok tok"
  shows "\<exists>h' doc cred. processSTSPost E h = Ok h' \<and> map_option fst (rs_sent (h_resp h')) = Some 200
    \<and> rs_body (h_resp h') = rs_body (h_resp h) @ enc (XmlWebIdentity doc) \<and> wi_Credentials (ar_Result doc) = cred
    \<and> issue_credentials E (form ''RoleArn'') c (time_Duration_seconds n) = Ok cred"
proof -
  have w: "web_identity E form reqid = Ok (c, time_Duration_seconds n)" for reqid
    by (rule web_identity_complete [OF assms(2,7-17)])
  obtain cred where cred: "issue_credentials E (form ''RoleArn'') c (time_Duration_seconds n) = Ok cred"
    by (rule issue_credentials_complete [OF assms(18-21)])
  obtain h' doc where "processSTSPost E h = Ok h'" "map_option fst (rs_sent (h_resp h')) = Some 200"
    "rs_body (h_resp h') = rs_body (h_resp h) @ enc (XmlWebIdentity doc)" "wi_Credentials (ar_Result doc) = cred"
    by (rule processSTSPost_complete [OF assms(3-6) [unfolded assms(1)] w [unfolded assms(1)] cred [unfolded assms(1)]])
  then show ?thesis using cred by blast
qed

lemma valid_identity_served_witness:
  "\<exists>h' doc cred. processSTSPost toy_sts toy_sts_request = Ok h' \<and> map_option fst (rs_sent (h_resp h')) = Some 200
    \<and> rs_body (h_resp h') = rs_body (h_resp toy_sts_request) @ the (EncodeResponse toy_svc (XmlWebIdentity doc))
    \<and> wi_Credentials (ar_Result doc) = cred \<and> issue_credentials toy_sts ''role'' toy_claims (3600 * time_Second) = Ok cred"
proof -
  have media: "st_media_type toy_sts = id" by (simp add: toy_sts_def)
  have sent: "rs_sent (h_resp toy_sts_request) = None" by (simp add: toy_sts_request_def toy_hstate_def)
  have enc: "EncodeResponse (st_svc toy_sts) d = Some ((\<lambda>d. the (EncodeResponse toy_svc d)) d)" for d
    by (simp add: toy_sts_def EncodeResponse_def toy_svc_def)
  have key: "go_Atoi ''3600'' = Ok 3600 \<and> 11 \<le> length (NewAccessKey toy_uuid)" by code_simp
  have seconds: "time_Duration_seconds 3600 = 3600 * time_Second" by (simp add: time_Duration_seconds_exact time_Second_def)
  have signed: "SignedString (st_jwt toy_sts) toy_claims toy_key = Ok ''tok''"
    "SignedString (st_jwt toy_sts) (session_claims toy_sts ''sts'' ''role'' toy_claims (3600 * time_Second)) toy_key = Ok (if toy_session = toy_claims then ''tok'' else ''session'')"
    by (simp_all add: toy_sts_def two_token_jwt_def toy_session_def session_claims_def)
  show ?thesis
    using valid_identity_served [OF media [THEN arg_cong, of "\<lambda>m. form_Get m (h_req toy_sts_request)", symmetric] toy_sts_jwt sent enc,
        of toy_claims toy_key "3600 * time_Second" 3600 "''sts''" "[]" "if toy_session = toy_claims then ''tok'' else ''session''"]
      toy_form toy_claims_facts key seconds signed by (simp add: toy_sts_def time_Second_def)
qed

end
