(* ===== verification/Body_Stream.thy ===== *)
theory Body_Stream
  imports Request_Ctx
begin

text \<open>
  Draining a request before its error is answered: \<^verbatim>\<open>httptracking/writer.go\<close> and
  \<^verbatim>\<open>httptracking/reader.go\<close> with the body as the reader it is in Go, which gives its bytes in pieces and
  ends with \<^verbatim>\<open>io.EOF\<close> or another error. Elsewhere the body of a request is the string of its bytes;
  the last section relates the two.
\<close>

section \<open>The body of a connection\<close>

text \<open>The pieces that are still to come, None for the end of the file or the error that follows them,
  whether that comes with the last piece or on its own, which a reader may choose, and whether the
  body was closed.\<close>

record conn_body =
  cb_pieces :: "string list"
  cb_end :: "gerr option"
  cb_joined :: bool
  cb_closed :: bool

definition ErrBodyReadAfterClose :: gerr where
  "ErrBodyReadAfterClose = Sentinel ''http: invalid Read on closed Body''"

datatype read_end = More | EOF | Failed gerr

text \<open>One \<^verbatim>\<open>Read\<close> with room for \<open>k\<close> bytes.\<close>

definition end_of_body :: "conn_body \<Rightarrow> read_end" where
  "end_of_body b = (case cb_end b of None \<Rightarrow> EOF | Some e \<Rightarrow> Failed e)"

definition body_Read :: "nat \<Rightarrow> conn_body \<Rightarrow> string \<times> read_end \<times> conn_body" where
  "body_Read k b =
     (if cb_closed b then ([], Failed ErrBodyReadAfterClose, b)
      else case cb_pieces b of
        [] \<Rightarrow> ([], end_of_body b, b)
      | p # ps \<Rightarrow>
          if k < length p then (take k p, More, b\<lparr>cb_pieces := drop k p # ps\<rparr>)
          else (p, if ps = [] \<and> cb_joined b then end_of_body b else More, b\<lparr>cb_pieces := ps\<rparr>))"

definition body_Close :: "conn_body \<Rightarrow> conn_body" where
  "body_Close b = b\<lparr>cb_closed := True\<rparr>"

text \<open>The body with the request context that counts what is read from it.\<close>

record tracked_body =
  tb_rc :: conn_body
  tb_ctx :: RequestCtx

definition NewTrackingBody :: "conn_body \<Rightarrow> RequestCtx \<Rightarrow> tracked_body" where
  "NewTrackingBody body rCtx = \<lparr>tb_rc = body, tb_ctx = rCtx\<rparr>"

definition tracking_Close :: "tracked_body \<Rightarrow> tracked_body" where
  "tracking_Close t = t\<lparr>tb_rc := body_Close (tb_rc t)\<rparr>"

definition tracking_Read :: "nat \<Rightarrow> tracked_body \<Rightarrow> string \<times> read_end \<times> tracked_body" where
  "tracking_Read k t =
     (let (p, e, b) = body_Read k (tb_rc t) in (p, e, \<lparr>tb_rc = b, tb_ctx = track_Read (length p) (tb_ctx t)\<rparr>))"

section \<open>Reading all of it\<close>

text \<open>\<^verbatim>\<open>io.Copy\<close> to \<^verbatim>\<open>io.Discard\<close>: reads into a buffer of 8192 bytes until an error; the number of
  bytes and the error, which the end of the file is not.\<close>

definition discard_buffer :: nat where
  "discard_buffer = 8192"

definition to_come :: "conn_body \<Rightarrow> nat" where
  "to_come b = length (concat (cb_pieces b)) + length (cb_pieces b)"

lemma end_of_body_not_More [simp]: "end_of_body b \<noteq> More" "More \<noteq> end_of_body b"
  by (simp_all add: end_of_body_def split: option.split)

lemma body_Read_progress: "0 < k \<Longrightarrow> body_Read k b = (p, More, b') \<Longrightarrow> to_come b' < to_come b"
  by (auto simp: body_Read_def to_come_def split: if_splits list.splits)

lemma tracking_Read_progress: "tracking_Read discard_buffer t = (p, More, t') \<Longrightarrow> to_come (tb_rc t') < to_come (tb_rc t)"
  using body_Read_progress [of discard_buffer "tb_rc t" p "tb_rc t'"]
  by (auto simp: tracking_Read_def discard_buffer_def split: prod.splits)

function discard_all :: "nat \<Rightarrow> tracked_body \<Rightarrow> nat \<times> gerr option \<times> tracked_body" where
  "discard_all n t =
     (case tracking_Read discard_buffer t of
        (p, More, t') \<Rightarrow> discard_all (n + length p) t'
      | (p, EOF, t') \<Rightarrow> (n + length p, None, t')
      | (p, Failed e, t') \<Rightarrow> (n + length p, Some e, t'))"
  by pat_completeness auto
termination
  by (relation "measure (\<lambda>(n, t). to_come (tb_rc t))") (auto dest: tracking_Read_progress [OF sym])

declare discard_all.simps [simp del]

text \<open>What is logged of a drained body: its description, the number of bytes and the error.\<close>

type_synonym drained = "string \<times> nat \<times> gerr option"

definition readAndDiscardAllFromConnectionBody :: "tracked_body option \<Rightarrow> string \<Rightarrow> drained option \<times> tracked_body option" where
  "readAndDiscardAllFromConnectionBody readable ctxDescription =
     (case readable of
        None \<Rightarrow> (None, None)
      | Some t \<Rightarrow>
          (let (n, err, t') = discard_all 0 t in
           (if n = 0 \<and> err = None then None
            else if \<exists>e. err = Some e \<and> err_Error e = ''http: invalid Read on closed Body'' then None
            else Some (ctxDescription, n, err), Some t')))"

section \<open>Writers that know their request\<close>

text \<open>What a handler is given to write to: the tracking writer, which is a \<^verbatim>\<open>SafeWriter\<close>, with the body and
  the context of its request, or any other.\<close>

record trackingResponseWriter =
  tw_body :: "tracked_body option"
  tw_ctx :: RequestCtx

definition NewTrackingResponseWriter :: "RequestCtx \<Rightarrow> tracked_body option \<Rightarrow> trackingResponseWriter" where
  "NewTrackingResponseWriter rCtx request_body = \<lparr>tw_body = request_body, tw_ctx = rCtx\<rparr>"

definition makeSafeToWrite :: "trackingResponseWriter \<Rightarrow> string \<Rightarrow> drained option \<times> trackingResponseWriter" where
  "makeSafeToWrite w ctxDescription =
     (let (logged, body) = readAndDiscardAllFromConnectionBody (tw_body w) ctxDescription in (logged, w\<lparr>tw_body := body\<rparr>))"

datatype response_writer = SafeWriter trackingResponseWriter | PlainWriter

fun writer_MakeSafeToWrite :: "response_writer \<Rightarrow> string \<Rightarrow> unit result \<times> drained option \<times> response_writer" where
  "writer_MakeSafeToWrite (SafeWriter w) ctxDescription =
     (let (logged, w') = makeSafeToWrite w ctxDescription in (Ok (), logged, SafeWriter w'))"
| "writer_MakeSafeToWrite PlainWriter ctxDescription =
     (Err (Plain ''responsewriter did not know linked request so cannot make safe''), None, PlainWriter)"

section \<open>Properties\<close>

lemma fold_track_Read: "\<exists>w. fold track_Read ns c = c\<lparr>BytesReceived := w\<rparr>"
proof (induction ns arbitrary: c)
  case Nil
  show ?case by (intro exI [of _ "BytesReceived c"]) simp
next
  case (Cons n ns)
  from Cons [of "track_Read n c"] show ?case by (auto simp: track_Read_def)
qed

text \<open>Below one peta-byte it does not matter in which pieces the bytes are counted.\<close>

lemma fold_track_Read_sum:
  assumes "unat (BytesReceived c) + sum_list ns < peta"
  shows "fold track_Read ns c = track_Read (sum_list ns) c"
proof -
  obtain w where w: "fold track_Read ns c = c\<lparr>BytesReceived := w\<rparr>" using fold_track_Read by blast
  have "unat (BytesReceived (track_Read (sum_list ns) c)) = unat (BytesReceived c) + sum_list ns"
    using recv.exact [of c "[sum_list ns]"] assms by simp
  then have "w = BytesReceived (track_Read (sum_list ns) c)"
    using recv.exact [OF assms] w by (simp add: word_unat_eq_iff)
  then show ?thesis using w by (simp add: track_Read_def)
qed

lemma tracking_Read_open:
  assumes "\<not> cb_closed (tb_rc t)" and "tracking_Read discard_buffer t = (p, e, t')"
  shows "\<not> cb_closed (tb_rc t')" "length (concat (cb_pieces (tb_rc t))) = length p + length (concat (cb_pieces (tb_rc t')))"
    "cb_end (tb_rc t') = cb_end (tb_rc t)" "cb_joined (tb_rc t') = cb_joined (tb_rc t)" "tb_ctx t' = track_Read (length p) (tb_ctx t)"
    "e = More \<or> e = end_of_body (tb_rc t) \<and> cb_pieces (tb_rc t') = []"
  using assms by (auto simp: tracking_Read_def body_Read_def split: prod.splits list.splits if_splits)

lemma discard_all_open:
  "\<not> cb_closed (tb_rc t) \<Longrightarrow> \<exists>ns. sum_list ns = length (concat (cb_pieces (tb_rc t))) \<and>
     discard_all n t = (n + sum_list ns, cb_end (tb_rc t), \<lparr>tb_rc = (tb_rc t)\<lparr>cb_pieces := []\<rparr>, tb_ctx = fold track_Read ns (tb_ctx t)\<rparr>)"
proof (induction n t rule: discard_all.induct)
  case (1 n t)
  obtain p e t' where r: "tracking_Read discard_buffer t = (p, e, t')" by (cases "tracking_Read discard_buffer t")
  note o = tracking_Read_open [OF 1(2) r]
  show ?case
  proof (cases e)
    case More
    obtain ns where ns: "sum_list ns = length (concat (cb_pieces (tb_rc t')))"
      "discard_all (n + length p) t' = (n + length p + sum_list ns, cb_end (tb_rc t'),
         \<lparr>tb_rc = (tb_rc t')\<lparr>cb_pieces := []\<rparr>, tb_ctx = fold track_Read ns (tb_ctx t')\<rparr>)"
      using 1(1) [OF r [symmetric] refl] More o(1) by blast
    have "(tb_rc t')\<lparr>cb_pieces := []\<rparr> = (tb_rc t)\<lparr>cb_pieces := []\<rparr>"
      using o(1,3,4) 1(2) by (cases "tb_rc t"; cases "tb_rc t'") simp
    then show ?thesis
      using ns o(2,3,5) r More by (intro exI [of _ "length p # ns"]) (simp add: discard_all.simps [of n t])
  next
    case EOF
    then have "cb_end (tb_rc t) = None" "cb_pieces (tb_rc t') = []" using o(6) by (auto simp: end_of_body_def split: option.splits)
    moreover from this have "t' = \<lparr>tb_rc = (tb_rc t)\<lparr>cb_pieces := []\<rparr>, tb_ctx = fold track_Read [length p] (tb_ctx t)\<rparr>"
      using o(1,3,4,5) 1(2) by (cases t'; cases "tb_rc t"; cases "tb_rc t'") simp
    ultimately show ?thesis
      using o(2) r EOF by (intro exI [of _ "[length p]"]) (simp add: discard_all.simps [of n t])
  next
    case (Failed x)
    then have "cb_end (tb_rc t) = Some x" "cb_pieces (tb_rc t') = []" using o(6) by (auto simp: end_of_body_def split: option.splits)
    moreover from this have "t' = \<lparr>tb_rc = (tb_rc t)\<lparr>cb_pieces := []\<rparr>, tb_ctx = fold track_Read [length p] (tb_ctx t)\<rparr>"
      using o(1,3,4,5) 1(2) by (cases t'; cases "tb_rc t"; cases "tb_rc t'") simp
    ultimately show ?thesis
      using o(2) r Failed by (intro exI [of _ "[length p]"]) (simp add: discard_all.simps [of n t])
  qed
qed

text \<open>C35. Draining a body that arrives in pieces, however it is cut and whether or not it ends in an
  error, comes to what the handlers of this model do with the body as one string: the context has
  the same count and nothing is left to read. A note is written exactly when there were bytes or an
  error, unless the error says that the body was closed already.\<close>

theorem drain_refines_MakeSafeToWrite:
  assumes "h_ctx h = Some c" and "rs_tracked (h_resp h)" and "r_body (h_req h) = concat (cb_pieces b)" and "\<not> cb_closed b"
    and "unat (BytesReceived c) + length (r_body (h_req h)) < peta"
  shows "\<exists>logged t. readAndDiscardAllFromConnectionBody (Some (NewTrackingBody b c)) d = (logged, Some t)
    \<and> h_ctx (MakeSafeToWrite h) = Some (tb_ctx t) \<and> r_body (h_req (MakeSafeToWrite h)) = concat (cb_pieces (tb_rc t))
    \<and> (logged = None \<longleftrightarrow> (case cb_end b of None \<Rightarrow> r_body (h_req h) = [] | Some e \<Rightarrow> err_Error e = err_Error ErrBodyReadAfterClose))"
proof -
  obtain ns where ns: "sum_list ns = length (concat (cb_pieces b))"
    "discard_all 0 (NewTrackingBody b c) = (sum_list ns, cb_end b, \<lparr>tb_rc = b\<lparr>cb_pieces := []\<rparr>, tb_ctx = fold track_Read ns c\<rparr>)"
    using discard_all_open [of "NewTrackingBody b c" 0] assms(4) by (auto simp: NewTrackingBody_def)
  have "fold track_Read ns c = track_Read (length (r_body (h_req h))) c"
    using fold_track_Read_sum [of c ns] assms(3,5) ns(1) by simp
  then have "h_ctx (MakeSafeToWrite h) = Some (fold track_Read ns c)" "r_body (h_req (MakeSafeToWrite h)) = []"
    using assms(1,2) by (simp_all add: MakeSafeToWrite_def upd_ctx_def upd_req_def)
  then show ?thesis
    using ns assms(3)
    by (auto simp: readAndDiscardAllFromConnectionBody_def ErrBodyReadAfterClose_def split: option.split)
qed

lemma drain_refines_MakeSafeToWrite_witness:
  "\<exists>t. readAndDiscardAllFromConnectionBody
      (Some (NewTrackingBody \<lparr>cb_pieces = [''ab'', ''c''], cb_end = None, cb_joined = True, cb_closed = False\<rparr> empty_ctx)) ''d'' = (Some (''d'', 3, None), Some t)
    \<and> concat (cb_pieces (tb_rc t)) = [] \<and> unat (BytesReceived (tb_ctx t)) = 3"
proof -
  let ?b = "\<lparr>cb_pieces = [''ab'', ''c''], cb_end = None, cb_joined = True, cb_closed = False\<rparr>"
  define h where "h = \<lparr>h_req = \<lparr>r_method = ''PUT'', r_url = empty_url, r_host = [], r_header = [], r_uri = [], r_remote = [], r_length = 3, r_body = ''abc''\<rparr>, h_ctx = Some empty_ctx, h_resp = (new_response True)\<rparr>"
  have h: "h_ctx h = Some empty_ctx" "rs_tracked (h_resp h)" "r_body (h_req h) = concat (cb_pieces ?b)" "\<not> cb_closed ?b"
    "unat (BytesReceived empty_ctx) + length (r_body (h_req h)) < peta"
    by (simp_all add: h_def new_response_def peta_def empty_ctx_def NewContextFromHttpRequestWithStartTime_def)
  obtain logged t where t: "readAndDiscardAllFromConnectionBody (Some (NewTrackingBody ?b empty_ctx)) ''d'' = (logged, Some t)"
    "h_ctx (MakeSafeToWrite h) = Some (tb_ctx t)" "r_body (h_req (MakeSafeToWrite h)) = concat (cb_pieces (tb_rc t))" "logged \<noteq> None"
    using drain_refines_MakeSafeToWrite [OF h, of "''d''"] by (auto simp: h_def)
  obtain n where "discard_all 0 (NewTrackingBody ?b empty_ctx) = (3, None, n)"
    using discard_all_open [of "NewTrackingBody ?b empty_ctx" 0] by (auto simp: NewTrackingBody_def)
  then have "logged = Some (''d'', 3, None)" using t(1) by (simp add: readAndDiscardAllFromConnectionBody_def)
  moreover have "tb_ctx t = track_Read 3 empty_ctx" "concat (cb_pieces (tb_rc t)) = []"
    using t(2,3) h(1,2) by (simp_all add: MakeSafeToWrite_def upd_ctx_def upd_req_def h_def numeral_3_eq_3)
  moreover have "unat (BytesReceived (track_Read 3 empty_ctx)) = 3"
    using recv.exact [of empty_ctx "[3]"] by (simp add: peta_def empty_ctx_def NewContextFromHttpRequestWithStartTime_def)
  ultimately show ?thesis using t(1) by auto
qed

text \<open>A body that was closed is left alone.\<close>

lemma closed_body_not_drained:
  assumes "cb_closed b"
  shows "readAndDiscardAllFromConnectionBody (Some (NewTrackingBody b c)) d = (None, Some (NewTrackingBody b (track_Read 0 c)))"
  using assms
  by (simp add: readAndDiscardAllFromConnectionBody_def discard_all.simps tracking_Read_def body_Read_def NewTrackingBody_def
      ErrBodyReadAfterClose_def)

text \<open>Making a writer safe fails only for one that is not the tracking writer, and doing it again has
  nothing to read: no byte is left in an open body.\<close>

lemma writer_made_safe:
  assumes "\<And>t. tw_body w = Some t \<Longrightarrow> \<not> cb_closed (tb_rc t)"
  shows "\<exists>logged w'. writer_MakeSafeToWrite (SafeWriter w) d = (Ok (), logged, SafeWriter w')
    \<and> (\<forall>t. tw_body w' = Some t \<longrightarrow> concat (cb_pieces (tb_rc t)) = [])"
proof (cases "tw_body w")
  case (Some t)
  then show ?thesis
    using discard_all_open [OF assms [OF Some], of 0]
    by (auto simp: makeSafeToWrite_def readAndDiscardAllFromConnectionBody_def Let_def split: prod.splits)
qed (simp add: makeSafeToWrite_def readAndDiscardAllFromConnectionBody_def)

end
