(* ===== verification/Enum_Checks.thy ===== *)
theory Enum_Checks
  imports Enums
begin

text \<open>
  The compile-time checks in the generated files of the enumerations: each indexes an array of one
  element with the difference of a constant and the value the table was generated for, which
  compiles only when it is 0. They hold for the constants of theory Enums, and then the tables fit.
\<close>

definition stringer_check :: "('a \<Rightarrow> int) \<Rightarrow> ('a \<times> int) list \<Rightarrow> bool" where
  "stringer_check iota cs = list_all (\<lambda>(c, n). 0 \<le> iota c - n \<and> iota c - n < 1) cs"

definition AWSErrorCode_check :: bool where
  "AWSErrorCode_check = stringer_check aws_iota
     [(ErrAWSNone, 0), (ErrAWSInternalError, 1), (ErrAWSInvalidSignature, 2), (ErrAWSAccessDenied, 3),
      (ErrInvalidAccessKeyId, 4), (ErrAuthorizationHeaderMalformed, 5)]"

definition S3ErrorCode_check :: bool where
  "S3ErrorCode_check = stringer_check s3_iota
     [(ErrS3None, 0), (ErrS3AccessDenied, 1), (ErrS3InternalError, 2), (ErrS3UpstreamError, 3),
      (ErrS3InvalidAccessKeyId, 4), (ErrS3InvalidSignature, 5), (ErrS3InvalidSecurity, 6),
      (ErrS3InvalidRegion, 7), (ErrS3AuthorizationHeaderMalformed, 8)]"

definition STSErrorCode_check :: bool where
  "STSErrorCode_check = stringer_check sts_iota
     [(ErrSTSNone, 0), (ErrSTSAccessDenied, 1), (ErrSTSMissingParameter, 2), (ErrSTSInvalidParameterValue, 3),
      (ErrSTSWebIdentityExpiredToken, 4), (ErrSTSClientGrantsExpiredToken, 5),
      (ErrSTSInvalidClientGrantsToken, 6), (ErrSTSMalformedPolicyDocument, 7), (ErrSTSInsecureConnection, 8),
      (ErrSTSInvalidClientCertificate, 9), (ErrSTSNotInitialized, 10), (ErrSTSIAMNotInitialized, 11),
      (ErrSTSUpstreamError, 12), (ErrSTSInternalError, 13)]"

definition S3Operation_check :: bool where
  "S3Operation_check = stringer_check s3op_iota
     [(UnknownOperation, 0), (ListObjectsV2, 1), (GetObject, 2), (ListBuckets, 3), (HeadBucket, 4),
      (HeadObject, 5), (PutObject, 6), (CreateMultipartUpload, 7), (CompleteMultipartUpload, 8),
      (AbortMultipartUpload, 9), (UploadPart, 10)]"

definition STSOperation_check :: bool where
  "STSOperation_check = stringer_check stsop_iota
     [(STSUnknownOperation, 0), (AssumeRoleWithWebIdentity, 1)]"

definition AuthType_check :: bool where
  "AuthType_check = stringer_check auth_iota
     [(AuthTypeUnknown, 0), (AuthTypeNone, 1), (AuthTypeQueryString, 2), (AuthTypeAuthHeader, 3)]"

definition S3Capability_check :: bool where
  "S3Capability_check = stringer_check cap_iota
     [(S3CapabilityStreamingUnsignedPayloadTrailer, 0)]"

section \<open>Properties\<close>

text \<open>A table fits when its offsets start at 0, grow and end at the end of the names, one more than there
  are constants.\<close>

definition table_fits :: "string \<Rightarrow> nat list \<Rightarrow> nat \<Rightarrow> bool" where
  "table_fits names index n = (length index = n + 1 \<and> hd index = 0 \<and> sorted_wrt (<) index \<and> last index = length names)"

lemma generated_checks_hold:
  "AWSErrorCode_check \<and> S3ErrorCode_check \<and> STSErrorCode_check \<and> S3Operation_check \<and> STSOperation_check \<and> AuthType_check \<and> S3Capability_check"
  by code_simp

lemma generated_tables_fit:
  "table_fits AWSErrorCode_name AWSErrorCode_index 6" "table_fits S3ErrorCode_name S3ErrorCode_index 9"
  "table_fits STSErrorCode_name STSErrorCode_index 14" "table_fits S3Operation_name S3Operation_index 11"
  "table_fits STSOperation_name STSOperation_index 2" "table_fits AuthType_name AuthType_index 4"
  "table_fits S3Capability_name S3Capability_index 1"
  by code_simp+

end
