(* ===== verification/Contexts.thy ===== *)
theory Contexts
  imports Request_Ctx
begin

text \<open>
  How the request context travels: the end of \<^verbatim>\<open>requestctx/requestctx.go\<close> with \<^verbatim>\<open>context.Context\<close> as the
  chain of values it is. A key is compared with its type, so that the zero of the private type \<^verbatim>\<open>key\<close> is
  no other package's key. The field \<^verbatim>\<open>h_ctx\<close> of the handlers' state is what \<^verbatim>\<open>FromContext\<close> finds.
\<close>

datatype context_key = RequestCtxKey int | ForeignKey string

datatype context_value = RequestCtxValue RequestCtx | ForeignValue string

datatype go_context = Background | WithValue (parent: go_context) (val_key: context_key) (val: context_value)

fun ctx_Value :: "go_context \<Rightarrow> context_key \<Rightarrow> context_value option" where
  "ctx_Value Background k = None"
| "ctx_Value (WithValue ctx k v) k' = (if k = k' then Some v else ctx_Value ctx k')"

definition requestCtxKey :: context_key where
  "requestCtxKey = RequestCtxKey 0"

definition NewContext :: "go_context \<Rightarrow> RequestCtx \<Rightarrow> go_context" where
  "NewContext ctx rCtx = WithValue ctx requestCtxKey (RequestCtxValue rCtx)"

definition FromContext :: "go_context \<Rightarrow> RequestCtx option" where
  "FromContext ctx = (case ctx_Value ctx requestCtxKey of Some (RequestCtxValue rCtx) \<Rightarrow> Some rCtx | _ \<Rightarrow> None)"

text \<open>The context of a request, or nil; the identifier in a context.\<close>

definition ctx_get :: "go_context \<Rightarrow> RequestCtx option" where
  "ctx_get r_Context = (case FromContext r_Context of None \<Rightarrow> None | Some rCtx \<Rightarrow> Some rCtx)"

definition ctx_GetRequestID :: "go_context \<Rightarrow> string" where
  "ctx_GetRequestID ctx = (case FromContext ctx of Some rCtx \<Rightarrow> RequestID rCtx | None \<Rightarrow> [])"

text \<open>\<open>uuid\<close> is the random identifier and \<open>now\<close> the time of the call.\<close>

definition getRandomRequestId :: "string \<Rightarrow> string" where
  "getRandomRequestId uuid = uuid"

definition emptyError_String :: "string \<Rightarrow> string" where
  "emptyError_String e = ''-''"

definition NewContextFromHttpRequest :: "(string \<Rightarrow> string) \<Rightarrow> string \<Rightarrow> request \<Rightarrow> go_context \<Rightarrow> int \<Rightarrow> go_context" where
  "NewContextFromHttpRequest up uuid req ctx now =
     NewContext ctx (NewContextFromHttpRequestWithStartTime up (getRandomRequestId uuid) req now)"

section \<open>Properties\<close>

text \<open>The context that was added last is found, also below values that others add under their own keys.\<close>

fun with_foreign :: "(string \<times> string) list \<Rightarrow> go_context \<Rightarrow> go_context" where
  "with_foreign [] ctx = ctx"
| "with_foreign ((k, v) # kvs) ctx = WithValue (with_foreign kvs ctx) (ForeignKey k) (ForeignValue v)"

lemma FromContext_with_foreign: "FromContext (with_foreign kvs ctx) = FromContext ctx"
  by (induction kvs ctx rule: with_foreign.induct) (simp_all add: FromContext_def requestCtxKey_def)

lemma FromContext_NewContext: "FromContext (NewContext ctx rCtx) = Some rCtx"
  by (simp add: FromContext_def NewContext_def)

lemma ctx_get_NewContext: "ctx_get (with_foreign kvs (NewContext ctx rCtx)) = Some rCtx"
  by (simp add: ctx_get_def FromContext_with_foreign FromContext_NewContext)

text \<open>Handlers that keep the request context and the state of the model agree on the identifier.\<close>

lemma ctx_GetRequestID_state: "h_ctx h = FromContext ctx \<Longrightarrow> ctx_GetRequestID ctx = GetRequestID h"
  by (simp add: ctx_GetRequestID_def GetRequestID_def split: option.split)

end
