(* ===== verification/Log_Messages.thy ===== *)
theory Log_Messages
  imports Logging
begin

text \<open>
  Functions whose only effect, besides that of the call they wrap, is a record in the log:
  \<^verbatim>\<open>utils.Close\<close> and \<^verbatim>\<open>utils.WriteButLogOnError\<close>, the reply of a health check, the end of the certificate
  reloader, and the signer with its logger in \<^verbatim>\<open>presign/s3v4.go\<close>. What they log goes through the handler of
  theory Logging; the outcome of the wrapped call is an argument.
\<close>

definition slog_message :: "int \<Rightarrow> string \<Rightarrow> (string \<times> string) list \<Rightarrow> slog_record" where
  "slog_message lvl msg attrs = \<lparr>rec_level = lvl, rec_message = msg, rec_attrs = map (\<lambda>(k, v). (k, StrVal v)) attrs\<rparr>"

section \<open>Closing and writing\<close>

text \<open>A closable is None when it is nil, else the error its \<^verbatim>\<open>Close\<close> returns, if any. The context is one of
  a request or none.\<close>

definition utils_Close ::
  "JSONRequestCtxHandler \<Rightarrow> gerr option option \<Rightarrow> string \<Rightarrow> RequestCtx option \<Rightarrow> log_sink \<Rightarrow> log_sink" where
  "utils_Close h closeable ctxDescription ctx out =
     (case closeable of
        None \<Rightarrow> slog_Log h ctx (slog_message 8 ''Closable was nil'' [(''ctxDescription'', ctxDescription)]) out
      | Some err \<Rightarrow>
          if err \<noteq> None then slog_Log h ctx (slog_message 8 ''Unable to close'' [(''ctxDescription'', ctxDescription)]) out
          else out)"

text \<open>The bytes written, and the error of writing them.\<close>

definition WriteButLogOnError ::
  "JSONRequestCtxHandler \<Rightarrow> RequestCtx option \<Rightarrow> string \<Rightarrow> gerr option \<Rightarrow> hstate \<Rightarrow> log_sink \<Rightarrow> hstate \<times> log_sink" where
  "WriteButLogOnError l ctx bytes err h out =
     (w_Write bytes h,
      case err of None \<Rightarrow> out
      | Some e \<Rightarrow> slog_Log l ctx (slog_message 4 ''Could not write HTTP response body'' [(''error'', err_Error e)]) out)"

definition writeReply ::
  "JSONRequestCtxHandler \<Rightarrow> string \<Rightarrow> string \<Rightarrow> gerr option \<Rightarrow> hstate \<Rightarrow> log_sink \<Rightarrow> hstate \<times> log_sink" where
  "writeReply l body replyPurpose err h out =
     (w_Write body h,
      case err of None \<Rightarrow> out
      | Some e \<Rightarrow> slog_Log l None (slog_message 4 ''Could not write HTTP response body''
          [(''error'', err_Error e), (''replyPurpose'', replyPurpose)]) out)"

definition reloader_Close :: "JSONRequestCtxHandler \<Rightarrow> gerr option \<Rightarrow> log_sink \<Rightarrow> log_sink" where
  "reloader_Close l err out =
     (case err of None \<Rightarrow> out
      | Some e \<Rightarrow> slog_Log l None (slog_message 4 ''Error closing TLS certificate watcher'' [(''error'', err_Error e)]) out)"

section \<open>The signer\<close>

text \<open>\<open>sprintf\<close> is the formatting of the arguments of one call.\<close>

definition getLogger ::
  "RequestCtx option \<Rightarrow> JSONRequestCtxHandler \<Rightarrow> string \<Rightarrow> string \<Rightarrow> (string \<Rightarrow> string) \<Rightarrow> log_sink \<Rightarrow> log_sink" where
  "getLogger ctx l classification format sprintf out =
     (let format' = (if length classification \<noteq> 0 then classification @ '' '' @ format else format) in
      slog_Log l ctx (slog_message (- 4) ''SigninLogging'' [(''msg'', sprintf format')]) out)"

record signer_options =
  DisableURIPathEscaping :: bool
  LogSigning :: bool
  Logger :: "(string \<Rightarrow> string \<Rightarrow> (string \<Rightarrow> string) \<Rightarrow> log_sink \<Rightarrow> log_sink) option"

text \<open>The options of a signer, before those of one request are applied.\<close>

definition getSigner :: "JSONRequestCtxHandler \<Rightarrow> RequestCtx option \<Rightarrow> signer_options" where
  "getSigner l ctx = \<lparr>DisableURIPathEscaping = False, LogSigning = True, Logger = Some (getLogger ctx l)\<rparr>"

definition adaptSigningForS3 :: "signer_options \<Rightarrow> signer_options" where
  "adaptSigningForS3 options = options\<lparr>DisableURIPathEscaping := True\<rparr>"

section \<open>Properties\<close>

lemma slog_Log_quiet: "slog_Log h ctx r out = out \<longleftrightarrow> \<not> log_Enabled h ctx (rec_level r)"
  by (simp add: slog_Log_def log_Handle_def json_Handle_def Let_def)

text \<open>Outside a request a failed close is seen unless only levels above that of errors are logged.\<close>

lemma failed_close_logged:
  "utils_Close h closeable d None out = out \<longleftrightarrow> closeable = Some None \<or> 8 < jh_level (wrappedHandler h)"
  by (auto simp: utils_Close_def slog_Log_quiet log_Enabled_outside slog_message_def split: option.splits)

text \<open>What the signer logs of the string to sign and the canonical request shows up as soon as records of
  the request are forced, although their level is that of debugging.\<close>

lemma signing_logged_when_forced:
  assumes "env ''FORCE_LOGGING_FOR_REQUEST_ID_PREFIX'' = Some p" and "p \<noteq> []" and "has_prefix (RequestID c) p"
    and "Logger (adaptSigningForS3 (getSigner (NewJSONRequestCtxHandler lvl None env) (Some c))) = Some f"
  shows "f [] format sprintf out =
    out @ [([], slog_message (- 4) ''SigninLogging'' [(''msg'', sprintf format), (''RequestId'', RequestID c)])]"
proof -
  have "f = getLogger (Some c) (NewJSONRequestCtxHandler lvl None env)"
    using assms(4) by (simp add: adaptSigningForS3_def getSigner_def)
  then show ?thesis
    using forced_request_logged [OF assms(1-3) derived_self [of "NewJSONRequestCtxHandler lvl None env"]]
    by (simp add: getLogger_def slog_message_def NewJSONRequestCtxHandler_def)
qed

end
