(* ===== verification/Policy_Registry.thy ===== *)
theory Policy_Registry
  imports Policy_Race
begin

text \<open>
  Which retriever a policy manager gets: the package variable \<^verbatim>\<open>localPolicyRetrievers\<close> of
  \<^verbatim>\<open>aws/service/iam/policy-retrieval.go\<close>, with the state of theory Policy_Race for each directory, and the
  manager of tests.
\<close>

section \<open>Retrievers by directory\<close>

type_synonym 't retrievers = "(string \<times> 't shared) list"

text \<open>A retriever without a manager yet, and without a watch.\<close>

definition new_retriever :: "(string \<times> string) list \<Rightarrow> 't shared" where
  "new_retriever fs = \<lparr>sh_managers = [], sh_registered = 0, sh_fetches = [], sh_watcher = None, sh_files = unwatched fs\<rparr>"

definition NewLocalPolicyRetriever :: "string \<Rightarrow> (string \<times> string) list \<Rightarrow> 't retrievers \<Rightarrow> 't retrievers" where
  "NewLocalPolicyRetriever stsRolePolicyPath fs reg =
     (case map_of reg stsRolePolicyPath of
        Some lp \<Rightarrow> reg
      | None \<Rightarrow> AList.update stsRolePolicyPath (new_retriever fs) reg)"

text \<open>A manager for a directory, before it is warmed.\<close>

definition NewLocalPolicyManager :: "string \<Rightarrow> (string \<times> string) list \<Rightarrow> 't retrievers \<Rightarrow> 't retrievers" where
  "NewLocalPolicyManager dir fs reg =
     AList.map_entry dir registerPolicyManager (NewLocalPolicyRetriever dir fs reg)"

text \<open>The test retriever keeps no manager.\<close>

definition NewTestPolicyManager :: "(string \<times> string) list \<Rightarrow> ('t, (string \<times> string) list) policy_manager" where
  "NewTestPolicyManager policies = NewPolicyManager policies"

section \<open>Properties\<close>

text \<open>The first manager of a directory starts as theory Policy_Race has it; a later one is registered
  with the same retriever, which then forgets the one before. Other directories are not touched.\<close>

lemma first_manager:
  "map_of reg dir = None \<Longrightarrow> map_of (NewLocalPolicyManager dir fs reg) dir = Some (shared_start fs)"
  by (simp add: NewLocalPolicyManager_def NewLocalPolicyRetriever_def map_of_map_entry update_conv' new_retriever_def
      registerPolicyManager_def shared_start_def)

lemma later_manager:
  "map_of reg dir = Some s \<Longrightarrow> map_of (NewLocalPolicyManager dir fs reg) dir = Some (registerPolicyManager s)"
  by (simp add: NewLocalPolicyManager_def NewLocalPolicyRetriever_def map_of_map_entry)

lemma other_directory:
  "d \<noteq> dir \<Longrightarrow> map_of (NewLocalPolicyManager dir fs reg) d = map_of reg d"
  by (simp add: NewLocalPolicyManager_def NewLocalPolicyRetriever_def map_of_map_entry update_conv' split: option.split)

text \<open>Two managers of one directory in a process: the state is a step of the relation after the first
  start, so that the invariants of theory Policy_Race hold for both.\<close>

theorem two_managers_reachable:
  assumes "map_of reg dir = None"
  shows "\<exists>s. map_of (NewLocalPolicyManager dir fs' (NewLocalPolicyManager dir fs reg)) dir = Some s
    \<and> (shared_step T dir True)\<^sup>*\<^sup>* (shared_start fs) s \<and> sh_registered s = 1"
proof -
  have "shared_step T dir True (shared_start fs) (registerPolicyManager (shared_start fs))"
    by (rule shared_step.register)
  then show ?thesis
    using later_manager [OF first_manager [OF assms, of fs], of fs']
    by (auto simp: registerPolicyManager_def shared_start_def)
qed

text \<open>A test manager renders exactly the policies it was given.\<close>

lemma test_manager_renders:
  "fst (GetPolicy T test_retrievePolicyStr arn d (NewTestPolicyManager policies)) = Ok p \<longleftrightarrow>
   (\<exists>s t. map_of policies arn = Some s \<and> tmpl_Parse T arn s = Ok t \<and> tmpl_Execute T t d = Ok p)"
proof -
  have "test.fresh T (NewTestPolicyManager policies)"
    by (simp add: test.fresh_def NewTestPolicyManager_def NewPolicyManager_def)
  from test.GetPolicy_renders [OF this] show ?thesis by (simp add: NewTestPolicyManager_def NewPolicyManager_def)
qed

end
