(* ===== verification/Command_Line.thy ===== *)
theory Command_Line
  imports Startup
begin

text \<open>
  The command line: the commands and flags that the \<^verbatim>\<open>init\<close> functions of \<^verbatim>\<open>cmd/root.go\<close>, \<^verbatim>\<open>cmd/presign.go\<close>,
  \<^verbatim>\<open>cmd/proxys3.go\<close> and \<^verbatim>\<open>cmd/proxysts.go\<close> declare, the body of the presign command, and \<^verbatim>\<open>main.go\<close>. Parsing of
  the arguments is that of package cobra, a parameter. Help texts are left out.
\<close>

section \<open>Declarations\<close>

datatype flag_value = StringFlag string | IntFlag int | BoolFlag bool

text \<open>The variables a flag may be bound to.\<close>

datatype flag_var = CliBucket | CliKey | CliExpiry | CliRegion | BackendConfigFile | CfgFile | EnvFiles

record cli_flag =
  flag_name :: string
  flag_shorthand :: string
  flag_default :: flag_value
  flag_var :: "flag_var option"

record cli_vars =
  cliBucket :: string
  cliKey :: string
  cliExpiry :: int
  cliRegion :: string
  backendConfigFile :: string
  root_flags :: startup_flags

record cli_command =
  cmd_Use :: string
  cmd_Flags :: "cli_flag list"
  cmd_required :: "string list"

text \<open>The root command with its own flags, those its sub-commands inherit, and the sub-commands; what is
  registered with \<^verbatim>\<open>OnInitialize\<close> is a count, for it is always \<^verbatim>\<open>initConfig\<close>.\<close>

record cli =
  rootCmd :: cli_command
  PersistentFlags :: "cli_flag list"
  sub_commands :: "cli_command list"
  initializers :: nat
  vars :: cli_vars

definition new_command :: "string \<Rightarrow> cli_command" where
  "new_command use = \<lparr>cmd_Use = use, cmd_Flags = [], cmd_required = []\<rparr>"

text \<open>Variables of the package before \<^verbatim>\<open>init\<close>.\<close>

definition zero_vars :: cli_vars where
  "zero_vars = \<lparr>cliBucket = [], cliKey = [], cliExpiry = 0, cliRegion = [], backendConfigFile = [],
     root_flags = \<lparr>cfgFile = [], envFiles = []\<rparr>\<rparr>"

fun set_var :: "flag_var \<Rightarrow> flag_value \<Rightarrow> cli_vars \<Rightarrow> cli_vars" where
  "set_var CliBucket (StringFlag s) v = v\<lparr>cliBucket := s\<rparr>"
| "set_var CliKey (StringFlag s) v = v\<lparr>cliKey := s\<rparr>"
| "set_var CliExpiry (IntFlag i) v = v\<lparr>cliExpiry := i\<rparr>"
| "set_var CliRegion (StringFlag s) v = v\<lparr>cliRegion := s\<rparr>"
| "set_var BackendConfigFile (StringFlag s) v = v\<lparr>backendConfigFile := s\<rparr>"
| "set_var CfgFile (StringFlag s) v = v\<lparr>root_flags := (root_flags v)\<lparr>cfgFile := s\<rparr>\<rparr>"
| "set_var EnvFiles (StringFlag s) v = v\<lparr>root_flags := (root_flags v)\<lparr>envFiles := s\<rparr>\<rparr>"
| "set_var _ _ v = v"

text \<open>\<^verbatim>\<open>StringVar\<close> and \<^verbatim>\<open>IntVar\<close> add the flag and give the variable its default.\<close>

definition bound_flag :: "flag_var \<Rightarrow> string \<Rightarrow> flag_value \<Rightarrow> cli_flag" where
  "bound_flag var name value = \<lparr>flag_name = name, flag_shorthand = [], flag_default = value, flag_var = Some var\<rparr>"

definition AddCommand :: "cli_command \<Rightarrow> cli \<Rightarrow> cli" where
  "AddCommand c s = s\<lparr>sub_commands := sub_commands s @ [c]\<rparr>"

definition upd_command :: "string \<Rightarrow> (cli_command \<Rightarrow> cli_command) \<Rightarrow> cli \<Rightarrow> cli" where
  "upd_command name f s = s\<lparr>sub_commands := map (\<lambda>c. if cmd_Use c = name then f c else c) (sub_commands s)\<rparr>"

definition Flags_Var :: "string \<Rightarrow> flag_var \<Rightarrow> string \<Rightarrow> flag_value \<Rightarrow> cli \<Rightarrow> cli" where
  "Flags_Var cmd var name value s =
     (upd_command cmd (\<lambda>c. c\<lparr>cmd_Flags := cmd_Flags c @ [bound_flag var name value]\<rparr>) s)\<lparr>vars := set_var var value (vars s)\<rparr>"

definition PersistentFlags_Var :: "flag_var \<Rightarrow> string \<Rightarrow> flag_value \<Rightarrow> cli \<Rightarrow> cli" where
  "PersistentFlags_Var var name value s =
     s\<lparr>PersistentFlags := PersistentFlags s @ [bound_flag var name value], vars := set_var var value (vars s)\<rparr>"

text \<open>\<^verbatim>\<open>cobra.MarkFlagRequired\<close> fails for a flag that the command does not have.\<close>

definition MarkFlagRequired :: "string \<Rightarrow> string \<Rightarrow> cli \<Rightarrow> cli result" where
  "MarkFlagRequired cmd name s =
     (if list_ex (\<lambda>c. cmd_Use c = cmd \<and> name \<in> flag_name ` set (cmd_Flags c)) (sub_commands s)
      then Ok (upd_command cmd (\<lambda>c. c\<lparr>cmd_required := cmd_required c @ [name]\<rparr>) s)
      else Err (Plain (''no such flag -'' @ name)))"

text \<open>The errors are only logged, on the level of debugging.\<close>

definition or_keep :: "'a result \<Rightarrow> 'a \<Rightarrow> 'a" where
  "or_keep r a = (case r of Ok b \<Rightarrow> b | _ \<Rightarrow> a)"

definition presignCmd :: cli_command where
  "presignCmd = new_command ''presign''"

definition proxys3Cmd :: cli_command where
  "proxys3Cmd = new_command ''proxys3''"

definition proxystsCmd :: cli_command where
  "proxystsCmd = new_command ''proxysts''"

definition checkPresignRequiredFlags :: "cli \<Rightarrow> cli" where
  "checkPresignRequiredFlags s =
     (let s1 = or_keep (MarkFlagRequired ''presign'' (cliBucket (vars s)) s) s in
      or_keep (MarkFlagRequired ''presign'' (cliKey (vars s1)) s1) s1)"

definition presign_init :: "cli \<Rightarrow> cli" where
  "presign_init s =
     (let s1 = AddCommand presignCmd s;
          s2 = Flags_Var ''presign'' CliBucket ''bucket'' (StringFlag []) s1;
          s3 = Flags_Var ''presign'' CliKey ''key'' (StringFlag []) s2;
          s4 = Flags_Var ''presign'' CliExpiry ''expiry'' (IntFlag 600) s3;
          s5 = Flags_Var ''presign'' CliRegion ''region'' (StringFlag ''waw3-1'') s4;
          s6 = Flags_Var ''presign'' BackendConfigFile ''backendCfgFile'' (StringFlag []) s5 in
      checkPresignRequiredFlags s6)"

definition proxys3_init :: "cli \<Rightarrow> cli" where
  "proxys3_init s = AddCommand proxys3Cmd s"

definition proxysts_init :: "cli \<Rightarrow> cli" where
  "proxysts_init s = AddCommand proxystsCmd s"

text \<open>The logger that \<^verbatim>\<open>init\<close> also sets up is part of \<^verbatim>\<open>program\<close>.\<close>

definition root_init :: "cli \<Rightarrow> cli" where
  "root_init s =
     (let s1 = PersistentFlags_Var EnvFiles ''dot-env'' (StringFlag ''etc/.env'') s;
          s2 = s1\<lparr>initializers := initializers s1 + 1\<rparr>;
          s3 = PersistentFlags_Var CfgFile ''config'' (StringFlag []) s2 in
      s3\<lparr>rootCmd := (rootCmd s3)\<lparr>cmd_Flags := cmd_Flags (rootCmd s3) @
        [\<lparr>flag_name = ''toggle'', flag_shorthand = ''t'', flag_default = BoolFlag False, flag_var = None\<rparr>]\<rparr>\<rparr>)"

text \<open>The functions run in the order of their files.\<close>

definition package_init :: cli where
  "package_init = root_init (proxysts_init (proxys3_init (presign_init
     \<lparr>rootCmd = new_command ''fakes3pp'', PersistentFlags = [], sub_commands = [], initializers = 0, vars = zero_vars\<rparr>)))"

section \<open>Running\<close>

text \<open>What is printed, and how the command ends. The time in seconds is that of the call.\<close>

definition presign_run :: "('v, 't) cmd_env \<Rightarrow> 'v \<Rightarrow> int \<Rightarrow> cli_vars \<Rightarrow> string \<times> unit result" where
  "presign_run C v now f =
     (case fst (preSignRequestForGet C v None (cliBucket f) (cliKey f) (cliRegion f) (backendConfigFile f) now (cliExpiry f)) of
        Ok signedURI \<Rightarrow> (signedURI @ [CHR 0x0A], Ok ())
      | Err err \<Rightarrow>
          (''Encountered erorr '' @ err_Error err @ '' when trying to creatue url for s3://'' @ cliBucket f @ ''/'' @ cliKey f
             @ '' an expiry of '' @ int_string (cliExpiry f) @ [CHR 0x0A], Panic os_exit)
      | Panic p \<Rightarrow> ([], Panic p))"

text \<open>cobra gives the name of the command to run and the variables with what the flags on the command
  line set. Without a command the root prints its help.\<close>

type_synonym cobra_parse = "cli \<Rightarrow> string list \<Rightarrow> (string option \<times> cli_vars) result"

definition main ::
  "'v viper_init \<Rightarrow> (string \<Rightarrow> environ \<Rightarrow> environ result) \<Rightarrow> string result \<Rightarrow> cobra_parse
   \<Rightarrow> (string \<Rightarrow> cli_vars \<Rightarrow> JSONRequestCtxHandler \<Rightarrow> 'v \<Rightarrow> environ \<Rightarrow> unit result) \<Rightarrow> string list \<Rightarrow> 'v \<Rightarrow> environ \<Rightarrow> unit result" where
  "main V Load UserHomeDir parse run args v env =
     (case parse package_init args of
        Ok (Some name, f) \<Rightarrow> program V Load UserHomeDir (root_flags f) (run name f) v env
      | Ok (None, f) \<Rightarrow> Ok ()
      | Err _ \<Rightarrow> Panic os_exit
      | Panic p \<Rightarrow> Panic p)"

section \<open>Properties\<close>

lemma package_init_eq:
  "map cmd_Use (sub_commands package_init) = [''presign'', ''proxys3'', ''proxysts'']"
  "map (map flag_name \<circ> cmd_Flags) (sub_commands package_init) = [[''bucket'', ''key'', ''expiry'', ''region'', ''backendCfgFile''], [], []]"
  "map flag_name (PersistentFlags package_init) = [''dot-env'', ''config'']"
  "initializers package_init = 1"
  "vars package_init = \<lparr>cliBucket = [], cliKey = [], cliExpiry = 600, cliRegion = ''waw3-1'', backendConfigFile = [],
     root_flags = \<lparr>cfgFile = [], envFiles = ''etc/.env''\<rparr>\<rparr>"
  by code_simp+

text \<open>The variables given to \<^verbatim>\<open>MarkFlagRequired\<close> hold the defaults of the flags, which are empty: no flag is
  required.\<close>

lemma presign_flags_optional: "map cmd_required (sub_commands package_init) = [[], [], []]"
  by code_simp

text \<open>Documented behaviour of cobra: what comes back is a declared command, and a command whose required
  flags are all given runs; flags that are not given keep their defaults.\<close>

definition cobra_ok :: "cobra_parse \<Rightarrow> bool" where
  "cobra_ok parse \<longleftrightarrow>
     (\<forall>s args name f. parse s args = Ok (Some name, f) \<longrightarrow> name \<in> cmd_Use ` set (sub_commands s)) \<and>
     (\<forall>s c. c \<in> set (sub_commands s) \<longrightarrow>
        (if cmd_required c = [] then parse s [cmd_Use c] = Ok (Some (cmd_Use c), vars s) else \<not> is_ok (parse s [cmd_Use c])))"

text \<open>Without any flag the presign command is not refused: it makes a URL for the empty key of the empty
  bucket, with the default region and expiry.\<close>

theorem presign_without_flags:
  assumes "cobra_ok parse" and "run ''presign'' = (\<lambda>f logger v env. snd (presign_run C v now f))"
  shows "main V Load H parse run [''presign''] v env =
    program V Load H \<lparr>cfgFile = [], envFiles = ''etc/.env''\<rparr>
      (\<lambda>logger v env. snd (presign_run C v now
         \<lparr>cliBucket = [], cliKey = [], cliExpiry = 600, cliRegion = ''waw3-1'', backendConfigFile = [],
          root_flags = \<lparr>cfgFile = [], envFiles = ''etc/.env''\<rparr>\<rparr>)) v env"
proof -
  obtain c rest where c: "sub_commands package_init = c # rest" "cmd_Use c = ''presign''" "cmd_required c = []"
    using package_init_eq(1) presign_flags_optional by (auto simp: map_eq_Cons_conv)
  then have "parse package_init [''presign''] = Ok (Some ''presign'', vars package_init)"
    using assms(1) unfolding cobra_ok_def by (metis list.set_intros(1))
  then show ?thesis unfolding main_def package_init_eq(5) by (simp add: assms(2))
qed

text \<open>The command succeeds exactly when it prints a URL and nothing else.\<close>

lemma presign_run_Ok:
  "snd (presign_run C v now f) = Ok () \<longleftrightarrow>
   (\<exists>u. fst (preSignRequestForGet C v None (cliBucket f) (cliKey f) (cliRegion f) (backendConfigFile f) now (cliExpiry f)) = Ok u
     \<and> fst (presign_run C v now f) = u @ [CHR 0x0A])"
  by (auto simp: presign_run_def split: go.splits)

end
