(* ===== verification/Test_Logs.thy ===== *)
theory Test_Logs
  imports Logging
begin

text \<open>
  How the test suite reads the log: \<^verbatim>\<open>testutils/loghelpers.go\<close>. A test is the state \<open>testing_T\<close>, a call of
  its \<^verbatim>\<open>FailNow\<close> or \<^verbatim>\<open>Skip\<close>, which end the goroutine, the outcome \<open>Panic\<close>. The log is text here: the rendering of
  records as JSON and its decoder are parameters.
\<close>

section \<open>A test\<close>

record testing_T =
  t_errors :: "string list"
  t_failed :: bool
  t_skipped :: bool

definition t_Fail :: "testing_T \<Rightarrow> testing_T" where
  "t_Fail t = t\<lparr>t_failed := True\<rparr>"

definition t_Errorf :: "string \<Rightarrow> testing_T \<Rightarrow> testing_T" where
  "t_Errorf msg t = t_Fail (t\<lparr>t_errors := t_errors t @ [msg]\<rparr>)"

definition goexit :: string where
  "goexit = ''runtime.Goexit''"

definition new_test :: testing_T where
  "new_test = \<lparr>t_errors = [], t_failed = False, t_skipped = False\<rparr>"

section \<open>Lines of a buffer\<close>

definition io_EOF :: gerr where
  "io_EOF = Sentinel ''EOF''"

abbreviation newline :: char where "newline \<equiv> CHR 0x0A"

text \<open>\<^verbatim>\<open>bytes.Buffer.ReadString\<close>: up to the delimiter, or all there is with the error at the end.\<close>

definition ReadString :: "char \<Rightarrow> string \<Rightarrow> string \<times> gerr option \<times> string" where
  "ReadString delim buf =
     (let pre = takeWhile (\<lambda>c. c \<noteq> delim) buf in
      if delim \<in> set buf then (pre @ [delim], None, drop (length pre + 1) buf) else (buf, Some io_EOF, []))"

fun lines_loop :: "nat \<Rightarrow> string list \<Rightarrow> string \<Rightarrow> testing_T \<Rightarrow> string list result \<times> string \<times> testing_T" where
  "lines_loop 0 lines buf t = (Ok lines, buf, t)"
| "lines_loop (Suc i) lines buf t =
     (case ReadString newline buf of
        (line, None, buf') \<Rightarrow> lines_loop i (lines @ [line]) buf' t
      | (line, Some err, buf') \<Rightarrow>
          if err = io_EOF then (Ok lines, buf', t)
          else (Panic goexit, buf', t_Errorf (''Encountered error while processing log buffer: '' @ err_Error err) t))"

definition logBufferToLines :: "testing_T \<Rightarrow> string \<Rightarrow> string list result \<times> string \<times> testing_T" where
  "logBufferToLines t buf = lines_loop 10000 [] buf t"

section \<open>Capturing the log\<close>

text \<open>The default logger with the number of the writer it writes to, and what each writer holds that
  has not been read.\<close>

record slog_state =
  ss_default :: "JSONRequestCtxHandler \<times> nat"
  ss_text :: "nat \<Rightarrow> string"
  ss_next :: nat

type_synonym render = "scope list \<times> slog_record \<Rightarrow> string"

definition slog_write :: "render \<Rightarrow> RequestCtx option \<Rightarrow> slog_record \<Rightarrow> slog_state \<Rightarrow> slog_state" where
  "slog_write render ctx r s =
     (let (h, w) = ss_default s in
      s\<lparr>ss_text := (ss_text s)(w := ss_text s w @ concat (map render (slog_Log h ctx r [])))\<rparr>)"

record log_capture =
  loggerBeforeFixture :: "JSONRequestCtxHandler \<times> nat"
  cap_buf :: nat
  fixtureActive :: bool

definition CaptureLogFixture ::
  "render \<Rightarrow> (string \<rightharpoonup> string) \<Rightarrow> int \<Rightarrow> forceEnabler option \<Rightarrow> slog_state \<Rightarrow> log_capture \<times> slog_state" where
  "CaptureLogFixture render env lvl fe s =
     (let buf = ss_next s; (logger, out) = InitializeLogging lvl fe env [] in
      (\<lparr>loggerBeforeFixture = ss_default s, cap_buf = buf, fixtureActive = True\<rparr>,
       \<lparr>ss_default = (logger, buf), ss_text = (ss_text s)(buf := concat (map render out)), ss_next = Suc buf\<rparr>))"

definition log_teardown :: "log_capture \<Rightarrow> slog_state \<Rightarrow> log_capture \<times> slog_state" where
  "log_teardown c s =
     (if fixtureActive c then (c\<lparr>fixtureActive := False\<rparr>, s\<lparr>ss_default := loggerBeforeFixture c\<rparr>) else (c, s))"

definition getCapturedLogLines :: "log_capture \<Rightarrow> slog_state \<Rightarrow> testing_T \<Rightarrow> string list result \<times> slog_state \<times> testing_T" where
  "getCapturedLogLines c s t =
     (let (lines, rest, t') = logBufferToLines t (ss_text s (cap_buf c)) in
      (lines, s\<lparr>ss_text := (ss_text s)(cap_buf c := rest)\<rparr>, t'))"

section \<open>Entries\<close>

text \<open>A decoded line; numbers are those of the decoder.\<close>

datatype 'f json = JString string | JNumber 'f | JOther

type_synonym 'f StructuredLogEntry = "string \<rightharpoonup> 'f json"

fun entries_loop ::
  "(string \<Rightarrow> 'f StructuredLogEntry result) \<Rightarrow> string list \<Rightarrow> 'f StructuredLogEntry list \<Rightarrow> testing_T \<Rightarrow>
   'f StructuredLogEntry list \<times> testing_T" where
  "entries_loop Unmarshal [] capturedEntries t = (capturedEntries, t)"
| "entries_loop Unmarshal (line # lines) capturedEntries t =
     (case Unmarshal line of
        Ok entry \<Rightarrow> entries_loop Unmarshal lines (capturedEntries @ [entry]) t
      | _ \<Rightarrow> entries_loop Unmarshal lines capturedEntries
               (t_Fail (t_Errorf (''could not convert '' @ line @ '' to structured logging entry'') t)))"

definition getCapturedLogEntries ::
  "(string \<Rightarrow> 'f StructuredLogEntry result) \<Rightarrow> log_capture \<Rightarrow> slog_state \<Rightarrow> testing_T \<Rightarrow>
   'f StructuredLogEntry list result \<times> slog_state \<times> testing_T" where
  "getCapturedLogEntries Unmarshal c s t =
     (case getCapturedLogLines c s t of
        (Ok lines, s', t') \<Rightarrow> (let (entries, t'') = entries_loop Unmarshal lines [] t' in (Ok entries, s', t''))
      | (Err e, s', t') \<Rightarrow> (Err e, s', t')
      | (Panic p, s', t') \<Rightarrow> (Panic p, s', t'))"

text \<open>A value of another type is reported twice: it is not a string, and it is not present.\<close>

definition GetStringField :: "'f StructuredLogEntry \<Rightarrow> testing_T \<Rightarrow> string \<Rightarrow> string result \<times> testing_T" where
  "GetStringField s t fieldName =
     (let absent = (\<lambda>t. (Panic goexit, t_Errorf (''field '' @ fieldName @ '' is not present'') t)) in
      case s fieldName of
        None \<Rightarrow> absent t
      | Some (JString stringValue) \<Rightarrow> (Ok stringValue, t)
      | Some _ \<Rightarrow> absent (t_Errorf (''field '' @ fieldName @ '' is not a string'') t))"

definition GetFloat64 :: "'f StructuredLogEntry \<Rightarrow> testing_T \<Rightarrow> string \<Rightarrow> 'f result \<times> testing_T" where
  "GetFloat64 s t fieldName =
     (let absent = (\<lambda>t. (Panic goexit, t_Errorf (''field '' @ fieldName @ '' is not present'') t)) in
      case s fieldName of
        None \<Rightarrow> absent t
      | Some (JNumber floatValue) \<Rightarrow> (Ok floatValue, t)
      | Some _ \<Rightarrow> absent (t_Errorf (''field '' @ fieldName @ '' is not a number'') t))"

definition GetLevel :: "'f StructuredLogEntry \<Rightarrow> testing_T \<Rightarrow> string result \<times> testing_T" where
  "GetLevel s t = GetStringField s t ''level''"

definition GetMsg :: "'f StructuredLogEntry \<Rightarrow> testing_T \<Rightarrow> string result \<times> testing_T" where
  "GetMsg s t = GetStringField s t ''msg''"

fun GetEntriesWithMsg ::
  "'f StructuredLogEntry list \<Rightarrow> testing_T \<Rightarrow> string \<Rightarrow> 'f StructuredLogEntry list result \<times> testing_T" where
  "GetEntriesWithMsg [] t msgValue = (Ok [], t)"
| "GetEntriesWithMsg (entry # s) t msgValue =
     (case GetMsg entry t of
        (Ok msg, t') \<Rightarrow>
          (let (r, t'') = GetEntriesWithMsg s t' msgValue in
           (go_bind r (\<lambda>es. Ok (if msg = msgValue then entry # es else es)), t''))
      | (Err e, t') \<Rightarrow> (Err e, t')
      | (Panic p, t') \<Rightarrow> (Panic p, t'))"

fun GetEntriesContainingField :: "'f StructuredLogEntry list \<Rightarrow> string \<Rightarrow> 'f StructuredLogEntry list" where
  "GetEntriesContainingField [] fieldName = []"
| "GetEntriesContainingField (entry # s) fieldName =
     (case entry fieldName of
        Some _ \<Rightarrow> entry # GetEntriesContainingField s fieldName
      | None \<Rightarrow> GetEntriesContainingField s fieldName)"

section \<open>Properties\<close>

definition one_line :: "string \<Rightarrow> bool" where
  "one_line l = (\<exists>p. l = p @ [newline] \<and> newline \<notin> set p)"

lemma ReadString_line: "one_line l \<Longrightarrow> ReadString newline (l @ rest) = (l, None, rest)"
proof -
  assume "one_line l"
  then obtain p where p: "l = p @ [newline]" "newline \<notin> set p" unfolding one_line_def by blast
  then have "takeWhile (\<lambda>c. c \<noteq> newline) (p @ newline # rest) = p" by (subst takeWhile_append2) auto
  then show ?thesis by (simp add: ReadString_def p(1))
qed

lemma lines_loop_lines:
  "list_all one_line ls \<Longrightarrow> lines_loop (length ls + n) acc (concat ls @ rest) t = lines_loop n (acc @ ls) rest t"
  by (induction ls arbitrary: acc) (simp_all add: ReadString_line)

text \<open>Fewer than 10000 lines come back as they are; what follows the last end of a line is dropped. Of
  more lines the first 10000 come back and the rest stays for the next call.\<close>

lemma logBufferToLines_all:
  assumes "list_all one_line ls" and "length ls < 10000" and "newline \<notin> set rest"
  shows "logBufferToLines t (concat ls @ rest) = (Ok ls, [], t)"
proof -
  obtain n where n: "10000 = length ls + Suc n" using assms(2) less_imp_Suc_add [of "length ls" 10000] by auto
  have "lines_loop (Suc n) ls rest t = (Ok ls, [], t)" using assms(3) by (simp add: ReadString_def)
  then show ?thesis
    using lines_loop_lines [OF assms(1), of "Suc n" "[]" rest t] unfolding logBufferToLines_def n by simp
qed

lemma logBufferToLines_bound:
  assumes "list_all one_line ls" and "length ls = 10000"
  shows "logBufferToLines t (concat ls @ rest) = (Ok ls, rest, t)"
  using lines_loop_lines [OF assms(1), of 0 "[]" rest t] unfolding logBufferToLines_def assms(2) by simp

text \<open>What the default logger writes while a capture is active.\<close>

fun write_all :: "render \<Rightarrow> (RequestCtx option \<times> slog_record) list \<Rightarrow> slog_state \<Rightarrow> slog_state" where
  "write_all render [] s = s"
| "write_all render ((ctx, r) # rs) s = write_all render rs (slog_write render ctx r s)"

definition logged_by :: "JSONRequestCtxHandler \<Rightarrow> (RequestCtx option \<times> slog_record) list \<Rightarrow> log_sink" where
  "logged_by h rs = concat (map (\<lambda>(ctx, r). slog_Log h ctx r []) rs)"

lemma write_all_text:
  "ss_default s = (h, w) \<Longrightarrow>
   write_all render rs s = s\<lparr>ss_text := (ss_text s)(w := ss_text s w @ concat (map render (logged_by h rs)))\<rparr>"
  by (induction render rs s rule: write_all.induct) (simp_all add: slog_write_def logged_by_def Let_def)

text \<open>A test that captures the log gets exactly the lines of the records its handler lets pass, in order,
  once; the logger of before comes back, and taking the capture down twice does not remove one that
  was set up in between.\<close>

theorem capture_gets_log:
  assumes "CaptureLogFixture render env lvl fe s = (c, s1)" and "lvl \<noteq> EnvironmentLvl"
    and "\<And>e. one_line (render e)" and "length (logged_by (fst (ss_default s1)) rs) < 10000"
  shows "\<exists>s2. getCapturedLogLines c (write_all render rs s1) t = (Ok (map render (logged_by (fst (ss_default s1)) rs)), s2, t)
    \<and> getCapturedLogLines c s2 t = (Ok [], s2, t) \<and> ss_default (snd (log_teardown c s2)) = ss_default s"
proof -
  let ?h = "fst (ss_default s1)" and ?b = "ss_next s"
  have s1: "ss_default s1 = (?h, ?b)" "ss_text s1 ?b = []" and c: "cap_buf c = ?b" "loggerBeforeFixture c = ss_default s" "fixtureActive c"
    using assms(1,2) by (auto simp: CaptureLogFixture_def InitializeLogging_def Let_def split_def)
  let ?ls = "map render (logged_by ?h rs)"
  define s2 where "s2 = (write_all render rs s1)\<lparr>ss_text := (ss_text s1)(?b := [])\<rparr>"
  have "ss_text (write_all render rs s1) ?b = concat ?ls @ []" using write_all_text [OF s1(1)] s1(2) by simp
  moreover have "list_all one_line ?ls" using assms(3) by (simp add: list_all_iff)
  ultimately have "logBufferToLines t (ss_text (write_all render rs s1) ?b) = (Ok ?ls, [], t)"
    using logBufferToLines_all [of ?ls "[]" t] assms(4) by simp
  then have "getCapturedLogLines c (write_all render rs s1) t = (Ok ?ls, s2, t)"
    using write_all_text [OF s1(1), of render rs] by (simp add: getCapturedLogLines_def c s2_def)
  moreover have "getCapturedLogLines c s2 t = (Ok [], s2, t)"
    using logBufferToLines_all [of "[]" "[]" t] by (simp add: getCapturedLogLines_def c s2_def fun_upd_idem)
  ultimately show ?thesis using c by (auto simp: log_teardown_def)
qed

lemma log_teardown_once: "log_teardown (fst (log_teardown c s)) s' = (fst (log_teardown c s), s')"
  by (simp add: log_teardown_def)

lemma GetEntriesWithMsg_filter:
  assumes "\<And>e. e \<in> set es \<Longrightarrow> \<exists>m. e ''msg'' = Some (JString m)"
  shows "GetEntriesWithMsg es t msg = (Ok (filter (\<lambda>e. e ''msg'' = Some (JString msg)) es), t)"
  using assms by (induction es) (fastforce simp: GetMsg_def GetStringField_def)+

text \<open>One entry without a message ends the test, wherever it is.\<close>

lemma GetEntriesWithMsg_fails:
  assumes "e \<in> set es" and "\<And>m. e ''msg'' \<noteq> Some (JString m)"
  shows "fst (GetEntriesWithMsg es t msg) = Panic goexit \<and> t_failed (snd (GetEntriesWithMsg es t msg))"
  using assms
proof (induction es arbitrary: t)
  case (Cons a es)
  show ?case
  proof (cases "\<exists>m. a ''msg'' = Some (JString m)")
    case True
    then have "e \<in> set es" using Cons.prems by auto
    then show ?thesis
      using True Cons.IH [OF _ Cons.prems(2), of t] by (auto simp: GetMsg_def GetStringField_def split: prod.splits)
  next
    case False
    then show ?thesis
      by (auto simp: GetMsg_def GetStringField_def t_Errorf_def t_Fail_def Let_def split: option.splits json.splits)
  qed
qed simp

lemma GetEntriesContainingField_filter:
  "GetEntriesContainingField es f = filter (\<lambda>e. f \<in> dom e) es"
  by (induction es) (auto split: option.splits)

end
