(* ===== verification/Test_Fixtures.thy ===== *)
theory Test_Fixtures
  imports Startup Test_Logs
begin

text \<open>
  What tests of the repository set up: \<^verbatim>\<open>testutils/temp.go\<close>, \<^verbatim>\<open>file.go\<close>, \<^verbatim>\<open>random.go\<close>, \<^verbatim>\<open>aws.go\<close>, \<^verbatim>\<open>http.go\<close>,
  \<^verbatim>\<open>skip_flags.go\<close> and \<^verbatim>\<open>cmd/test-utils.go\<close>. The properties say that what is set up is what the code under
  test finds, and that the environment is put back. Temporary names, errors of the file system, the
  source of random bytes and the AWS client are arguments.
\<close>

section \<open>Temporary files\<close>

record temp_fs =
  os_Create :: "string \<Rightarrow> gerr option"
  os_CreateTemp :: "string \<Rightarrow> string \<Rightarrow> string result"
  f_Write :: "string \<Rightarrow> gerr option"

type_synonym files = "(string \<times> string) list"

text \<open>\<^verbatim>\<open>t.Error\<close> with a message, and the \<^verbatim>\<open>FailNow\<close> that follows most of them.\<close>

definition fatal :: "string \<Rightarrow> files \<Rightarrow> testing_T \<Rightarrow> 'a result \<times> files \<times> testing_T" where
  "fatal msg fs t = (Panic goexit, fs, t_Errorf msg t)"

text \<open>A file whose content could not be written is only reported.\<close>

definition tempFile :: "temp_fs \<Rightarrow> string \<Rightarrow> string \<Rightarrow> string \<Rightarrow> files \<Rightarrow> testing_T \<Rightarrow> string result \<times> files \<times> testing_T" where
  "tempFile D tmpDir content filePattern fs t =
     (case os_CreateTemp D tmpDir filePattern of
        Ok fileName \<Rightarrow>
          (case f_Write D fileName of
             None \<Rightarrow> (Ok fileName, AList.update fileName content fs, t)
           | Some _ \<Rightarrow> (Ok fileName, AList.update fileName [] fs, t_Errorf ''Problem when writing file content'' t))
      | _ \<Rightarrow> fatal ''Could not create temp file'' fs t)"

definition TempYamlFile :: "temp_fs \<Rightarrow> string \<Rightarrow> string \<Rightarrow> files \<Rightarrow> testing_T \<Rightarrow> string result \<times> files \<times> testing_T" where
  "TempYamlFile D tmpDir content fs t = tempFile D tmpDir content ''*.yaml'' fs t"

fun stage_loop :: "temp_fs \<Rightarrow> string \<Rightarrow> (string \<times> string) list \<Rightarrow> files \<Rightarrow> testing_T \<Rightarrow> string result \<times> files \<times> testing_T" where
  "stage_loop D policyDir [] fs t = (Ok policyDir, fs, t)"
| "stage_loop D policyDir ((policyArn, policyContent) # policies) fs t =
     (let fileName = B32 policyArn @ ''.json.tmpl''; fullFilename = policyDir @ ''/'' @ fileName in
      case os_Create D fullFilename of
        Some _ \<Rightarrow> fatal ''Could not create temp file'' fs t
      | None \<Rightarrow>
          (case f_Write D fullFilename of
             Some _ \<Rightarrow> fatal ''Problem when writing file content'' (AList.update fullFilename [] fs) t
           | None \<Rightarrow> stage_loop D policyDir policies (AList.update fullFilename policyContent fs) t))"

text \<open>The map of policies is the list of its entries in the order in which it is walked.\<close>

definition StagePoliciesInTempDir ::
  "temp_fs \<Rightarrow> string \<Rightarrow> (string \<times> string) list \<Rightarrow> files \<Rightarrow> testing_T \<Rightarrow> string result \<times> files \<times> testing_T" where
  "StagePoliciesInTempDir D tmpDir policies fs t = stage_loop D tmpDir policies fs t"

definition CreateTempTestCopy :: "temp_fs \<Rightarrow> string \<Rightarrow> string \<Rightarrow> files \<Rightarrow> testing_T \<Rightarrow> string result \<times> files \<times> testing_T" where
  "CreateTempTestCopy D tmpDir filepath fs t =
     (case map_of fs filepath of
        None \<Rightarrow> fatal ''Could not open file to create copy'' fs t
      | Some content \<Rightarrow>
          (case os_CreateTemp D tmpDir ''*'' of
             Ok copyFile \<Rightarrow>
               (case f_Write D copyFile of
                  None \<Rightarrow> (Ok copyFile, AList.update copyFile content fs, t)
                | Some _ \<Rightarrow> fatal ''Got an error when copying a test file'' (AList.update copyFile [] fs) t)
           | _ \<Rightarrow> fatal ''Could not open temp file to create copy'' fs t))"

section \<open>A seekable source of random bytes\<close>

text \<open>\<open>lr_N\<close> is what the limited reader still gives.\<close>

record rand_seeker =
  lr_N :: int
  rs_N :: int

definition NewNonDeterministicLimitedRandReadSeeker :: "int \<Rightarrow> rand_seeker" where
  "NewNonDeterministicLimitedRandReadSeeker n = \<lparr>lr_N = n, rs_N = n\<rparr>"

text \<open>\<^verbatim>\<open>io.LimitedReader\<close> over a source that fills every buffer.\<close>

definition rand_Read :: "(nat \<Rightarrow> string) \<Rightarrow> nat \<Rightarrow> rand_seeker \<Rightarrow> string \<times> gerr option \<times> rand_seeker" where
  "rand_Read rand k r =
     (if lr_N r \<le> 0 then ([], Some io_EOF, r)
      else let n = min k (nat (lr_N r)) in (rand n, None, r\<lparr>lr_N := lr_N r - int n\<rparr>))"

definition rand_Seek :: "int \<Rightarrow> int \<Rightarrow> rand_seeker \<Rightarrow> int \<times> gerr option \<times> rand_seeker" where
  "rand_Seek offset whence r =
     (if offset > rs_N r then (- 1, Some (Plain ''Seek beyond Limit of Limited reader''), r)
      else (offset, None, r\<lparr>lr_N := wrap64 (rs_N r - offset)\<rparr>))"

section \<open>Environment variables\<close>

text \<open>\<^verbatim>\<open>os.Setenv\<close> refuses a name that is empty or has \<^verbatim>\<open>=\<close> or a zero byte in it, and a zero byte in the value.\<close>

definition os_Setenv :: "string \<Rightarrow> string \<Rightarrow> environ \<Rightarrow> environ result" where
  "os_Setenv key value env =
     (if key = [] \<or> CHR ''='' \<in> set key \<or> CHR 0x00 \<in> set key \<or> CHR 0x00 \<in> set value
      then Err (Plain ''setenv: invalid argument'') else Ok (env(key \<mapsto> value)))"

definition env_issue :: "string \<Rightarrow> string \<Rightarrow> string \<Rightarrow> gerr \<Rightarrow> string" where
  "env_issue doing key value err =
     ''Issue environment fixture when '' @ doing @ '' '' @ key @ ''='' @ value @ '' got '' @ err_Error err"

fun setup_loop ::
  "(string \<times> string) list \<Rightarrow> environ \<Rightarrow> environ \<Rightarrow> testing_T \<Rightarrow> environ result \<times> environ \<times> testing_T" where
  "setup_loop [] old env t = (Ok old, env, t)"
| "setup_loop ((k, v) # new_env) old env t =
     (let old' = (case env k of None \<Rightarrow> old | Some old_value \<Rightarrow> old(k \<mapsto> old_value)) in
      case os_Setenv k v env of
        Ok env' \<Rightarrow> setup_loop new_env old' env' t
      | Err err \<Rightarrow> (Panic goexit, env, t_Errorf (env_issue ''setting'' k v err) t)
      | Panic p \<Rightarrow> (Panic p, env, t))"

text \<open>The result of the fixture is what its teardown knows of the old values.\<close>

definition fixture_with_environment_values ::
  "(string \<times> string) list \<Rightarrow> environ \<Rightarrow> testing_T \<Rightarrow> environ result \<times> environ \<times> testing_T" where
  "fixture_with_environment_values new_env env t = setup_loop new_env Map.empty env t"

fun env_tearDown :: "(string \<times> string) list \<Rightarrow> environ \<Rightarrow> environ \<Rightarrow> testing_T \<Rightarrow> unit result \<times> environ \<times> testing_T" where
  "env_tearDown [] old env t = (Ok (), env, t)"
| "env_tearDown ((k, v) # new_env) old env t =
     (case old k of
        None \<Rightarrow> env_tearDown new_env old (env(k := None)) t
      | Some old_value \<Rightarrow>
          (case os_Setenv k old_value env of
             Ok env' \<Rightarrow> env_tearDown new_env old env' t
           | Err err \<Rightarrow> (Panic goexit, env, t_Errorf (env_issue ''setting'' k v err) t)
           | Panic p \<Rightarrow> (Panic p, env, t)))"

definition t_Skip :: "testing_T \<Rightarrow> unit result \<times> testing_T" where
  "t_Skip t = (Panic goexit, t\<lparr>t_skipped := True\<rparr>)"

definition os_Getenv :: "environ \<Rightarrow> string \<Rightarrow> string" where
  "os_Getenv env k = (case env k of None \<Rightarrow> [] | Some v \<Rightarrow> v)"

definition SkipIfNoSlowUnittests :: "environ \<Rightarrow> testing_T \<Rightarrow> unit result \<times> testing_T" where
  "SkipIfNoSlowUnittests env t = (if os_Getenv env ''HASTE_MAKES_WASTE'' = [] then t_Skip t else (Ok (), t))"

definition skipIfNoTestingBackends :: "environ \<Rightarrow> testing_T \<Rightarrow> unit result \<times> testing_T" where
  "skipIfNoTestingBackends env t = (if os_Getenv env ''NO_TESTING_BACKENDS'' \<noteq> [] then t_Skip t else (Ok (), t))"

definition initializeTestLogging :: "(string \<rightharpoonup> string) \<Rightarrow> log_sink \<Rightarrow> JSONRequestCtxHandler \<times> log_sink" where
  "initializeTestLogging env out = InitializeLogging 8 None env out"

section \<open>Clients of a server under test\<close>

definition GetTestServerUrl :: "(BasicServer \<Rightarrow> string) \<Rightarrow> BasicServer \<Rightarrow> string" where
  "GetTestServerUrl listenHost s =
     (let tlsEnabled = fst (GetTls s); protocol = (if tlsEnabled then ''https'' else ''http'');
          port = (if tlsEnabled then GetTLSPort s else GetHTTPPort s) in
      protocol @ ''://'' @ listenHost s @ '':'' @ int_string port @ ''/'')"

record http_client =
  InsecureSkipVerify :: bool

definition BuildUnsafeHttpClientThatTrustsAnyCert :: http_client where
  "BuildUnsafeHttpClientThatTrustsAnyCert = \<lparr>InsecureSkipVerify = True\<rparr>"

text \<open>The part of the configuration and of the options of a client that the code sets, with the rest of
  the default configuration as \<open>'c\<close>. An error of loading it is only reported.\<close>

record 'c aws_config =
  cfg_default :: 'c
  cfg_HTTPClient :: http_client

definition getTestAwsConfig :: "'c \<times> gerr option \<Rightarrow> testing_T \<Rightarrow> 'c aws_config \<times> testing_T" where
  "getTestAwsConfig loaded t =
     (\<lparr>cfg_default = fst loaded, cfg_HTTPClient = BuildUnsafeHttpClientThatTrustsAnyCert\<rparr>,
      case snd loaded of None \<Rightarrow> t | Some err \<Rightarrow> t_Errorf (err_Error err) t)"

record 'c sts_client =
  sts_config :: "'c aws_config"
  sts_BaseEndpoint :: string

definition GetTestClientSts ::
  "'c \<times> gerr option \<Rightarrow> testing_T \<Rightarrow> (BasicServer \<Rightarrow> string) \<Rightarrow> BasicServer \<Rightarrow> 'c sts_client \<times> testing_T" where
  "GetTestClientSts loaded t listenHost stsServer =
     (let (cfg, t') = getTestAwsConfig loaded t in
      (\<lparr>sts_config = cfg, sts_BaseEndpoint = GetTestServerUrl listenHost stsServer\<rparr>, t'))"

datatype checksum_mode = WhenSupported | WhenRequired

record ('c, 'p) s3_client =
  s3c_config :: "'c aws_config"
  s3c_BaseEndpoint :: string
  s3c_Credentials :: 'p
  s3c_Region :: string
  s3c_UsePathStyle :: bool
  s3c_RequestChecksumCalculation :: checksum_mode
  s3c_ResponseChecksumValidation :: checksum_mode

definition GetTestClientS3 ::
  "'c \<times> gerr option \<Rightarrow> testing_T \<Rightarrow> string \<Rightarrow> 'p \<Rightarrow> (BasicServer \<Rightarrow> string) \<Rightarrow> BasicServer \<Rightarrow> ('c, 'p) s3_client \<times> testing_T" where
  "GetTestClientS3 loaded t region creds listenHost s3Server =
     (let (cfg, t') = getTestAwsConfig loaded t in
      (\<lparr>s3c_config = cfg, s3c_BaseEndpoint = GetTestServerUrl listenHost s3Server, s3c_Credentials = creds, s3c_Region = region,
        s3c_UsePathStyle = True, s3c_RequestChecksumCalculation = WhenRequired, s3c_ResponseChecksumValidation = WhenRequired\<rparr>, t'))"

record web_identity_input =
  wi_RoleSessionName :: string
  wi_WebIdentityToken :: string
  wi_RoleArn :: string
  wi_DurationSeconds :: "int option"

text \<open>\<open>call\<close> is the method of the client, with the seconds after which its context ends.\<close>

definition AssumeRoleWithWebIdentityAgainstTestStsProxy ::
  "('c sts_client \<Rightarrow> int \<Rightarrow> web_identity_input \<Rightarrow> 'o result) \<Rightarrow> 'c \<times> gerr option \<Rightarrow> testing_T \<Rightarrow> string \<Rightarrow> string \<Rightarrow> string \<Rightarrow>
   (BasicServer \<Rightarrow> string) \<Rightarrow> BasicServer \<Rightarrow> int option \<Rightarrow> 'o result \<times> testing_T" where
  "AssumeRoleWithWebIdentityAgainstTestStsProxy call loaded t token roleSessionName roleArn listenHost stsServer durationSecs =
     (let (client, t') = GetTestClientSts loaded t listenHost stsServer;
          input = \<lparr>wi_RoleSessionName = roleSessionName, wi_WebIdentityToken = token, wi_RoleArn = roleArn, wi_DurationSeconds = None\<rparr>;
          input' = (if durationSecs \<noteq> None then input\<lparr>wi_DurationSeconds := durationSecs\<rparr> else input) in
      (call client 1000 input', t'))"

section \<open>Properties\<close>

lemma stage_loop_files:
  assumes "\<And>p. os_Create D p = None" and "\<And>p. f_Write D p = None"
  shows "\<exists>fs'. stage_loop D dir ps fs t = (Ok dir, fs', t) \<and> fst ` set fs' = fst ` set fs \<union> getPolicyPath dir ` fst ` set ps \<and>
    (\<forall>arn. map_of fs' (getPolicyPath dir arn) = ((map_of fs \<circ> getPolicyPath dir) ++ map_of (rev ps)) arn)"
proof (induction ps arbitrary: fs)
  case (Cons a ps)
  obtain arn c where a: "a = (arn, c)" by (cases a)
  have path: "dir @ CHR ''/'' # B32 arn @ ''.json.tmpl'' = getPolicyPath dir arn"
    by (simp add: getPolicyPath_def getPolicyPathPrefix_def policySuffix_def)
  let ?fs = "AList.update (getPolicyPath dir arn) c fs"
  obtain fs' where fs': "stage_loop D dir ps ?fs t = (Ok dir, fs', t)"
    "fst ` set fs' = fst ` set ?fs \<union> getPolicyPath dir ` fst ` set ps"
    "\<And>x. map_of fs' (getPolicyPath dir x) = ((map_of ?fs \<circ> getPolicyPath dir) ++ map_of (rev ps)) x"
    using Cons.IH [of ?fs] by blast
  have "map_of ?fs \<circ> getPolicyPath dir = (map_of fs \<circ> getPolicyPath dir)(arn \<mapsto> c)"
    using getPolicyPath_inj [of dir] by (fastforce simp: update_conv')
  then show ?case
    using fs' by (intro exI [of _ fs']) (auto simp: a assms path dom_update comp_def)
qed simp

lemma decode_all_B32: "decode_all (map B32 as) = Ok as"
  by (induction as) (simp_all add: B32Decode_B32)

lemma map_of_rev_distinct: "distinct (map fst ps) \<Longrightarrow> map_of (rev ps) = map_of ps"
proof (induction ps)
  case (Cons a ps)
  then have "map_of ps (fst a) = None" by (simp add: map_of_eq_None_iff)
  then show ?case using Cons by (auto simp: fun_eq_iff map_add_def split: option.split)
qed simp

text \<open>The staged policies are what the policy manager of that directory finds: each under its role,
  and no other role.\<close>

theorem staged_policies_found:
  assumes "\<And>p. os_Create D p = None" and "\<And>p. f_Write D p = None" and "distinct (map fst policies)"
    and "\<And>p. p \<in> fst ` set fs \<Longrightarrow> \<not> has_prefix p (dir @ ''/'')"
  shows "\<exists>fs' ids. StagePoliciesInTempDir D dir policies fs t = (Ok dir, fs', t)
    \<and> (\<forall>arn s. fst (retrievePolicyStr dir (unwatched fs') arn) = Ok s \<longleftrightarrow> map_of policies arn = Some s)
    \<and> retrieveAllIdentifiers dir (unwatched fs') = Ok ids \<and> set ids = fst ` set policies"
proof -
  obtain fs' where fs': "stage_loop D dir policies fs t = (Ok dir, fs', t)"
    "fst ` set fs' = fst ` set fs \<union> getPolicyPath dir ` fst ` set policies"
    "\<And>arn. map_of fs' (getPolicyPath dir arn) = ((map_of fs \<circ> getPolicyPath dir) ++ map_of (rev policies)) arn"
    using stage_loop_files [OF assms(1,2)] by blast
  have path: "getPolicyPath dir arn \<notin> fst ` set fs" for arn
    using assms(4) [of "getPolicyPath dir arn"] by (auto simp: getPolicyPath_def getPolicyPathPrefix_def has_prefix_def)
  have content: "map_of fs' (getPolicyPath dir arn) = map_of policies arn" for arn
    using path [of arn] fs'(3) [of arn] map_of_rev_distinct [OF assms(3)]
    by (simp add: map_add_def map_of_eq_None_iff [THEN iffD2] split: option.split)
  then have "fst (retrievePolicyStr dir (unwatched fs') arn) = Ok s \<longleftrightarrow> map_of policies arn = Some s" for arn s
    by (simp add: local_dir.retrieve_content local_content_def unwatched_def)
  moreover have glob: "set (glob_policies dir (unwatched fs')) = getPolicyPath dir ` fst ` set policies"
  proof (intro set_eqI iffI)
    fix p assume p: "p \<in> set (glob_policies dir (unwatched fs'))"
    then have "p \<in> fst ` set fs'" "p = (dir @ ''/'') @ safe_policy_name dir p @ policySuffix"
      by (auto simp: glob_policies_def unwatched_def Let_def getPolicyPathPrefix_def)
    moreover from this(2) have "has_prefix p (dir @ ''/'')" unfolding has_prefix_def by (rule prefixI)
    ultimately show "p \<in> getPolicyPath dir ` fst ` set policies" using fs'(2) assms(4) by blast
  next
    fix p assume "p \<in> getPolicyPath dir ` fst ` set policies"
    then obtain arn where arn: "p = getPolicyPath dir arn" "arn \<in> fst ` set policies" by blast
    then obtain c where "map_of policies arn = Some c" using weak_map_of_SomeI [of arn] by fastforce
    then show "p \<in> set (glob_policies dir (unwatched fs'))"
      unfolding arn(1) using content by (intro getPolicyPath_globbed) (simp add: unwatched_def)
  qed
  moreover obtain as where as: "glob_policies dir (unwatched fs') = map (getPolicyPath dir) as"
    using ex_map_conv [of "glob_policies dir (unwatched fs')" "getPolicyPath dir"] glob by auto
  moreover have "set as = fst ` set policies"
    using glob getPolicyPath_inj [of dir] unfolding as by (auto simp: inj_image_eq_iff inj_def)
  moreover have "retrieveAllIdentifiers dir (unwatched fs') = Ok as"
    using decode_all_B32 [of as] by (simp add: retrieveAllIdentifiers_def as comp_def safe_policy_name_path)
  ultimately show ?thesis using fs'(1) unfolding StagePoliciesInTempDir_def by blast
qed

text \<open>What can be read in pieces of the sizes \<open>ks\<close>.\<close>

fun rand_reads :: "(nat \<Rightarrow> string) \<Rightarrow> nat list \<Rightarrow> rand_seeker \<Rightarrow> string \<times> rand_seeker" where
  "rand_reads rand [] r = ([], r)"
| "rand_reads rand (k # ks) r =
     (let (p, _, r1) = rand_Read rand k r; (q, r2) = rand_reads rand ks r1 in (p @ q, r2))"

lemma min_pieces: "min k (n::nat) + min s (n - min k n) = min (k + s) n"
  by (simp add: min_def) linarith

lemma rand_reads_length:
  assumes "\<And>n. length (rand n) = n"
  shows "length (fst (rand_reads rand ks r)) = min (sum_list ks) (nat (lr_N r)) \<and> rs_N (snd (rand_reads rand ks r)) = rs_N r"
proof (induction ks arbitrary: r)
  case (Cons k ks)
  show ?case
    using Cons [of "snd (snd (rand_Read rand k r))"]
    by (auto simp: rand_Read_def Let_def split_def assms nat_diff_distrib min_pieces)
qed simp

text \<open>After a seek from the start the reader gives as many bytes as there are behind the offset, whatever
  was read before.\<close>

theorem seek_resets_limit:
  assumes "\<And>n. length (rand n) = n" and "0 \<le> offset" and "offset \<le> n" and "n < 2 ^ 63"
    and "rand_reads rand before (NewNonDeterministicLimitedRandReadSeeker n) = (p, r)"
  shows "\<exists>r'. rand_Seek offset 0 r = (offset, None, r') \<and> length (fst (rand_reads rand ks r')) = min (sum_list ks) (nat (n - offset))"
proof -
  have "rs_N r = n"
    using rand_reads_length [OF assms(1), of before "NewNonDeterministicLimitedRandReadSeeker n"] assms(5)
    by (simp add: NewNonDeterministicLimitedRandReadSeeker_def)
  moreover have "wrap64 (n - offset) = n - offset" using assms(2-4) by (intro wrap64_id) (simp add: int64_range_def)
  ultimately show ?thesis using assms(3) rand_reads_length [OF assms(1)] by (auto simp: rand_Seek_def)
qed

text \<open>The origin of the offset is ignored, and before the start there are more bytes than the limit.\<close>

lemma seek_before_start:
  "rand_Seek (- 1) 0 (NewNonDeterministicLimitedRandReadSeeker 2) = (- 1, None, \<lparr>lr_N = 3, rs_N = 2\<rparr>)"
  "rand_Seek 0 2 (NewNonDeterministicLimitedRandReadSeeker 2) = (0, None, \<lparr>lr_N = 2, rs_N = 2\<rparr>)"
  by (simp_all add: rand_Seek_def NewNonDeterministicLimitedRandReadSeeker_def wrap64_id int64_range_def)

text \<open>Setting the variables remembers what they were.\<close>

lemma setup_loop_Ok:
  assumes "setup_loop ps old env t = (Ok old', env', t')" and "distinct (map fst ps)" and "dom old \<inter> fst ` set ps = {}"
  shows "t' = t \<and> (\<forall>k. old' k = (if k \<in> fst ` set ps then env k else old k)) \<and> (\<forall>k. k \<notin> fst ` set ps \<longrightarrow> env' k = env k)
    \<and> (\<forall>k\<in>fst ` set ps. k \<noteq> [] \<and> CHR ''='' \<notin> set k \<and> CHR 0x00 \<notin> set k)"
  using assms
proof (induction ps old env t rule: setup_loop.induct)
  case (2 k v ps old env t)
  let ?old = "case env k of None \<Rightarrow> old | Some old_value \<Rightarrow> old(k \<mapsto> old_value)"
  have set: "os_Setenv k v env = Ok (env(k \<mapsto> v))" "setup_loop ps ?old (env(k \<mapsto> v)) t = (Ok old', env', t')"
    "k \<noteq> []" "CHR ''='' \<notin> set k" "CHR 0x00 \<notin> set k"
    using 2(2) by (auto simp: os_Setenv_def split: if_splits)
  have "dom ?old \<inter> fst ` set ps = {}" using 2(3,4) by (auto split: option.splits)
  note IH = 2(1) [OF refl set(1) set(2), simplified, OF _ this]
  have "old k = None" using 2(4) by auto
  then show ?case using IH 2(3) set(3-5) by (auto split: option.splits)
qed simp

lemma env_tearDown_Ok:
  assumes "\<And>k v e. k \<in> fst ` set ps \<Longrightarrow> old k = Some v \<Longrightarrow> os_Setenv k v e = Ok (e(k \<mapsto> v))"
  shows "env_tearDown ps old env t = (Ok (), (\<lambda>k. if k \<in> fst ` set ps then old k else env k), t)"
  using assms
proof (induction ps arbitrary: env)
  case (Cons a ps)
  obtain k v where a: "a = (k, v)" by (cases a)
  have "env_tearDown (a # ps) old env t = env_tearDown ps old (env(k := old k)) t"
    by (cases "old k") (simp_all add: a Cons.prems fun_upd_def)
  also have "\<dots> = (Ok (), (\<lambda>x. if x \<in> fst ` set ps then old x else (env(k := old k)) x), t)"
    by (rule Cons.IH) (simp add: Cons.prems)
  also have "(\<lambda>x. if x \<in> fst ` set ps then old x else (env(k := old k)) x) = (\<lambda>x. if x \<in> fst ` set (a # ps) then old x else env x)"
    by (auto simp: fun_eq_iff a)
  finally show ?case .
qed simp

text \<open>After the fixture and its teardown the environment is as before, whatever the test did to those
  variables and in whichever order the map is walked the second time.\<close>

theorem environment_restored:
  assumes "fixture_with_environment_values new_env env t = (Ok old, env1, t1)" and "distinct (map fst new_env)"
    and "set walked = set new_env" and "\<And>k. k \<notin> fst ` set new_env \<Longrightarrow> env2 k = env1 k"
    and "\<And>k v. env k = Some v \<Longrightarrow> CHR 0x00 \<notin> set v"
  shows "env_tearDown walked old env2 t' = (Ok (), env, t')"
proof -
  note s = setup_loop_Ok [OF assms(1) [unfolded fixture_with_environment_values_def] assms(2)]
  have "env_tearDown walked old env2 t' = (Ok (), (\<lambda>k. if k \<in> fst ` set walked then old k else env2 k), t')"
  proof (rule env_tearDown_Ok)
    fix k v e assume "k \<in> fst ` set walked" "old k = Some v"
    then show "os_Setenv k v e = Ok (e(k \<mapsto> v))" using s assms(3,5) by (auto simp: os_Setenv_def)
  qed
  moreover have "(\<lambda>k. if k \<in> fst ` set walked then old k else env2 k) = env" using s assms(3,4) by (auto simp: fun_eq_iff)
  ultimately show ?thesis by simp
qed

text \<open>The URL for a client is that of the listener which is started first.\<close>

theorem test_url_of_first_listener:
  assumes "CreateAndStart mp load s = (Ok first, run)"
  shows "\<exists>l\<in>set (run_listeners run). l_id l = first \<and> GetTestServerUrl listenHost s =
    (case first of TLSServer \<Rightarrow> ''https'' | HTTPServer \<Rightarrow> ''http'') @ ''://'' @ listenHost s @ '':'' @ int_string (l_port l) @ ''/''"
  using assms
  by (auto simp: CreateAndStart_def createAndStart_def RegisterOnShutdown_def nothing_running_def GetTestServerUrl_def Let_def
      split: option.splits if_splits prod.splits)

end
