(* ===== verification/Spec2Isabelle.thy ===== *)
theory Spec2Isabelle
  imports Startup Listeners Policy_Functions S3_Retarget Presign_V4 Policy_Race Sts_Service Body_Stream
    Enum_Checks Contexts Log_Messages Policy_Registry Command_Line Test_Logs Test_Fixtures
begin

text \<open>
  fakes3pp is a proxy in front of S3 stores. Clients obtain temporary credentials from its token
  service (STS) in exchange for the token of an OpenID Connect provider, sign S3 requests with them,
  and its S3 server authenticates each request, authorises it against an IAM policy of the role in
  the session token, signs it again with the credentials of the backend, and relays the answer.

  \<^bold>\<open>How the parts interact.\<close> A request to either server is the state \<^verbatim>\<open>hstate\<close> of theory
  Request_Ctx: the request, the request context that all handlers share, and the answer written so
  far. A handler is a function of it. The handlers of \<^verbatim>\<open>middleware/\<close> and \<^verbatim>\<open>aws/service/s3/\<close> that take a
  next handler are functions from handlers to handlers and are composed by \<^verbatim>\<open>Chain\<close> as the code composes
  them. Errors of Go are values: an outcome is \<^verbatim>\<open>Ok\<close>, \<^verbatim>\<open>Err\<close> or \<^verbatim>\<open>Panic\<close> (theory Prelude), so that an
  index out of range, a nil dereference and \<^verbatim>\<open>os.Exit\<close> are branches too.

  \<^bold>\<open>Theories and sources.\<close>
  \<^item> Prelude, Utf8, Numbers, Codecs, Url, Http_Values, Aws_Time: what the code uses of the standard
    library (\<^verbatim>\<open>strings\<close>, \<^verbatim>\<open>unicode/utf8\<close>, \<^verbatim>\<open>strconv\<close>, \<^verbatim>\<open>encoding/base32\<close> and \<^verbatim>\<open>base64\<close>, \<^verbatim>\<open>net/url\<close>,
    \<^verbatim>\<open>http.Header\<close>, \<^verbatim>\<open>time\<close>) and the files that wrap it: \<^verbatim>\<open>utils/\<close>, \<^verbatim>\<open>presign/aws-conversion.go\<close>.
  \<^item> Aws_Constants: names of headers, parameters and actions. User_Errors: \<^verbatim>\<open>usererror/\<close>. Enums: the error codes, operations and generated name tables.
    Error_Responses: the documents sent to clients and \<^verbatim>\<open>writeS3ErrorResponse\<close>, \<^verbatim>\<open>writeSTSErrorResponse\<close>.
  \<^item> Request_Ctx: \<^verbatim>\<open>requestctx/\<close> and \<^verbatim>\<open>httptracking/\<close>; byte counters are 64-bit words. Body_Stream: the draining of
    a body that arrives in pieces, and why a string stands for it elsewhere. Contexts: how the request context is found. Logging, Log_Messages: \<^verbatim>\<open>logging/\<close>.
  \<^item> Request_Utils: \<^verbatim>\<open>requestutils/\<close>. Presign_Headers, Presign, Presign_Check: \<^verbatim>\<open>presign/\<close>.
  \<^item> Credentials: \<^verbatim>\<open>utils/rsa.go\<close>, \<^verbatim>\<open>aws/credentials/\<close>. Iam_Glob, Iam_Policy: \<^verbatim>\<open>iam/policy-evaluation.go\<close>
    and \<^verbatim>\<open>policy-iam-action.go\<close>. Policy_Store: \<^verbatim>\<open>iam/policy-retrieval.go\<close>, with the file watcher as a step
    relation. Policy_Race: the same cache with the steps of concurrent lookups; Policy_Registry: which retriever a manager
    gets. Policy_Functions: the functions templates may call.
  \<^item> AuthN: \<^verbatim>\<open>middleware/authentication.go\<close>. Middlewares: the other files of \<^verbatim>\<open>middleware/\<close>.
  \<^item> Backends, S3_Actions, S3_Authz, S3_Retarget, S3_Server: \<^verbatim>\<open>aws/service/s3/\<close>.
  \<^item> Oidc, Sts: \<^verbatim>\<open>aws/service/sts/\<close>. Sts_Service: that a valid identity is served. Server_Runtime: \<^verbatim>\<open>server/\<close>,
    with shutdown hooks and the certificate reloader as step relations. Listeners: the handler a listener
    serves and its probe. Config, Startup, Command_Line: \<^verbatim>\<open>cmd/\<close>.
  \<^item> Enum_Checks: the checks generated with the name tables. Test_Logs, Test_Fixtures: \<^verbatim>\<open>testutils/\<close> and
    \<^verbatim>\<open>cmd/test-utils.go\<close>, what tests set up and how they read the log.
  \<^item> Gateway, Presign_Gateway: the S3 server around its proxy handler, with the credentials of the token
    service and over the live policy store, for signed requests and for links of version 1; Presign_V4
    the same for links of version 4. This theory: the properties that span components, that is the safety of the
    whole S3 handler, the way of a credential from the token service to the authentication of a request,
    and what the policy files decide of it.

  Definitions carry the names of the Go functions. Where a Go function is split, the parts are named
  after what they do (\<^verbatim>\<open>web_identity\<close>, \<^verbatim>\<open>issue_credentials\<close> and \<^verbatim>\<open>answer_identity\<close> are consecutive parts of
  \<^verbatim>\<open>assumeRoleWithWebIdentity\<close>).

  \<^bold>\<open>What the lemmas show.\<close> Each theory first has the definitions in the order of the code and then
  its properties. Safety: what must hold when a handler lets a request pass or answers 200
  (\<^verbatim>\<open>handleAuthNNormal_safe\<close>, \<^verbatim>\<open>handleAuthNPresigned_safe\<close>, \<^verbatim>\<open>sts_answers_verified_identity\<close>, \<^verbatim>\<open>s3_gateway_safe\<close>),
  and, with issued credentials, exactly what reaches the proxy (\<^verbatim>\<open>issued_request_decided_by_file\<close>,
  \<^verbatim>\<open>presigned_link_decided_by_file\<close>, \<^verbatim>\<open>presigned_v4_link_decided_by_file\<close>).
  Equivalence with declarative descriptions: policy evaluation, the wildcard match, routing. Refinement:
  the policy cache against the present content of the file. Invariants: caches, counters, configuration
  after start. Round trips: file names, credential scopes, presigned URLs. Also bounds, error
  branches, and behaviour that surprises (the secret key that does not depend on the private key, the
  unanchored match, the endless exchange of shutdowns, the request line that changes the host).

  \<^bold>\<open>Interfaces.\<close> The locales \<^verbatim>\<open>codec\<close>, \<^verbatim>\<open>multimap\<close>, \<^verbatim>\<open>key_pair_keeper\<close>, \<^verbatim>\<open>policy_retriever\<close>, \<^verbatim>\<open>backend_manager\<close>,
  \<^verbatim>\<open>presigned_url\<close>, \<^verbatim>\<open>byte_counter\<close> and \<^verbatim>\<open>force_enabler\<close> state what a client of a component relies on; each is
  interpreted on the model's definitions where they are.

  \<^bold>\<open>Parameters.\<close> Code outside the repository is an argument: the JWT library (\<^verbatim>\<open>jwt_lib\<close>: parsing checks
  the signature with the key function's key and the time claims), the AWS signer and HMAC (\<^verbatim>\<open>signer_lib\<close>),
  the decoder of policies (\<^verbatim>\<open>policy_lib\<close>), \<^verbatim>\<open>text/template\<close> (\<^verbatim>\<open>tmpl_lib\<close>), YAML and X.509 parsing, the router
  (\<^verbatim>\<open>mux_lib\<close>), the configuration store (\<^verbatim>\<open>viper_lib\<close>), XML encoding (\<^verbatim>\<open>svc_lib\<close>), random identifiers and
  the requester, that is the HTTP client with the upstream server and the redirects it follows. What
  theorems need of them is stated as \<^verbatim>\<open>jwt_lib_ok\<close>, \<^verbatim>\<open>policy_lib_ok\<close>, \<^verbatim>\<open>mux_lib_ok\<close>, \<^verbatim>\<open>viper_ok\<close> and so on, and
  the witnesses instantiate them with concrete functions.

  \<^bold>\<open>Bounds and fuel.\<close> No definition uses fuel except the health probe loop, whose number of attempts is
  that of the code, and \<^verbatim>\<open>shutdown_step\<close>, which is iterated as often as a theorem says. Durations and
  counters that wrap in Go are taken modulo 2 to the 64 (\<^verbatim>\<open>wrap64\<close>, \<^verbatim>\<open>64 word\<close>); times are seconds or
  nanoseconds as unbounded integers.

  \<^bold>\<open>Limits of the model.\<close> A request has one instant: all readings of the clock in it agree. The
  interleaving of goroutines is modelled where it decides something, in the policy cache (Policy_Race:
  what holds under all interleavings, what needs calm ones, and a race); elsewhere operations and file
  events follow each other in any order, and a request of theory Gateway sees the policy store in one
  state. A panic ends the outcome: what deferred functions write after it is left out, and so is the
  recovery of the HTTP server. Upper-casing of request identifiers is a parameter, other case
  mappings are those of ASCII. When the details of a presigned URL of version 4 fail, the note of the signed headers
  is lost with them (only the refusal is written after it). Attribute values of the access log that are not
  strings are opaque, and messages to the log have no effect.

  \<^bold>\<open>Not modelled.\<close> The descriptions of environment variables and command line help, the parsing of
  arguments by cobra, the Prometheus registry behind the record of counters, sockets, the JSON rendering of log
  records, the YAML text of the OIDC configuration (\<^verbatim>\<open>String\<close>) and the declarations of Go interfaces,
  which are the locales here.

  \<^bold>\<open>Order of further work.\<close> The redirects the upstream client follows, as requests of their own; the
  bodies of upstream answers as readers, as theory Body_Stream has it for requests.
\<close>

section \<open>The S3 server as a whole\<close>

text \<open>C1. Every request to the S3 server is either answered without the proxy handler, or handed to
  it after all of this: the router matched an operation, the request was authenticated (by its
  authorization header or its presigned URL) for an access key and a session token that verifies
  under the key of the server and has not expired, and the policy of the role in the claims of
  that token grants every action of that operation on the bucket and key of the request; what
  the proxy receives has the method, path, host, request URI and body that were authorised.\<close>

theorem s3_gateway_safe:
  assumes "jwt_lib_ok (env_jwt (s3_authn E))" and "router_ok E" and "GetOperation h = None"
  shows "(\<exists>res. \<forall>proxy. Chain (s3_middlewares E rpb logged) proxy h = res) \<or>
    (\<exists>h1 opr ak tok lw c region r.
       (\<forall>proxy. Chain (s3_middlewares E rpb logged) proxy h = go_bind (proxy h1) (\<lambda>h'. Ok (after_proxy logged h')))
       \<and> matched_operation (s3_mux E) (h_req h) = Some opr
       \<and> request_authenticated (s3_authn E) (s3_options E) h ak tok lw
       \<and> verified (env_jwt (s3_authn E)) tok (key_pub (privateKey (env_keys (s3_authn E)))) c
       \<and> claims_time_ok (env_now (s3_authn E)) lw c
       \<and> (AccessKeyID c = ak \<or> legacy_allowed (env_legacy (s3_authn E)))
       \<and> request_permitted E opr c region r \<and> same_resource (h_req h) r \<and> same_resource (h_req h) (h_req h1))"
  using assms by (rule gateway_safe)

section \<open>The token service and the S3 server together\<close>

text \<open>C6. The credentials the token service issues are accepted by an S3 server with the same key:
  from the second they are issued to the second before they expire, the session token passes
  the check against the access key, the secret the S3 server derives is the one the client was
  given, and the claims authorisation reads are the role, the subject, the issuer and the tags
  the service put into the token.\<close>

theorem issued_credentials_authenticate:
  assumes "jwt_lib_ok (st_jwt E)" and "issue_credentials E roleArn c d = Ok cred" and "SessionToken cred \<noteq> []"
    and "env_jwt A = st_jwt E" and "env_keys A = st_keys E"
    and "NewNumericDate (st_now E) \<le> env_now A" and "env_now A < NewNumericDate (st_now E + d)"
  shows "makeSureSessionTokenIsForAccessKey A (SessionToken cred) (AccessKey cred) None = Ok ()
    \<and> CalculateSecretKey (AccessKey cred) (GetPrivateKey (env_keys A)) = Ok (SecretKey cred)
    \<and> (\<exists>c'. ExtractTokenClaims (env_jwt A) (env_now A) 0 (SessionToken cred) None = Ok c' \<and> RoleARN c' = roleArn
         \<and> reg_Subject c' = reg_Subject c \<and> IIssuer c' = reg_Issuer c \<and> Tags c' = Tags c)"
  using issued_token_in_time [OF assms] by metis

lemma issued_credentials_authenticate_witness:
  "\<exists>cred. issue_credentials toy_sts ''role'' toy_claims (3600 * time_Second) = Ok cred
     \<and> makeSureSessionTokenIsForAccessKey (toy_env\<lparr>env_jwt := st_jwt toy_sts, env_keys := st_keys toy_sts, env_now := 6\<rparr>)
         (SessionToken cred) (AccessKey cred) None = Ok ()"
proof -
  obtain cred where cred: "issue_credentials toy_sts ''role'' toy_claims (3600 * time_Second) = Ok cred" "SessionToken cred = ''session''"
    using toy_issue by blast
  have "NewNumericDate 5 \<le> 6" "6 < NewNumericDate (5 + 3600 * time_Second)" by (simp_all add: NewNumericDate_def time_Second_def)
  moreover have "st_now toy_sts = 5" by (simp add: toy_sts_def)
  ultimately show ?thesis
    using issued_credentials_authenticate [OF toy_sts_jwt cred(1),
        of "toy_env\<lparr>env_jwt := st_jwt toy_sts, env_keys := st_keys toy_sts, env_now := 6\<rparr>"] cred by simp
qed

section \<open>The token service, the policy files and the S3 server together\<close>





subsection \<open>A client of both servers\<close>

definition allow_all :: "'cv statement" where
  "allow_all = \<lparr>Effect = ''Allow'', Actions = [''*''], Resources = [''*''], Conditions = []\<rparr>"

definition toy_s3 :: "(bool \<times> string list) s3_env" where
  "toy_s3 = \<lparr>s3_authn = toy_env, s3_options = toy_options, s3_policies = pair_lib\<lparr>decode_policy := \<lambda>_. Some [allow_all]\<rparr>,
     s3_get_policy = \<lambda>_ _. Ok ''{}'', s3_fqdns = [''s3.test''], s3_mux = plain_mux, s3_not_found = \<lambda>h. h,
     s3_backends = toy_backends, s3_cors = NewCORSStatic [], s3_requester = \<lambda>_. UpstreamResponse 200 [] ''ok''\<rparr>"

lemma allow_all_grants: "EvaluateAll L \<lparr>pe_statements = [allow_all]\<rparr> [a] = Ok (True, reasonActionIsAllowed)"
proof -
  have "isRelevantFor L allow_all a = Ok True"
    by (simp add: isRelevantFor_def allow_all_def action_in_scope_def resource_in_scope_def doesResourceMatch_def iamStringLike_star)
  then show ?thesis by (simp add: EvaluateAll_def Evaluate_def) (simp add: allow_all_def)
qed

lemma toy_router: "router_ok toy_s3"
  by (simp add: router_ok_def toy_s3_def)

definition client_authorization :: string where
  "client_authorization = ''AWS4-HMAC-SHA256 Credential='' @ NewAccessKey toy_uuid
     @ ''/20240101/eu/s3/aws4_request, SignedHeaders=host, Signature=ab12''"

definition client_env :: authn_env where
  "client_env = toy_env\<lparr>env_jwt := st_jwt toy_sts, env_keys := st_keys toy_sts, env_now := 6,
     env_signer := toy_signer\<lparr>SignHTTP := \<lambda>creds r hash service region t.
       Ok (r\<lparr>r_header := header_Set (r_header r) ''Authorization'' client_authorization\<rparr>),
       PresignHTTP := \<lambda>creds r hash service region t. Ok ''https://h/?X-Amz-Signature=ab12''\<rparr>\<rparr>"

definition client_s3 :: "(bool \<times> string list) s3_env" where
  "client_s3 = toy_s3\<lparr>s3_authn := client_env\<rparr>"

definition client_request :: hstate where
  "client_request = toy_hstate ((plain_request ''GET'' ''/b/k'')\<lparr>r_header :=
     [(''Authorization'', [client_authorization]), (''X-Amz-Security-Token'', [''session''])]\<rparr>)"

definition client_policies :: "string local_manager" where
  "client_policies = NewPolicyManager (unwatched [(getPolicyPath ''policies'' ''role'', ''{}'')])"

abbreviation client_bare :: request where
  "client_bare \<equiv> (h_req client_request)\<lparr>r_header := [(''Authorization'', [client_authorization])], r_length := -1\<rparr>"

lemma client_request_read:
  "\<not> IsPresignedAWSRequest (h_req client_request)
   \<and> getCredentialsFromRequest (h_req client_request) = Ok (NewAccessKey toy_uuid, ''session'')
   \<and> matched_operation plain_mux (h_req client_request) = Some GetObject
   \<and> getS3ObjectFromRequest [''s3.test''] (h_req client_request) = Ok (''b'', ''k'')
   \<and> h_ctx client_request \<noteq> None \<and> GetOperation client_request = None
   \<and> header_Get (r_header (h_req client_request)) ''Authorization'' = client_authorization
   \<and> GetSignatureCredentialPartFromRequest (h_req client_request) CredentialPartRegionName = Ok ''eu''"
  by code_simp

lemma client_request_to_sign:
  "request_to_sign client_request = Ok client_bare
   \<and> GetSignatureCredentialPartFromRequest client_bare CredentialPartRegionName = Ok ''eu''"
  by code_simp

lemmas client_request_facts = client_request_read [THEN conjunct1]
  client_request_read [THEN conjunct2, THEN conjunct1]
  client_request_to_sign [THEN conjunct1]
  client_request_read [THEN conjunct2, THEN conjunct2, THEN conjunct1]

lemma client_requested:
  "getS3ObjectFromRequest [''s3.test''] (h_req client_request) = Ok (''b'', ''k'')"
  "h_ctx client_request \<noteq> None" "GetOperation client_request = None"
  using client_request_read client_request_to_sign by simp_all

lemma client_regions:
  "GetRegionFromRequest (h_req client_request) x = Ok ''eu''" "GetRegionFromRequest client_bare x = Ok ''eu''"
  "header_Get (r_header (h_req client_request)) ''Authorization'' = client_authorization"
  using client_request_read client_request_to_sign by (simp_all add: GetRegionFromRequest_def)

lemma client_signed:
  assumes "AccessKey cred = NewAccessKey toy_uuid" and "SessionToken cred = ''session''"
  shows "signed_with client_env cred client_request"
  unfolding signed_with_def client_regions(3) client_request_facts(2,3) assms
  using client_request_facts(1)
  by (simp add: SignWithCreds_def SignRequestWithCreds_def GetS3SignRequestParams_def client_regions client_env_def Let_def
      hdr.get_set same_signature_def)

lemma client_permitted:
  assumes "RoleARN c = ''role''" and "getS3ObjectFromRequest [''s3.test''] r = Ok (''b'', ''k'')"
  shows "file_permits client_s3 text_templates ''policies'' (pm_world client_policies) GetObject c region r"
proof -
  have e: "s3_policies client_s3 = pair_lib\<lparr>decode_policy := \<lambda>_. Some [allow_all]\<rparr>" "s3_fqdns client_s3 = [''s3.test'']"
    by (simp_all add: client_s3_def toy_s3_def)
  have "list_all (grants L \<lparr>pe_statements = [allow_all]\<rparr>) [a]" for L :: "(bool \<times> string list) policy_lib" and a
    using EvaluateAll_True [OF allow_all_grants] by blast
  moreover have "local_content ''policies'' (pm_world client_policies) ''role'' = Some ''{}''"
    by (simp add: local_content_def client_policies_def NewPolicyManager_def unwatched_def)
  ultimately show ?thesis
    by (simp add: file_permits_def assms(1) e text_templates_def NewPolicyEvaluatorFromStr_def parsePolicy_def NewPolicyEvaluator_def
        newIamActionsFromS3Request_def object_action_def assms(2) Let_def)
qed

lemma client_credentials:
  obtains cred where "issue_credentials toy_sts ''role'' toy_claims (3600 * time_Second) = Ok cred" "SessionToken cred = ''session''"
    "AccessKey cred = NewAccessKey toy_uuid"
proof -
  obtain cred where cred: "issue_credentials toy_sts ''role'' toy_claims (3600 * time_Second) = Ok cred" "SessionToken cred = ''session''"
    using toy_issue by blast
  obtain iss where "AccessKey cred = NewAccessKey (st_key_id toy_sts)" by (rule issue_credentials_Ok [OF cred(1)])
  then show ?thesis using that cred by (simp add: toy_sts_def)
qed

lemma client_clock: "NewNumericDate (st_now toy_sts) \<le> env_now client_env" "env_now client_env < NewNumericDate (st_now toy_sts + 3600 * time_Second)"
  by (simp_all add: NewNumericDate_def time_Second_def toy_sts_def client_env_def)

lemma client_servers:
  "s3_authn client_s3 = client_env" "s3_mux client_s3 = plain_mux" "env_jwt client_env = st_jwt toy_sts"
  "env_keys client_env = st_keys toy_sts" "\<not> event_pending p (pm_world client_policies)" "lf_events (pm_world client_policies) = []"
  by (simp_all add: client_s3_def toy_s3_def client_env_def event_pending_def client_policies_def NewPolicyManager_def unwatched_def)

abbreviation client_answer :: "hstate \<Rightarrow> handler \<Rightarrow> hstate result" where
  "client_answer h proxy \<equiv> Chain (s3_middlewares (live_policies text_templates ''policies'' client_policies client_s3) [] []) proxy h"

lemma client_store:
  "(store_step text_templates ''policies'' False)\<^sup>*\<^sup>* (NewPolicyManager (unwatched [(getPolicyPath ''policies'' ''role'', ''{}'')])) client_policies"
  by (simp add: client_policies_def)

lemma client_reached:
  assumes "\<exists>c'. RoleARN c' = ''role'' \<and> P c' \<and> Q c' \<and> R c' \<and>
      decided_by (file_permits client_s3 text_templates ''policies'' (pm_world client_policies) GetObject c' region (h_req h))
        (live_policies text_templates ''policies'' client_policies client_s3) [] [] h"
    and "getS3ObjectFromRequest [''s3.test''] (h_req h) = Ok (''b'', ''k'')"
  shows "\<exists>h1. \<forall>proxy. client_answer h proxy = go_bind (proxy h1) (\<lambda>h'. Ok (after_proxy [] h'))"
  using assms(1)
proof (elim exE conjE)
  fix c' :: SessionClaims
  assume "RoleARN c' = ''role''"
  then have f: "file_permits client_s3 text_templates ''policies'' (pm_world client_policies) GetObject c' region (h_req h)"
    using assms(2) by (rule client_permitted)
  assume "decided_by (file_permits client_s3 text_templates ''policies'' (pm_world client_policies) GetObject c' region (h_req h))
        (live_policies text_templates ''policies'' client_policies client_s3) [] [] h"
  then show ?thesis unfolding decided_by_def if_P [OF f] by blast
qed

lemma client_signs:
  assumes "AccessKey cred = NewAccessKey toy_uuid" and "SessionToken cred = ''session''"
  shows "signed_with (s3_authn client_s3) cred client_request" "SessionToken cred \<noteq> []"
  using client_signed assms by (simp_all add: client_servers)

lemmas client_facts = client_servers client_clock client_regions(1) client_request_facts(4)


lemma client_reaches_proxy: "\<exists>h1. \<forall>proxy. client_answer client_request proxy = go_bind (proxy h1) (\<lambda>h'. Ok (after_proxy [] h'))"
proof -
  obtain cred where cred: "issue_credentials toy_sts ''role'' toy_claims (3600 * time_Second) = Ok cred" "SessionToken cred = ''session''"
    "AccessKey cred = NewAccessKey toy_uuid" by (rule client_credentials)
  note signed = client_signs [OF cred(3,2)]
  show ?thesis
    by (rule client_reached [OF _ client_requested(1), OF files_decide [OF toy_sts_jwt cred(1) signed(2) _ _ _ _
          client_requested(2) signed(1) client_regions(1) _ client_store client_servers(5)]])
      (simp_all add: client_facts)
qed

lemma client_not_answered: "\<not> (\<exists>res. \<forall>proxy. client_answer client_request proxy = res)"
proof -
  obtain h1 where h1: "client_answer client_request proxy = go_bind (proxy h1) (\<lambda>h'. Ok (after_proxy [] h'))" for proxy
    using client_reaches_proxy by blast
  show ?thesis using h1 [of "\<lambda>h. Panic ''a''"] h1 [of "\<lambda>h. Panic ''b''"] by (intro notI, elim exE) simp
qed

lemma client_servers_ok: "jwt_lib_ok (env_jwt (s3_authn client_s3))" "router_ok client_s3" "s3_options client_s3 = toy_options"
  using toy_sts_jwt toy_router by (simp_all add: client_servers) (simp_all add: client_s3_def router_ok_def toy_s3_def)

lemma s3_gateway_safe_witness:
  "\<exists>h1 ak tok lw c region r. (\<forall>proxy. client_answer client_request proxy = go_bind (proxy h1) (\<lambda>h'. Ok (after_proxy [] h')))
     \<and> request_authenticated client_env toy_options client_request ak tok lw
     \<and> request_permitted (live_policies text_templates ''policies'' client_policies client_s3) GetObject c region r
     \<and> same_resource (h_req client_request) (h_req h1)"
  using s3_gateway_safe [of "live_policies text_templates ''policies'' client_policies client_s3" client_request "[]" "[]",
      unfolded live_policies_simps, OF client_servers_ok(1,2) client_requested(3)] client_not_answered
  unfolding client_servers client_servers_ok(3) client_request_facts(4)
  by (elim disjE) (blast, metis option.inject)


text \<open>The link of the client for the same object.\<close>

definition client_link_creds :: "string \<Rightarrow> aws_Credentials" where
  "client_link_creds sk = static_credentials (NewAccessKey toy_uuid) sk ''session''"

definition client_link :: hstate where
  "client_link = toy_hstate ((plain_request ''GET'' ''/b/k'')\<lparr>r_url := empty_url\<lparr>u_path := ''/b/k'',
     u_rawquery := hmac_query (client_link_creds []) ''10'' ''eA==''\<rparr>\<rparr>)"

lemma client_link_evaluated:
  "NewAccessKey toy_uuid \<noteq> [] \<and> dec_string (nat 10) = ''10'' \<and> int64_range 10 \<and> list_all is_digit ''10'' \<and> to_upper ''GET'' = ''GET''
   \<and> clean_path ''/b/k'' \<and> b64_encode b64_std_alphabet ''x'' = ''eA==''
   \<and> IsVirtualHostingRequest [''s3.test''] (plain_request ''GET'' ''/b/k'') = False"
  by code_simp

lemma client_link_request:
  "r_method (h_req client_link) = ''GET''" "u_path (r_url (h_req client_link)) = ''/b/k''" "r_header (h_req client_link) = []"
  "u_scheme (r_url (h_req client_link)) = []" "u_host (r_url (h_req client_link)) = []" "h_ctx client_link \<noteq> None"
  "u_rawquery (r_url (h_req client_link)) = hmac_query (client_link_creds []) ''10'' ''eA==''"
  "r_host (h_req client_link) = r_host (plain_request ''GET'' ''/b/k'')"
  by (simp_all add: client_link_def toy_hstate_def plain_request_def empty_url_def)

lemma client_link_values: "values_vals (r_query (h_req client_link)) k = hmac_values (client_link_creds []) ''10'' ''eA=='' k"
  using hmac_query_vals [of "''10''"] client_link_evaluated by (simp add: url_Query_def client_link_request)

lemma client_link_signature: "hmac_signature (env_signer client_env) (h_req client_link) c e = Ok ''eA==''"
proof -
  have "getCanonicalResource (h_req client_link) = Ok ''/b/k''"
    by (simp add: no_interest [OF client_link_values] client_link_request)
  then have "getCanonicalResource ((h_req client_link)\<lparr>r_header := hdr\<rparr>) = Ok ''/b/k''" for hdr
    by (simp add: getCanonicalResource_def split: if_splits)
  then show ?thesis using client_link_evaluated
    by (simp add: hmac_signature_def getCanonicalRequestString_def client_link_request split_def Let_def) (simp add: client_env_def toy_signer_def)
qed

lemma client_follows_link:
  assumes "AccessKey cred = NewAccessKey toy_uuid" and "SessionToken cred = ''session''"
  shows "follows_link client_env toy_options cred 10 client_link"
proof -
  have "hmac_query (client_link_creds (SecretKey cred)) = hmac_query (client_link_creds [])"
    by (simp add: fun_eq_iff hmac_query_def client_link_creds_def static_credentials_def)
  then show ?thesis
    using client_link_evaluated unfolding follows_link_def Let_def assms client_link_creds_def [symmetric]
    by (simp add: client_link_request client_link_signature) (simp add: has_prefix_def header_Get_def values_Get_def values_vals_def toy_options_def)
qed

lemma client_link_object:
  "matched_operation plain_mux (h_req client_link) = Some GetObject"
  "getS3ObjectFromRequest [''s3.test''] (h_req client_link) = Ok (''b'', ''k'')"
proof -
  show "matched_operation plain_mux (h_req client_link) = Some GetObject"
    by (simp add: matched_operation_expected [OF plain_mux_ok] expected_operation_def client_link_request has_prefix_def
        values_Get_def client_link_values) (simp add: hmac_values_def)
  have "\<not> IsVirtualHostingRequest [''s3.test''] (h_req client_link)"
    using client_link_evaluated by (simp add: IsVirtualHostingRequest_def client_link_request)
  then show "getS3ObjectFromRequest [''s3.test''] (h_req client_link) = Ok (''b'', ''k'')"
    by (rule getS3ObjectFromRequest_path) (simp_all add: client_link_request)
qed


text \<open>A version 4 link of the client for that object.\<close>

definition client_v4_link :: hstate where
  "client_v4_link = toy_hstate ((plain_request ''GET'' ''/b/k'')\<lparr>r_url := empty_url\<lparr>u_path := ''/b/k'',
     u_rawquery := ''X-Amz-Algorithm=AWS4-HMAC-SHA256&X-Amz-Credential='' @ NewAccessKey toy_uuid
       @ ''%2F19700101%2Feu%2Fs3%2Faws4_request&X-Amz-Date=19700101T000000Z&X-Amz-Expires=10&X-Amz-SignedHeaders=host&X-Amz-Security-Token=session&X-Amz-Signature=ab12''\<rparr>\<rparr>)"

lemma client_v4_link_query:
  "r_query (h_req client_v4_link) = [(''X-Amz-Algorithm'', [''AWS4-HMAC-SHA256'']),
     (''X-Amz-Credential'', [NewAccessKey toy_uuid @ ''/19700101/eu/s3/aws4_request'']), (''X-Amz-Date'', [''19700101T000000Z'']),
     (''X-Amz-Expires'', [''10'']), (''X-Amz-SignedHeaders'', [''host'']), (''X-Amz-Security-Token'', [''session'']),
     (''X-Amz-Signature'', [''ab12''])]"
  by code_simp

lemma client_v4_link_scope:
  "GetCredentialPart (NewAccessKey toy_uuid @ ''/19700101/eu/s3/aws4_request'') CredentialPartAccessKeyId = Ok (NewAccessKey toy_uuid)
   \<and> GetCredentialPart (NewAccessKey toy_uuid @ ''/19700101/eu/s3/aws4_request'') CredentialPartRegionName = Ok ''eu''
   \<and> XAmzDateToTime ''19700101T000000Z'' = Ok 0 \<and> go_Atoi ''10'' = Ok 10
   \<and> getSignatureFromV4QueryUrl ''https://h/?X-Amz-Signature=ab12'' = Ok ''ab12''"
  by code_simp

lemma client_v4_link_request:
  "r_method (h_req client_v4_link) = ''GET''" "u_path (r_url (h_req client_v4_link)) = ''/b/k''" "r_header (h_req client_v4_link) = []"
  "h_ctx client_v4_link \<noteq> None" "r_host (h_req client_v4_link) = r_host (plain_request ''GET'' ''/b/k'')"
  "known_signed_headers client_v4_link = []"
  by (simp_all add: client_v4_link_def toy_hstate_def plain_request_def empty_url_def known_signed_headers_def GetSignedHeaders_def
      NewContextFromHttpRequestWithStartTime_def)

lemma client_v4_host:
  "canonical_key ''Host'' = ''Host'' \<and> canonical_key ''Authorization'' = ''Authorization'' \<and> header_Add [] ''Host'' x = [(''Host'', [x])]"
  by code_simp

lemma client_v4_link_requested:
  "matched_operation plain_mux (h_req client_v4_link) = Some GetObject"
  "getS3ObjectFromRequest [''s3.test''] (h_req client_v4_link) = Ok (''b'', ''k'')"
proof -
  show "matched_operation plain_mux (h_req client_v4_link) = Some GetObject"
    by (simp add: matched_operation_expected [OF plain_mux_ok] expected_operation_def client_v4_link_request has_prefix_def
        client_v4_link_query values_defs)
  have "\<not> IsVirtualHostingRequest [''s3.test''] (h_req client_v4_link)"
    using client_link_evaluated by (simp add: IsVirtualHostingRequest_def client_v4_link_request)
  then show "getS3ObjectFromRequest [''s3.test''] (h_req client_v4_link) = Ok (''b'', ''k'')"
    by (rule getS3ObjectFromRequest_path) (simp_all add: client_v4_link_request)
qed

lemma client_v4_link_region:
  assumes "r_url r = r_url (h_req client_v4_link)" and "header_Get (r_header r) ''Authorization'' = []"
  shows "GetRegionFromRequest r x = Ok ''eu''"
  using client_v4_link_scope assms
  by (simp add: GetRegionFromRequest_def GetSignatureCredentialPartFromRequest_def getSignatureCredentialStringFromRequestQParams_def
      client_v4_link_query values_defs signAlgorithm_def)

lemma client_v4_no_header: "header_Get (r_header (h_req client_v4_link)) ''Authorization'' = []"
  by (simp add: client_v4_link_request header_Get_def values_defs)

lemma client_v4_link_to_sign:
  obtains r where "link_to_sign client_v4_link = Ok r" "r_url r = r_url (h_req client_v4_link)"
    "header_Get (r_header r) ''Authorization'' = []"
proof -
  define r where "r = with_host_header (h_req client_v4_link)"
  obtain x where x: "r_header r = [(''Host'', [x])]" "r_url r = r_url (h_req client_v4_link)"
    using client_v4_host by (simp add: r_def with_host_header_def client_v4_link_request header_Get_def values_defs)
  have "getSignedHeadersFromRequest r = Ok [canonical_key ''host'']"
    by (simp add: getSignedHeadersFromRequest_def x client_v4_link_query signed_headers_of_query_def header_Get_def values_defs client_v4_host)
  moreover have "temporaryRemoveHeaders r (hs @ alwaysSignHeaders) = ([], r)" for hs
    by (simp add: temporaryRemoveHeaders_def remove_headers_def remove_step_def x(1) alwaysSignHeaders_def)
  ultimately have "link_to_sign client_v4_link = Ok r"
    by (simp add: link_to_sign_def r_def [symmetric] trusted_headers_def client_v4_link_request Let_def)
  then show ?thesis using that x by (simp add: header_Get_def values_defs client_v4_host)
qed

lemma client_v4_presigned:
  assumes "AccessKey cred = NewAccessKey toy_uuid" and "SessionToken cred = ''session''"
  shows "presigned_v4 client_env toy_options cred (time_Duration_seconds 10) client_v4_link"
proof -
  obtain r where r: "link_to_sign client_v4_link = Ok r" "r_url r = r_url (h_req client_v4_link)"
    "header_Get (r_header r) ''Authorization'' = []" by (rule client_v4_link_to_sign)
  have "PreSignRequestWithCreds (env_signer client_env) r 10 0 c [] = Ok ''https://h/?X-Amz-Signature=ab12''" for c
    using client_v4_link_region [OF r(2,3)]
    by (simp add: PreSignRequestWithCreds_def GetS3SignRequestParams_def client_env_def Let_def)
  then show ?thesis
    unfolding presigned_v4_def Let_def assms client_v4_link_query
    using client_v4_link_scope r(1) by (simp add: isS3V4Query_def isHmacV1Query_def client_v4_link_query values_defs toy_options_def HeadAsGet_def)
qed


end
